(* ===== verification/Prelude.thy ===== *)
theory Prelude
  imports Main "HOL-Library.Word" "HOL-Library.State_Monad" "HOL-Library.Sublist"
begin

text \<open>
  Shared vocabulary of the development: C strings and character arrays as lists of
  bytes, the parts of libc the sources use on them (\<open>strlcpy\<close>, \<open>strlcat\<close>, \<open>strtok\<close>,
  \<open>%d\<close> printing and scanning), and a small program logic for the state monad
  (\<open>hoare\<close>, with its rules collected in \<open>wp\<close>).
\<close>

named_theorems wp \<open>rules of the program logic\<close>
named_theorems emits_intros \<open>rules for the external calls a program may make\<close>
named_theorems c_string \<open>facts about C strings and arrays\<close>

section \<open>C strings\<close>

abbreviation NUL :: char where "NUL \<equiv> CHR 0x00"
abbreviation LF :: char where "LF \<equiv> CHR 0x0A"
abbreviation CR :: char where "CR \<equiv> CHR 0x0D"

text \<open>The string a C array holds: everything before the first NUL.\<close>

definition cstr :: "string \<Rightarrow> string" where
  "cstr = takeWhile (\<lambda>c. c \<noteq> NUL)"

definition no_nul :: "string \<Rightarrow> bool" where
  "no_nul s \<longleftrightarrow> NUL \<notin> set s"

lemma cstr_append_NUL [simp, c_string]: "no_nul s \<Longrightarrow> cstr (s @ NUL # r) = s"
  by (induction s) (auto simp: cstr_def no_nul_def)

lemma cstr_id [simp, c_string]: "no_nul s \<Longrightarrow> cstr s = s"
  by (induction s) (auto simp: cstr_def no_nul_def)

lemma no_nul_cstr [simp, c_string]: "no_nul (cstr s)"
  by (auto simp: cstr_def no_nul_def dest: set_takeWhileD)

lemma no_nul_append [simp]: "no_nul (a @ b) \<longleftrightarrow> no_nul a \<and> no_nul b"
  by (auto simp: no_nul_def)

lemma no_nul_Nil [simp]: "no_nul []"
  by (simp add: no_nul_def)

lemma no_nul_Cons [simp]: "no_nul (c # s) \<longleftrightarrow> c \<noteq> NUL \<and> no_nul s"
  by (auto simp: no_nul_def)

lemma no_nul_take [simp]: "no_nul s \<Longrightarrow> no_nul (take n s)"
  by (auto simp: no_nul_def dest: in_set_takeD)

lemma length_cstr_le: "length (cstr s) \<le> length s"
  by (simp add: cstr_def length_takeWhile_le)

text \<open>\<open>strchr\<close>: the part of the string before the first \<open>c\<close>, and the part after it.\<close>

fun split_at_char :: "char \<Rightarrow> string \<Rightarrow> (string \<times> string) option" where
  "split_at_char c [] = None"
| "split_at_char c (x # xs) =
     (if x = c then Some ([], xs)
      else map_option (\<lambda>(a, b). (x # a, b)) (split_at_char c xs))"

lemma split_at_char_append [simp, c_string]:
  "c \<notin> set a \<Longrightarrow> split_at_char c (a @ c # b) = Some (a, b)"
  by (induction a) auto

lemma split_at_char_Some:
  "split_at_char c s = Some (a, b) \<Longrightarrow> s = a @ c # b \<and> c \<notin> set a"
  by (induction s arbitrary: a) (auto split: if_splits)

lemma split_at_char_None: "split_at_char c s = None \<longleftrightarrow> c \<notin> set s"
  by (induction s) auto

text \<open>The part of a path after its last slash (\<open>strrchr(p,'/')+1\<close>, \<open>basename\<close>).\<close>

definition after_last :: "char \<Rightarrow> string \<Rightarrow> string" where
  "after_last c s = rev (takeWhile (\<lambda>x. x \<noteq> c) (rev s))"

text \<open>\<open>strtok\<close> called until it returns NULL: the non-empty runs of non-delimiters.\<close>

fun strtok_acc :: "char list \<Rightarrow> string \<Rightarrow> string \<Rightarrow> string list" where
  "strtok_acc d acc [] = (if acc = [] then [] else [rev acc])"
| "strtok_acc d acc (x # xs) =
     (if x \<in> set d then (if acc = [] then strtok_acc d [] xs else rev acc # strtok_acc d [] xs)
      else strtok_acc d (x # acc) xs)"

definition strtok_all :: "char list \<Rightarrow> string \<Rightarrow> string list" where
  "strtok_all d s = strtok_acc d [] s"

lemma strtok_acc_token:
  "set t \<inter> set d = {} \<Longrightarrow> x \<in> set d \<Longrightarrow> acc \<noteq> [] \<or> t \<noteq> [] \<Longrightarrow>
   strtok_acc d acc (t @ x # s) = (rev acc @ t) # strtok_acc d [] s"
  by (induction t arbitrary: acc) auto

lemma strtok_all_token [c_string]:
  "t \<noteq> [] \<Longrightarrow> set t \<inter> set d = {} \<Longrightarrow> x \<in> set d \<Longrightarrow>
   strtok_all d (t @ x # s) = t # strtok_all d s"
  by (simp add: strtok_all_def strtok_acc_token)

lemma strtok_all_Nil [simp]: "strtok_all d [] = []"
  by (simp add: strtok_all_def)

text \<open>A list of lines, each ended by a newline, splits back into its lines.\<close>

lemma strtok_all_lines [c_string]:
  "\<forall>t \<in> set ts. t \<noteq> [] \<and> LF \<notin> set t \<Longrightarrow>
   strtok_all [LF] (concat (map (\<lambda>t. t @ [LF]) ts)) = ts"
  by (induction ts) (auto simp: strtok_all_token)

section \<open>Character arrays\<close>

text \<open>
  A C array \<open>char a[n]\<close> is a list of length \<open>n\<close>. The BSD functions below write at most
  \<open>n\<close> bytes of it and always leave a NUL in them.
\<close>

definition strlcpy :: "string \<Rightarrow> string \<Rightarrow> nat \<Rightarrow> string" where
  "strlcpy dst src n =
     (if n = 0 then dst
      else let c = take (n - 1) (cstr src) in c @ [NUL] @ drop (length c + 1) dst)"

definition strlcat :: "string \<Rightarrow> string \<Rightarrow> nat \<Rightarrow> string" where
  "strlcat dst src n =
     (let d = length (cstr (take n dst)) in
      if d = n then dst
      else let c = take (n - d - 1) (cstr src) in take d dst @ c @ [NUL] @ drop (d + length c + 1) dst)"

lemma length_strlcpy [simp, c_string]: "n \<le> length dst \<Longrightarrow> length (strlcpy dst src n) = length dst"
  by (auto simp: strlcpy_def Let_def min_def)

lemma cstr_take_le: "length (cstr (take n s)) \<le> n"
  using length_cstr_le [of "take n s"] by simp

lemma length_strlcat [simp, c_string]:
  assumes "n \<le> length dst"
  shows "length (strlcat dst src n) = length dst"
proof -
  have "length (cstr (take n dst)) \<le> n" by (rule cstr_take_le)
  with assms show ?thesis by (auto simp: strlcat_def Let_def min_def)
qed

lemma cstr_strlcpy [c_string]:
  "0 < n \<Longrightarrow> cstr (strlcpy dst src n) = take (n - 1) (cstr src)"
  by (simp add: strlcpy_def Let_def)

lemma take_length_cstr: "length (cstr s) < length s \<Longrightarrow> s = cstr s @ NUL # drop (length (cstr s) + 1) s"
proof -
  assume len: "length (cstr s) < length s"
  let ?k = "length (cstr s)"
  have "take ?k s = cstr s"
    by (simp add: cstr_def takeWhile_eq_take [symmetric])
  moreover have "s ! ?k = NUL"
    using len nth_length_takeWhile [of "\<lambda>c. c \<noteq> NUL" s] by (simp add: cstr_def)
  ultimately show ?thesis
    using len id_take_nth_drop [of ?k s] by simp
qed

lemma cstr_strlcat [c_string]:
  assumes fits: "length (cstr dst) + length (cstr src) < n" and n: "n \<le> length dst"
  shows "cstr (strlcat dst src n) = cstr dst @ cstr src"
proof -
  let ?d = "length (cstr dst)"
  have lt: "?d < length dst" and ltn: "?d < n" using fits n by auto
  have dec: "dst = cstr dst @ NUL # drop (?d + 1) dst"
    using take_length_cstr [OF lt] .
  have take_n: "cstr (take n dst) = cstr dst"
  proof -
    have "take n dst = cstr dst @ NUL # take (n - ?d - 1) (drop (?d + 1) dst)"
      using ltn by (subst dec) (simp add: take_Cons')
    then show ?thesis by simp
  qed
  have td: "take ?d dst = cstr dst" by (subst dec) simp
  show ?thesis
    using fits ltn cstr_append_NUL [of "cstr dst @ cstr src"]
    by (simp add: strlcat_def Let_def take_n td)
qed

section \<open>Decimal numbers\<close>

text \<open>\<open>printf("%d")\<close>.\<close>

definition digit_char :: "nat \<Rightarrow> char" where
  "digit_char d = char_of (48 + d mod 10)"

fun dec_nat :: "nat \<Rightarrow> string" where
  "dec_nat n = (if n < 10 then [digit_char n] else dec_nat (n div 10) @ [digit_char (n mod 10)])"

declare dec_nat.simps [simp del]

definition dec_int :: "int \<Rightarrow> string" where
  "dec_int i = (if i < 0 then CHR ''-'' # dec_nat (nat (- i)) else dec_nat (nat i))"

text \<open>\<open>sscanf("%d")\<close> and \<open>atoi\<close>: white space, an optional sign, then digits.\<close>

definition is_digit :: "char \<Rightarrow> bool" where
  "is_digit c \<longleftrightarrow> 48 \<le> (of_char c :: nat) \<and> (of_char c :: nat) \<le> 57"

definition is_space :: "char \<Rightarrow> bool" where
  "is_space c \<longleftrightarrow> c = CHR '' '' \<or> (9 \<le> (of_char c :: nat) \<and> (of_char c :: nat) \<le> 13)"

fun scan_digits :: "nat \<Rightarrow> string \<Rightarrow> nat" where
  "scan_digits acc [] = acc"
| "scan_digits acc (c # s) =
     (if is_digit c then scan_digits (10 * acc + (of_char c - 48)) s else acc)"

definition scan_int :: "string \<Rightarrow> int option" where
  "scan_int s =
     (let t = dropWhile is_space s;
          neg = (t \<noteq> [] \<and> hd t = CHR ''-'');
          u = (if t \<noteq> [] \<and> (hd t = CHR ''-'' \<or> hd t = CHR ''+'') then tl t else t)
      in if u \<noteq> [] \<and> is_digit (hd u)
         then Some (if neg then - int (scan_digits 0 u) else int (scan_digits 0 u))
         else None)"

definition atoi :: "string \<Rightarrow> int" where
  "atoi s = (case scan_int s of Some i \<Rightarrow> i | None \<Rightarrow> 0)"

lemma of_char_digit_char [simp]: "(of_char (digit_char d) :: nat) = 48 + d mod 10"
proof -
  have "d mod 10 < 10" by simp
  then have "(48 + d mod 10) mod 256 = 48 + d mod 10" by simp
  then show ?thesis by (simp add: digit_char_def)
qed

lemma is_digit_digit_char [simp]: "is_digit (digit_char d)"
proof -
  have "d mod 10 < 10" by simp
  then show ?thesis unfolding is_digit_def of_char_digit_char by linarith
qed

lemma scan_digits_append:
  "\<forall>c \<in> set a. is_digit c \<Longrightarrow> scan_digits acc (a @ b) = scan_digits (scan_digits acc a) b"
  by (induction a arbitrary: acc) auto

lemma dec_nat_digits: "\<forall>c \<in> set (dec_nat n). is_digit c"
  by (induction n rule: dec_nat.induct) (subst dec_nat.simps, auto)

lemma dec_nat_not_Nil [simp]: "dec_nat n \<noteq> []"
  by (subst dec_nat.simps) simp

lemma scan_dec_nat: "scan_digits 0 (dec_nat n) = n"
proof (induction n rule: dec_nat.induct)
  case (1 n)
  show ?case
  proof (cases "n < 10")
    case True
    then show ?thesis by (subst dec_nat.simps) simp
  next
    case False
    then have "scan_digits 0 (dec_nat n) = 10 * (n div 10) + n mod 10"
      using "1.IH" by (subst dec_nat.simps) (simp add: scan_digits_append dec_nat_digits)
    then show ?thesis by simp
  qed
qed

lemma is_digit_props: "is_digit c \<Longrightarrow> \<not> is_space c \<and> c \<noteq> CHR ''-'' \<and> c \<noteq> CHR ''+'' \<and> c \<noteq> NUL \<and> c \<noteq> LF \<and> c \<noteq> CHR ''=''"
  by (auto simp: is_digit_def is_space_def)

text \<open>What \<open>%d\<close> prints, \<open>sscanf("%d")\<close> reads back.\<close>

lemma scan_dec_int [simp, c_string]: "scan_int (dec_int i) = Some i"
proof -
  obtain c s where cs: "dec_nat (nat \<bar>i\<bar>) = c # s" and c: "is_digit c"
    using dec_nat_digits [of "nat \<bar>i\<bar>"] by (cases "dec_nat (nat \<bar>i\<bar>)") auto
  have scan: "scan_digits 0 (c # s) = nat \<bar>i\<bar>" using scan_dec_nat [of "nat \<bar>i\<bar>"] cs by simp
  show ?thesis
  proof (cases "i < 0")
    case True
    have "\<not> is_space (CHR ''-'')" by (simp add: is_space_def)
    with True cs c scan show ?thesis by (simp add: dec_int_def scan_int_def del: scan_digits.simps)
  next
    case False
    with cs c scan is_digit_props [OF c] show ?thesis
      by (simp add: dec_int_def scan_int_def del: scan_digits.simps)
  qed
qed

lemma no_nul_dec_int [simp]: "no_nul (dec_int i)"
  using dec_nat_digits is_digit_props by (fastforce simp: dec_int_def no_nul_def)

end
