(* ===== verification/Verifier.thy ===== *)
theory Verifier
  imports Prelude Complex_Main
begin

text \<open>
  \<open>verifier.c\<close>: the check of the whole-file signature in the comment of an update
  archive. The archive is the list of its bytes; SHA-1 and RSA (\<open>mincrypt\<close>), \<open>malloc\<close>
  and the success of each \<open>fread\<close> are parameters. The calls of \<open>ui_set_progress\<close> are
  returned as the list of fractions reported.
\<close>

section \<open>Definitions\<close>

definition FOOTER_SIZE :: nat where "FOOTER_SIZE = 6"
definition EOCD_HEADER_SIZE :: nat where "EOCD_HEADER_SIZE = 22"
definition BUFFER_SIZE :: nat where "BUFFER_SIZE = 4096"
definition RSANUMWORDS :: nat where "RSANUMWORDS = 64"
definition RSANUMBYTES :: nat where "RSANUMBYTES = 4 * RSANUMWORDS"

lemmas verifier_consts = FOOTER_SIZE_def EOCD_HEADER_SIZE_def BUFFER_SIZE_def RSANUMWORDS_def RSANUMBYTES_def

record ('c, 'k) venv =
  SHA_init :: 'c
  SHA_update :: "'c \<Rightarrow> string \<Rightarrow> 'c"
  SHA_final :: "'c \<Rightarrow> string"
  RSA_verify :: "'k \<Rightarrow> string \<Rightarrow> string \<Rightarrow> bool"
  malloc_ok :: "nat \<Rightarrow> bool"
  read_ok :: "nat \<Rightarrow> nat \<Rightarrow> bool"

text \<open>
  \<open>Bad_read\<close> is not a value of the C function: it marks an execution that reads
  outside the allocated end-of-central-directory buffer.
\<close>

datatype verify_outcome = VERIFY_SUCCESS | VERIFY_FAILURE | Bad_read

definition fread :: "('c, 'k) venv \<Rightarrow> string \<Rightarrow> nat \<Rightarrow> nat \<Rightarrow> string" where
  "fread v bytes pos n = (if read_ok v pos n then take n (drop pos bytes) else [])"

definition le16 :: "char \<Rightarrow> char \<Rightarrow> nat" where
  "le16 lo hi = of_char lo + of_char hi * 256"

definition is_marker :: "string \<Rightarrow> nat \<Rightarrow> bool" where
  "is_marker eocd i \<longleftrightarrow> eocd ! i = CHR 0x50 \<and> eocd ! (i + 1) = CHR 0x4B \<and>
     eocd ! (i + 2) = CHR 0x05 \<and> eocd ! (i + 3) = CHR 0x06"

text \<open>The loop over \<open>i = 4 .. eocd_size - 4\<close> that looks for a second marker.\<close>

definition later_marker :: "string \<Rightarrow> nat \<Rightarrow> bool" where
  "later_marker eocd eocd_size \<longleftrightarrow> list_ex (is_marker eocd) [4 ..< eocd_size - 3]"

text \<open>
  The hashing loop. It stops with None when a read fails, and otherwise ends with the
  hash context; \<open>reps\<close> collects the progress reports.
\<close>

function hash_loop ::
  "('c, 'k) venv \<Rightarrow> string \<Rightarrow> nat \<Rightarrow> 'c \<Rightarrow> nat \<Rightarrow> rat \<Rightarrow> rat list \<Rightarrow> 'c option \<times> rat list" where
  "hash_loop v bytes signed_len ctx so_far shown reps =
     (if so_far < signed_len then
        let size = (if signed_len - so_far < BUFFER_SIZE then signed_len - so_far else BUFFER_SIZE);
            buffer = fread v bytes so_far size
        in if length buffer \<noteq> size then (None, reps)
           else let ctx' = SHA_update v ctx buffer;
                    so_far' = so_far + size;
                    f = of_nat so_far' / of_nat signed_len;
                    visible = (f > shown + 1 / 50 \<or> size = so_far')
                in hash_loop v bytes signed_len ctx' so_far' (if visible then f else shown)
                     (if visible then reps @ [f] else reps)
      else (Some ctx, reps))"
  by pat_completeness auto
termination
  by (relation "measure (\<lambda>(v, bytes, signed_len, ctx, so_far, shown, reps). signed_len - so_far)")
     (auto simp: verifier_consts)

declare hash_loop.simps [simp del]

text \<open>The loop over the keys. The signature starts \<open>6 + RSANUMBYTES\<close> bytes before the end.\<close>

fun try_keys :: "('c, 'k) venv \<Rightarrow> string \<Rightarrow> nat \<Rightarrow> string \<Rightarrow> 'k list \<Rightarrow> verify_outcome" where
  "try_keys v eocd eocd_size sha1 [] = VERIFY_FAILURE"
| "try_keys v eocd eocd_size sha1 (k # ks) =
     (if eocd_size < 6 + RSANUMBYTES then Bad_read
      else if RSA_verify v k (take RSANUMBYTES (drop (eocd_size - 6 - RSANUMBYTES) eocd)) sha1
           then VERIFY_SUCCESS
           else try_keys v eocd eocd_size sha1 ks)"

text \<open>\<open>verify_file\<close> on an opened file (\<open>Some bytes\<close>), or one that cannot be opened.\<close>

definition verify_file ::
  "('c, 'k) venv \<Rightarrow> string option \<Rightarrow> 'k list \<Rightarrow> verify_outcome \<times> rat list" where
  "verify_file v f pKeys =
     (case f of None \<Rightarrow> (VERIFY_FAILURE, [0])
      | Some bytes \<Rightarrow>
        if length bytes < FOOTER_SIZE then (VERIFY_FAILURE, [0])
        else let footer = fread v bytes (length bytes - FOOTER_SIZE) FOOTER_SIZE in
        if length footer \<noteq> FOOTER_SIZE then (VERIFY_FAILURE, [0])
        else if footer ! 2 \<noteq> CHR 0xFF \<or> footer ! 3 \<noteq> CHR 0xFF then (VERIFY_FAILURE, [0])
        else let comment_size = le16 (footer ! 4) (footer ! 5);
                 signature_start = le16 (footer ! 0) (footer ! 1) in
        if int signature_start - int FOOTER_SIZE < int RSANUMBYTES then (VERIFY_FAILURE, [0])
        else let eocd_size = comment_size + EOCD_HEADER_SIZE in
        if length bytes < eocd_size then (VERIFY_FAILURE, [0])
        else let signed_len = length bytes - eocd_size + EOCD_HEADER_SIZE - 2 in
        if \<not> malloc_ok v eocd_size then (VERIFY_FAILURE, [0])
        else let eocd = fread v bytes (length bytes - eocd_size) eocd_size in
        if length eocd \<noteq> eocd_size then (VERIFY_FAILURE, [0])
        else if \<not> is_marker eocd 0 then (VERIFY_FAILURE, [0])
        else if later_marker eocd eocd_size then (VERIFY_FAILURE, [0])
        else if \<not> malloc_ok v BUFFER_SIZE then (VERIFY_FAILURE, [0])
        else (case hash_loop v bytes signed_len (SHA_init v) 0 (-1) [0] of
                (None, reps) \<Rightarrow> (VERIFY_FAILURE, reps)
              | (Some ctx, reps) \<Rightarrow> (try_keys v eocd eocd_size (SHA_final v ctx) pKeys, reps)))"

section \<open>The hashing loop\<close>

lemma hash_loop_step:
  assumes "so_far < n" and "sz = (if n - so_far < BUFFER_SIZE then n - so_far else BUFFER_SIZE)"
  shows "\<exists>shown' reps'. hash_loop v bytes n ctx so_far shown reps =
     (if length (fread v bytes so_far sz) \<noteq> sz then (None, reps)
      else hash_loop v bytes n (SHA_update v ctx (fread v bytes so_far sz)) (so_far + sz) shown' reps')"
  using assms by (subst hash_loop.simps) (auto simp: Let_def)

text \<open>Whatever the chunking, the bytes hashed are exactly the first \<open>signed_len\<close> bytes.\<close>

lemma hash_loop_chunks:
  assumes "hash_loop v bytes n ctx so_far shown reps = (Some ctx', reps')" and "so_far \<le> n"
  shows "\<exists>chunks. ctx' = foldl (SHA_update v) ctx chunks \<and> concat chunks = take (n - so_far) (drop so_far bytes)
           \<and> length (concat chunks) = n - so_far \<and> (\<forall>c \<in> set chunks. length c \<le> BUFFER_SIZE)"
  using assms
proof (induction "n - so_far" arbitrary: ctx so_far shown reps rule: less_induct)
  case less
  show ?case
  proof (cases "so_far < n")
    case False
    with less.prems show ?thesis
      by (auto simp: hash_loop.simps [of v bytes n ctx so_far shown reps] intro!: exI [of _ "[]"])
  next
    case True
    define sz where "sz = (if n - so_far < BUFFER_SIZE then n - so_far else BUFFER_SIZE)"
    let ?buf = "fread v bytes so_far sz"
    have sz: "so_far + sz \<le> n" "sz \<le> BUFFER_SIZE" "sz > 0"
      using True by (auto simp: sz_def verifier_consts)
    obtain fr rp where len: "length ?buf = sz"
      and step: "hash_loop v bytes n (SHA_update v ctx ?buf) (so_far + sz) fr rp = (Some ctx', reps')"
      using hash_loop_step [OF True sz_def, of v bytes ctx shown reps] less.prems(1)
      by (auto simp: simp_thms split: if_splits)
    have buf: "?buf = take sz (drop so_far bytes)"
      using len sz by (auto simp: fread_def split: if_splits)
    have "n - (so_far + sz) < n - so_far" using sz True by simp
    from less.hyps [OF this step sz(1)] obtain chunks where
      c: "ctx' = foldl (SHA_update v) (SHA_update v ctx ?buf) chunks"
      "concat chunks = take (n - (so_far + sz)) (drop (so_far + sz) bytes)"
      "length (concat chunks) = n - (so_far + sz)" "\<forall>c \<in> set chunks. length c \<le> BUFFER_SIZE"
      by blast
    have "?buf @ concat chunks = take (n - so_far) (drop so_far bytes)"
      using sz(1) c(2) buf take_add [of sz "n - (so_far + sz)" "drop so_far bytes"]
      by (simp add: add.commute)
    moreover have "length (?buf @ concat chunks) = n - so_far"
      using c(3) len sz by simp
    ultimately show ?thesis
      using c(1,4) sz len by (intro exI [of _ "?buf # chunks"]) auto
  qed
qed

lemma hash_loop_total:
  assumes "\<And>p k. read_ok v p k" and "n \<le> length bytes" and "so_far \<le> n"
  shows "\<exists>ctx' reps'. hash_loop v bytes n ctx so_far shown reps = (Some ctx', reps')"
  using assms(3)
proof (induction "n - so_far" arbitrary: ctx so_far shown reps rule: less_induct)
  case less
  show ?case
  proof (cases "so_far < n")
    case False
    then show ?thesis by (simp add: hash_loop.simps)
  next
    case True
    define sz where "sz = (if n - so_far < BUFFER_SIZE then n - so_far else BUFFER_SIZE)"
    have sz: "so_far + sz \<le> n" "n - (so_far + sz) < n - so_far"
      using True by (auto simp: sz_def verifier_consts)
    have "length (fread v bytes so_far sz) = sz"
      using assms(1,2) sz by (simp add: fread_def)
    then obtain fr rp where "hash_loop v bytes n ctx so_far shown reps =
        hash_loop v bytes n (SHA_update v ctx (fread v bytes so_far sz)) (so_far + sz) fr rp"
      using hash_loop_step [OF True sz_def, of v bytes ctx shown reps] by auto
    then show ?thesis using less.hyps [OF sz(2,1)] by simp
  qed
qed

section \<open>What a verified archive looks like\<close>

text \<open>
  The archive ends in \<open>comment\<close>, whose last six bytes are the footer; \<open>c\<close> is the comment
  size the footer gives, and the end-of-central-directory record with its comment is
  the last \<open>c + 22\<close> bytes.
\<close>

definition footer_of :: "string \<Rightarrow> string" where
  "footer_of bytes = drop (length bytes - 6) bytes"

definition comment_size_of :: "string \<Rightarrow> nat" where
  "comment_size_of bytes = le16 (footer_of bytes ! 4) (footer_of bytes ! 5)"

definition eocd_of :: "string \<Rightarrow> string" where
  "eocd_of bytes = drop (length bytes - (comment_size_of bytes + 22)) bytes"

definition signed_part :: "string \<Rightarrow> string" where
  "signed_part bytes = take (length bytes - (comment_size_of bytes + 2)) bytes"

definition signature_of :: "string \<Rightarrow> string" where
  "signature_of bytes = take RSANUMBYTES (drop (length bytes - (RSANUMBYTES + 6)) bytes)"

definition eocd_wf :: "string \<Rightarrow> bool" where
  "eocd_wf bytes \<longleftrightarrow> 6 \<le> length bytes \<and> comment_size_of bytes + 22 \<le> length bytes
     \<and> footer_of bytes ! 2 = CHR 0xFF \<and> footer_of bytes ! 3 = CHR 0xFF
     \<and> RSANUMBYTES + 6 \<le> le16 (footer_of bytes ! 0) (footer_of bytes ! 1)
     \<and> is_marker (eocd_of bytes) 0 \<and> \<not> later_marker (eocd_of bytes) (comment_size_of bytes + 22)"

text \<open>A hash context that results from hashing exactly \<open>data\<close>, in chunks of at most 4096 bytes.\<close>

definition hashes_to :: "('c, 'k) venv \<Rightarrow> string \<Rightarrow> 'c \<Rightarrow> bool" where
  "hashes_to v data ctx \<longleftrightarrow> (\<exists>chunks. concat chunks = data \<and> (\<forall>c \<in> set chunks. length c \<le> BUFFER_SIZE)
     \<and> ctx = foldl (SHA_update v) (SHA_init v) chunks)"

lemma fread_tail:
  "length (fread v bytes (length bytes - n) n) = n \<Longrightarrow> 0 < n \<Longrightarrow> fread v bytes (length bytes - n) n = drop (length bytes - n) bytes"
  by (auto simp: fread_def split: if_splits)

lemma try_keys_success:
  "try_keys v eocd n sha ks = VERIFY_SUCCESS \<longleftrightarrow>
     6 + RSANUMBYTES \<le> n \<and> (\<exists>k \<in> set ks. RSA_verify v k (take RSANUMBYTES (drop (n - 6 - RSANUMBYTES) eocd)) sha)"
  by (induction ks) auto

lemma try_keys_bad_read: "try_keys v eocd n sha ks = Bad_read \<longleftrightarrow> ks \<noteq> [] \<and> n < 6 + RSANUMBYTES"
  by (induction ks) auto

text \<open>
  Every path to the key loop goes through the same checks: the archive is well formed
  and the context is the hash of its signed part.
\<close>

lemma verify_file_reaches_keys:
  assumes "fst (verify_file v (Some bytes) ks) \<noteq> VERIFY_FAILURE"
  shows "\<exists>ctx. eocd_wf bytes \<and> hashes_to v (signed_part bytes) ctx \<and>
     fst (verify_file v (Some bytes) ks) =
       try_keys v (eocd_of bytes) (comment_size_of bytes + 22) (SHA_final v ctx) ks"
proof -
  let ?c = "comment_size_of bytes" and ?n = "length bytes"
  have len6: "6 \<le> ?n" and foot: "fread v bytes (?n - 6) 6 = footer_of bytes"
    using assms fread_tail [of v bytes 6]
    by (auto simp: verify_file_def verifier_consts footer_of_def Let_def not_less split: if_splits)
  have checks: "?c + 22 \<le> ?n" "footer_of bytes ! 2 = CHR 0xFF" "footer_of bytes ! 3 = CHR 0xFF"
    "RSANUMBYTES + 6 \<le> le16 (footer_of bytes ! 0) (footer_of bytes ! 1)"
    using assms len6 foot
    by (auto simp: verify_file_def verifier_consts Let_def comment_size_of_def not_less split: if_splits)
  have eocd: "fread v bytes (?n - (?c + 22)) (?c + 22) = eocd_of bytes"
    using assms len6 foot checks fread_tail [of v bytes "?c + 22"]
    by (auto simp: verify_file_def verifier_consts Let_def comment_size_of_def eocd_of_def split: if_splits)
  have markers: "is_marker (eocd_of bytes) 0" "\<not> later_marker (eocd_of bytes) (?c + 22)"
    using assms len6 foot checks eocd
    by (auto simp: verify_file_def verifier_consts Let_def comment_size_of_def split: if_splits)
  have sl: "?n - (?c + 22) + 22 - 2 = ?n - (?c + 2)" using checks(1) by simp
  obtain ctx reps where hl: "hash_loop v bytes (?n - (?c + 2)) (SHA_init v) 0 (-1) [0] = (Some ctx, reps)"
    and res: "fst (verify_file v (Some bytes) ks) = try_keys v (eocd_of bytes) (?c + 22) (SHA_final v ctx) ks"
    using assms len6 foot checks eocd markers sl
    by (auto simp: verify_file_def verifier_consts Let_def comment_size_of_def
        split: if_splits prod.splits option.splits)
  have "hashes_to v (signed_part bytes) ctx"
    using hash_loop_chunks [OF hl] by (auto simp: hashes_to_def signed_part_def)
  with res len6 checks markers show ?thesis by (auto simp: eocd_wf_def)
qed

lemma signature_in_eocd:
  assumes "comment_size_of bytes + 22 \<le> length bytes" and "6 + RSANUMBYTES \<le> comment_size_of bytes + 22"
  shows "take RSANUMBYTES (drop (comment_size_of bytes + 22 - 6 - RSANUMBYTES) (eocd_of bytes)) = signature_of bytes"
  using assms by (simp add: eocd_of_def signature_of_def add.commute)

lemma verify_file_all_ok:
  assumes ok: "\<And>p n. read_ok v p n" "\<And>n. malloc_ok v n" and wf: "eocd_wf bytes"
  shows "\<exists>ctx. hashes_to v (signed_part bytes) ctx \<and>
     fst (verify_file v (Some bytes) ks) =
       try_keys v (eocd_of bytes) (comment_size_of bytes + 22) (SHA_final v ctx) ks"
proof -
  let ?c = "comment_size_of bytes" and ?n = "length bytes"
  have len: "6 \<le> ?n" "?c + 22 \<le> ?n" using wf by (auto simp: eocd_wf_def)
  obtain ctx reps where hl: "hash_loop v bytes (?n - (?c + 2)) (SHA_init v) 0 (-1) [0] = (Some ctx, reps)"
    using hash_loop_total [OF ok(1), where so_far = 0] by (metis diff_le_self le0)
  have foot: "fread v bytes (?n - 6) 6 = footer_of bytes" "length (footer_of bytes) = 6"
    and eocd: "fread v bytes (?n - (?c + 22)) (?c + 22) = eocd_of bytes" "length (eocd_of bytes) = ?c + 22"
    using ok len by (simp_all add: fread_def footer_of_def eocd_of_def)
  have sl: "?n - (?c + 22) + 22 - 2 = ?n - (?c + 2)" using len by simp
  have "fst (verify_file v (Some bytes) ks) = try_keys v (eocd_of bytes) (?c + 22) (SHA_final v ctx) ks"
    using wf foot eocd hl ok sl len
    by (simp add: verify_file_def verifier_consts Let_def comment_size_of_def [symmetric] eocd_wf_def)
  moreover have "hashes_to v (signed_part bytes) ctx"
    using hash_loop_chunks [OF hl] by (auto simp: hashes_to_def signed_part_def)
  ultimately show ?thesis by blast
qed

text \<open>Hashing in pieces is hashing the whole, when the hash is incremental.\<close>

definition incremental :: "('c, 'k) venv \<Rightarrow> bool" where
  "incremental v \<longleftrightarrow> (\<forall>c a b. SHA_update v (SHA_update v c a) b = SHA_update v c (a @ b))"

lemma foldl_incremental:
  "incremental v \<Longrightarrow> chunks \<noteq> [] \<Longrightarrow> foldl (SHA_update v) ctx chunks = SHA_update v ctx (concat chunks)"
proof (induction chunks arbitrary: ctx)
  case (Cons c cs)
  then show ?case by (cases "cs = []") (auto simp: incremental_def)
qed simp

lemma hashes_to_incremental:
  "incremental v \<Longrightarrow> hashes_to v data ctx \<Longrightarrow> data \<noteq> [] \<Longrightarrow> ctx = SHA_update v (SHA_init v) data"
proof -
  assume inc: "incremental v" and h: "hashes_to v data ctx" and ne: "data \<noteq> []"
  from h obtain chunks where c: "concat chunks = data" "ctx = foldl (SHA_update v) (SHA_init v) chunks"
    by (auto simp: hashes_to_def)
  with ne have "chunks \<noteq> []" by auto
  with c foldl_incremental [OF inc this] show ?thesis by simp
qed

text \<open>A marker cannot overlap itself, so the test from offset 4 on covers every later offset.\<close>

lemma no_later_marker:
  assumes "is_marker e 0" and "\<not> later_marker e n" and "0 < i" and "i + 3 < n"
  shows "\<not> is_marker e i"
proof (cases "i < 4")
  case True
  with assms(3) have "i = 1 \<or> i = 2 \<or> i = 3" by auto
  with assms(1) show ?thesis by (auto simp: is_marker_def)
next
  case False
  with assms(2,4) show ?thesis by (auto simp: later_marker_def list_ex_iff)
qed

section \<open>Properties\<close>

text \<open>
  C1. An archive is accepted only if it is well formed and one of the given keys
  verifies the 256 bytes before its footer as the signature of the hash of all its
  bytes up to the comment length field.
\<close>

theorem verify_file_sound:
  assumes "fst (verify_file v (Some bytes) ks) = VERIFY_SUCCESS"
  shows "eocd_wf bytes \<and> RSANUMBYTES \<le> comment_size_of bytes + 16
    \<and> (\<exists>k \<in> set ks. \<exists>ctx. hashes_to v (signed_part bytes) ctx
         \<and> RSA_verify v k (signature_of bytes) (SHA_final v ctx))"
proof -
  from assms verify_file_reaches_keys [of v bytes ks] obtain ctx where
    c: "eocd_wf bytes" "hashes_to v (signed_part bytes) ctx"
    "try_keys v (eocd_of bytes) (comment_size_of bytes + 22) (SHA_final v ctx) ks = VERIFY_SUCCESS"
    by auto
  then show ?thesis
    using signature_in_eocd [of bytes] by (auto simp: try_keys_success eocd_wf_def)
qed

text \<open>A concrete signed archive: an empty archive with a 262-byte comment.\<close>

definition demo_archive :: string where
  "demo_archive = [CHR 0x50, CHR 0x4B, CHR 0x05, CHR 0x06] @ replicate 16 NUL @ [CHR 0x06, CHR 0x01]
     @ replicate 256 CHR ''s'' @ [CHR 0x06, CHR 0x01, CHR 0xFF, CHR 0xFF, CHR 0x06, CHR 0x01]"

text \<open>A concatenating hash and a signature check that compares with the key's byte.\<close>

definition demo_venv :: "(string, char) venv" where
  "demo_venv = \<lparr>SHA_init = [], SHA_update = (@), SHA_final = (\<lambda>c. c),
     RSA_verify = (\<lambda>k sig h. sig = replicate 256 k \<and> length h = 20),
     malloc_ok = (\<lambda>_. True), read_ok = (\<lambda>_ _. True)\<rparr>"

lemma demo_footer:
  "length demo_archive = 284" "footer_of demo_archive = [CHR 0x06, CHR 0x01, CHR 0xFF, CHR 0xFF, CHR 0x06, CHR 0x01]"
  by (simp_all add: demo_archive_def footer_of_def)

lemma demo_comment: "comment_size_of demo_archive = 262"
  by (simp add: comment_size_of_def demo_footer le16_def)

lemma demo_eocd: "eocd_of demo_archive = demo_archive"
  by (simp add: eocd_of_def demo_comment demo_footer)

lemma demo_no_marker: "\<not> later_marker demo_archive 284"
proof -
  have "demo_archive ! i \<noteq> CHR 0x50" if "4 \<le> i" "i < 284" for i
  proof -
    have "demo_archive ! i = drop 4 demo_archive ! (i - 4)" using that demo_footer(1) by simp
    also have "\<dots> \<in> set (drop 4 demo_archive)" using that demo_footer(1) by (intro nth_mem) simp
    finally show ?thesis by (auto simp: demo_archive_def)
  qed
  then show ?thesis by (auto simp: later_marker_def list_ex_iff is_marker_def)
qed

lemma demo_wf: "eocd_wf demo_archive"
  using demo_no_marker
  by (simp add: eocd_wf_def demo_comment demo_eocd demo_footer RSANUMBYTES_def RSANUMWORDS_def le16_def)
     (simp add: is_marker_def demo_archive_def)

lemma demo_signature: "signature_of demo_archive = replicate 256 CHR ''s''"
  by (simp add: signature_of_def demo_footer RSANUMBYTES_def RSANUMWORDS_def) (simp add: demo_archive_def)

lemma demo_incremental: "incremental demo_venv"
  by (simp add: incremental_def demo_venv_def)

lemma demo_verified: "fst (verify_file demo_venv (Some demo_archive) [CHR ''s'']) = VERIFY_SUCCESS"
proof -
  have ok: "\<And>p n. read_ok demo_venv p n" "\<And>n. malloc_ok demo_venv n" by (simp_all add: demo_venv_def)
  obtain ctx where c: "hashes_to demo_venv (signed_part demo_archive) ctx"
    "fst (verify_file demo_venv (Some demo_archive) [CHR ''s'']) =
      try_keys demo_venv demo_archive 284 (SHA_final demo_venv ctx) [CHR ''s'']"
    using verify_file_all_ok [OF ok demo_wf, of "[CHR ''s'']"] by (auto simp: demo_eocd demo_comment)
  have len: "length (signed_part demo_archive) = 20"
    by (simp add: signed_part_def demo_comment demo_footer)
  then have "signed_part demo_archive \<noteq> []" by auto
  from hashes_to_incremental [OF demo_incremental c(1) this] len have "length ctx = 20"
    by (simp add: demo_venv_def)
  then have "RSA_verify demo_venv CHR ''s'' (signature_of demo_archive) (SHA_final demo_venv ctx)"
    by (simp add: demo_signature) (simp add: demo_venv_def)
  with c(2) show ?thesis
    using signature_in_eocd [of demo_archive]
    by (simp add: try_keys_success demo_eocd demo_comment demo_footer RSANUMBYTES_def RSANUMWORDS_def)
qed

text \<open>
  C2. With memory and reads that succeed and an incremental hash, an archive is
  accepted exactly when it is well formed, its comment has room for the signature and
  some key verifies it: no correctly signed archive is refused.
\<close>

theorem verify_file_complete:
  assumes "\<And>p n. read_ok v p n" and "\<And>n. malloc_ok v n" and "incremental v"
  shows "fst (verify_file v (Some bytes) ks) = VERIFY_SUCCESS \<longleftrightarrow>
    eocd_wf bytes \<and> RSANUMBYTES \<le> comment_size_of bytes + 16
    \<and> (\<exists>k \<in> set ks. RSA_verify v k (signature_of bytes) (SHA_final v (SHA_update v (SHA_init v) (signed_part bytes))))"
    (is "?l \<longleftrightarrow> ?r")
proof (cases "eocd_wf bytes")
  case True
  then have ne: "signed_part bytes \<noteq> []" and len: "comment_size_of bytes + 22 \<le> length bytes"
    by (auto simp: eocd_wf_def signed_part_def)
  from verify_file_all_ok [OF assms(1,2) True, of ks] obtain ctx where
    c: "hashes_to v (signed_part bytes) ctx"
    "fst (verify_file v (Some bytes) ks) =
       try_keys v (eocd_of bytes) (comment_size_of bytes + 22) (SHA_final v ctx) ks" by blast
  have "ctx = SHA_update v (SHA_init v) (signed_part bytes)"
    by (rule hashes_to_incremental [OF assms(3) c(1) ne])
  with c(2) True len signature_in_eocd [of bytes] show ?thesis
    by (auto simp: try_keys_success)
next
  case False
  then show ?thesis using verify_file_reaches_keys [of v bytes ks] by auto
qed

theorem verify_file_complete_witness:
  "fst (verify_file demo_venv (Some demo_archive) [CHR ''s'']) = VERIFY_SUCCESS"
proof -
  have "length (signed_part demo_archive) = 20"
    by (simp add: signed_part_def demo_comment demo_footer)
  then show ?thesis
    by (subst verify_file_complete)
       (auto simp: demo_incremental demo_wf demo_comment demo_signature RSANUMBYTES_def RSANUMWORDS_def,
        auto simp: demo_venv_def)
qed

theorem verify_file_sound_witness:
  "eocd_wf demo_archive \<and> RSANUMBYTES \<le> comment_size_of demo_archive + 16
   \<and> (\<exists>k \<in> set [CHR ''s'']. \<exists>ctx. hashes_to demo_venv (signed_part demo_archive) ctx
     \<and> RSA_verify demo_venv k (signature_of demo_archive) (SHA_final demo_venv ctx))"
  by (rule verify_file_sound [OF demo_verified])

text \<open>
  In an accepted archive the end-of-central-directory marker the signature covers
  is the last one: no four bytes after its first byte look like a marker, so an
  archive reader that searches from the end finds the same record.
\<close>

theorem verify_file_last_marker:
  assumes "fst (verify_file v (Some bytes) ks) = VERIFY_SUCCESS"
    and "0 < i" and "i + 4 \<le> length (eocd_of bytes)"
  shows "is_marker (eocd_of bytes) 0 \<and> \<not> is_marker (eocd_of bytes) i"
proof -
  have wf: "eocd_wf bytes" using assms(1) verify_file_reaches_keys [of v bytes ks] by auto
  then have "length (eocd_of bytes) = comment_size_of bytes + 22"
    by (simp add: eocd_wf_def eocd_of_def)
  with wf assms(2,3) show ?thesis
    using no_later_marker [of "eocd_of bytes" "comment_size_of bytes + 22" i] by (simp add: eocd_wf_def)
qed

theorem verify_file_last_marker_witness:
  "is_marker (eocd_of demo_archive) 0 \<and> \<not> is_marker (eocd_of demo_archive) 280"
  by (rule verify_file_last_marker [OF demo_verified]) (simp_all add: demo_eocd demo_footer)

text \<open>
  C3. The check of the footer bounds the offset of the signature but not the size of
  the comment. When every check passes and the comment is shorter than 240 bytes, the
  key loop reads before the start of the end-of-central-directory buffer; with a longer
  comment it never does.
\<close>

theorem verify_file_bad_read_iff:
  assumes "\<And>p n. read_ok v p n" and "\<And>n. malloc_ok v n" and "eocd_wf bytes" and "ks \<noteq> []"
  shows "fst (verify_file v (Some bytes) ks) = Bad_read \<longleftrightarrow> comment_size_of bytes < 240"
proof -
  from verify_file_all_ok [OF assms(1,2,3), of ks] obtain ctx where
    "fst (verify_file v (Some bytes) ks) =
       try_keys v (eocd_of bytes) (comment_size_of bytes + 22) (SHA_final v ctx) ks" by blast
  with assms(4) show ?thesis
    by (auto simp: try_keys_bad_read RSANUMBYTES_def RSANUMWORDS_def)
qed

text \<open>An archive with a six-byte comment that claims a signature 262 bytes from the end.\<close>

definition short_archive :: string where
  "short_archive = [CHR 0x50, CHR 0x4B, CHR 0x05, CHR 0x06] @ replicate 16 NUL @ [CHR 0x06, NUL]
     @ [CHR 0x06, CHR 0x01, CHR 0xFF, CHR 0xFF, CHR 0x06, NUL]"

lemma short_footer: "footer_of short_archive = [CHR 0x06, CHR 0x01, CHR 0xFF, CHR 0xFF, CHR 0x06, NUL]"
  "length short_archive = 28"
  by (simp_all add: short_archive_def footer_of_def)

lemma short_wf: "eocd_wf short_archive" "comment_size_of short_archive = 6"
proof -
  show c: "comment_size_of short_archive = 6" by (simp add: comment_size_of_def short_footer le16_def)
  have "eocd_of short_archive = short_archive" by (simp add: eocd_of_def c short_footer)
  moreover have "is_marker short_archive 0" "\<not> later_marker short_archive 28"
    by code_simp+
  ultimately show "eocd_wf short_archive"
    by (simp add: eocd_wf_def c short_footer RSANUMBYTES_def RSANUMWORDS_def le16_def)
qed

theorem verify_file_bad_read_iff_witness:
  "fst (verify_file demo_venv (Some short_archive) [CHR ''s'']) = Bad_read"
  by (subst verify_file_bad_read_iff) (simp_all add: short_wf, simp_all add: demo_venv_def)

end
