(* ===== verification/Config_Lock.thy ===== *)
theory Config_Lock
  imports Prelude
begin

text \<open>
  The locking protocol of \<open>config.c\<close>: \<open>read_conf\<close> and \<open>write_conf\<close> guard the list of
  keys with five mutexes and two counters (readers and writers, writers first). Threads
  are numbers; each has a program counter that names the statement it has just executed,
  and a step of the system is one statement of one thread. A mutex is a bit: the readers
  hold \<open>gWrite\<close> as a group, so the thread that unlocks it need not be the one that
  locked it, and the writers hold \<open>gRead\<close> the same way.
\<close>

section \<open>Transition systems\<close>

text \<open>An invariant that the initial states have and every step keeps holds in every reachable state.\<close>

locale invariant_system =
  fixes init :: "'s \<Rightarrow> bool"
    and step :: "'s \<Rightarrow> 's \<Rightarrow> bool"
    and inv :: "'s \<Rightarrow> bool"
  assumes inv_init: "init s \<Longrightarrow> inv s"
    and inv_step: "inv s \<Longrightarrow> step s s' \<Longrightarrow> inv s'"
begin

lemma reachable_inv: "step\<^sup>*\<^sup>* s s' \<Longrightarrow> init s \<Longrightarrow> inv s'"
  by (induction rule: rtranclp_induct) (auto intro: inv_init inv_step)

end

section \<open>The protocol\<close>

datatype pc =
    Idle
  | R_m3 | R_gRead | R_m1 | R_counted | R_gWrite | R_unm1 | R_unRead | R_reading
  | R_m1' | R_uncounted | R_released
  | W_m2 | W_counted | W_gRead | W_unm2 | W_writing | W_unWrite | W_m2' | W_uncounted | W_released

record locks =
  gMutex1 :: bool
  gMutex2 :: bool
  gMutex3 :: bool
  gRead :: bool
  gWrite :: bool
  numreaders :: nat
  numwriters :: nat
  pcs :: "nat \<Rightarrow> pc"

abbreviation goto :: "nat \<Rightarrow> pc \<Rightarrow> locks \<Rightarrow> locks" where
  "goto t p s \<equiv> s\<lparr>pcs := (pcs s)(t := p)\<rparr>"

text \<open>
  The next statement of thread \<open>t\<close>, or None where it has to wait. An idle thread calls
  \<open>read_conf\<close> or \<open>write_conf\<close>, as \<open>rd\<close> says.
\<close>

fun advance_from :: "pc \<Rightarrow> bool \<Rightarrow> nat \<Rightarrow> locks \<Rightarrow> locks option" where
  "advance_from Idle rd t s =
     (if rd then (if gMutex3 s then None else Some (goto t R_m3 (s\<lparr>gMutex3 := True\<rparr>)))
      else (if gMutex2 s then None else Some (goto t W_m2 (s\<lparr>gMutex2 := True\<rparr>))))"
| "advance_from R_m3 rd t s = (if gRead s then None else Some (goto t R_gRead (s\<lparr>gRead := True\<rparr>)))"
| "advance_from R_gRead rd t s = (if gMutex1 s then None else Some (goto t R_m1 (s\<lparr>gMutex1 := True\<rparr>)))"
| "advance_from R_m1 rd t s = Some (goto t R_counted (s\<lparr>numreaders := numreaders s + 1\<rparr>))"
| "advance_from R_counted rd t s =
     (if numreaders s = 1 then (if gWrite s then None else Some (goto t R_gWrite (s\<lparr>gWrite := True\<rparr>)))
      else Some (goto t R_gWrite s))"
| "advance_from R_gWrite rd t s = Some (goto t R_unm1 (s\<lparr>gMutex1 := False\<rparr>))"
| "advance_from R_unm1 rd t s = Some (goto t R_unRead (s\<lparr>gRead := False\<rparr>))"
| "advance_from R_unRead rd t s = Some (goto t R_reading (s\<lparr>gMutex3 := False\<rparr>))"
| "advance_from R_reading rd t s = (if gMutex1 s then None else Some (goto t R_m1' (s\<lparr>gMutex1 := True\<rparr>)))"
| "advance_from R_m1' rd t s = Some (goto t R_uncounted (s\<lparr>numreaders := numreaders s - 1\<rparr>))"
| "advance_from R_uncounted rd t s =
     Some (goto t R_released (if numreaders s = 0 then s\<lparr>gWrite := False\<rparr> else s))"
| "advance_from R_released rd t s = Some (goto t Idle (s\<lparr>gMutex1 := False\<rparr>))"
| "advance_from W_m2 rd t s = Some (goto t W_counted (s\<lparr>numwriters := numwriters s + 1\<rparr>))"
| "advance_from W_counted rd t s =
     (if numwriters s = 1 then (if gRead s then None else Some (goto t W_gRead (s\<lparr>gRead := True\<rparr>)))
      else Some (goto t W_gRead s))"
| "advance_from W_gRead rd t s = Some (goto t W_unm2 (s\<lparr>gMutex2 := False\<rparr>))"
| "advance_from W_unm2 rd t s = (if gWrite s then None else Some (goto t W_writing (s\<lparr>gWrite := True\<rparr>)))"
| "advance_from W_writing rd t s = Some (goto t W_unWrite (s\<lparr>gWrite := False\<rparr>))"
| "advance_from W_unWrite rd t s = (if gMutex2 s then None else Some (goto t W_m2' (s\<lparr>gMutex2 := True\<rparr>)))"
| "advance_from W_m2' rd t s = Some (goto t W_uncounted (s\<lparr>numwriters := numwriters s - 1\<rparr>))"
| "advance_from W_uncounted rd t s =
     Some (goto t W_released (if numwriters s = 0 then s\<lparr>gRead := False\<rparr> else s))"
| "advance_from W_released rd t s = Some (goto t Idle (s\<lparr>gMutex2 := False\<rparr>))"

definition advance :: "bool \<Rightarrow> nat \<Rightarrow> locks \<Rightarrow> locks option" where
  "advance rd t s = advance_from (pcs s t) rd t s"

inductive lock_step :: "locks \<Rightarrow> locks \<Rightarrow> bool" where
  step: "advance rd t s = Some s' \<Longrightarrow> lock_step s s'"

inductive_cases lock_stepE: "lock_step s s'"

definition unlocked :: locks where
  "unlocked = \<lparr>gMutex1 = False, gMutex2 = False, gMutex3 = False, gRead = False, gWrite = False,
     numreaders = 0, numwriters = 0, pcs = (\<lambda>_. Idle)\<rparr>"

section \<open>The invariant\<close>

text \<open>The program points at which a thread holds a mutex or is counted.\<close>

definition in_m1 :: "pc \<Rightarrow> bool" where "in_m1 p \<longleftrightarrow> p \<in> {R_m1, R_counted, R_gWrite, R_m1', R_uncounted, R_released}"
definition in_m2 :: "pc \<Rightarrow> bool" where "in_m2 p \<longleftrightarrow> p \<in> {W_m2, W_counted, W_gRead, W_m2', W_uncounted, W_released}"
definition in_m3 :: "pc \<Rightarrow> bool" where
  "in_m3 p \<longleftrightarrow> p \<in> {R_m3, R_gRead, R_m1, R_counted, R_gWrite, R_unm1, R_unRead}"
definition in_gRead :: "pc \<Rightarrow> bool" where "in_gRead p \<longleftrightarrow> p \<in> {R_gRead, R_m1, R_counted, R_gWrite, R_unm1}"
definition reader_in :: "pc \<Rightarrow> bool" where "reader_in p \<longleftrightarrow> p \<in> {R_gWrite, R_unm1, R_unRead, R_reading, R_m1'}"
definition writer_in :: "pc \<Rightarrow> bool" where "writer_in p \<longleftrightarrow> p \<in> {W_gRead, W_unm2, W_writing, W_unWrite, W_m2'}"
definition as_reader :: "pc \<Rightarrow> bool" where "as_reader p \<longleftrightarrow> R_counted = p \<or> reader_in p"
definition as_writer :: "pc \<Rightarrow> bool" where "as_writer p \<longleftrightarrow> W_counted = p \<or> writer_in p"

text \<open>The readers as a group hold \<open>gWrite\<close>, and the writers \<open>gRead\<close>, while one of them is here.\<close>

definition readers_hold :: "pc \<Rightarrow> bool" where "readers_hold p \<longleftrightarrow> R_uncounted = p \<or> reader_in p"
definition writers_hold :: "pc \<Rightarrow> bool" where "writers_hold p \<longleftrightarrow> W_uncounted = p \<or> writer_in p"

lemmas points [simp] = in_m1_def in_m2_def in_m3_def in_gRead_def reader_in_def writer_in_def as_reader_def
  as_writer_def readers_hold_def writers_hold_def

text \<open>How many threads are at one of the points \<open>P\<close>.\<close>

definition at :: "(pc \<Rightarrow> bool) \<Rightarrow> (nat \<Rightarrow> pc) \<Rightarrow> nat" where
  "at P f = card {t. P (f t)}"

definition finite_busy :: "(nat \<Rightarrow> pc) \<Rightarrow> bool" where
  "finite_busy f \<longleftrightarrow> finite {t. f t \<noteq> Idle}"

text \<open>Every mutex is held by exactly the threads between its lock and its unlock, and the counters count.\<close>

definition mutex_inv :: "locks \<Rightarrow> bool" where
  "mutex_inv s \<longleftrightarrow> at in_m1 (pcs s) = of_bool (gMutex1 s) \<and> at in_m2 (pcs s) = of_bool (gMutex2 s)
     \<and> at in_m3 (pcs s) = of_bool (gMutex3 s)"

definition count_inv :: "locks \<Rightarrow> bool" where
  "count_inv s \<longleftrightarrow> numreaders s = at as_reader (pcs s) \<and> numwriters s = at as_writer (pcs s)"

definition gWrite_inv :: "locks \<Rightarrow> bool" where
  "gWrite_inv s \<longleftrightarrow>
     (if gWrite s then (at ((=) W_writing) (pcs s) = 1) \<noteq> (0 < at readers_hold (pcs s)) \<and> at ((=) W_writing) (pcs s) \<le> 1
      else at ((=) W_writing) (pcs s) = 0 \<and> at readers_hold (pcs s) = 0)"

definition gRead_inv :: "locks \<Rightarrow> bool" where
  "gRead_inv s \<longleftrightarrow>
     (if gRead s then (at in_gRead (pcs s) = 1) \<noteq> (0 < at writers_hold (pcs s)) \<and> at in_gRead (pcs s) \<le> 1
      else at in_gRead (pcs s) = 0 \<and> at writers_hold (pcs s) = 0)"

definition locks_inv :: "locks \<Rightarrow> bool" where
  "locks_inv s \<longleftrightarrow> finite_busy (pcs s) \<and> mutex_inv s \<and> count_inv s \<and> gWrite_inv s \<and> gRead_inv s"

lemma finite_busy_upd [simp]: "finite_busy f \<Longrightarrow> finite_busy (f(t := q))"
  unfolding finite_busy_def
  by (rule finite_subset [of _ "insert t {t. f t \<noteq> Idle}"]) auto

lemma finite_at: "finite_busy f \<Longrightarrow> \<not> P Idle \<Longrightarrow> finite {t. P (f t)}"
  unfolding finite_busy_def by (rule finite_subset [of _ "{t. f t \<noteq> Idle}"]) auto

lemma at_pos: "finite_busy f \<Longrightarrow> \<not> P Idle \<Longrightarrow> 0 < at P f \<longleftrightarrow> (\<exists>t. P (f t))"
  using finite_at [of f P] by (auto simp: at_def card_gt_0_iff)

lemma at_mono: "finite_busy f \<Longrightarrow> \<not> Q Idle \<Longrightarrow> (\<And>p. P p \<Longrightarrow> Q p) \<Longrightarrow> at P f \<le> at Q f"
  unfolding at_def by (intro card_mono finite_at) auto

lemma at_disjoint:
  assumes "finite_busy f" "\<not> P Idle" "\<not> Q Idle" "\<And>p. P p \<Longrightarrow> \<not> Q p" "\<And>p. R p \<longleftrightarrow> P p \<or> Q p"
  shows "at R f = at P f + at Q f"
proof -
  have "{t. R (f t)} = {t. P (f t)} \<union> {t. Q (f t)}" using assms(5) by auto
  with assms show ?thesis by (auto simp: at_def intro!: card_Un_disjoint finite_at)
qed

text \<open>A thread that moves leaves one point and enters another; all other counts stay.\<close>

lemma at_upd [simp]:
  assumes "finite_busy f" and "\<not> P Idle"
  shows "at P (f(t := q)) =
    (if P q then (if P (f t) then at P f else Suc (at P f)) else if P (f t) then at P f - 1 else at P f)"
proof -
  let ?A = "{u. P (f u)}"
  have fin: "finite ?A" using assms by (rule finite_at)
  have "{u. P ((f(t := q)) u)} = (if P q then insert t ?A else ?A - {t})" by auto
  then show ?thesis using fin by (auto simp: at_def card_insert_if card_Diff_singleton_if)
qed

lemma here: "finite_busy f \<Longrightarrow> f t = p \<Longrightarrow> \<not> P Idle \<Longrightarrow> P p \<Longrightarrow> 0 < at P f"
  by (auto simp: at_pos)

text \<open>What the tests on the counters mean at the two points where they are made.\<close>

lemma reader_counts:
  assumes fin: "finite_busy f" and m1: "at in_m1 f \<le> 1"
  shows "at as_reader f = at ((=) R_counted) f + at reader_in f"
    and "at readers_hold f = at ((=) R_uncounted) f + at reader_in f"
    and "at ((=) R_counted) f + at ((=) R_uncounted) f \<le> 1"
proof -
  show "at as_reader f = at ((=) R_counted) f + at reader_in f"
    and "at readers_hold f = at ((=) R_uncounted) f + at reader_in f"
    using fin by (rule at_disjoint; auto)+
  have "at (\<lambda>p. R_counted = p \<or> R_uncounted = p) f = at ((=) R_counted) f + at ((=) R_uncounted) f"
    using fin by (rule at_disjoint) auto
  moreover have "at (\<lambda>p. R_counted = p \<or> R_uncounted = p) f \<le> at in_m1 f"
    using fin by (rule at_mono) auto
  ultimately show "at ((=) R_counted) f + at ((=) R_uncounted) f \<le> 1" using m1 by simp
qed

lemma writer_counts:
  assumes fin: "finite_busy f" and m2: "at in_m2 f \<le> 1"
  shows "at as_writer f = at ((=) W_counted) f + at writer_in f"
    and "at writers_hold f = at ((=) W_uncounted) f + at writer_in f"
    and "at ((=) W_counted) f + at ((=) W_uncounted) f \<le> 1"
proof -
  show "at as_writer f = at ((=) W_counted) f + at writer_in f"
    and "at writers_hold f = at ((=) W_uncounted) f + at writer_in f"
    using fin by (rule at_disjoint; auto)+
  have "at (\<lambda>p. W_counted = p \<or> W_uncounted = p) f = at ((=) W_counted) f + at ((=) W_uncounted) f"
    using fin by (rule at_disjoint) auto
  moreover have "at (\<lambda>p. W_counted = p \<or> W_uncounted = p) f \<le> at in_m2 f"
    using fin by (rule at_mono) auto
  ultimately show "at ((=) W_counted) f + at ((=) W_uncounted) f \<le> 1" using m2 by simp
qed

lemma mutex_inv_le: "mutex_inv s \<Longrightarrow> at in_m1 (pcs s) \<le> 1 \<and> at in_m2 (pcs s) \<le> 1 \<and> at in_m3 (pcs s) \<le> 1"
  by (simp add: mutex_inv_def)

lemma mutex_inv_step:
  assumes "advance_from p rd t s = Some s'" and "finite_busy (pcs s)" and "pcs s t = p" and "mutex_inv s"
  shows "mutex_inv s'"
proof -
  have "in_m1 p \<longrightarrow> 0 < at in_m1 (pcs s)" "in_m2 p \<longrightarrow> 0 < at in_m2 (pcs s)" "in_m3 p \<longrightarrow> 0 < at in_m3 (pcs s)"
    using here [OF assms(2,3), of in_m1] here [OF assms(2,3), of in_m2] here [OF assms(2,3), of in_m3] by auto
  with assms show ?thesis
    by (cases p) (clarsimp simp: mutex_inv_def split: if_splits; fail)+
qed

lemma count_inv_step:
  assumes "advance_from p rd t s = Some s'" and "finite_busy (pcs s)" and "pcs s t = p" and "count_inv s"
  shows "count_inv s'"
proof -
  have "as_reader p \<longrightarrow> 0 < at as_reader (pcs s)" "as_writer p \<longrightarrow> 0 < at as_writer (pcs s)"
    using here [OF assms(2,3), of as_reader] here [OF assms(2,3), of as_writer] by auto
  with assms show ?thesis
    by (cases p) (auto simp: count_inv_def split: if_splits)
qed

lemma gWrite_inv_step:
  assumes "advance_from p rd t s = Some s'" and fin: "finite_busy (pcs s)" and p: "pcs s t = p"
    and m1: "at in_m1 (pcs s) \<le> 1" and nr: "numreaders s = at as_reader (pcs s)" and "gWrite_inv s"
  shows "gWrite_inv s'"
proof -
  note c = reader_counts [OF fin m1]
  have "p = W_writing \<longrightarrow> 0 < at ((=) W_writing) (pcs s)" "readers_hold p \<longrightarrow> 0 < at readers_hold (pcs s)"
    "p = R_counted \<longrightarrow> (numreaders s = 1 \<longleftrightarrow> at readers_hold (pcs s) = 0)"
    "p = R_uncounted \<longrightarrow> (numreaders s = 0 \<longleftrightarrow> at readers_hold (pcs s) = 1)"
    using c nr here [OF fin p, of readers_hold] here [OF fin p, of "(=) W_writing"]
      here [OF fin p, of "(=) R_counted"] here [OF fin p, of "(=) R_uncounted"]
    by auto
  with assms(1,2,3,6) show ?thesis
    by (cases p) (auto simp: gWrite_inv_def split: if_splits)
qed

lemma gRead_inv_step:
  assumes "advance_from p rd t s = Some s'" and fin: "finite_busy (pcs s)" and p: "pcs s t = p"
    and m2: "at in_m2 (pcs s) \<le> 1" and nw: "numwriters s = at as_writer (pcs s)" and "gRead_inv s"
  shows "gRead_inv s'"
proof -
  note c = writer_counts [OF fin m2]
  have "in_gRead p \<longrightarrow> 0 < at in_gRead (pcs s)" "writers_hold p \<longrightarrow> 0 < at writers_hold (pcs s)"
    "p = W_counted \<longrightarrow> (numwriters s = 1 \<longleftrightarrow> at writers_hold (pcs s) = 0)"
    "p = W_uncounted \<longrightarrow> (numwriters s = 0 \<longleftrightarrow> at writers_hold (pcs s) = 1)"
    using c nw here [OF fin p, of writers_hold] here [OF fin p, of in_gRead]
      here [OF fin p, of "(=) W_counted"] here [OF fin p, of "(=) W_uncounted"]
    by auto
  with assms(1,2,3,6) show ?thesis
    by (cases p) (auto simp: gRead_inv_def split: if_splits)
qed

lemma locks_inv_advance:
  assumes inv: "locks_inv s" and adv: "advance rd t s = Some s'"
  shows "locks_inv s'"
proof -
  let ?p = "pcs s t"
  have fin: "finite_busy (pcs s)" and adv': "advance_from ?p rd t s = Some s'"
    and m: "at in_m1 (pcs s) \<le> 1" "at in_m2 (pcs s) \<le> 1"
    and n: "numreaders s = at as_reader (pcs s)" "numwriters s = at as_writer (pcs s)"
    using inv adv mutex_inv_le [of s] by (auto simp: locks_inv_def advance_def count_inv_def)
  have "finite_busy (pcs s')" using adv' fin by (cases ?p) (auto split: if_splits)
  then show ?thesis
    using inv mutex_inv_step [OF adv' fin refl] count_inv_step [OF adv' fin refl]
      gWrite_inv_step [OF adv' fin refl m(1) n(1)] gRead_inv_step [OF adv' fin refl m(2) n(2)]
    by (simp add: locks_inv_def)
qed

lemma locks_inv_unlocked: "locks_inv unlocked"
  by (simp add: locks_inv_def unlocked_def mutex_inv_def count_inv_def gWrite_inv_def gRead_inv_def at_def finite_busy_def)

interpretation conf_locks: invariant_system "\<lambda>s. s = unlocked" lock_step locks_inv
  by unfold_locales (auto simp: locks_inv_unlocked elim!: lock_stepE intro: locks_inv_advance)

text \<open>Under the invariant, the threads inside the guarded region are one writer or any number of readers.\<close>

lemma writer_alone:
  assumes inv: "locks_inv s" and t: "pcs s t = W_writing" and u: "u \<noteq> t"
  shows "pcs s u \<noteq> W_writing \<and> pcs s u \<noteq> R_reading"
proof -
  have fin: "finite_busy (pcs s)" and g: "gWrite_inv s" using inv by (auto simp: locks_inv_def)
  have w: "0 < at ((=) W_writing) (pcs s)" using here [OF fin t] by simp
  have "pcs s u \<noteq> R_reading"
    using here [OF fin, of u R_reading readers_hold] w g by (auto simp: gWrite_inv_def split: if_splits)
  moreover have "pcs s u \<noteq> W_writing"
  proof
    assume "pcs s u = W_writing"
    then have "card {t, u} \<le> at ((=) W_writing) (pcs s)"
      unfolding at_def using t by (intro card_mono finite_at [OF fin]) auto
    with u w g show False by (auto simp: gWrite_inv_def split: if_splits)
  qed
  ultimately show ?thesis by simp
qed

lemma at_zero: "finite_busy f \<Longrightarrow> (\<And>t. f t \<in> A) \<Longrightarrow> \<forall>p \<in> insert Idle A. \<not> P p \<Longrightarrow> at P f = 0"
  using at_pos [of f P] by (metis bot_nat_0.not_eq_extremum insert_iff)

text \<open>If every busy thread waited, none could be busy.\<close>

lemma some_thread_advances:
  assumes inv: "locks_inv s" and wait: "\<And>t. pcs s t \<noteq> Idle \<Longrightarrow> advance rd t s = None"
  shows "pcs s t = Idle"
proof -
  have fin: "finite_busy (pcs s)" and m: "mutex_inv s" and c: "count_inv s" and w: "gWrite_inv s" and r: "gRead_inv s"
    using inv by (auto simp: locks_inv_def)
  note rc = reader_counts [OF fin] and wc = writer_counts [OF fin]
  have pts: "pcs s t = Idle \<or> (pcs s t = R_m3 \<and> gRead s) \<or> (pcs s t = R_gRead \<and> gMutex1 s)
      \<or> (pcs s t = R_counted \<and> numreaders s = 1 \<and> gWrite s) \<or> (pcs s t = R_reading \<and> gMutex1 s)
      \<or> (pcs s t = W_counted \<and> numwriters s = 1 \<and> gRead s) \<or> (pcs s t = W_unm2 \<and> gWrite s)
      \<or> (pcs s t = W_unWrite \<and> gMutex2 s)" for t
    using wait [of t] by (cases "pcs s t") (auto simp: advance_def split: if_splits)
  have A: "pcs s t \<in> {Idle, R_m3, R_gRead, R_counted, R_reading, W_counted, W_unm2, W_unWrite}" for t
    using pts [of t] by auto
  have no_w: "at ((=) W_writing) (pcs s) = 0" "at ((=) R_uncounted) (pcs s) = 0" "at ((=) W_uncounted) (pcs s) = 0"
    by (auto intro: at_zero [OF fin A])
  have no_counted: "pcs s u \<noteq> R_counted" for u
  proof
    assume u: "pcs s u = R_counted"
    then have "numreaders s = 1" "gWrite s" using pts [of u] by auto
    moreover have "at ((=) R_counted) (pcs s) > 0" using here [OF fin u] by simp
    ultimately show False using rc m c w no_w by (auto simp: mutex_inv_def count_inv_def gWrite_inv_def)
  qed
  then have B: "pcs s t \<in> {Idle, R_m3, R_gRead, R_reading, W_counted, W_unm2, W_unWrite}" for t
    using A [of t] by auto
  have m1: "\<not> gMutex1 s" using at_zero [OF fin B, of in_m1] m by (simp add: mutex_inv_def)
  have C: "pcs s t \<in> {Idle, R_m3, W_counted, W_unm2, W_unWrite}" for t
    using B [of t] pts [of t] m1 by auto
  have gw: "\<not> gWrite s" using at_zero [OF fin C, of readers_hold] w no_w by (auto simp: gWrite_inv_def split: if_splits)
  have no_wc: "pcs s u \<noteq> W_counted" for u
  proof
    assume u: "pcs s u = W_counted"
    then have "numwriters s = 1" "gRead s" using pts [of u] by auto
    moreover have "at ((=) W_counted) (pcs s) > 0" using here [OF fin u] by simp
    moreover have "at in_gRead (pcs s) = 0" using at_zero [OF fin C, of in_gRead] by simp
    ultimately show False using wc m c r no_w by (auto simp: mutex_inv_def count_inv_def gRead_inv_def)
  qed
  have D: "pcs s t \<in> {Idle, R_m3, W_unWrite}" for t using C [of t] pts [of t] no_wc gw by auto
  have m2: "\<not> gMutex2 s" using at_zero [OF fin D, of in_m2] m by (simp add: mutex_inv_def)
  have E: "pcs s t \<in> {Idle, R_m3}" for t using D [of t] pts [of t] m2 by auto
  have "\<not> gRead s" using at_zero [OF fin E, of in_gRead] at_zero [OF fin E, of writers_hold] r
    by (auto simp: gRead_inv_def split: if_splits)
  then show ?thesis using E [of t] pts [of t] by auto
qed

text \<open>A schedule: which thread moves next, and what an idle thread calls.\<close>

fun run_schedule :: "(bool \<times> nat) list \<Rightarrow> locks \<Rightarrow> locks option" where
  "run_schedule [] s = Some s"
| "run_schedule ((rd, t) # sch) s = (case advance rd t s of None \<Rightarrow> None | Some s' \<Rightarrow> run_schedule sch s')"

lemma run_schedule_reaches: "run_schedule sch s = Some s' \<Longrightarrow> lock_step\<^sup>*\<^sup>* s s'"
  by (induction sch s rule: run_schedule.induct)
     (auto split: option.splits intro: lock_step.step converse_rtranclp_into_rtranclp)

section \<open>Properties\<close>

text \<open>
  C6. Mutual exclusion. In every reachable state, while one thread is between the lock
  and the unlock of \<open>gWrite\<close> in \<open>write_conf\<close>, no other thread is there and no thread is
  in the search loop of \<open>read_conf\<close>.
\<close>

theorem write_conf_exclusive:
  assumes "lock_step\<^sup>*\<^sup>* unlocked s" and "pcs s t = W_writing" and "u \<noteq> t"
  shows "pcs s u \<noteq> W_writing \<and> pcs s u \<noteq> R_reading"
  using conf_locks.reachable_inv [OF assms(1)] assms(2,3) by (intro writer_alone) auto

text \<open>One writer inside, a second writer waiting for \<open>gWrite\<close> and a reader waiting for \<open>gRead\<close>.\<close>

definition contended :: locks where
  "contended = (case run_schedule (replicate 5 (False, 0) @ replicate 4 (False, 1) @ [(True, 2)]) unlocked of
     Some s \<Rightarrow> s | None \<Rightarrow> unlocked)"

lemma contended_run:
  "run_schedule (replicate 5 (False, 0) @ replicate 4 (False, 1) @ [(True, 2)]) unlocked = Some contended"
  "pcs contended = (\<lambda>_. Idle)(0 := W_writing, 1 := W_unm2, 2 := R_m3)"
  by (simp_all add: contended_def eval_nat_numeral advance_def unlocked_def)

theorem write_conf_exclusive_witness:
  "pcs contended 0 = W_writing \<and> pcs contended 1 \<noteq> W_writing \<and> pcs contended 1 \<noteq> R_reading"
  using write_conf_exclusive [of contended 0 1] run_schedule_reaches [OF contended_run(1)]
  by (simp add: contended_run(2))

text \<open>
  C7. No deadlock. In every reachable state with a thread inside \<open>read_conf\<close> or
  \<open>write_conf\<close>, some thread inside one of them can execute its next statement.
\<close>

theorem config_lock_progress:
  assumes "lock_step\<^sup>*\<^sup>* unlocked s" and "pcs s t \<noteq> Idle"
  shows "\<exists>u s'. pcs s u \<noteq> Idle \<and> advance rd u s = Some s'"
  using some_thread_advances [of s rd t] conf_locks.reachable_inv [OF assms(1)] assms(2) by fastforce

theorem config_lock_progress_witness:
  "pcs contended 1 \<noteq> Idle \<and> advance False 1 contended = None
    \<and> (\<exists>u s'. pcs contended u \<noteq> Idle \<and> advance False u contended = Some s')"
  using config_lock_progress [of contended 1 False] run_schedule_reaches [OF contended_run(1)]
  by (simp add: contended_def eval_nat_numeral advance_def unlocked_def)

end
