(* ===== verification/Text_Log.thy ===== *)
theory Text_Log
  imports Prelude
begin

text \<open>
  The log screens of \<open>ui.c\<close>: \<open>struct textContainer\<close>, a ring of rows of fixed width, with
  \<open>vui_print_to\<close>, \<open>ui_clear_screen\<close> and the filter of \<open>log_reader\<close>. A store outside the
  array is \<open>None\<close>. The properties say that no store is outside, and that what is shown is
  the last rows of the text printed, broken into lines at the width of the screen.
\<close>

section \<open>Definitions\<close>

definition MAX_COLS :: nat where "MAX_COLS = 64"
definition MAX_ROWS :: nat where "MAX_ROWS = 45"
definition CHAR_WIDTH :: nat where "CHAR_WIDTH = 10"
definition CHAR_HEIGHT :: nat where "CHAR_HEIGHT = 18"

record textContainer =
  text_of :: "string list"
  text_cols :: nat
  text_rows :: nat
  text_col :: nat
  text_row :: nat
  text_top :: nat

definition tput :: "nat \<Rightarrow> nat \<Rightarrow> char \<Rightarrow> textContainer \<Rightarrow> textContainer option" where
  "tput r c ch tc =
     (if r < length (text_of tc) \<and> c < length (text_of tc ! r)
      then Some (tc\<lparr>text_of := (text_of tc)[r := (text_of tc ! r)[c := ch]]\<rparr>) else None)"

text \<open>The two statements of the loop body of \<open>vui_print_to\<close>.\<close>

definition new_line :: "textContainer \<Rightarrow> textContainer option" where
  "new_line tc = do {
     tc \<leftarrow> tput (text_row tc) (text_col tc) NUL tc;
     let tc = tc\<lparr>text_col := 0, text_row := (text_row tc + 1) mod text_rows tc\<rparr>;
     Some (if text_row tc = text_top tc then tc\<lparr>text_top := (text_top tc + 1) mod text_rows tc\<rparr> else tc) }"

definition put_char :: "char \<Rightarrow> textContainer \<Rightarrow> textContainer option" where
  "put_char ch tc = do {
     tc \<leftarrow> (if ch = LF \<or> text_col tc \<ge> text_cols tc then new_line tc else Some tc);
     if ch \<noteq> LF then do {
       tc \<leftarrow> tput (text_row tc) (text_col tc) ch tc;
       Some (tc\<lparr>text_col := text_col tc + 1\<rparr>)
     } else Some tc }"

fun put_chars :: "string \<Rightarrow> textContainer \<Rightarrow> textContainer option" where
  "put_chars [] tc = Some tc"
| "put_chars (ch # s) tc = do { tc \<leftarrow> put_char ch tc; put_chars s tc }"

text \<open>\<open>vui_print_to\<close>: the formatted text is cut at 512 bytes by \<open>vsnprintf(buf, 513, ...)\<close>.\<close>

definition vui_print_to :: "string \<Rightarrow> textContainer \<Rightarrow> textContainer option" where
  "vui_print_to s tc =
     (if text_rows tc > 0 \<and> text_cols tc > 0 then do {
        tc \<leftarrow> put_chars (take 512 (cstr s)) tc;
        tput (text_row tc) (text_col tc) NUL tc
      } else Some tc)"

definition ui_clear_screen :: "nat \<Rightarrow> nat \<Rightarrow> textContainer" where
  "ui_clear_screen fb_width fb_height =
     \<lparr>text_of = replicate MAX_ROWS (replicate MAX_COLS NUL),
      text_cols = (let c = fb_width div CHAR_WIDTH in if c > MAX_COLS - 1 then MAX_COLS - 1 else c),
      text_rows = (let r = fb_height div CHAR_HEIGHT in if r > MAX_ROWS then MAX_ROWS else r),
      text_col = 0, text_row = 0, text_top = 1\<rparr>"

definition ui_reset_text_col :: "textContainer \<Rightarrow> textContainer" where
  "ui_reset_text_col tc = tc\<lparr>text_col := 0\<rparr>"

text \<open>What \<open>draw_logs\<close> puts on the screen, top to bottom.\<close>

definition draw_logs :: "textContainer \<Rightarrow> string list" where
  "draw_logs tc = map (\<lambda>row. cstr (text_of tc ! ((row + text_top tc) mod text_rows tc))) [0 ..< text_rows tc]"

text \<open>
  The loop of \<open>log_reader\<close> that drops unprintable bytes in place: \<open>move\<close> bytes have been
  dropped among the first \<open>i\<close>.
\<close>

definition printable :: "char \<Rightarrow> bool" where
  "printable c \<longleftrightarrow> c = LF \<or> \<not> ((of_char c :: nat) < 32 \<or> (of_char c :: nat) > 126)"

fun filter_loop :: "nat \<Rightarrow> nat \<Rightarrow> nat \<Rightarrow> string \<Rightarrow> string \<times> nat" where
  "filter_loop 0 i move buf = (buf, move)"
| "filter_loop (Suc n) i move buf =
     (if \<not> printable (buf ! i) then filter_loop n (i + 1) (move + 1) buf
      else filter_loop n (i + 1) move (buf[i - move := buf ! i]))"

definition filter_log :: "nat \<Rightarrow> string \<Rightarrow> string" where
  "filter_log rbytes buf =
     (let (buf', move) = filter_loop rbytes 0 0 buf in cstr (buf'[rbytes - move := NUL]))"

section \<open>Well-formed logs\<close>

definition log_wf :: "textContainer \<Rightarrow> bool" where
  "log_wf tc \<longleftrightarrow> length (text_of tc) = MAX_ROWS \<and> (\<forall>r \<in> set (text_of tc). length r = MAX_COLS)
     \<and> 2 \<le> text_rows tc \<and> text_rows tc \<le> MAX_ROWS \<and> 0 < text_cols tc \<and> text_cols tc < MAX_COLS
     \<and> text_row tc < text_rows tc \<and> text_col tc \<le> text_cols tc
     \<and> text_top tc = (text_row tc + 1) mod text_rows tc"

text \<open>The text as lines: the finished ones and the one being written.\<close>

fun break_char :: "nat \<Rightarrow> char \<Rightarrow> string list \<times> string \<Rightarrow> string list \<times> string" where
  "break_char cols ch (ls, cur) =
     (let (ls, cur) = (if ch = LF \<or> cols \<le> length cur then (ls @ [cur], []) else (ls, cur))
      in if ch = LF then (ls, cur) else (ls, cur @ [ch]))"

definition break_lines :: "nat \<Rightarrow> string \<Rightarrow> string list \<times> string \<Rightarrow> string list \<times> string" where
  "break_lines cols s st = fold (break_char cols) s st"

text \<open>A row holds a line: the line, then a NUL.\<close>

definition holds :: "string \<Rightarrow> string \<Rightarrow> bool" where
  "holds r l \<longleftrightarrow> length l < length r \<and> take (length l) r = l \<and> r ! length l = NUL \<and> no_nul l"

text \<open>
  The ring represents the lines: the finished lines that are still in the ring, each in
  its row, and the unfinished one in the current row.
\<close>

definition displays :: "textContainer \<Rightarrow> string list \<times> string \<Rightarrow> bool" where
  "displays tc st \<longleftrightarrow> (case st of (ls, cur) \<Rightarrow>
     log_wf tc \<and> text_rows tc \<le> length ls \<and> text_row tc = length ls mod text_rows tc
     \<and> text_col tc = length cur \<and> take (length cur) (text_of tc ! text_row tc) = cur \<and> no_nul cur
     \<and> (\<forall>k. length ls + 1 - text_rows tc \<le> k \<longrightarrow> k < length ls \<longrightarrow> holds (text_of tc ! (k mod text_rows tc)) (ls ! k)))"

lemma log_wf_row: "log_wf tc \<Longrightarrow> text_row tc < length (text_of tc) \<and> length (text_of tc ! text_row tc) = MAX_COLS"
  by (auto simp: log_wf_def)

lemma row_in_range: "log_wf tc \<Longrightarrow> r < text_rows tc \<Longrightarrow> length (text_of tc ! r) = MAX_COLS"
  by (auto simp: log_wf_def)

lemma tput_ok:
  assumes "log_wf tc" and "c < MAX_COLS"
  shows "tput (text_row tc) c ch tc =
    Some (tc\<lparr>text_of := (text_of tc)[text_row tc := (text_of tc ! text_row tc)[c := ch]]\<rparr>)"
  using log_wf_row [OF assms(1)] assms(2) by (simp add: tput_def)

lemma log_wf_tput: "log_wf tc \<Longrightarrow> log_wf (tc\<lparr>text_of := (text_of tc)[text_row tc := (text_of tc ! text_row tc)[c := ch]]\<rparr>)"
  using log_wf_row [of tc] by (auto simp: log_wf_def dest!: set_update_subset_insert [THEN subsetD])

text \<open>Rows of different lines in the window are different rows.\<close>

lemma window_rows:
  assumes "(l::nat) + 1 - n \<le> k" "k < l" "0 < n"
  shows "k mod n \<noteq> l mod n"
proof
  assume "k mod n = l mod n"
  then have "n dvd l - k" using assms mod_eq_dvd_iff_nat [of k l n] by simp
  with assms show False by (auto dest!: dvd_imp_le)
qed

lemma holds_intro: "take (length l) r = l \<Longrightarrow> length l < length r \<Longrightarrow> no_nul l \<Longrightarrow> holds (r[length l := NUL]) l"
  by (simp add: holds_def)

text \<open>Closing the current line and moving to the next row.\<close>

lemma new_line_displays:
  assumes d: "displays tc (ls, cur)"
  shows "\<exists>tc'. new_line tc = Some tc' \<and> displays tc' (ls @ [cur], []) \<and> text_rows tc' = text_rows tc
    \<and> text_cols tc' = text_cols tc"
proof -
  let ?n = "text_rows tc" and ?l = "length ls" and ?r = "text_row tc"
  have wf: "log_wf tc" and r: "?r = ?l mod ?n" and c: "text_col tc = length cur"
    and cur: "take (length cur) (text_of tc ! ?r) = cur" "no_nul cur" and n: "?n \<le> ?l"
    using d by (auto simp: displays_def)
  have col: "length cur < MAX_COLS" and n2: "2 \<le> ?n" and top: "text_top tc = (?r + 1) mod ?n"
    using wf c by (auto simp: log_wf_def)
  define t where "t = (text_of tc)[?r := (text_of tc ! ?r)[length cur := NUL]]"
  define tc' where "tc' = tc\<lparr>text_of := t, text_col := 0, text_row := (?r + 1) mod ?n, text_top := (text_top tc + 1) mod ?n\<rparr>"
  have new: "new_line tc = Some tc'"
    using tput_ok [OF wf col, of NUL] by (simp add: new_line_def c top tc'_def t_def)
  have wf': "log_wf tc'"
    using log_wf_tput [OF wf, of "length cur" NUL] top by (auto simp: log_wf_def tc'_def t_def mod_Suc_eq)
  have hold: "holds (t ! (k mod ?n)) ((ls @ [cur]) ! k)" if k: "?l + 2 - ?n \<le> k" "k < ?l + 1" for k
  proof (cases "k = ?l")
    case True
    then show ?thesis using log_wf_row [OF wf] col cur by (auto simp: t_def r [symmetric] intro!: holds_intro)
  next
    case False
    with k have "k < ?l" "?l + 1 - ?n \<le> k" by auto
    with window_rows [of ?l ?n k] n2 d False show ?thesis by (auto simp: t_def r displays_def nth_append)
  qed
  have row': "(?r + 1) mod ?n = (?l + 1) mod ?n" using r by (simp add: mod_Suc_eq)
  show ?thesis
    using new wf' hold n row' by (auto simp: displays_def tc'_def)
qed

lemma put_plain_displays:
  assumes d: "displays tc (ls, cur)" and room: "length cur < text_cols tc" and ch: "ch \<noteq> NUL"
  shows "\<exists>tc'. tput (text_row tc) (text_col tc) ch tc = Some tc' \<and>
    displays (tc'\<lparr>text_col := text_col tc' + 1\<rparr>) (ls, cur @ [ch]) \<and> text_rows tc' = text_rows tc
    \<and> text_cols tc' = text_cols tc"
proof -
  let ?n = "text_rows tc" and ?l = "length ls" and ?r = "text_row tc"
  have wf: "log_wf tc" and r: "?r = ?l mod ?n" and c: "text_col tc = length cur"
    and cur: "take (length cur) (text_of tc ! ?r) = cur" "no_nul cur"
    using d by (auto simp: displays_def)
  have col: "length cur < MAX_COLS" and n2: "0 < ?n" using wf room by (auto simp: log_wf_def)
  define t where "t = (text_of tc)[?r := (text_of tc ! ?r)[length cur := ch]]"
  have put: "tput ?r (text_col tc) ch tc = Some (tc\<lparr>text_of := t\<rparr>)"
    using tput_ok [OF wf col] by (simp add: c t_def)
  have wf': "log_wf (tc\<lparr>text_of := t, text_col := Suc (length cur)\<rparr>)"
    using log_wf_tput [OF wf, of "length cur" ch] room by (auto simp: log_wf_def t_def)
  have line: "take (Suc (length cur)) (t ! ?r) = cur @ [ch]"
    using log_wf_row [OF wf] col cur by (simp add: t_def take_Suc_conv_app_nth)
  have "holds (t ! (k mod ?n)) (ls ! k)" if "?l + 1 - ?n \<le> k" "k < ?l" for k
    using that window_rows [of ?l ?n k] n2 d by (auto simp: t_def r displays_def)
  with put wf' line cur ch d c show ?thesis by (auto simp: displays_def)
qed

lemma put_char_displays:
  assumes d: "displays tc st" and ch: "ch \<noteq> NUL"
  shows "\<exists>tc'. put_char ch tc = Some tc' \<and> displays tc' (break_char (text_cols tc) ch st)
    \<and> text_rows tc' = text_rows tc \<and> text_cols tc' = text_cols tc"
proof -
  obtain ls cur where st: "st = (ls, cur)" by (cases st)
  have c: "text_col tc = length cur" using d by (simp add: displays_def st)
  show ?thesis
  proof (cases "ch = LF \<or> text_cols tc \<le> length cur")
    case True
    obtain t where t: "new_line tc = Some t" "displays t (ls @ [cur], [])" "text_rows t = text_rows tc" "text_cols t = text_cols tc"
      using new_line_displays [of tc ls cur] d st by auto
    have "0 < text_cols t" using t(2) by (auto simp: displays_def log_wf_def)
    with put_plain_displays [OF t(2) _ ch] t True c show ?thesis by (auto simp: put_char_def st)
  next
    case False
    with put_plain_displays [of tc ls cur ch] d ch c show ?thesis by (auto simp: put_char_def st)
  qed
qed

lemma put_chars_displays:
  "displays tc st \<Longrightarrow> no_nul s \<Longrightarrow>
   \<exists>tc'. put_chars s tc = Some tc' \<and> displays tc' (break_lines (text_cols tc) s st)
     \<and> text_rows tc' = text_rows tc \<and> text_cols tc' = text_cols tc"
proof (induction s arbitrary: tc st)
  case (Cons ch s)
  obtain t where t: "put_char ch tc = Some t" "displays t (break_char (text_cols tc) ch st)"
      "text_rows t = text_rows tc" "text_cols t = text_cols tc"
    using put_char_displays [OF Cons.prems(1), of ch] Cons.prems(2) by auto
  then show ?case using Cons.IH [OF t(2)] Cons.prems(2) by (auto simp: break_lines_def)
qed (simp add: break_lines_def)

text \<open>What is drawn is the window of the last lines.\<close>

lemma cstr_holds: "holds r l \<Longrightarrow> cstr r = l"
proof -
  assume h: "holds r l"
  then have "r = l @ NUL # drop (length l + 1) r"
    by (metis holds_def id_take_nth_drop Suc_eq_plus1)
  then show "cstr r = l" using h by (metis cstr_append_NUL holds_def)
qed

lemma draw_logs_displays:
  assumes d: "displays tc (ls, cur)" and last: "holds (text_of tc ! text_row tc) cur"
  shows "draw_logs tc = drop (length ls + 1 - text_rows tc) (ls @ [cur])"
proof (rule nth_equalityI)
  let ?n = "text_rows tc" and ?l = "length ls"
  have n: "?n \<le> ?l" "0 < ?n" and r: "text_row tc = ?l mod ?n" and top: "text_top tc = (?l + 1) mod ?n"
    using d by (auto simp: displays_def log_wf_def mod_Suc_eq)
  show len: "length (draw_logs tc) = length (drop (?l + 1 - ?n) (ls @ [cur]))"
    using n by (simp add: draw_logs_def)
  fix i assume "i < length (draw_logs tc)"
  then have i: "i < ?n" by (simp add: draw_logs_def)
  let ?k = "?l + 1 - ?n + i"
  have "(i + text_top tc) mod ?n = (?k + ?n) mod ?n"
    using n by (simp add: top mod_simps ac_simps)
  then have row: "(i + text_top tc) mod ?n = ?k mod ?n" by simp
  have "cstr (text_of tc ! (?k mod ?n)) = (ls @ [cur]) ! ?k"
  proof (cases "?k < ?l")
    case True
    then show ?thesis using d by (auto simp: displays_def nth_append intro!: cstr_holds)
  next
    case False
    with i n have "?k = ?l" by simp
    then show ?thesis using last r by (simp add: cstr_holds)
  qed
  then show "draw_logs tc ! i = drop (?l + 1 - ?n) (ls @ [cur]) ! i"
    using i n row by (simp add: draw_logs_def nth_drop del: drop_append)
qed

lemma vui_print_to_displays:
  assumes d: "displays tc st"
  shows "\<exists>tc'. vui_print_to s tc = Some tc' \<and> displays tc' (break_lines (text_cols tc) (take 512 (cstr s)) st)
    \<and> holds (text_of tc' ! text_row tc') (snd (break_lines (text_cols tc) (take 512 (cstr s)) st))
    \<and> text_rows tc' = text_rows tc \<and> text_cols tc' = text_cols tc"
proof -
  let ?st' = "break_lines (text_cols tc) (take 512 (cstr s)) st"
  obtain t where t: "put_chars (take 512 (cstr s)) tc = Some t" "displays t ?st'"
      "text_rows t = text_rows tc" "text_cols t = text_cols tc"
    using put_chars_displays [OF d, of "take 512 (cstr s)"] by auto
  obtain ls cur where st': "?st' = (ls, cur)" by (cases ?st')
  have wf: "log_wf t" and c: "text_col t = length cur" and col: "length cur < MAX_COLS"
    and cur: "take (length cur) (text_of t ! text_row t) = cur" "no_nul cur"
    and n: "0 < text_rows tc" "0 < text_cols tc" "text_row t = length ls mod text_rows t"
    using t d by (auto simp: displays_def st' log_wf_def)
  let ?t' = "t\<lparr>text_of := (text_of t)[text_row t := (text_of t ! text_row t)[length cur := NUL]]\<rparr>"
  have hold: "holds (text_of ?t' ! text_row t) cur"
    using log_wf_row [OF wf] col cur by (auto intro!: holds_intro)
  have "holds (text_of ?t' ! (k mod text_rows t)) (ls ! k)" if "length ls + 1 - text_rows t \<le> k" "k < length ls" for k
    using that window_rows [of "length ls" "text_rows t" k] n t(2,3) by (auto simp: displays_def st')
  with hold have "displays ?t' (ls, cur)"
    using t(2) log_wf_tput [OF wf, of "length cur" NUL] by (auto simp: displays_def st' holds_def [of _ cur])
  with hold t n show ?thesis using tput_ok [OF wf col, of NUL] by (simp add: vui_print_to_def c st')
qed

text \<open>A freshly cleared screen shows blank lines.\<close>

definition blank_lines :: "nat \<Rightarrow> string list" where
  "blank_lines n = replicate n []"

lemma clear_displays:
  assumes "36 \<le> h" "10 \<le> w"
  shows "displays (ui_clear_screen w h) (blank_lines (text_rows (ui_clear_screen w h)), [])"
proof -
  have "2 \<le> h div 18" "1 \<le> w div 10" using assms by (simp_all add: less_eq_div_iff_mult_less_eq)
  then show ?thesis
    by (auto simp: displays_def log_wf_def ui_clear_screen_def MAX_ROWS_def MAX_COLS_def CHAR_HEIGHT_def
        CHAR_WIDTH_def Let_def holds_def blank_lines_def)
qed

text \<open>A sequence of messages.\<close>

fun print_all :: "string list \<Rightarrow> textContainer \<Rightarrow> textContainer option" where
  "print_all [] tc = Some tc"
| "print_all (m # ms) tc = do { tc \<leftarrow> vui_print_to m tc; print_all ms tc }"

definition shown_text :: "string list \<Rightarrow> string" where
  "shown_text ms = concat (map (\<lambda>m. take 512 (cstr m)) ms)"

lemma print_all_displays:
  "displays tc st \<Longrightarrow> holds (text_of tc ! text_row tc) (snd st) \<Longrightarrow>
   \<exists>tc'. print_all ms tc = Some tc' \<and> displays tc' (break_lines (text_cols tc) (shown_text ms) st)
     \<and> holds (text_of tc' ! text_row tc') (snd (break_lines (text_cols tc) (shown_text ms) st))
     \<and> text_rows tc' = text_rows tc \<and> text_cols tc' = text_cols tc"
proof (induction ms arbitrary: tc st)
  case (Cons m ms)
  obtain t where t: "vui_print_to m tc = Some t" "displays t (break_lines (text_cols tc) (take 512 (cstr m)) st)"
    "holds (text_of t ! text_row t) (snd (break_lines (text_cols tc) (take 512 (cstr m)) st))"
    "text_rows t = text_rows tc" "text_cols t = text_cols tc"
    using vui_print_to_displays [OF Cons.prems(1), of m] by auto
  show ?case using Cons.IH [OF t(2,3)] t(1,4,5) by (auto simp: break_lines_def shown_text_def)
qed (simp add: break_lines_def shown_text_def)

section \<open>The filter\<close>

text \<open>
  Invariant of the in-place loop: the part already written is the filtered prefix, and
  the part not yet read is untouched.
\<close>

lemma filter_loop_spec:
  "i + n \<le> length buf \<Longrightarrow> move \<le> i \<Longrightarrow>
   \<exists>buf' move'. filter_loop n i move buf = (buf', move') \<and> move' \<le> i + n \<and> length buf' = length buf
     \<and> take (i + n - move') buf' = take (i - move) buf @ filter printable (take n (drop i buf))"
proof (induction n arbitrary: i move buf)
  case (Suc n)
  have hd: "take (Suc n) (drop i buf) = buf ! i # take n (drop (Suc i) buf)"
    using Suc.prems by (simp add: Cons_nth_drop_Suc [symmetric])
  show ?case
  proof (cases "printable (buf ! i)")
    case False
    with Suc.IH [of "i + 1" buf "move + 1"] Suc.prems hd show ?thesis by auto
  next
    case True
    let ?b = "buf[i - move := buf ! i]"
    have "take (Suc i - move) ?b = take (i - move) buf @ [buf ! i]"
      using Suc.prems by (simp add: Suc_diff_le take_Suc_conv_app_nth)
    moreover have "drop (Suc i) ?b = drop (Suc i) buf" using Suc.prems by simp
    ultimately show ?thesis using Suc.IH [of "i + 1" ?b move] Suc.prems True hd by auto
  qed
qed auto

lemma filter_log_eq:
  assumes "rbytes < length buf"
  shows "filter_log rbytes buf = filter printable (take rbytes buf)"
proof -
  obtain b m where fl: "filter_loop rbytes 0 0 buf = (b, m)" and m: "m \<le> rbytes" and len: "length b = length buf"
    and tk: "take (rbytes - m) b = filter printable (take rbytes buf)"
    using filter_loop_spec [of 0 rbytes buf 0] assms by auto
  have "b[rbytes - m := NUL] = take (rbytes - m) b @ NUL # drop (Suc (rbytes - m)) b"
    using assms len by (simp add: upd_conv_take_nth_drop)
  moreover have "no_nul (filter printable (take rbytes buf))"
    by (auto simp: no_nul_def printable_def)
  ultimately show ?thesis by (simp add: filter_log_def fl tk)
qed

section \<open>Properties\<close>

text \<open>
  C8. The log screen. On any frame buffer at least two rows high and one column wide,
  printing any messages never stores outside the text arrays, and the rows drawn are the
  last rows of the text printed (each message cut at 512 bytes), broken at newlines and
  at the width of the screen, after a screen of blank lines.
\<close>

theorem log_screen_refines:
  assumes "36 \<le> h" and "10 \<le> w"
  shows "\<exists>tc ls cur. print_all ms (ui_clear_screen w h) = Some tc
    \<and> break_lines (text_cols tc) (shown_text ms) (blank_lines (text_rows tc), []) = (ls, cur)
    \<and> draw_logs tc = drop (length ls + 1 - text_rows tc) (ls @ [cur])"
proof -
  let ?c = "ui_clear_screen w h"
  have d: "displays ?c (blank_lines (text_rows ?c), [])" using assms by (rule clear_displays)
  have "holds (text_of ?c ! text_row ?c) []"
    by (simp add: ui_clear_screen_def holds_def MAX_ROWS_def MAX_COLS_def)
  with print_all_displays [OF d, of ms] draw_logs_displays show ?thesis
    by (metis prod.collapse snd_conv)
qed

theorem log_screen_refines_witness:
  "36 \<le> (800::nat) \<and> (\<exists>tc ls cur. print_all [''E:no'', [LF]] (ui_clear_screen 480 800) = Some tc
    \<and> break_lines (text_cols tc) (shown_text [''E:no'', [LF]]) (blank_lines (text_rows tc), []) = (ls, cur)
    \<and> draw_logs tc = drop (length ls + 1 - text_rows tc) (ls @ [cur]))"
  using log_screen_refines [of 800 480 "[''E:no'', [LF]]"] by simp

text \<open>
  The in-place filter of \<open>log_reader\<close> leaves exactly the printable bytes of the
  \<open>rbytes\<close> bytes read, in their order, with a NUL after them, inside the buffer of
  \<open>rbytes + 1\<close> bytes.
\<close>

theorem filter_log_correct:
  assumes "rbytes < length buf"
  shows "filter_log rbytes buf = filter printable (take rbytes buf)"
  using assms by (rule filter_log_eq)

theorem filter_log_correct_witness:
  "filter_log 5 (''ab'' @ [CHR 0x07] @ ''c'' @ [LF, NUL]) = ''abc'' @ [LF]"
  using filter_log_correct [of 5 "''ab'' @ [CHR 0x07] @ ''c'' @ [LF, NUL]"] by (simp add: printable_def)

end
