(* ===== verification/World.thy ===== *)
theory World
  imports Text_Log Complex_Main
begin

text \<open>
  The state every component shares and the way it talks to the outside.

  Code outside the repository (the kernel, libc's system calls, busybox, minzip,
  mtdutils, cryptsetup, the amend interpreter, the user at the keys) is a parameter:
  \<open>env s h c\<close> is what the outside answers to the call \<open>c\<close> after the calls \<open>h\<close>. Every
  external call is appended to \<open>trace\<close>, so an execution of a program is the list of
  calls it made. A run may also end early (a reboot that succeeds, a battery that is
  pulled): what has happened then is a prefix of \<open>trace\<close>, which is why safety
  properties below speak about every prefix.

  \<open>stopped\<close> says that the program will never get further than this point: it waits
  for a key that is not pressed, it has reached one of the source's
  \<open>while (true) sleep(1)\<close> loops, or it has dereferenced a null pointer or stored outside
  an array (then \<open>faulted\<close> is set too). A stopped program makes no further calls and
  changes nothing.
\<close>

section \<open>Calls to the outside\<close>

text \<open>
  A reply has a number (a C return value, zero or negative for most errors), a byte
  string (the data read) and a list of byte strings (lines, chunks or directory
  entries, in the order they are delivered).
\<close>

datatype reply = Reply (rc: int) (dat: string) (lst: "string list")

text \<open>Files and directories. \<open>ReadFile\<close> and \<open>WriteFile\<close> are opening, moving all the bytes, and closing.\<close>

datatype fs_call =
    Stat string | Lstat string | Mkdir string | Unlink string | Remove string
  | Symlink string string | Chown string int int | Chmod string int
  | SetHierarchyPerm string int int int int | UnlinkHierarchy string | CreateHierarchy string
  | ReadFile string | WriteFile string string | Creat string | Truncate string int
  | Statfs string | ReadDir string

text \<open>Mounting: \<open>mount(device, mount point, filesystem, options)\<close> and mtdutils' table of mounted volumes.\<close>

datatype vol_call =
    Mount string string string string
  | ScanVolumes | FindVolume string | UmountVolume string

text \<open>Flash partitions (mtdutils and mmcutils).\<close>

datatype mtd_call =
    MtdScan | MtdFind string | MtdInfo string | MtdMount string string string
  | MtdReadOpen string | MtdReadData int | MtdReadClose
  | MtdWriteOpen string | MtdWriteData string | MtdEraseBlocks int | MtdFindWriteStart int | MtdWriteClose
  | MmcScan | MmcFind string | MmcFormatExt3 string

text \<open>Zip archives (minzip): the archive's path first, then the entry.\<close>

datatype mz_call =
    MzOpen string | MzClose | MzFind string string | MzUncompLen string string
  | MzRead string string | MzExtract string string string
  | MzExtractRecursive string string string bool int | MzProcess string string

text \<open>
  Processes: \<open>Exec\<close> is \<open>execve\<close> in place, \<open>Run\<close> is fork, \<open>execv\<close> and \<open>waitpid\<close>,
  \<open>RunPiped\<close> the same with a pipe the parent reads lines from, \<open>System\<close> is
  \<open>__system\<close>, \<open>Tool\<close> is \<open>call_busybox\<close>, \<open>call_cryptsetup\<close>, \<open>call_mke2fs\<close> and so on,
  \<open>PipeTool\<close> is \<open>popen3\<close>, writing to its input, and \<open>pclose3\<close>.
\<close>

datatype proc_call =
    Exec string "string list" | Run string "string list" | RunPiped string "string list"
  | System string | Tool string "string list" | PipeTool "string list" string

text \<open>
  The rest, and the groups above. \<open>Print\<close> is what \<open>ui_print\<close> puts on the standard error
  stream; \<open>GrWidth\<close>, \<open>FbWidth\<close>, \<open>FbHeight\<close> and \<open>FbImage\<close> ask minui about the screen;
  \<open>Hook\<close> is a call of any other function outside the model, by name.
\<close>

datatype ext_call =
    Print string
  | Fs fs_call | Vol vol_call | Mtd mtd_call | Mz mz_call | Proc proc_call
  | Sync | Sleep int | TimeOf | PropGet string | PropSet string string | Reboot string
  | Malloc int | AmendParse string | AmendExec string
  | Hook string | GrWidth | FbWidth | FbHeight | FbImage int | Mkyaffs string string | Unyaffs string string | DumpImage string string

section \<open>The state\<close>

text \<open>
  The macros that select code at compile time. \<open>has_misc\<close> is the negation of
  \<open>BOARD_HAS_NO_MISC_PARTITION\<close>; \<open>ns_on_sgs\<close> selects \<open>device/ns-on-sgs-i9000\<close>.
\<close>

record build_opts =
  has_misc :: bool
  has_datadata :: bool
  has_mtd_cache :: bool
  has_cryptsetup :: bool
  has_phone_controller :: bool
  has_two_sdcards :: bool
  ignore_bootables :: bool
  ns_on_sgs :: bool

text \<open>\<open>struct menuElement\<close> of \<open>ui.h\<close>, less its link.\<close>

record menuElement =
  me_id :: int
  me_group_id :: int
  me_type :: int
  me_text :: "string option"
  me_help :: "string option"

datatype progressBarType = ProgressNone | ProgressIndeterminate | ProgressNormal

text \<open>
  What the user does while the program waits for a key: press one, touch the screen at a
  height (which can move the menu's highlight), draw through a dot of the password screen,
  lift the finger there, or tap a key of the console's keyboard (its row and column).
\<close>

datatype input_event = Key int | Touch int | SecretTouch char | SecretUp | Tap nat nat

text \<open>
  The static variables of the sources, file by file. \<open>keys\<close> is the sequence of things the
  user will do.
\<close>

record world =
  env :: "ext_call list \<Rightarrow> ext_call \<Rightarrow> reply"
  build :: build_opts
  trace :: "ext_call list"
  stopped :: bool
  faulted :: bool
  keys :: "input_event list"
  \<comment> \<open>\<open>config.c\<close>\<close>
  firstconf :: "(string \<times> string) list"
  \<comment> \<open>\<open>roots.c\<close>\<close>
  g_package :: "string option"
  g_package_path :: "string option"
  \<comment> \<open>\<open>firmware.c\<close>\<close>
  update_type :: "string option"
  update_data :: "string option"
  update_length :: int
  \<comment> \<open>\<open>extendedcommands.c\<close>\<close>
  signature_check_enabled :: bool
  script_assert_enabled :: bool
  \<comment> \<open>\<open>commands.c\<close>\<close>
  gDidShowProgress :: bool
  run_program_binary :: string
  \<comment> \<open>\<open>nandroid.c\<close>\<close>
  yaffs_files_total :: int
  yaffs_files_count :: int
  \<comment> \<open>\<open>recovery.c\<close>\<close>
  tmplog_offset :: nat
  TEMPORARY_LOG_FILE :: string
  \<comment> \<open>\<open>ui.c\<close>\<close>
  mainlog :: textContainer
  ui_has_initialized :: bool
  show_text :: bool
  show_menu :: bool
  menu_list :: "menuElement list option"
  menu_items :: int
  menu_sel :: int
  menu_pos :: int
  menu_sel_mouse_valid :: bool
  allow_display_toggle :: bool
  gShowBackButton :: bool
  current_page :: int
  enable_secret_screen :: bool
  enable_console_screen :: bool
  keyboard_page :: nat
  console_cmd :: string
  gCurrentIcon :: int
  gProgressBarType :: progressBarType
  gProgressScopeStart :: rat
  gProgressScopeSize :: rat
  gProgress :: rat
  gProgressScopeTime :: int
  gProgressScopeDuration :: int

text \<open>The state the program starts in: the initial values of the static variables.\<close>

definition boot_state :: "(ext_call list \<Rightarrow> ext_call \<Rightarrow> reply) \<Rightarrow> build_opts \<Rightarrow> input_event list \<Rightarrow> world" where
  "boot_state e b ks = \<lparr>env = e, build = b, trace = [], stopped = False, faulted = False, keys = ks, firstconf = [],
     g_package = None, g_package_path = None, update_type = None, update_data = None, update_length = 0,
     signature_check_enabled = True, script_assert_enabled = True, gDidShowProgress = False,
     run_program_binary = ''/tmp/run_program_binary'', yaffs_files_total = 0, yaffs_files_count = 0, tmplog_offset = 0,
     TEMPORARY_LOG_FILE = ''/tmp/recovery.log'', mainlog = ui_clear_screen 0 0, ui_has_initialized = False, show_text = False,
     show_menu = False, menu_list = None, menu_items = 0, menu_sel = 0, menu_pos = 0,
     menu_sel_mouse_valid = False, allow_display_toggle = True, gShowBackButton = False, current_page = 0,
     enable_secret_screen = False, enable_console_screen = False, keyboard_page = 0, console_cmd = [], gCurrentIcon = 0, gProgressBarType = ProgressNone,
     gProgressScopeStart = 0, gProgressScopeSize = 0, gProgress = 0, gProgressScopeTime = 0,
     gProgressScopeDuration = 0\<rparr>"

type_synonym 'a prog = "(world, 'a) state"

abbreviation ret :: "'a \<Rightarrow> 'a prog" where "ret \<equiv> State_Monad.return"

abbreviation exec :: "'a prog \<Rightarrow> world \<Rightarrow> world" where "exec m s \<equiv> snd (run_state m s)"
abbreviation result :: "'a prog \<Rightarrow> world \<Rightarrow> 'a" where "result m s \<equiv> fst (run_state m s)"

section \<open>Primitive programs\<close>

definition sys :: "ext_call \<Rightarrow> reply prog" where
  "sys c = State (\<lambda>s. if stopped s then (Reply 0 [] [], s)
                      else (env s (trace s) c, s\<lparr>trace := trace s @ [c]\<rparr>))"

definition gets :: "(world \<Rightarrow> 'a) \<Rightarrow> 'a prog" where
  "gets f = State (\<lambda>s. (f s, s))"

definition upd :: "(world \<Rightarrow> world) \<Rightarrow> unit prog" where
  "upd f = State (\<lambda>s. ((), if stopped s then s else f s))"

definition stop :: "unit prog" where
  "stop = upd (\<lambda>s. s\<lparr>stopped := True\<rparr>)"

definition opt :: "(build_opts \<Rightarrow> 'a) \<Rightarrow> 'a prog" where
  "opt f = gets (\<lambda>s. f (build s))"

text \<open>A fault: the execution is undefined from here on.\<close>

definition fault :: "unit prog" where
  "fault = upd (\<lambda>s. s\<lparr>stopped := True, faulted := True\<rparr>)"

text \<open>The user's next action; with none left the program waits for ever.\<close>

definition next_input :: "input_event option prog" where
  "next_input = State (\<lambda>s. if stopped s then (None, s)
     else case keys s of [] \<Rightarrow> (None, s\<lparr>stopped := True\<rparr>) | k # ks \<Rightarrow> (Some k, s\<lparr>keys := ks\<rparr>))"

definition call :: "ext_call \<Rightarrow> int prog" where
  "call c = do { r \<leftarrow> sys c; ret (rc r) }"

definition do_call :: "ext_call \<Rightarrow> unit prog" where
  "do_call c = do { _ \<leftarrow> sys c; ret () }"

definition whenM :: "bool \<Rightarrow> unit prog \<Rightarrow> unit prog" where
  "whenM b m = (if b then m else ret ())"

primrec for_each :: "'a list \<Rightarrow> ('a \<Rightarrow> unit prog) \<Rightarrow> unit prog" where
  "for_each [] f = ret ()"
| "for_each (x # xs) f = do { f x; for_each xs f }"

text \<open>\<open>ui_print\<close>, on the text after formatting, and \<open>LOGE\<close>.\<close>

definition log_main :: "string \<Rightarrow> world \<Rightarrow> world" where
  "log_main m s = (case vui_print_to m (mainlog s) of
     Some l \<Rightarrow> s\<lparr>mainlog := l\<rparr> | None \<Rightarrow> s\<lparr>stopped := True, faulted := True\<rparr>)"

definition ui_print :: "string \<Rightarrow> unit prog" where
  "ui_print m = do { do_call (Print (take 512 m)); upd (log_main (take 512 m)) }"

definition LOGE :: "string \<Rightarrow> unit prog" where
  "LOGE m = ui_print (''E:'' @ m)"

text \<open>
  A loop that waits for the user in every round. The number of rounds is bounded by the
  number of actions left, which is enough (\<open>key_loop_enough\<close>); \<open>d\<close> is what a stopped
  program is said to return.
\<close>

primrec loop_n :: "nat \<Rightarrow> 'b \<Rightarrow> ('a \<Rightarrow> ('a + 'b) prog) \<Rightarrow> 'a \<Rightarrow> 'b prog" where
  "loop_n 0 d f x = do { stop; ret d }"
| "loop_n (Suc n) d f x = do {
     r \<leftarrow> f x;
     b \<leftarrow> gets stopped;
     if b then ret d else case r of Inl x' \<Rightarrow> loop_n n d f x' | Inr y \<Rightarrow> ret y }"

definition key_loop :: "'b \<Rightarrow> ('a \<Rightarrow> ('a + 'b) prog) \<Rightarrow> 'a \<Rightarrow> 'b prog" where
  "key_loop d f x = do { n \<leftarrow> gets (\<lambda>s. length (keys s)); loop_n (Suc n) d f x }"

text \<open>The names of texts in \<open>locale/*.h\<close> stand for the texts, followed by what is printed into them.\<close>

definition loc :: "string \<Rightarrow> string list \<Rightarrow> string" where
  "loc name args = name @ concat (map (\<lambda>a. '' '' @ a) args)"

definition busybox :: "string list \<Rightarrow> int prog" where
  "busybox as = call (Proc (Tool ''busybox'' as))"

lemma run_sys: "run_state (sys c) s =
    (if stopped s then (Reply 0 [] [], s) else (env s (trace s) c, s\<lparr>trace := trace s @ [c]\<rparr>))"
  by (simp add: sys_def)

lemma run_gets [simp]: "run_state (gets f) s = (f s, s)"
  by (simp add: gets_def)

lemma run_upd: "run_state (upd f) s = ((), if stopped s then s else f s)"
  by (simp add: upd_def)

lemma run_opt [simp]: "run_state (opt f) s = (f (build s), s)"
  by (simp add: opt_def)

lemma run_next_input: "run_state next_input s = (if stopped s then (None, s)
     else case keys s of [] \<Rightarrow> (None, s\<lparr>stopped := True\<rparr>) | k # ks \<Rightarrow> (Some k, s\<lparr>keys := ks\<rparr>))"
  by (simp add: next_input_def)

lemma log_main_eq: "log_main m s = s\<lparr>mainlog := mainlog (log_main m s), stopped := stopped (log_main m s),
    faulted := faulted (log_main m s)\<rparr>"
  by (simp add: log_main_def split: option.splits)

lemma log_main_frame [simp]:
  "env (log_main m s) = env s" "build (log_main m s) = build s" "trace (log_main m s) = trace s"
  "keys (log_main m s) = keys s" "signature_check_enabled (log_main m s) = signature_check_enabled s"
  by (simp_all add: log_main_def split: option.splits)

lemmas run_simps = run_sys run_upd run_next_input call_def do_call_def whenM_def ui_print_def LOGE_def
  busybox_def stop_def

section \<open>A program logic\<close>

text \<open>
  \<open>hoare P m Q\<close>: run in a state with \<open>P\<close>, the program \<open>m\<close> ends with a result and a
  state that satisfy \<open>Q\<close>. Every program is total, so this is total correctness.
\<close>

definition hoare :: "(world \<Rightarrow> bool) \<Rightarrow> 'a prog \<Rightarrow> ('a \<Rightarrow> world \<Rightarrow> bool) \<Rightarrow> bool" where
  "hoare P m Q \<longleftrightarrow> (\<forall>s. P s \<longrightarrow> Q (result m s) (exec m s))"

lemma hoareI: "(\<And>s. P s \<Longrightarrow> Q (result m s) (exec m s)) \<Longrightarrow> hoare P m Q"
  by (simp add: hoare_def)

lemma hoareD: "hoare P m Q \<Longrightarrow> P s \<Longrightarrow> Q (result m s) (exec m s)"
  by (simp add: hoare_def)

lemma hoare_ret: "(\<And>s. P s \<Longrightarrow> Q x s) \<Longrightarrow> hoare P (ret x) Q"
  by (simp add: hoare_def)

lemma hoare_bind:
  "hoare P m R \<Longrightarrow> (\<And>x. hoare (R x) (f x) Q) \<Longrightarrow> hoare P (m \<bind> f) Q"
  by (auto simp: hoare_def split: prod.splits)

lemma hoare_weaken: "hoare P' m Q' \<Longrightarrow> (\<And>s. P s \<Longrightarrow> P' s) \<Longrightarrow> (\<And>x s. Q' x s \<Longrightarrow> Q x s) \<Longrightarrow> hoare P m Q"
  by (auto simp: hoare_def)

lemma hoare_sys: "(\<And>s. P s \<Longrightarrow> \<not> stopped s \<Longrightarrow> Q (env s (trace s) c) (s\<lparr>trace := trace s @ [c]\<rparr>)) \<Longrightarrow>
    (\<And>s. P s \<Longrightarrow> stopped s \<Longrightarrow> Q (Reply 0 [] []) s) \<Longrightarrow> hoare P (sys c) Q"
  by (auto simp: hoare_def run_sys)

lemma hoare_gets: "(\<And>s. P s \<Longrightarrow> Q (f s) s) \<Longrightarrow> hoare P (gets f) Q"
  by (auto simp: hoare_def)

lemma hoare_upd: "(\<And>s. P s \<Longrightarrow> \<not> stopped s \<Longrightarrow> Q () (f s)) \<Longrightarrow> (\<And>s. P s \<Longrightarrow> stopped s \<Longrightarrow> Q () s) \<Longrightarrow>
    hoare P (upd f) Q"
  by (auto simp: hoare_def run_upd)

lemma hoare_if: "(b \<Longrightarrow> hoare P m Q) \<Longrightarrow> (\<not> b \<Longrightarrow> hoare P m' Q) \<Longrightarrow> hoare P (if b then m else m') Q"
  by simp

subsection \<open>Invariants kept by a program\<close>

definition keeps :: "(world \<Rightarrow> bool) \<Rightarrow> 'a prog \<Rightarrow> bool" where
  "keeps I m \<longleftrightarrow> (\<forall>s. I s \<longrightarrow> I (exec m s))"

lemma keepsD: "keeps I m \<Longrightarrow> I s \<Longrightarrow> I (exec m s)"
  by (simp add: keeps_def)

lemma keeps_ret [wp, intro]: "keeps I (ret x)"
  by (simp add: keeps_def)

lemma keeps_bind [wp]: "keeps I m \<Longrightarrow> (\<And>x. keeps I (f x)) \<Longrightarrow> keeps I (m \<bind> f)"
  by (auto simp: keeps_def split: prod.splits)

lemma keeps_gets [wp, intro]: "keeps I (gets f)"
  by (simp add: keeps_def)

lemma keeps_opt [wp, intro]: "keeps I (opt f)"
  by (simp add: keeps_def)

lemma keeps_sys: "(\<And>s. I s \<Longrightarrow> \<not> stopped s \<Longrightarrow> I (s\<lparr>trace := trace s @ [c]\<rparr>)) \<Longrightarrow> keeps I (sys c)"
  by (simp add: keeps_def run_sys)

lemma keeps_upd: "(\<And>s. I s \<Longrightarrow> \<not> stopped s \<Longrightarrow> I (f s)) \<Longrightarrow> keeps I (upd f)"
  by (simp add: keeps_def run_upd)

lemma keeps_call [wp]: "keeps I (sys c) \<Longrightarrow> keeps I (call c)"
  by (auto simp: call_def intro!: keeps_bind)

lemma keeps_do_call [wp]: "keeps I (sys c) \<Longrightarrow> keeps I (do_call c)"
  by (auto simp: do_call_def intro!: keeps_bind)

lemma keeps_if [wp]: "(b \<Longrightarrow> keeps I m) \<Longrightarrow> (\<not> b \<Longrightarrow> keeps I m') \<Longrightarrow> keeps I (if b then m else m')"
  by simp

lemma keeps_when [wp]: "(b \<Longrightarrow> keeps I m) \<Longrightarrow> keeps I (whenM b m)"
  by (simp add: whenM_def keeps_ret)

lemma keeps_for_each [wp]: "(\<And>x. x \<in> set xs \<Longrightarrow> keeps I (f x)) \<Longrightarrow> keeps I (for_each xs f)"
  by (induction xs) (auto intro!: keeps_bind)

lemma keeps_option [wp]:
  "(x = None \<Longrightarrow> keeps I m) \<Longrightarrow> (\<And>y. x = Some y \<Longrightarrow> keeps I (f y)) \<Longrightarrow>
   keeps I (case x of None \<Rightarrow> m | Some y \<Rightarrow> f y)"
  by (cases x) auto

lemma keeps_prod [wp]: "(\<And>a b. x = (a, b) \<Longrightarrow> keeps I (f a b)) \<Longrightarrow> keeps I (case x of (a, b) \<Rightarrow> f a b)"
  by (cases x) auto

lemma keeps_list [wp]:
  "(x = [] \<Longrightarrow> keeps I m) \<Longrightarrow> (\<And>y ys. x = y # ys \<Longrightarrow> keeps I (f y ys)) \<Longrightarrow>
   keeps I (case x of [] \<Rightarrow> m | y # ys \<Rightarrow> f y ys)"
  by (cases x) auto

lemma keeps_Let [wp]: "(\<And>x. x = t \<Longrightarrow> keeps I (f x)) \<Longrightarrow> keeps I (Let t f)"
  by simp

subsection \<open>The calls a program makes\<close>

text \<open>
  \<open>emits P m\<close>: whatever the outside answers, every external call \<open>m\<close> makes satisfies
  \<open>P\<close>, the calls made before stay in the trace, the environment, the build options and
  the switch of the signature check do not change, and a stopped program stays as it is.
\<close>

definition extends :: "(ext_call \<Rightarrow> bool) \<Rightarrow> world \<Rightarrow> world \<Rightarrow> bool" where
  "extends P s s' \<longleftrightarrow> (\<exists>t. trace s' = trace s @ t \<and> list_all P t) \<and> env s' = env s \<and> build s' = build s
     \<and> signature_check_enabled s' = signature_check_enabled s \<and> (stopped s \<longrightarrow> s' = s)"

definition emits :: "(ext_call \<Rightarrow> bool) \<Rightarrow> 'a prog \<Rightarrow> bool" where
  "emits P m \<longleftrightarrow> (\<forall>s. extends P s (exec m s))"

lemma extends_refl [simp, intro]: "extends P s s"
  by (simp add: extends_def)

lemma extends_trans: "extends P s t \<Longrightarrow> extends P t u \<Longrightarrow> extends P s u"
  by (fastforce simp: extends_def)

lemma emitsD: "emits P m \<Longrightarrow> \<exists>t. trace (exec m s) = trace s @ t \<and> list_all P t"
  by (auto simp: emits_def extends_def)

lemma emits_frozen: "emits P m \<Longrightarrow> stopped s \<Longrightarrow> exec m s = s"
  by (auto simp: emits_def extends_def)

lemma emits_consts: "emits P m \<Longrightarrow> env (exec m s) = env s \<and> build (exec m s) = build s"
  by (auto simp: emits_def extends_def)

lemma emits_signature: "emits P m \<Longrightarrow> signature_check_enabled (exec m s) = signature_check_enabled s"
  by (auto simp: emits_def extends_def)

lemma emits_mono: "emits P m \<Longrightarrow> (\<And>c. P c \<Longrightarrow> Q c) \<Longrightarrow> emits Q m"
  by (fastforce simp: emits_def extends_def list_all_iff)

lemma emits_ret [emits_intros]: "emits P (ret x)"
  by (simp add: emits_def)

lemma emits_bind [emits_intros]: "emits P m \<Longrightarrow> (\<And>x. emits P (f x)) \<Longrightarrow> emits P (m \<bind> f)"
  unfolding emits_def by (auto split: prod.splits) (metis extends_trans snd_conv)

lemma emits_sys [emits_intros]: "P c \<Longrightarrow> emits P (sys c)"
  by (simp add: emits_def extends_def run_sys)

lemma emits_gets [emits_intros]: "emits P (gets f)"
  by (simp add: emits_def)

lemma emits_opt [emits_intros]: "emits P (opt f)"
  by (simp add: emits_def)

lemma emits_upd [emits_intros]:
  "(\<And>s. trace (f s) = trace s \<and> env (f s) = env s \<and> build (f s) = build s
      \<and> signature_check_enabled (f s) = signature_check_enabled s) \<Longrightarrow> emits P (upd f)"
  by (simp add: emits_def extends_def run_upd)

lemma emits_stop [emits_intros]: "emits P stop"
  by (simp add: stop_def emits_upd)

lemma emits_fault [emits_intros]: "emits P fault"
  by (simp add: fault_def emits_upd)

lemma emits_next_input [emits_intros]: "emits P next_input"
  by (auto simp: emits_def extends_def run_next_input split: list.splits)

lemma emits_call [emits_intros]: "P c \<Longrightarrow> emits P (call c)"
  by (simp add: call_def emits_intros)

lemma emits_do_call [emits_intros]: "P c \<Longrightarrow> emits P (do_call c)"
  by (simp add: do_call_def emits_intros)

lemma emits_print [emits_intros]: "(\<And>t. P (Print t)) \<Longrightarrow> emits P (ui_print m)"
  by (simp add: ui_print_def emits_intros)

lemma emits_LOGE [emits_intros]: "(\<And>t. P (Print t)) \<Longrightarrow> emits P (LOGE m)"
  by (simp add: LOGE_def emits_print)

lemma emits_busybox [emits_intros]: "P (Proc (Tool ''busybox'' as)) \<Longrightarrow> emits P (busybox as)"
  by (simp add: busybox_def emits_call)

lemma emits_if [emits_intros]:
  "(b \<Longrightarrow> emits P m) \<Longrightarrow> (\<not> b \<Longrightarrow> emits P m') \<Longrightarrow> emits P (if b then m else m')"
  by simp

lemma emits_when [emits_intros]: "(b \<Longrightarrow> emits P m) \<Longrightarrow> emits P (whenM b m)"
  by (simp add: whenM_def emits_ret)

lemma emits_for_each [emits_intros]: "(\<And>x. x \<in> set xs \<Longrightarrow> emits P (f x)) \<Longrightarrow> emits P (for_each xs f)"
  by (induction xs) (auto intro!: emits_intros)

lemma emits_option [emits_intros]:
  "(x = None \<Longrightarrow> emits P m) \<Longrightarrow> (\<And>y. x = Some y \<Longrightarrow> emits P (f y)) \<Longrightarrow>
   emits P (case x of None \<Rightarrow> m | Some y \<Rightarrow> f y)"
  by (cases x) auto

lemma emits_prod [emits_intros]: "(\<And>a b. x = (a, b) \<Longrightarrow> emits P (f a b)) \<Longrightarrow> emits P (case x of (a, b) \<Rightarrow> f a b)"
  by (cases x) auto

lemma emits_list [emits_intros]:
  "(x = [] \<Longrightarrow> emits P m) \<Longrightarrow> (\<And>y ys. x = y # ys \<Longrightarrow> emits P (f y ys)) \<Longrightarrow>
   emits P (case x of [] \<Rightarrow> m | y # ys \<Rightarrow> f y ys)"
  by (cases x) auto

lemma emits_Let [emits_intros]: "(\<And>x. x = t \<Longrightarrow> emits P (f x)) \<Longrightarrow> emits P (Let t f)"
  by simp

lemma emits_sum [emits_intros]:
  "(\<And>y. x = Inl y \<Longrightarrow> emits P (f y)) \<Longrightarrow> (\<And>y. x = Inr y \<Longrightarrow> emits P (g y)) \<Longrightarrow>
   emits P (case x of Inl y \<Rightarrow> f y | Inr y \<Rightarrow> g y)"
  by (cases x) auto

lemma emits_loop_n: "(\<And>x. emits P (f x)) \<Longrightarrow> emits P (loop_n n d f x)"
proof (induction n arbitrary: x)
  case 0
  then show ?case by (auto intro: emits_intros)
next
  case (Suc n)
  show ?case unfolding loop_n.simps by (intro emits_intros Suc)
qed

lemma emits_key_loop [emits_intros]: "(\<And>x. emits P (f x)) \<Longrightarrow> emits P (key_loop d f x)"
  unfolding key_loop_def by (intro emits_intros emits_loop_n) simp

subsection \<open>Loops that wait for the user\<close>

text \<open>\<open>eats m\<close>: \<open>m\<close> either consumes one of the user's actions or ends stopped.\<close>

definition eats :: "'a prog \<Rightarrow> bool" where
  "eats m \<longleftrightarrow> (\<forall>s. stopped (exec m s) \<or> (\<not> stopped s \<and> length (keys (exec m s)) < length (keys s)))"

text \<open>\<open>spares m\<close>: \<open>m\<close> neither gives back actions nor wakes a stopped program.\<close>

definition spares :: "'a prog \<Rightarrow> bool" where
  "spares m \<longleftrightarrow> (\<forall>s. stopped (exec m s) \<or> (\<not> stopped s \<and> length (keys (exec m s)) \<le> length (keys s)))"

text \<open>With at least one round per action left, more rounds change nothing.\<close>

lemma loop_n_enough:
  assumes "\<And>x. eats (f x)" and "length (keys s) < n" and "n \<le> m"
  shows "run_state (loop_n m d f x) s = run_state (loop_n n d f x) s"
  using assms(2,3)
proof (induction n arbitrary: m x s)
  case (Suc n)
  then obtain m' where m': "m = Suc m'" "n \<le> m'" by (cases m) auto
  obtain r s' where r: "run_state (f x) s = (r, s')" by fastforce
  show ?case
  proof (cases "stopped s'")
    case True
    then show ?thesis by (simp add: m' r)
  next
    case False
    have "length (keys s') < n"
      using assms(1) [of x, unfolded eats_def, rule_format, of s] Suc.prems(1) r False by auto
    with Suc.IH [of s' m'] m' r show ?thesis by (simp split: sum.splits)
  qed
qed simp

lemma key_loop_enough:
  "(\<And>x. eats (f x)) \<Longrightarrow> length (keys s) < n \<Longrightarrow> run_state (loop_n n d f x) s = run_state (key_loop d f x) s"
  by (simp add: key_loop_def loop_n_enough [of f s "Suc (length (keys s))" n])

lemma eats_bind: "eats m \<Longrightarrow> (\<And>x. spares (f x)) \<Longrightarrow> eats (m \<bind> f)"
  unfolding eats_def spares_def by (auto split: prod.splits) (metis le_less_trans snd_conv)+

lemma spares_eats_bind: "spares m \<Longrightarrow> (\<And>x. eats (f x)) \<Longrightarrow> eats (m \<bind> f)"
  unfolding eats_def spares_def by (auto split: prod.splits) (metis less_le_trans snd_conv)+

lemma spares_bind [wp]: "spares m \<Longrightarrow> (\<And>x. spares (f x)) \<Longrightarrow> spares (m \<bind> f)"
  unfolding spares_def by (auto split: prod.splits) (metis le_trans snd_conv)+

lemma spares_ret [wp]: "spares (ret x)" by (simp add: spares_def)
lemma spares_gets [wp]: "spares (gets f)" by (simp add: spares_def)
lemma spares_opt [wp]: "spares (opt f)" by (simp add: spares_def)
lemma spares_sys [wp]: "spares (sys c)" by (simp add: spares_def run_sys)
lemma spares_call [wp]: "spares (call c)" by (simp add: call_def spares_bind spares_ret spares_sys)
lemma spares_do_call [wp]: "spares (do_call c)" by (simp add: do_call_def spares_bind spares_ret spares_sys)
lemma spares_upd [wp]: "(\<And>s. length (keys (f s)) \<le> length (keys s)) \<Longrightarrow> spares (upd f)"
  by (simp add: spares_def run_upd)
lemma spares_stop [wp]: "spares stop" by (simp add: stop_def spares_upd)
lemma spares_fault [wp]: "spares fault" by (simp add: fault_def spares_upd)
lemma spares_print [wp]: "spares (ui_print m)"
  by (simp add: ui_print_def spares_bind spares_do_call spares_upd)
lemma spares_LOGE [wp]: "spares (LOGE m)" by (simp add: LOGE_def spares_print)
lemma spares_busybox [wp]: "spares (busybox as)" by (simp add: busybox_def spares_call)
lemma spares_if [wp]: "(b \<Longrightarrow> spares m) \<Longrightarrow> (\<not> b \<Longrightarrow> spares m') \<Longrightarrow> spares (if b then m else m')" by simp
lemma spares_when [wp]: "(b \<Longrightarrow> spares m) \<Longrightarrow> spares (whenM b m)" by (simp add: whenM_def spares_ret)
lemma spares_option [wp]:
  "(x = None \<Longrightarrow> spares m) \<Longrightarrow> (\<And>y. x = Some y \<Longrightarrow> spares (f y)) \<Longrightarrow> spares (case x of None \<Rightarrow> m | Some y \<Rightarrow> f y)"
  by (cases x) auto
lemma spares_for_each [wp]: "(\<And>x. x \<in> set xs \<Longrightarrow> spares (f x)) \<Longrightarrow> spares (for_each xs f)"
  by (induction xs) (auto intro!: spares_bind spares_ret)
lemma spares_prod [wp]: "(\<And>a b. x = (a, b) \<Longrightarrow> spares (f a b)) \<Longrightarrow> spares (case x of (a, b) \<Rightarrow> f a b)"
  by (cases x) auto
lemma spares_Let [wp]: "(\<And>x. x = t \<Longrightarrow> spares (f x)) \<Longrightarrow> spares (Let t f)"
  by simp
lemma spares_sum [wp]:
  "(\<And>y. x = Inl y \<Longrightarrow> spares (f y)) \<Longrightarrow> (\<And>y. x = Inr y \<Longrightarrow> spares (g y)) \<Longrightarrow>
   spares (case x of Inl y \<Rightarrow> f y | Inr y \<Rightarrow> g y)"
  by (cases x) auto
lemma eats_spares: "eats m \<Longrightarrow> spares m" by (fastforce simp: eats_def spares_def)
lemma eats_next_input [wp]: "eats next_input"
  by (auto simp: eats_def run_next_input split: list.splits)

text \<open>An invariant of the rounds gives a postcondition of the loop, unless the program has stopped.\<close>

lemma hoare_loop_n:
  assumes "\<And>x. hoare (I x) (f x) (\<lambda>r s. stopped s \<or> (case r of Inl x' \<Rightarrow> I x' s | Inr y \<Rightarrow> Q y s))"
  shows "hoare (I x) (loop_n n d f x) (\<lambda>y s. stopped s \<or> Q y s)"
proof (induction n arbitrary: x)
  case 0
  show ?case by (auto simp: hoare_def stop_def run_upd)
next
  case (Suc n)
  show ?case
  proof (rule hoareI)
    fix s assume "I x s"
    then obtain r s' where r: "run_state (f x) s = (r, s')" "stopped s' \<or> (case r of Inl x' \<Rightarrow> I x' s' | Inr y \<Rightarrow> Q y s')"
      using hoareD [OF assms(1) [of x]] by (metis prod.collapse)
    then show "stopped (exec (loop_n (Suc n) d f x) s) \<or> Q (result (loop_n (Suc n) d f x) s) (exec (loop_n (Suc n) d f x) s)"
      using Suc.IH by (auto simp: hoare_def split: sum.splits)
  qed
qed

lemma hoare_key_loop:
  assumes "\<And>x. hoare (I x) (f x) (\<lambda>r s. stopped s \<or> (case r of Inl x' \<Rightarrow> I x' s | Inr y \<Rightarrow> Q y s))"
  shows "hoare (I x) (key_loop d f x) (\<lambda>y s. stopped s \<or> Q y s)"
  using hoare_loop_n [of I f Q, OF assms] by (simp add: hoare_def key_loop_def del: loop_n.simps)

subsection \<open>Calls that only concern the screen\<close>

fun ui_call :: "ext_call \<Rightarrow> bool" where
  "ui_call (Print t) = True"
| "ui_call TimeOf = True"
| "ui_call GrWidth = True"
| "ui_call FbWidth = True"
| "ui_call FbHeight = True"
| "ui_call (FbImage i) = True"
| "ui_call (Malloc n) = True"
| "ui_call (Hook f) = True"
| "ui_call _ = False"

subsection \<open>Calls of the mounting layer\<close>

text \<open>
  What looking at, mounting, checking and formatting filesystems may call: no archive, no
  script, no reboot, and of the flash only the list of its partitions and their mounting.
\<close>

fun fs_level :: "ext_call \<Rightarrow> bool" where
  "fs_level (Fs x) = True"
| "fs_level (Vol x) = True"
| "fs_level (Proc x) = True"
| "fs_level Sync = True"
| "fs_level c = ui_call c"

fun mount_level :: "ext_call \<Rightarrow> bool" where
  "mount_level (Mtd MtdScan) = True"
| "mount_level (Mtd (MtdFind n)) = True"
| "mount_level (Mtd (MtdMount p mp fs)) = True"
| "mount_level c = fs_level c"

lemma ui_fs_level [simp]: "ui_call c \<Longrightarrow> fs_level c"
  by (cases c rule: ui_call.cases) auto

lemma fs_mount_level [simp]: "fs_level c \<Longrightarrow> mount_level c"
  by (cases c rule: fs_level.cases) auto

text \<open>Binding when something is known of the first result.\<close>

lemma emits_bind_result:
  "emits P m \<Longrightarrow> (\<And>s. result m s \<in> R) \<Longrightarrow> (\<And>x. x \<in> R \<Longrightarrow> emits P (f x)) \<Longrightarrow> emits P (m \<bind> f)"
  unfolding emits_def by (auto split: prod.splits) (metis extends_trans fst_conv snd_conv)

lemma result_bind: "result (m \<bind> f) s = result (f (result m s)) (exec m s)"
  by (simp add: split_beta)

lemma exec_bind: "exec (m \<bind> f) s = exec (f (result m s)) (exec m s)"
  by (simp add: split_beta)

text \<open>Programs from which only certain results come.\<close>

definition gives :: "'a set \<Rightarrow> 'a prog \<Rightarrow> bool" where
  "gives R m \<longleftrightarrow> (\<forall>s. result m s \<in> R)"

lemma gives_ret [wp]: "x \<in> R \<Longrightarrow> gives R (ret x)"
  by (simp add: gives_def)

lemma gives_bind [wp]: "(\<And>x. gives R (f x)) \<Longrightarrow> gives R (m \<bind> f)"
  by (auto simp: gives_def split: prod.splits)

lemma gives_if [wp]: "(b \<Longrightarrow> gives R m) \<Longrightarrow> (\<not> b \<Longrightarrow> gives R m') \<Longrightarrow> gives R (if b then m else m')"
  by simp

lemma givesD: "gives R m \<Longrightarrow> result m s \<in> R"
  by (simp add: gives_def)

subsection \<open>Symbolic execution\<close>

text \<open>
  \<open>runs s h m Q\<close>: run in the state \<open>s\<close> after the calls \<open>h\<close>, the program ends with \<open>Q\<close>. The
  rules follow one execution call by call; a program that is bound to give up needs no
  further look.
\<close>

definition runs :: "world \<Rightarrow> ext_call list \<Rightarrow> 'a prog \<Rightarrow> ('a \<Rightarrow> world \<Rightarrow> bool) \<Rightarrow> bool" where
  "runs s h m Q \<longleftrightarrow> Q (result m (s\<lparr>trace := h\<rparr>)) (exec m (s\<lparr>trace := h\<rparr>))"

lemma runsD: "runs s (trace s) m Q \<Longrightarrow> Q (result m s) (exec m s)"
  by (simp add: runs_def)

lemma runs_ret: "Q x (s\<lparr>trace := h\<rparr>) \<Longrightarrow> runs s h (ret x) Q"
  by (simp add: runs_def)

lemma runs_sys: "\<not> stopped s \<Longrightarrow> runs s (h @ [c]) (f (env s h c)) Q \<Longrightarrow> runs s h (sys c \<bind> f) Q"
  by (simp add: runs_def run_sys)

lemma runs_call: "\<not> stopped s \<Longrightarrow> runs s (h @ [c]) (f (rc (env s h c))) Q \<Longrightarrow> runs s h (call c \<bind> f) Q"
  by (simp add: runs_def call_def run_sys)

lemma runs_do_call: "\<not> stopped s \<Longrightarrow> runs s (h @ [c]) (f ()) Q \<Longrightarrow> runs s h (do_call c \<bind> f) Q"
  by (simp add: runs_def do_call_def run_sys)

lemma runs_if: "(b \<Longrightarrow> runs s h m Q) \<Longrightarrow> (\<not> b \<Longrightarrow> runs s h m' Q) \<Longrightarrow> runs s h (if b then m else m') Q"
  by simp

lemma runs_fails: "(\<And>t. Q x t) \<Longrightarrow> runs s h (m \<bind> (\<lambda>_. ret x)) Q"
  by (simp add: runs_def split_beta)

lemma runs_bind_run: "run_state m (s\<lparr>trace := h\<rparr>) = (x, s\<lparr>trace := h'\<rparr>) \<Longrightarrow> runs s h' (f x) Q \<Longrightarrow> runs s h (m \<bind> f) Q"
  by (simp add: runs_def)

end
