(* ===== verification/Config.thy ===== *)
theory Config
  imports World
begin

text \<open>
  \<open>config.c\<close>: the key store. In memory it is a linked list after the dummy element
  \<open>firstconf\<close>, modelled by the list of its key/val pairs; on disk it is a text file of
  \<open>key=val\<close> lines. The mutexes around the list are the subject of \<open>Config_Lock\<close>.
\<close>

section \<open>The list\<close>

definition KEY_MAX_LENGTH :: nat where "KEY_MAX_LENGTH = 96"
definition VALUE_MAX_LENGTH :: nat where "VALUE_MAX_LENGTH = 96"
definition CONFIG_SBIN :: string where "CONFIG_SBIN = ''/sbin/steam.conf''"
definition CONFIG_SYSTEM :: string where "CONFIG_SYSTEM = ''/system/etc/steam.conf''"

type_synonym conf_list = "(string \<times> string) list"

text \<open>The search loop of \<open>read_conf\<close>.\<close>

fun conf_find :: "string \<Rightarrow> conf_list \<Rightarrow> string option" where
  "conf_find key [] = None"
| "conf_find key ((k, v) # n) = (if key = k then Some v else conf_find key n)"

text \<open>
  The loop of \<open>write_conf\<close>. A key that is not found is appended to the last element
  (\<open>!n->next\<close>) and found there by the next round of the loop; an empty list has no last
  element.
\<close>

fun conf_write :: "string \<Rightarrow> string option \<Rightarrow> conf_list \<Rightarrow> conf_list \<times> bool" where
  "conf_write key val [] = ([], False)"
| "conf_write key val ((k, v) # n) =
     (if key = k then
        (case val of Some w \<Rightarrow> ((k, w) # n, True) | None \<Rightarrow> (n, False))
      else if n = [] then
        (case val of Some w \<Rightarrow> ([(k, v), (key, w)], True) | None \<Rightarrow> ([(k, v)], False))
      else let (n', found) = conf_write key val n in ((k, v) # n', found))"

section \<open>The file\<close>

definition conf_line :: "string \<times> string \<Rightarrow> string" where
  "conf_line e = fst e @ ''='' @ snd e @ [LF]"

definition conf_text :: "conf_list \<Rightarrow> string" where
  "conf_text cs = concat (map conf_line cs)"

text \<open>\<open>fgets(r, n, f)\<close> until the end of the file: pieces of at most \<open>n - 1\<close> bytes, each up to a newline.\<close>

fun fgets_acc :: "nat \<Rightarrow> nat \<Rightarrow> string \<Rightarrow> string \<Rightarrow> string list" where
  "fgets_acc n room acc [] = (if acc = [] then [] else [rev acc])"
| "fgets_acc n room acc (c # s) =
     (if c = LF \<or> room \<le> 1 then rev (c # acc) # fgets_acc n n [] s
      else fgets_acc n (room - 1) (c # acc) s)"

definition fgets_all :: "nat \<Rightarrow> string \<Rightarrow> string list" where
  "fgets_all n s = fgets_acc (n - 1) (n - 1) [] s"

text \<open>
  What the loops of \<open>get_conf_ro_from\<close> and \<open>init_conf\<close> make of one piece: skip comments,
  split at the first \<open>=\<close>, drop a newline at the end, check the lengths.
\<close>

definition parse_line :: "string \<Rightarrow> (string \<times> string) option" where
  "parse_line piece =
     (let r = cstr piece in
      if r \<noteq> [] \<and> hd r = CHR ''#'' then None
      else case split_at_char CHR ''='' r of
        None \<Rightarrow> None
      | Some (k, fp) \<Rightarrow>
          (let v = (if fp \<noteq> [] \<and> last fp = LF then butlast fp else fp) in
           if length k < KEY_MAX_LENGTH \<and> length v < VALUE_MAX_LENGTH then Some (k, v) else None))"

definition conf_pieces :: "string \<Rightarrow> string list" where
  "conf_pieces s = fgets_all (KEY_MAX_LENGTH + VALUE_MAX_LENGTH + 3) s"

definition parsed_lines :: "string \<Rightarrow> conf_list" where
  "parsed_lines s = List.map_filter parse_line (conf_pieces s)"

text \<open>The loop of \<open>init_conf\<close>: the first line of a key wins.\<close>

fun conf_add_all :: "conf_list \<Rightarrow> conf_list \<Rightarrow> conf_list" where
  "conf_add_all acc [] = acc"
| "conf_add_all acc ((k, v) # es) =
     conf_add_all (if conf_find k acc = None then acc @ [(k, v)] else acc) es"

definition load_conf :: "string \<Rightarrow> conf_list" where
  "load_conf s = conf_add_all [] (parsed_lines s)"

section \<open>The operations\<close>

definition read_conf :: "string \<Rightarrow> string option prog" where
  "read_conf key = gets (\<lambda>s. conf_find key (firstconf s))"

definition write_conf :: "string \<Rightarrow> string option \<Rightarrow> bool prog" where
  "write_conf key val = do {
     cs \<leftarrow> gets firstconf;
     let (cs', found) = conf_write key val cs;
     upd (\<lambda>s. s\<lparr>firstconf := cs'\<rparr>);
     st \<leftarrow> call (Fs (Stat CONFIG_SYSTEM));
     if st = 0 then do {
       f \<leftarrow> call (Fs (WriteFile CONFIG_SYSTEM (conf_text cs')));
       whenM (f = 0) (do_call Sync);
       ret found
     } else ret found }"

definition get_conf_ro_from :: "string \<Rightarrow> string \<Rightarrow> string option prog" where
  "get_conf_ro_from filename key = do {
     f \<leftarrow> sys (Fs (ReadFile filename));
     if rc f = 0 then ret (conf_find key (parsed_lines (dat f))) else ret None }"

definition get_conf_ro :: "string \<Rightarrow> string option prog" where
  "get_conf_ro key = get_conf_ro_from CONFIG_SBIN key"

definition init_conf :: "int prog" where
  "init_conf = do {
     f \<leftarrow> sys (Fs (ReadFile CONFIG_SYSTEM));
     let cs = (if rc f = 0 then load_conf (dat f) else []);
     upd (\<lambda>s. s\<lparr>firstconf := cs\<rparr>);
     ret (int (length cs)) }"

definition get_conf :: "string \<Rightarrow> string option prog" where
  "get_conf key = do {
     r \<leftarrow> read_conf key;
     case r of None \<Rightarrow> get_conf_ro key | Some v \<Rightarrow> ret (Some v) }"

definition get_conf_def :: "string \<Rightarrow> string \<Rightarrow> string prog" where
  "get_conf_def key def = do {
     r \<leftarrow> get_conf key;
     ret (case r of None \<Rightarrow> def | Some v \<Rightarrow> v) }"

definition set_conf :: "string \<Rightarrow> string option \<Rightarrow> bool prog" where
  "set_conf key val = write_conf key val"

definition get_capability :: "string \<Rightarrow> bool prog" where
  "get_capability key =
     (if prefix ''fs.support.'' key then do {
        r \<leftarrow> busybox [''grep'', drop (length ''fs.support.'') key, ''/proc/filesystems''];
        ret (r = 0)
      } else ret False)"

lemma emits_read_conf [emits_intros]: "emits P (read_conf k)"
  unfolding read_conf_def by (intro emits_intros)

lemma emits_set_conf [emits_intros]:
  "P (Fs (Stat CONFIG_SYSTEM)) \<Longrightarrow> (\<And>t. P (Fs (WriteFile CONFIG_SYSTEM t))) \<Longrightarrow> P Sync \<Longrightarrow> emits P (set_conf k v)"
  unfolding set_conf_def write_conf_def by (intro emits_intros) simp_all

lemma emits_get_conf_ro_from [emits_intros]: "P (Fs (ReadFile f)) \<Longrightarrow> emits P (get_conf_ro_from f k)"
  unfolding get_conf_ro_from_def by (intro emits_intros)

lemma emits_get_conf_ro [emits_intros]: "P (Fs (ReadFile CONFIG_SBIN)) \<Longrightarrow> emits P (get_conf_ro k)"
  unfolding get_conf_ro_def by (intro emits_intros)

lemma emits_get_conf [emits_intros]: "P (Fs (ReadFile CONFIG_SBIN)) \<Longrightarrow> emits P (get_conf k)"
  unfolding get_conf_def by (intro emits_intros)

lemma emits_get_conf_def [emits_intros]: "P (Fs (ReadFile CONFIG_SBIN)) \<Longrightarrow> emits P (get_conf_def k d)"
  unfolding get_conf_def_def by (intro emits_intros)

lemma emits_init_conf [emits_intros]: "P (Fs (ReadFile CONFIG_SYSTEM)) \<Longrightarrow> emits P init_conf"
  unfolding init_conf_def by (intro emits_intros) simp_all

section \<open>Lemmas on the list\<close>

definition keys_distinct :: "conf_list \<Rightarrow> bool" where
  "keys_distinct cs \<longleftrightarrow> distinct (map fst cs)"

lemma conf_find_map_of: "conf_find k cs = map_of cs k"
  by (induction cs) auto

lemma conf_find_None: "conf_find k cs = None \<longleftrightarrow> k \<notin> fst ` set cs"
  by (simp add: conf_find_map_of map_of_eq_None_iff)

lemma conf_find_append: "conf_find k (a @ b) = (case conf_find k a of None \<Rightarrow> conf_find k b | r \<Rightarrow> r)"
  by (induction a) auto

lemma conf_write_Cons:
  "fst (conf_write key val ((k, v) # n)) =
     (if key = k then (case val of Some w \<Rightarrow> (k, w) # n | None \<Rightarrow> n)
      else if n = [] then (k, v) # (case val of Some w \<Rightarrow> [(key, w)] | None \<Rightarrow> [])
      else (k, v) # fst (conf_write key val n))"
  by (auto split: prod.splits option.splits)

lemma conf_find_write_put:
  "cs \<noteq> [] \<Longrightarrow> conf_find k (fst (conf_write key (Some w) cs)) = (if k = key then Some w else conf_find k cs)"
  by (induction cs) (auto simp: conf_write_Cons simp del: conf_write.simps(2))

lemma conf_write_keys:
  "fst ` set (fst (conf_write key val cs)) \<subseteq> insert key (fst ` set cs)"
proof (induction cs)
  case (Cons e n)
  then show ?case
    by (cases e) (auto simp: conf_write_Cons image_subset_iff simp del: conf_write.simps(2)
        split: option.splits if_splits)
qed simp

lemma conf_write_distinct: "keys_distinct cs \<Longrightarrow> keys_distinct (fst (conf_write key val cs))"
proof (induction cs)
  case (Cons e n)
  obtain k v where e: "e = (k, v)" by (cases e)
  have "k \<notin> fst ` set (fst (conf_write key val n))" if "key \<noteq> k"
    using conf_write_keys [of key val n] Cons.prems that by (auto simp: keys_distinct_def e)
  with Cons show ?case
    by (auto simp: e keys_distinct_def conf_write_Cons simp del: conf_write.simps(2) split: option.splits)
qed simp

lemma conf_find_write_del:
  "keys_distinct cs \<Longrightarrow> conf_find k (fst (conf_write key None cs)) = (if k = key then None else conf_find k cs)"
proof (induction cs)
  case (Cons e n)
  then have "fst e \<notin> fst ` set n" and d: "keys_distinct n" by (auto simp: keys_distinct_def)
  then have "conf_find (fst e) n = None" by (simp add: conf_find_None)
  with Cons.IH [OF d] show ?case
    by (cases e) (auto simp: conf_write_Cons simp del: conf_write.simps(2))
qed simp

lemma conf_write_found: "cs \<noteq> [] \<Longrightarrow> snd (conf_write key (Some w) cs)"
  by (induction key "Some w" cs rule: conf_write.induct) (auto split: prod.splits)

lemma conf_write_put_not_Nil: "cs \<noteq> [] \<Longrightarrow> fst (conf_write key (Some w) cs) \<noteq> []"
  by (cases cs; cases "hd cs") (simp_all add: conf_write_Cons del: conf_write.simps(2))

section \<open>The key store as an interface\<close>

text \<open>
  What the clients of the store rely on: a put shows in later lookups, provided the
  store is ready to take it; a delete removes the key; neither touches other keys.
\<close>

locale key_store =
  fixes lookup :: "'m \<Rightarrow> 'k \<Rightarrow> 'v option"
    and put :: "'k \<Rightarrow> 'v \<Rightarrow> 'm \<Rightarrow> 'm"
    and del :: "'k \<Rightarrow> 'm \<Rightarrow> 'm"
    and wf :: "'m \<Rightarrow> bool"
    and ready :: "'m \<Rightarrow> bool"
  assumes lookup_put: "ready m \<Longrightarrow> lookup (put k v m) = (lookup m)(k \<mapsto> v)"
    and lookup_del: "wf m \<Longrightarrow> lookup (del k m) = (lookup m)(k := None)"
    and wf_put: "wf m \<Longrightarrow> wf (put k v m)"
    and wf_del: "wf m \<Longrightarrow> wf (del k m)"
    and ready_put: "ready m \<Longrightarrow> ready (put k v m)"
begin

lemma put_same: "ready m \<Longrightarrow> lookup (put k v m) k = Some v"
  by (simp add: lookup_put)

lemma put_other: "ready m \<Longrightarrow> j \<noteq> k \<Longrightarrow> lookup (put k v m) j = lookup m j"
  by (simp add: lookup_put)

lemma put_put: "ready m \<Longrightarrow> lookup (put k w (put k v m)) = lookup (put k w m)"
  by (simp add: lookup_put ready_put)

lemma puts: "ready m \<Longrightarrow> lookup (fold (\<lambda>(k, v). put k v) kvs m) = lookup m ++ map_of (rev kvs)"
proof (induction kvs arbitrary: m)
  case (Cons kv kvs)
  obtain k v where kv: "kv = (k, v)" by (cases kv)
  have "lookup (fold (\<lambda>(k, v). put k v) (kv # kvs) m) = (lookup m)(k \<mapsto> v) ++ map_of (rev kvs)"
    using Cons.IH [OF ready_put [OF Cons.prems]] lookup_put [OF Cons.prems]
    by (simp add: kv fun_upd_def)
  then show ?case by (simp add: kv)
qed simp

lemma put_del: "ready m \<Longrightarrow> wf m \<Longrightarrow> lookup (del k (put k v m)) = (lookup m)(k := None)"
  by (simp add: lookup_del wf_put lookup_put)

end

interpretation conf: key_store "\<lambda>cs k. conf_find k cs" "\<lambda>k v cs. fst (conf_write k (Some v) cs)"
  "\<lambda>k cs. fst (conf_write k None cs)" keys_distinct "\<lambda>cs. cs \<noteq> []"
  by unfold_locales
     (auto simp: conf_find_write_put conf_find_write_del conf_write_distinct conf_write_put_not_Nil fun_eq_iff)

section \<open>The file round trip\<close>

text \<open>Entries that survive being printed and parsed.\<close>

definition entry_ok :: "string \<times> string \<Rightarrow> bool" where
  "entry_ok e \<longleftrightarrow> CHR ''='' \<notin> set (fst e) \<and> LF \<notin> set (fst e) \<and> LF \<notin> set (snd e) \<and> no_nul (fst e) \<and> no_nul (snd e)
     \<and> length (fst e) < KEY_MAX_LENGTH \<and> length (snd e) < VALUE_MAX_LENGTH
     \<and> (fst e \<noteq> [] \<longrightarrow> hd (fst e) \<noteq> CHR ''#'')"

definition conf_ok :: "conf_list \<Rightarrow> bool" where
  "conf_ok cs \<longleftrightarrow> keys_distinct cs \<and> list_all entry_ok cs"

lemma fgets_acc_line:
  "LF \<notin> set l \<Longrightarrow> length l < room \<Longrightarrow> fgets_acc n room acc (l @ LF # s) = (rev acc @ l @ [LF]) # fgets_acc n n [] s"
  by (induction l arbitrary: acc room) auto

lemma conf_pieces_text: "list_all entry_ok cs \<Longrightarrow> conf_pieces (conf_text cs) = map conf_line cs"
proof (induction cs)
  case (Cons e cs)
  then have "fgets_acc 194 194 [] ((fst e @ ''='' @ snd e) @ LF # conf_text cs) =
      conf_line e # fgets_acc 194 194 [] (conf_text cs)"
    by (subst fgets_acc_line) (auto simp: entry_ok_def KEY_MAX_LENGTH_def VALUE_MAX_LENGTH_def conf_line_def)
  with Cons show ?case
    by (simp add: conf_pieces_def fgets_all_def conf_text_def conf_line_def KEY_MAX_LENGTH_def VALUE_MAX_LENGTH_def)
qed (simp add: conf_pieces_def fgets_all_def conf_text_def)

lemma parse_conf_line: "entry_ok e \<Longrightarrow> parse_line (conf_line e) = Some e"
proof -
  assume e: "entry_ok e"
  have "conf_line e = fst e @ CHR ''='' # (snd e @ [LF])" by (simp add: conf_line_def)
  moreover have "cstr (conf_line e) = conf_line e"
    using e by (simp add: conf_line_def entry_ok_def)
  moreover have "hd (conf_line e) \<noteq> CHR ''#''"
    using e by (cases "fst e") (auto simp: conf_line_def entry_ok_def)
  ultimately show ?thesis using e by (auto simp: parse_line_def Let_def entry_ok_def)
qed

lemma parsed_conf_text: "list_all entry_ok cs \<Longrightarrow> parsed_lines (conf_text cs) = cs"
proof -
  assume a: "list_all entry_ok cs"
  have "List.map_filter parse_line (map conf_line cs) = cs"
    using a by (induction cs) (auto simp: map_filter_simps parse_conf_line)
  with conf_pieces_text [OF a] show ?thesis by (simp add: parsed_lines_def)
qed

lemma conf_add_all_distinct:
  "keys_distinct (acc @ es) \<Longrightarrow> conf_add_all acc es = acc @ es"
proof (induction es arbitrary: acc)
  case (Cons e es)
  obtain k v where e: "e = (k, v)" by (cases e)
  with Cons.prems have "conf_find k acc = None" by (auto simp: keys_distinct_def conf_find_None)
  with Cons e show ?case by simp
qed simp

lemma conf_add_all_inv: "keys_distinct acc \<Longrightarrow> keys_distinct (conf_add_all acc es)"
  by (induction acc es rule: conf_add_all.induct) (auto simp: keys_distinct_def conf_find_None)

lemma conf_write_ok:
  assumes "conf_ok cs" and "\<And>w. val = Some w \<Longrightarrow> entry_ok (key, w)"
  shows "conf_ok (fst (conf_write key val cs))"
proof -
  have "list_all entry_ok cs \<Longrightarrow> list_all entry_ok (fst (conf_write key val cs))"
    using assms(2)
    by (induction cs) (auto simp: conf_write_Cons simp del: conf_write.simps(2) split: option.splits)
  with assms(1) show ?thesis by (simp add: conf_ok_def conf_write_distinct)
qed

lemma fgets_acc_piece:
  "p \<in> set (fgets_acc n room acc s) \<Longrightarrow> LF \<notin> set acc \<Longrightarrow> LF \<notin> set (butlast p)"
  by (induction n room acc s rule: fgets_acc.induct)
     (auto split: if_splits dest: in_set_butlastD list.set_sel(2) [rotated])

lemma LF_butlast_prefix: "LF \<notin> set (butlast (a @ b)) \<Longrightarrow> LF \<notin> set (butlast a)"
  by (cases b rule: rev_cases) (auto simp flip: append_assoc dest: in_set_butlastD)

lemma cstr_prefix: "\<exists>r. s = cstr s @ r"
  by (metis cstr_def takeWhile_dropWhile_id)

lemma parse_line_ok: "LF \<notin> set (butlast p) \<Longrightarrow> parse_line p = Some e \<Longrightarrow> entry_ok e"
proof -
  assume lf: "LF \<notin> set (butlast p)" and e: "parse_line p = Some e"
  from e obtain k fp where sp: "split_at_char CHR ''='' (cstr p) = Some (k, fp)"
      and hash: "cstr p = [] \<or> hd (cstr p) \<noteq> CHR ''#''"
      and e: "e = (k, if fp \<noteq> [] \<and> last fp = LF then butlast fp else fp)"
      and len: "length k < KEY_MAX_LENGTH" "length (snd e) < VALUE_MAX_LENGTH"
    by (auto simp: parse_line_def Let_def split: if_splits option.splits)
  from sp have eq: "cstr p = k @ CHR ''='' # fp" and nk: "CHR ''='' \<notin> set k"
    by (auto dest: split_at_char_Some)
  from eq have nn: "no_nul k \<and> no_nul fp" using no_nul_cstr [of p] by simp
  from lf have "LF \<notin> set (butlast (cstr p))" using cstr_prefix [of p] LF_butlast_prefix by metis
  then have "LF \<notin> set k" and "LF \<notin> set (butlast fp)"
    by (auto simp: eq butlast_append split: if_splits)
  moreover have "k \<noteq> [] \<Longrightarrow> hd k \<noteq> CHR ''#''" using hash eq by auto
  moreover have "no_nul (butlast fp)" using nn by (auto simp: no_nul_def dest: in_set_butlastD)
  moreover have "LF \<notin> set fp" if "\<not> (fp \<noteq> [] \<and> last fp = LF)"
    using that \<open>LF \<notin> set (butlast fp)\<close> by (cases fp rule: rev_cases) auto
  ultimately show ?thesis using nn nk len by (auto simp: e entry_ok_def)
qed

lemma parsed_lines_ok: "list_all entry_ok (parsed_lines s)"
proof -
  have "LF \<notin> set (butlast p)" if "p \<in> set (conf_pieces s)" for p
    using that by (auto simp: conf_pieces_def fgets_all_def dest: fgets_acc_piece)
  then show ?thesis
    by (fastforce simp: parsed_lines_def list_all_iff map_filter_def intro: parse_line_ok)
qed

lemma conf_add_all_entries: "list_all entry_ok acc \<Longrightarrow> list_all entry_ok es \<Longrightarrow> list_all entry_ok (conf_add_all acc es)"
  by (induction acc es rule: conf_add_all.induct) auto

lemma load_conf_ok: "conf_ok (load_conf s)"
  using conf_add_all_inv [of "[]"]
  by (simp add: conf_ok_def load_conf_def conf_add_all_entries parsed_lines_ok keys_distinct_def)

lemma load_conf_text: "conf_ok cs \<Longrightarrow> load_conf (conf_text cs) = cs"
  by (simp add: conf_ok_def load_conf_def parsed_conf_text conf_add_all_distinct)

section \<open>Properties\<close>

text \<open>
  C4. The configuration file round-trips. Whatever bytes the file holds, the list
  \<open>init_conf\<close> builds from it is well formed (no key twice, no separator or newline
  inside an entry, every key and value within its array), and writing that list out
  and loading it again gives the same list.
\<close>

theorem load_conf_stable:
  "conf_ok (load_conf f) \<and> load_conf (conf_text (load_conf f)) = load_conf f"
  by (simp add: load_conf_ok load_conf_text)

text \<open>
  C5. \<open>set_conf\<close> is durable. On a well-formed store that is not empty, with the file
  present and writable, setting a key to a value that fits makes exactly three calls,
  \<open>stat\<close>, the rewriting of the file and \<open>sync\<close>; it reports success; and the bytes
  written load back to the store in memory, in which that key has the new value and
  every other key the value it had.
\<close>

theorem set_conf_durable:
  assumes "\<not> stopped s" and "conf_ok (firstconf s)" and "firstconf s \<noteq> []" and "entry_ok (key, w)"
    and "rc (env s (trace s) (Fs (Stat CONFIG_SYSTEM))) = 0"
    and "\<And>t. rc (env s (trace s @ [Fs (Stat CONFIG_SYSTEM)]) (Fs (WriteFile CONFIG_SYSTEM t))) = 0"
  shows "result (set_conf key (Some w)) s
    \<and> (\<exists>f. trace (exec (set_conf key (Some w)) s) =
             trace s @ [Fs (Stat CONFIG_SYSTEM), Fs (WriteFile CONFIG_SYSTEM f), Sync]
        \<and> firstconf (exec (set_conf key (Some w)) s) = load_conf f
        \<and> (\<forall>k. conf_find k (load_conf f) = (if k = key then Some w else conf_find k (firstconf s))))"
proof -
  let ?cs = "fst (conf_write key (Some w) (firstconf s))"
  have "load_conf (conf_text ?cs) = ?cs"
    using assms(2,4) by (intro load_conf_text conf_write_ok) auto
  moreover have "conf_find k ?cs = (if k = key then Some w else conf_find k (firstconf s))" for k
    using conf.lookup_put [OF assms(3), of key w] by (simp add: fun_eq_iff)
  ultimately show ?thesis using assms(1,5,6) conf_write_found [OF assms(3), of key w]
    by (auto simp: set_conf_def write_conf_def run_simps case_prod_unfold Let_def)
qed

text \<open>A store with one entry, on a device where every call succeeds.\<close>

definition sample_store :: world where
  "sample_store = (boot_state (\<lambda>h c. Reply 0 [] []) \<lparr>has_misc = True, has_datadata = True, has_mtd_cache = False,
     has_cryptsetup = True, has_phone_controller = False, has_two_sdcards = False, ignore_bootables = False,
     ns_on_sgs = False\<rparr> [])\<lparr>firstconf := [(''fs.data.type'', ''ext4'')]\<rparr>"

theorem set_conf_durable_witness:
  "result (set_conf ''ui.locale'' (Some ''hu_HU'')) sample_store
    \<and> (\<exists>f. trace (exec (set_conf ''ui.locale'' (Some ''hu_HU'')) sample_store) =
             [Fs (Stat CONFIG_SYSTEM), Fs (WriteFile CONFIG_SYSTEM f), Sync]
        \<and> conf_find ''ui.locale'' (load_conf f) = Some ''hu_HU''
        \<and> conf_find ''fs.data.type'' (load_conf f) = Some ''ext4'')"
  using set_conf_durable [of sample_store "''ui.locale''" "''hu_HU''"]
  by (auto simp: sample_store_def boot_state_def conf_ok_def entry_ok_def keys_distinct_def
      KEY_MAX_LENGTH_def VALUE_MAX_LENGTH_def)

text \<open>
  The first key is lost. In an empty store \<open>write_conf\<close> has no last element to
  append to: setting a key reports failure and leaves the store empty, and when the
  file exists and can be written, it is rewritten with no bytes at all.
\<close>

theorem set_conf_empty_lost:
  assumes "\<not> stopped s" and "firstconf s = []"
  shows "\<not> result (set_conf key val) s \<and> firstconf (exec (set_conf key val) s) = []
    \<and> (rc (env s (trace s) (Fs (Stat CONFIG_SYSTEM))) = 0 \<longrightarrow>
        Fs (WriteFile CONFIG_SYSTEM []) \<in> set (trace (exec (set_conf key val) s)))"
  using assms by (auto simp: set_conf_def write_conf_def run_simps conf_text_def)

theorem set_conf_empty_lost_witness:
  "\<not> result (set_conf ''ui.locale'' (Some ''hu_HU'')) (sample_store\<lparr>firstconf := []\<rparr>)
   \<and> Fs (WriteFile CONFIG_SYSTEM []) \<in>
      set (trace (exec (set_conf ''ui.locale'' (Some ''hu_HU'')) (sample_store\<lparr>firstconf := []\<rparr>)))"
  using set_conf_empty_lost [of "sample_store\<lparr>firstconf := []\<rparr>" "''ui.locale''" "Some ''hu_HU''"]
  by (simp add: sample_store_def boot_state_def)

end
