(* ===== verification/Device.thy ===== *)
theory Device
  imports Config
begin

text \<open>
  \<open>device.c\<close> and the two device descriptions it includes, \<open>device/sgs-i9000.{c,h}\<close> and
  \<open>device/ns-on-sgs-i9000.{c,h}\<close> (selected by \<open>ns_on_sgs\<close>): the table of roots, the keys,
  the menu actions and the changes to the init scripts.
\<close>

section \<open>Roots\<close>

text \<open>
  \<open>g_mtd_device\<close>, \<open>g_raw\<close> and the other marker strings are compared by address in the
  source, so they are constructors of their own here.
\<close>

datatype device = G_mtd_device | G_mmc_device | Block string
datatype filesystem = G_raw | G_package_file | G_auto | Fsname string

record RootInfo =
  r_name :: string
  r_device :: "device option"
  r_device2 :: "string option"
  r_partition_name :: "string option"
  r_mount_point :: "string option"
  r_filesystem :: "filesystem option"
  r_filesystem_options :: "string option"

definition EFS_BLOCK_NAME :: "build_opts \<Rightarrow> string" where
  "EFS_BLOCK_NAME b = (if ns_on_sgs b then ''/res/.fake/gingerbread/efs'' else ''/dev/block/stl3'')"
definition CACHE_BLOCK_NAME :: "build_opts \<Rightarrow> string" where
  "CACHE_BLOCK_NAME b = (if ns_on_sgs b then ''/res/.fake/gingerbread/cache'' else ''/dev/block/stl11'')"
definition DATA_BLOCK_NAME :: "build_opts \<Rightarrow> string" where
  "DATA_BLOCK_NAME b = (if ns_on_sgs b then ''/res/.fake/gingerbread/data'' else ''/dev/block/mmcblk0p2'')"
definition SYSTEM_BLOCK_NAME :: "build_opts \<Rightarrow> string" where
  "SYSTEM_BLOCK_NAME b = (if ns_on_sgs b then ''/res/.fake/gingerbread/system'' else ''/dev/block/stl9'')"
definition DBDATA_BLOCK_NAME :: string where "DBDATA_BLOCK_NAME = ''/dev/block/stl10''"
definition SDCARD_BLOCK_NAME :: string where "SDCARD_BLOCK_NAME = ''/dev/block/mmcblk0p1''"
definition SDCARD2_BLOCK_NAME :: string where "SDCARD2_BLOCK_NAME = ''/dev/block/mmcblk1p1''"

lemmas block_names = EFS_BLOCK_NAME_def CACHE_BLOCK_NAME_def DATA_BLOCK_NAME_def SYSTEM_BLOCK_NAME_def
  DBDATA_BLOCK_NAME_def SDCARD_BLOCK_NAME_def SDCARD2_BLOCK_NAME_def

definition root ::
  "string \<Rightarrow> device option \<Rightarrow> string option \<Rightarrow> string option \<Rightarrow> filesystem option \<Rightarrow> string option \<Rightarrow> RootInfo" where
  "root n d p mp fs opts = \<lparr>r_name = n, r_device = d, r_device2 = None, r_partition_name = p, r_mount_point = mp,
     r_filesystem = fs, r_filesystem_options = opts\<rparr>"

definition g_roots :: "build_opts \<Rightarrow> RootInfo list" where
  "g_roots b =
     [root ''BOOT:'' (Some G_mtd_device) (Some ''boot'') None (Some G_raw) None,
      root ''RECOVERY:'' (Some G_mtd_device) (Some ''recovery'') (Some ''/'') (Some G_raw) None,
      root ''MBM:'' (Some G_mtd_device) (Some ''mbm'') None (Some G_raw) None] @
     (if has_misc b then [root ''MISC:'' (Some G_mtd_device) (Some ''misc'') None (Some G_raw) None] else []) @
     (if has_phone_controller b then
        [if ns_on_sgs b then root ''EFS:'' (Some (Block (EFS_BLOCK_NAME b))) (Some ''efs'') (Some ''/efs'') (Some G_auto) None
         else root ''EFS:'' (Some (Block (EFS_BLOCK_NAME b))) (Some ''efs'') (Some ''/efs'') (Some (Fsname ''rfs''))
                (Some ''nosuid,nodev,check=no'')] else []) @
     [root ''CACHE:'' (Some (Block (CACHE_BLOCK_NAME b))) (Some ''cache'') (Some ''/cache'') (Some G_auto) None,
      root ''DATA:'' (Some (Block (DATA_BLOCK_NAME b))) (Some ''userdata'') (Some ''/data'') (Some G_auto) None,
      root ''SYSTEM:'' (Some (Block (SYSTEM_BLOCK_NAME b))) (Some ''system'') (Some ''/system'') (Some G_auto) None] @
     (if has_datadata b then
        [root ''DATADATA:'' (Some (Block DBDATA_BLOCK_NAME)) (Some ''datadata'') (Some ''/dbdata'') (Some G_auto) None] else []) @
     [root ''SDCARD:'' (Some (Block SDCARD_BLOCK_NAME)) (Some ''sdcard'') (Some ''/mnt/sdcard'') (Some (Fsname ''vfat'')) None] @
     (if has_two_sdcards b then
        [root ''SDCARD2:'' (Some (Block SDCARD2_BLOCK_NAME)) (Some ''sdcard2'') (Some ''/mnt/external_sd'')
           (Some (Fsname ''vfat'')) None] else []) @
     [root ''SDEXT:'' None None (Some ''/sd-ext'') (Some (Fsname ''auto'')) None,
      root ''PACKAGE:'' None None None (Some G_package_file) None,
      root ''TMP:'' None None (Some ''/tmp'') None None]"

section \<open>Keys and actions\<close>

text \<open>The codes of \<open>linux/input.h\<close> the device descriptions choose.\<close>

definition KEY_DEVICE_VOLUP :: "build_opts \<Rightarrow> int" where "KEY_DEVICE_VOLUP b = (if ns_on_sgs b then 114 else 58)"
definition KEY_DEVICE_VOLDOWN :: "build_opts \<Rightarrow> int" where "KEY_DEVICE_VOLDOWN b = (if ns_on_sgs b then 115 else 42)"
definition KEY_DEVICE_POWER :: "build_opts \<Rightarrow> int" where "KEY_DEVICE_POWER b = (if ns_on_sgs b then 116 else 26)"
definition KEY_DEVICE_HOME :: "build_opts \<Rightarrow> int" where "KEY_DEVICE_HOME b = (if ns_on_sgs b then 102 else 50)"
definition KEY_DEVICE_BACK :: "build_opts \<Rightarrow> int" where "KEY_DEVICE_BACK b = (if ns_on_sgs b then 158 else 28)"
definition BTN_MOUSE :: int where "BTN_MOUSE = 272"

definition NO_ACTION :: int where "NO_ACTION = -1"
definition HIGHLIGHT_UP :: int where "HIGHLIGHT_UP = -2"
definition HIGHLIGHT_DOWN :: int where "HIGHLIGHT_DOWN = -3"
definition SELECT_ITEM :: int where "SELECT_ITEM = -4"
definition GO_BACK :: int where "GO_BACK = -5"
definition SELECT_ITEM_MOUSE :: int where "SELECT_ITEM_MOUSE = -6"

lemmas action_defs = NO_ACTION_def HIGHLIGHT_UP_def HIGHLIGHT_DOWN_def SELECT_ITEM_def GO_BACK_def
  SELECT_ITEM_MOUSE_def
lemmas key_defs = KEY_DEVICE_VOLUP_def KEY_DEVICE_VOLDOWN_def KEY_DEVICE_POWER_def KEY_DEVICE_HOME_def
  KEY_DEVICE_BACK_def BTN_MOUSE_def

definition device_handle_key :: "build_opts \<Rightarrow> int \<Rightarrow> bool \<Rightarrow> int" where
  "device_handle_key b key_code visible =
     (if visible then
        if key_code = KEY_DEVICE_VOLUP b then HIGHLIGHT_DOWN
        else if key_code = KEY_DEVICE_VOLDOWN b then HIGHLIGHT_UP
        else if key_code = KEY_DEVICE_POWER b then NO_ACTION
        else if key_code = KEY_DEVICE_HOME b then SELECT_ITEM
        else if key_code = BTN_MOUSE then SELECT_ITEM_MOUSE
        else if key_code = KEY_DEVICE_BACK b then GO_BACK
        else NO_ACTION
      else NO_ACTION)"

definition device_toggle_display :: "build_opts \<Rightarrow> bool \<Rightarrow> int \<Rightarrow> bool" where
  "device_toggle_display b allow key_code \<longleftrightarrow> allow \<and> key_code = KEY_DEVICE_POWER b"

definition device_perform_action :: "int \<Rightarrow> int" where "device_perform_action which = which"

lemma device_handle_key_neg: "device_handle_key b k v < 0"
  by (simp add: device_handle_key_def action_defs)

section \<open>The init scripts\<close>

definition BSL :: char where "BSL = CHR 0x5C"

text \<open>\<open>sed\<close>'s \<open>i\<close> and \<open>a\<close> commands: the text after a backslash and a newline.\<close>

definition sed_text :: "string \<Rightarrow> string list \<Rightarrow> string" where
  "sed_text cmd ls = cmd @ concat (map (\<lambda>l. [BSL, LF] @ l) ls)"

definition sed :: "string \<Rightarrow> string \<Rightarrow> unit prog" where
  "sed script target = do { _ \<leftarrow> busybox [''sed'', ''-i'', script, target]; ret () }"

definition insert_before :: "string \<Rightarrow> string list \<Rightarrow> unit prog" where
  "insert_before service ls = for_each ls (\<lambda>l. sed (sed_text (''/service '' @ service @ ''/ i'') [l]) ''init.rc'')"

text \<open>Lines that end a service are followed by two empty ones.\<close>

definition insert_end :: "string \<Rightarrow> string \<Rightarrow> unit prog" where
  "insert_end service l = sed (sed_text (''/service '' @ service @ ''/ i'') [l, [], []]) ''init.rc''"

definition fix_init_sgs :: "unit prog" where
  "fix_init_sgs = do {
     sed (sed_text ''/export TMPDIR/ a'' [''    class_start earlyinitclass'']) ''init.rc'';
     sed ''s/mount rfs/#mount rfs/'' ''init.rc'';
     sed ''s|/system/bin/playlogos1|/sbin/steam postinit|g'' ''init.rc'';
     v \<leftarrow> get_conf ''init.bootanim'';
     whenM (v = Some ''2'') (do {
       insert_before ''playlogos1'' [''service bootanim /system/bin/bootanimation'', ''    user graphics'',
         ''    group graphics'', ''    oneshot'', ''    disabled''];
       insert_end ''playlogos1'' ''    class nostart'' });
     insert_before ''playlogos1'' [''service earlyinit /sbin/steam earlyinit'', ''    user root'', ''    group root'',
       ''    oneshot''];
     insert_end ''playlogos1'' ''    class earlyinitclass'';
     sed ''s|mount tmpfs nodev /tmp||'' ''recovery.rc'';
     sed ''s/mount rfs/#mount rfs/'' ''recovery.rc'';
     sed ''s|/sbin/adbd recovery|/sbin/adbd|'' ''recovery.rc'';
     sed ''s|/system/bin/recovery|/sbin/recovery|'' ''recovery.rc'' }"

definition fix_init_ns :: "bool \<Rightarrow> unit prog" where
  "fix_init_ns isrecovery = do {
     sed (''s|dev_mount sdcard.*|dev_mount sdcard /mnt/sdcard 1 '' @
          ''/devices/platform/s3c-sdhci.0/mmc_host/mmc0/mmc0:0001/block/mmcblk0|'') ''/system/etc/vold.fstab'';
     if isrecovery then do {
       sed ''306,411d'' ''init.rc'';
       insert_before ''console'' [''service recovery /sbin/steam recovery'', ''    user root'', ''    group root''];
       insert_end ''console'' ''    oneshot'';
       sed ''s|mount yaffs2 mtd@system /system ro remount|#|'' ''init.rc''
     } else do {
       sed (sed_text ''/export BOOTCLASSPATH/ a'' [''    class_start earlyinitclass'']) ''init.rc'';
       insert_before ''console'' [''service earlyinit /sbin/steam earlyinit'', ''    user root'', ''    group root'',
         ''    oneshot''];
       insert_end ''console'' ''    class earlyinitclass'';
       insert_before ''console'' [''service postinit /sbin/steam postinit'', ''    user root'', ''    group root''];
       insert_end ''console'' ''    oneshot''
     } }"

definition fix_init :: "bool \<Rightarrow> unit prog" where
  "fix_init isrecovery = do {
     ns \<leftarrow> opt ns_on_sgs;
     if ns then fix_init_ns isrecovery else fix_init_sgs }"

end
