(* ===== verification/Ui.thy ===== *)
theory Ui
  imports Device
begin

text \<open>
  \<open>ui.c\<close>: the progress bar, the queue of keys, the menus and the loops that wait for the
  user. What the input thread does to the menu and to the password screen is done here when
  the main thread waits for a key, in the order of \<open>keys\<close>; the threads themselves are in
  \<open>Screen\<close>, \<open>Touch\<close> and \<open>Log_Reader\<close>. Fractions (\<open>float\<close> in the source) are rationals.
\<close>

section \<open>Progress\<close>

definition ui_set_background :: "int \<Rightarrow> unit prog" where
  "ui_set_background icon = upd (\<lambda>s. s\<lparr>gCurrentIcon := icon\<rparr>)"

definition BACKGROUND_ICON_NONE :: int where "BACKGROUND_ICON_NONE = 0"
definition BACKGROUND_ICON_INSTALLING :: int where "BACKGROUND_ICON_INSTALLING = 1"
definition BACKGROUND_ICON_ERROR :: int where "BACKGROUND_ICON_ERROR = 2"
definition BACKGROUND_ICON_FIRMWARE_INSTALLING :: int where "BACKGROUND_ICON_FIRMWARE_INSTALLING = 3"
definition BACKGROUND_ICON_FIRMWARE_ERROR :: int where "BACKGROUND_ICON_FIRMWARE_ERROR = 4"

definition ui_show_indeterminate_progress :: "unit prog" where
  "ui_show_indeterminate_progress = upd (\<lambda>s. s\<lparr>gProgressBarType := ProgressIndeterminate\<rparr>)"

definition ui_show_progress :: "rat \<Rightarrow> int \<Rightarrow> unit prog" where
  "ui_show_progress portion seconds = do {
     t \<leftarrow> call TimeOf;
     upd (\<lambda>s. s\<lparr>gProgressBarType := ProgressNormal, gProgressScopeStart := gProgressScopeStart s + gProgressScopeSize s,
       gProgressScopeSize := portion, gProgressScopeTime := t, gProgressScopeDuration := seconds, gProgress := 0\<rparr>) }"

text \<open>\<open>(int)\<close> of a fraction.\<close>

definition trunc :: "rat \<Rightarrow> int" where
  "trunc r = (if r < 0 then \<lceil>r\<rceil> else \<lfloor>r\<rfloor>)"

definition ui_set_progress :: "rat \<Rightarrow> unit prog" where
  "ui_set_progress fraction = do {
     let f = (if fraction < 0 then 0 else fraction);
     let f = (if f > 1 then 1 else f);
     ty \<leftarrow> gets gProgressBarType;
     p \<leftarrow> gets gProgress;
     if ty = ProgressNormal \<and> f > p then do {
       width \<leftarrow> call GrWidth;
       size \<leftarrow> gets gProgressScopeSize;
       whenM (trunc (p * (of_int width * size)) \<noteq> trunc (f * (of_int width * size)))
         (upd (\<lambda>s. s\<lparr>gProgress := f\<rparr>))
     } else ret () }"

definition ui_reset_progress :: "unit prog" where
  "ui_reset_progress = upd (\<lambda>s. s\<lparr>gProgressBarType := ProgressNone, gProgressScopeStart := 0, gProgressScopeSize := 0,
     gProgressScopeTime := 0, gProgressScopeDuration := 0, gProgress := 0\<rparr>)"

text \<open>One round of \<open>ui_thread\<close>.\<close>

definition ui_thread_tick :: "unit prog" where
  "ui_thread_tick = do {
     duration \<leftarrow> gets gProgressScopeDuration;
     ty \<leftarrow> gets gProgressBarType;
     if ty = ProgressNormal \<and> duration > 0 then do {
       now \<leftarrow> call TimeOf;
       upd (\<lambda>s. let progress = of_int (now - gProgressScopeTime s) / of_int duration;
                    progress = (if progress > 1 then 1 else progress)
                in if progress > gProgress s then s\<lparr>gProgress := progress\<rparr> else s)
     } else ret () }"

section \<open>The key queue\<close>

text \<open>
  The end of a round of \<open>input_thread\<close>: a pressed key goes to the end of the queue of 256,
  except that moves of the finger (\<open>BTN_WHEEL\<close>) do not follow each other. \<open>ui_wait_key\<close>
  takes the first (None: it waits).
\<close>

definition BTN_WHEEL :: int where "BTN_WHEEL = 336"
definition BTN_GEAR_UP :: int where "BTN_GEAR_UP = 337"
definition BTN_GEAR_DOWN :: int where "BTN_GEAR_DOWN = 336"
definition QUEUE_MAX :: nat where "QUEUE_MAX = 256"

definition queue_key :: "int \<Rightarrow> int \<Rightarrow> int list \<Rightarrow> int list" where
  "queue_key code val q =
     (if val > 0 \<and> length q < QUEUE_MAX then
        if code \<noteq> BTN_WHEEL \<or> q = [] \<or> last q \<noteq> BTN_WHEEL then q @ [code] else q
      else q)"

fun take_key :: "int list \<Rightarrow> (int \<times> int list) option" where
  "take_key [] = None"
| "take_key (k # q) = Some (k, q)"

section \<open>Menus\<close>

definition MENU_TYPE_GLOBAL_HEADER :: int where "MENU_TYPE_GLOBAL_HEADER = 0"
definition MENU_TYPE_ELEMENT :: int where "MENU_TYPE_ELEMENT = 1"
definition MENU_TYPE_GROUP_HEADER :: int where "MENU_TYPE_GROUP_HEADER = 2"
definition MENU_TYPE_CHECKBOX :: int where "MENU_TYPE_CHECKBOX = 3"
definition MENU_TYPE_RADIOBOX :: int where "MENU_TYPE_RADIOBOX = 4"
definition MENU_ELEMENT_HEIGHT :: int where "MENU_ELEMENT_HEIGHT = 72"
definition menu_max_height :: int where "menu_max_height = 480"

lemmas menu_types = MENU_TYPE_GLOBAL_HEADER_def MENU_TYPE_ELEMENT_def MENU_TYPE_GROUP_HEADER_def
  MENU_TYPE_CHECKBOX_def MENU_TYPE_RADIOBOX_def

text \<open>C's division of integers.\<close>

definition cdiv :: "int \<Rightarrow> int \<Rightarrow> int" where
  "cdiv a b = (if (a < 0) = (b < 0) then \<bar>a\<bar> div \<bar>b\<bar> else - (\<bar>a\<bar> div \<bar>b\<bar>))"

text \<open>The headers of the old interface, joined into one element; an empty one after the first is skipped.\<close>

fun join_headers :: "string option \<Rightarrow> string list \<Rightarrow> string option" where
  "join_headers t [] = t"
| "join_headers None (h # hs) = join_headers (Some h) hs"
| "join_headers (Some t) (h # hs) = join_headers (Some (if h = [] then t else t @ [LF] @ h)) hs"

text \<open>An item's help follows its last byte 1, which stays at the end of the text.\<close>

definition item_element :: "int \<Rightarrow> string \<Rightarrow> menuElement" where
  "item_element i item =
     (if CHR 0x01 \<in> set item then
        let help = after_last CHR 0x01 item
        in \<lparr>me_id = i, me_group_id = 0, me_type = MENU_TYPE_ELEMENT,
            me_text = Some (take (length item - length help) item), me_help = Some help\<rparr>
      else \<lparr>me_id = i, me_group_id = 0, me_type = MENU_TYPE_ELEMENT, me_text = Some item, me_help = None\<rparr>)"

definition zero_element :: menuElement where
  "zero_element = \<lparr>me_id = 0, me_group_id = 0, me_type = 0, me_text = None, me_help = None\<rparr>"

definition old_menu :: "string list \<Rightarrow> string list \<Rightarrow> menuElement list" where
  "old_menu headers items =
     (let es = map (\<lambda>(i, item). item_element (int i) item) (enumerate 0 items)
      in if headers \<noteq> [] then
           \<lparr>me_id = -1, me_group_id = 0, me_type = MENU_TYPE_GLOBAL_HEADER, me_text = join_headers None headers,
            me_help = None\<rparr> # es
         else if items = [] then [zero_element] else es)"

definition ui_start_menu :: "string list \<Rightarrow> string list \<Rightarrow> int prog" where
  "ui_start_menu headers items = do {
     let menu_top = (if headers \<noteq> [] then 1 else 0);
     upd (\<lambda>s. s\<lparr>menu_list := Some (old_menu headers items), menu_items := menu_top + int (length items), show_menu := True,
       menu_sel := menu_top, menu_pos := 0\<rparr>);
     back \<leftarrow> gets gShowBackButton;
     n \<leftarrow> gets menu_items;
     ret (if back then n - 1 else n) }"

text \<open>
  The loop of \<open>ui_menu_select\<close>. Walking to an element that is not there is a fault; a menu
  of nothing but headers keeps the loop running.
\<close>

datatype settled = Settled int | No_element | Never

definition is_header :: "menuElement \<Rightarrow> bool" where
  "is_header e \<longleftrightarrow> me_type e = MENU_TYPE_GLOBAL_HEADER \<or> me_type e = MENU_TYPE_GROUP_HEADER"

definition wrap_sel :: "int \<Rightarrow> int \<Rightarrow> int" where
  "wrap_sel items sel = (let sel = (if sel < 0 then items + sel else sel) in if sel \<ge> items then sel - items else sel)"

fun settle :: "nat \<Rightarrow> menuElement list \<Rightarrow> int \<Rightarrow> bool \<Rightarrow> int \<Rightarrow> settled" where
  "settle 0 l items direction sel = Never"
| "settle (Suc n) l items direction sel =
     (let sel = wrap_sel items sel in
      if sel < 0 \<or> sel \<ge> int (length l) then No_element
      else if is_header (l ! nat sel) then settle n l items direction (if direction then sel + 1 else sel - 1)
      else Settled sel)"

definition menu_scroll :: "int \<Rightarrow> int \<Rightarrow> int" where
  "menu_scroll items sel =
     (let all = items * MENU_ELEMENT_HEIGHT;
          height = (if all > menu_max_height then menu_max_height else all);
          pos = - (sel * MENU_ELEMENT_HEIGHT - cdiv height 2 + cdiv MENU_ELEMENT_HEIGHT 2);
          pos = (if pos > 0 then 0 else pos)
      in if pos < - all + height then - all + height else pos)"

definition ui_menu_select :: "int \<Rightarrow> int prog" where
  "ui_menu_select sel = do {
     upd (\<lambda>s. s\<lparr>show_text := True, show_menu := True\<rparr>);
     old_sel \<leftarrow> gets menu_sel;
     items \<leftarrow> gets menu_items;
     l \<leftarrow> gets (\<lambda>s. case menu_list s of None \<Rightarrow> [] | Some l \<Rightarrow> l);
     case settle (Suc (nat items)) l items (old_sel \<le> sel) sel of
       Settled r \<Rightarrow> do { upd (\<lambda>s. s\<lparr>menu_sel := r, menu_pos := menu_scroll items r\<rparr>); ret r }
     | No_element \<Rightarrow> do { fault; ret 0 }
     | Never \<Rightarrow> do { stop; ret 0 } }"

definition ui_end_menu :: "unit prog" where
  "ui_end_menu = upd (\<lambda>s. s\<lparr>show_menu := False, menu_list := None\<rparr>)"

definition ui_start_menu_ext :: "unit prog" where
  "ui_start_menu_ext = upd (\<lambda>s. s\<lparr>menu_list := None, menu_items := 0, menu_sel := 0, menu_pos := 0\<rparr>)"

definition ui_add_menu_ext :: "menuElement \<Rightarrow> int prog" where
  "ui_add_menu_ext el = do {
     upd (\<lambda>s. s\<lparr>menu_list := Some ((case menu_list s of None \<Rightarrow> [] | Some l \<Rightarrow> l) @ [el]), menu_items := menu_items s + 1\<rparr>);
     gets menu_items }"

definition ui_add_menu :: "int \<Rightarrow> int \<Rightarrow> int \<Rightarrow> string option \<Rightarrow> string option \<Rightarrow> int prog" where
  "ui_add_menu i group_id type t help =
     ui_add_menu_ext \<lparr>me_id = i, me_group_id = group_id, me_type = type, me_text = t, me_help = help\<rparr>"

definition ui_get_selected_ext :: "(int \<times> menuElement) prog" where
  "ui_get_selected_ext = do {
     sel \<leftarrow> gets menu_sel;
     l \<leftarrow> gets (\<lambda>s. case menu_list s of None \<Rightarrow> [] | Some l \<Rightarrow> l);
     if sel < 0 \<or> sel \<ge> int (length l) then do { fault; ret (0, zero_element) } else ret (sel, l ! nat sel) }"

definition ui_set_page :: "int \<Rightarrow> int prog" where
  "ui_set_page page = do {
     let page = (if page \<ge> 4 then 3 else page);
     let page = (if page < 0 then 0 else page);
     upd (\<lambda>s. s\<lparr>current_page := page\<rparr>);
     ret page }"

definition ui_set_show_text :: "bool \<Rightarrow> unit prog" where
  "ui_set_show_text b = upd (\<lambda>s. s\<lparr>show_text := b\<rparr>)"

definition ui_set_secret_screen :: "bool \<Rightarrow> unit prog" where
  "ui_set_secret_screen b = upd (\<lambda>s. s\<lparr>enable_secret_screen := b\<rparr>)"

definition set_console_cmd :: "string \<Rightarrow> unit prog" where
  "set_console_cmd t = upd (\<lambda>s. s\<lparr>console_cmd := t\<rparr>)"

definition ui_set_showing_back_button :: "bool \<Rightarrow> unit prog" where
  "ui_set_showing_back_button b = upd (\<lambda>s. s\<lparr>gShowBackButton := b\<rparr>)"

definition ui_clear_num_screen :: "unit prog" where
  "ui_clear_num_screen = do {
     w \<leftarrow> call FbWidth; h \<leftarrow> call FbHeight;
     upd (\<lambda>s. s\<lparr>mainlog := ui_clear_screen (nat w) (nat h)\<rparr>) }"

definition ui_valid_mouse_select :: "bool prog" where
  "ui_valid_mouse_select = gets (\<lambda>s. menu_sel_mouse_valid s \<and> show_text s)"

section \<open>Waiting for the user\<close>

text \<open>The parts of \<open>ui_handle_mouse_input\<close> for the menu and for the password screen.\<close>

definition touch_menu :: "int \<Rightarrow> unit prog" where
  "touch_menu y = do {
     on \<leftarrow> gets (\<lambda>s. show_menu s \<and> show_text s);
     whenM on (
       if y < menu_max_height then do {
         opos \<leftarrow> gets menu_pos;
         items \<leftarrow> gets menu_items;
         let nsel = cdiv (- opos + y) MENU_ELEMENT_HEIGHT;
         if 0 \<le> nsel \<and> nsel < items then do {
           r \<leftarrow> ui_menu_select nsel;
           upd (\<lambda>s. s\<lparr>menu_pos := opos\<rparr>);
           whenM (r = nsel) (upd (\<lambda>s. s\<lparr>menu_sel_mouse_valid := True\<rparr>))
         } else upd (\<lambda>s. s\<lparr>menu_sel_mouse_valid := False\<rparr>)
       } else upd (\<lambda>s. s\<lparr>menu_sel_mouse_valid := False\<rparr>)) }"

definition secret_touch :: "char \<Rightarrow> string \<Rightarrow> string" where
  "secret_touch c cmd =
     (if c \<notin> set (after_last CHR ''_'' cmd) \<and> length cmd < 255 then cmd @ [c] else cmd)"

definition secret_up :: "string \<Rightarrow> string" where
  "secret_up cmd = (if length cmd < 255 \<and> cmd \<noteq> [] \<and> last cmd \<noteq> CHR ''_'' then cmd @ ''_'' else cmd)"

text \<open>
  The keyboard of the console, page by page. The keys 1, 2 and 3 are shift, delete and the
  next page. \<open>console_cmd\<close> has 256 bytes and \<open>console_length\<close>, its length here, is not compared
  with them: a byte too many, or its zero, is stored behind the array.
\<close>

definition keyboard_line :: "nat \<Rightarrow> string list" where
  "keyboard_line page =
     (if page = 0 then [''qwertyuiop'', ''asdfghjkl'', [CHR 0x01] @ ''zxcvbnm'' @ [CHR 0x02], [CHR 0x03] @ ''/.,    '' @ [LF, LF]]
      else if page = 1 then [''QWERTYUIOP'', ''ASDFGHJKL'', [CHR 0x01] @ ''ZXCVBNM'' @ [CHR 0x02], [CHR 0x03] @ ''/.,    '' @ [LF, LF]]
      else if page = 2 then [''1234567890'', ''!@#$%^&*()'', ''_+{}:'' @ [CHR 0x22] @ ''|<>?'', [CHR 0x03] @ ''-=[];'' @ [CHR 0x27, CHR 0x5C] @ ''~`'']
      else [''123.'', ''456-'', ''789'' @ [CHR 0x02], [CHR 0x03] @ ''0 '' @ [LF]])"

definition console_key :: "char \<Rightarrow> world \<Rightarrow> world" where
  "console_key c s =
     (if c = CHR 0x01 then s\<lparr>keyboard_page := (if keyboard_page s = 1 then 0 else if keyboard_page s = 0 then 1 else keyboard_page s)\<rparr>
      else if c = CHR 0x02 then s\<lparr>console_cmd := butlast (console_cmd s)\<rparr>
      else if c = CHR 0x03 then
        (let page = keyboard_page s + 1; page = (if page = 1 then 2 else page) in s\<lparr>keyboard_page := (if page \<ge> 4 then 0 else page)\<rparr>)
      else
        (let s = (if keyboard_page s \<noteq> 3 then s\<lparr>keyboard_page := 0\<rparr> else s) in
         if length (console_cmd s) + 1 \<ge> 256 then s\<lparr>stopped := True, faulted := True\<rparr>
         else s\<lparr>console_cmd := console_cmd s @ [c]\<rparr>))"

definition console_tap :: "nat \<Rightarrow> nat \<Rightarrow> world \<Rightarrow> world" where
  "console_tap row col s =
     (if enable_console_screen s \<and> row < 4 \<and> col < length (keyboard_line (keyboard_page s) ! row)
      then console_key (keyboard_line (keyboard_page s) ! row ! col) s else s)"

definition handle_input :: "input_event \<Rightarrow> (unit + int) prog" where
  "handle_input e = (case e of
     Key k \<Rightarrow> do {
       b \<leftarrow> gets build;
       upd (\<lambda>s. if device_toggle_display b (allow_display_toggle s) k then s\<lparr>show_text := \<not> show_text s\<rparr> else s);
       ret (Inr k) }
   | Touch y \<Rightarrow> do { touch_menu y; ret (Inl ()) }
   | SecretTouch c \<Rightarrow> do {
       upd (\<lambda>s. if enable_secret_screen s then s\<lparr>console_cmd := secret_touch c (console_cmd s)\<rparr> else s);
       ret (Inl ()) }
   | SecretUp \<Rightarrow> do {
       upd (\<lambda>s. if enable_secret_screen s then s\<lparr>console_cmd := secret_up (console_cmd s)\<rparr> else s);
       ret (Inl ()) }
   | Tap row col \<Rightarrow> do {
       visible \<leftarrow> gets show_text;
       upd (console_tap row col);
       ret (Inr (if visible then BTN_MOUSE else BTN_GEAR_UP)) })"

text \<open>The screen of the console (drawn in \<open>Screen\<close>).\<close>

definition ui_set_console :: "bool \<Rightarrow> unit prog" where
  "ui_set_console b = upd (\<lambda>s. s\<lparr>enable_console_screen := b\<rparr>)"


definition ui_wait_key :: "int prog" where
  "ui_wait_key = key_loop 0 (\<lambda>_. do {
     e \<leftarrow> next_input;
     case e of None \<Rightarrow> ret (Inr 0) | Some e \<Rightarrow> handle_input e }) ()"

text \<open>\<open>while (chosen_item < 0 && chosen_item != GO_BACK)\<close>.\<close>

definition chosen :: "int \<Rightarrow> unit + int" where
  "chosen c = (if c < 0 \<and> c \<noteq> GO_BACK then Inl () else Inr c)"

definition menu_round :: "bool \<Rightarrow> (unit + int) prog" where
  "menu_round menu_only = do {
     key \<leftarrow> ui_wait_key;
     visible \<leftarrow> gets show_text;
     b \<leftarrow> gets build;
     let action = device_handle_key b key visible;
     if action < 0 then do {
       selected \<leftarrow> gets menu_sel;
       if action = HIGHLIGHT_UP then do { _ \<leftarrow> ui_menu_select (selected - 1); ret (Inl ()) }
       else if action = HIGHLIGHT_DOWN then do { _ \<leftarrow> ui_menu_select (selected + 1); ret (Inl ()) }
       else if action = SELECT_ITEM_MOUSE then do {
         ok \<leftarrow> ui_valid_mouse_select;
         ret (if ok then chosen (selected - 1) else Inl ()) }
       else if action = SELECT_ITEM then ret (chosen (selected - 1))
       else if action = GO_BACK then ret (Inr GO_BACK)
       else ret (Inl ())
     } else if \<not> menu_only then ret (Inr action) else ret (Inl ()) }"

definition get_menu_selection :: "string list \<Rightarrow> string list \<Rightarrow> bool \<Rightarrow> int prog" where
  "get_menu_selection headers items menu_only = do {
     upd (\<lambda>s. s\<lparr>allow_display_toggle := True\<rparr>);
     ui_set_showing_back_button False;
     _ \<leftarrow> ui_start_menu headers items;
     _ \<leftarrow> ui_menu_select 1;
     chosen_item \<leftarrow> key_loop GO_BACK (\<lambda>_. menu_round menu_only) ();
     ui_end_menu;
     upd (\<lambda>s. s\<lparr>allow_display_toggle := False\<rparr>);
     ui_set_show_text False;
     ret chosen_item }"

definition menu_round_ext :: "menuElement \<Rightarrow> (menuElement + (int \<times> menuElement)) prog" where
  "menu_round_ext el = do {
     key \<leftarrow> ui_wait_key;
     visible \<leftarrow> gets show_text;
     b \<leftarrow> gets build;
     let action = device_handle_key b key visible;
     if action < 0 then do {
       (selected, el) \<leftarrow> ui_get_selected_ext;
       if action = HIGHLIGHT_UP then do { _ \<leftarrow> ui_menu_select (selected - 1); ret (Inl el) }
       else if action = HIGHLIGHT_DOWN then do { _ \<leftarrow> ui_menu_select (selected + 1); ret (Inl el) }
       else if action = SELECT_ITEM_MOUSE then do {
         ok \<leftarrow> ui_valid_mouse_select;
         ret (if ok then Inr (selected, el) else Inl el) }
       else if action = SELECT_ITEM then ret (Inr (selected, el))
       else if action = GO_BACK then ret (Inr (GO_BACK, el))
       else ret (Inl el)
     } else ret (Inr (action, el)) }"

definition get_menu_selection_ext :: "int \<Rightarrow> menuElement \<Rightarrow> (int \<times> menuElement) prog" where
  "get_menu_selection_ext initial_selection el = do {
     upd (\<lambda>s. s\<lparr>allow_display_toggle := True\<rparr>);
     ui_set_showing_back_button False;
     _ \<leftarrow> ui_menu_select initial_selection;
     r \<leftarrow> key_loop (GO_BACK, el) menu_round_ext el;
     upd (\<lambda>s. s\<lparr>allow_display_toggle := False\<rparr>);
     ui_set_show_text False;
     ret r }"

section \<open>Start and end\<close>

definition BITMAPS :: "string list" where
  "BITMAPS = [''icon_steam'', ''icon_steam'', ''indeterminate1'', ''indeterminate2'', ''indeterminate3'',
     ''indeterminate4'', ''indeterminate5'', ''indeterminate6'', ''progress_empty'', ''progress_fill'']"

definition ui_init :: "unit prog" where
  "ui_init = do {
     upd (\<lambda>s. s\<lparr>ui_has_initialized := True\<rparr>);
     do_call (Hook ''gr_init'');
     do_call (Hook ''ev_init'');
     ui_clear_num_screen;
     for_each BITMAPS (\<lambda>name. do {
       r \<leftarrow> call (Hook (''res_create_surface '' @ name));
       whenM (r < 0 \<and> r \<noteq> -2) (LOGE (''Missing bitmap '' @ name @ [LF] @ ''(Code '' @ dec_int r @ '')'' @ [LF])) });
     do_call (Hook ''pthread_create'');
     ui_set_background BACKGROUND_ICON_INSTALLING }"

definition ui_done :: "unit prog" where
  "ui_done = do {
     do_call (Hook ''pthread_join'');
     do_call (Hook ''ev_exit'');
     do_call (Hook ''gr_exit'');
     upd (\<lambda>s. s\<lparr>ui_has_initialized := False\<rparr>) }"

text \<open>The image, its width and height; two bytes a pixel.\<close>

definition ui_copy_image :: "int \<Rightarrow> (string option \<times> int \<times> int \<times> int) prog" where
  "ui_copy_image icon = do {
     w \<leftarrow> call FbWidth;
     h \<leftarrow> call FbHeight;
     m \<leftarrow> call (Malloc (w * h * 2));
     if m = 0 then do {
       LOGE (''Can't allocate '' @ dec_int (w * h * 2) @ '' bytes for image'' @ [LF]);
       ret (None, w, h, 16)
     } else do {
       r \<leftarrow> sys (FbImage icon);
       ret (Some (dat r), w, h, 16)
     } }"

section \<open>What these programs touch\<close>

lemmas ui_simple_defs = ui_set_background_def ui_show_indeterminate_progress_def ui_reset_progress_def
  ui_end_menu_def ui_start_menu_ext_def ui_set_show_text_def ui_set_secret_screen_def set_console_cmd_def
  ui_set_showing_back_button_def ui_set_console_def

lemma emits_ui_simple [emits_intros]:
  "emits P (ui_set_background i)" "emits P ui_show_indeterminate_progress" "emits P ui_reset_progress"
  "emits P ui_end_menu" "emits P ui_start_menu_ext" "emits P (ui_set_show_text b)" "emits P (ui_set_secret_screen b)"
  "emits P (set_console_cmd t)" "emits P (ui_set_showing_back_button b)" "emits P (ui_set_console b)"
  by (simp_all add: ui_simple_defs emits_upd)

lemma spares_ui_simple [wp]:
  "spares (ui_set_background i)" "spares ui_show_indeterminate_progress" "spares ui_reset_progress"
  "spares ui_end_menu" "spares ui_start_menu_ext" "spares (ui_set_show_text b)" "spares (ui_set_secret_screen b)"
  "spares (set_console_cmd t)" "spares (ui_set_showing_back_button b)" "spares (ui_set_console b)"
  by (simp_all add: ui_simple_defs spares_upd)

lemma emits_ui_show_progress [emits_intros]: "(\<And>c. ui_call c \<Longrightarrow> P c) \<Longrightarrow> emits P (ui_show_progress p n)"
  unfolding ui_show_progress_def by (intro emits_intros) simp_all

lemma emits_ui_set_progress [emits_intros]: "(\<And>c. ui_call c \<Longrightarrow> P c) \<Longrightarrow> emits P (ui_set_progress f)"
  unfolding ui_set_progress_def by (intro emits_intros) simp_all

lemma emits_ui_clear_num_screen [emits_intros]: "(\<And>c. ui_call c \<Longrightarrow> P c) \<Longrightarrow> emits P ui_clear_num_screen"
  unfolding ui_clear_num_screen_def by (intro emits_intros) simp_all

lemma emits_ui_menu_select [emits_intros]: "emits P (ui_menu_select sel)"
  unfolding ui_menu_select_def by (auto intro!: emits_intros split: settled.splits)

lemma console_tap_frame [simp]:
  "trace (console_tap i j s) = trace s" "env (console_tap i j s) = env s" "build (console_tap i j s) = build s"
  "keys (console_tap i j s) = keys s" "signature_check_enabled (console_tap i j s) = signature_check_enabled s"
  "menu_list (console_tap i j s) = menu_list s" "menu_items (console_tap i j s) = menu_items s"
  "menu_sel (console_tap i j s) = menu_sel s" "show_menu (console_tap i j s) = show_menu s"
  by (simp_all add: console_tap_def console_key_def Let_def)

lemma emits_handle_input: "emits P (handle_input e)"
  unfolding handle_input_def touch_menu_def by (cases e) (auto intro!: emits_intros split: if_splits)

lemma emits_ui_wait_key [emits_intros]: "emits P ui_wait_key"
  unfolding ui_wait_key_def by (intro emits_intros emits_handle_input)

lemma emits_get_menu_selection [emits_intros]: "emits P (get_menu_selection hs is mo)"
  unfolding get_menu_selection_def menu_round_def ui_start_menu_def ui_valid_mouse_select_def Let_def
  by (intro emits_intros) simp_all

lemma emits_get_menu_selection_ext [emits_intros]: "emits P (get_menu_selection_ext i el)"
  unfolding get_menu_selection_ext_def menu_round_ext_def ui_get_selected_ext_def ui_valid_mouse_select_def Let_def
  by (intro emits_intros) simp_all

lemma emits_ui_init [emits_intros]: "(\<And>c. ui_call c \<Longrightarrow> P c) \<Longrightarrow> emits P ui_init"
  unfolding ui_init_def by (intro emits_intros) simp_all

lemma emits_ui_done [emits_intros]: "(\<And>c. ui_call c \<Longrightarrow> P c) \<Longrightarrow> emits P ui_done"
  unfolding ui_done_def by (intro emits_intros) simp_all

lemma emits_ui_copy_image [emits_intros]: "(\<And>c. ui_call c \<Longrightarrow> P c) \<Longrightarrow> emits P (ui_copy_image i)"
  unfolding ui_copy_image_def by (intro emits_intros) simp_all

lemma spares_ui_menu_select [wp]: "spares (ui_menu_select sel)"
  unfolding ui_menu_select_def by (auto intro!: wp split: settled.splits)

lemma spares_handle_input: "spares (handle_input e)"
  unfolding handle_input_def touch_menu_def by (cases e) (auto intro!: wp)

text \<open>Waiting for a key consumes an action of the user, so the loops around it have enough rounds.\<close>

lemma eats_wait_round: "eats (do { e \<leftarrow> next_input; case e of None \<Rightarrow> ret (Inr 0) | Some e \<Rightarrow> handle_input e })"
  by (rule eats_bind [OF eats_next_input]) (auto intro!: wp spares_handle_input split: option.splits)

lemma eats_loop_n: "(\<And>x. eats (f x)) \<Longrightarrow> eats (loop_n (Suc n) d f x)"
proof (induction n arbitrary: x)
  case 0
  show ?case
    unfolding loop_n.simps by (rule eats_bind [OF 0]) (auto intro!: wp split: sum.splits)
next
  case (Suc n)
  note sp = eats_spares [OF Suc.IH [OF Suc.prems]]
  show ?case
    unfolding loop_n.simps(2) [of "Suc n"] by (intro eats_bind [OF Suc.prems] wp sp)
qed

lemma eats_key_loop: "(\<And>x. eats (f x)) \<Longrightarrow> eats (key_loop d f x)"
  unfolding key_loop_def by (intro spares_eats_bind eats_loop_n wp)

lemma eats_ui_wait_key: "eats ui_wait_key"
  unfolding ui_wait_key_def by (intro eats_key_loop eats_wait_round)

section \<open>Moving the highlight\<close>

lemma wrap_sel_mod: "0 < N \<Longrightarrow> - N \<le> sel \<Longrightarrow> sel < 2 * N \<Longrightarrow> wrap_sel N sel = sel mod N"
proof -
  assume a: "0 < N" "- N \<le> sel" "sel < 2 * N"
  consider "sel < 0" | "0 \<le> sel" "sel < N" | "N \<le> sel" by linarith
  then show ?thesis
  proof cases
    case 1
    then have "(sel + N) mod N = sel + N" using a by (intro mod_pos_pos_trivial) auto
    with 1 a show ?thesis by (simp add: wrap_sel_def Let_def)
  next
    case 2
    then show ?thesis by (simp add: wrap_sel_def Let_def)
  next
    case 3
    then have "(sel - N) mod N = sel - N" using a by (intro mod_pos_pos_trivial) auto
    with 3 a show ?thesis by (simp add: wrap_sel_def Let_def)
  qed
qed

declare settle.simps [simp del]

text \<open>One round of the loop, from a position that wraps into the menu.\<close>

lemma settle_round:
  assumes "N = int (length l)" "0 < N" "- N \<le> sel" "sel < 2 * N"
  shows "settle (Suc n) l N d sel =
    (if is_header (l ! nat (sel mod N)) then settle n l N d (if d then sel mod N + 1 else sel mod N - 1)
     else Settled (sel mod N))"
proof -
  have "0 \<le> sel mod N" "sel mod N < N" using assms(2) by simp_all
  then have "\<not> (sel mod N < 0 \<or> sel mod N \<ge> int (length l))" using assms(1) by linarith
  then show ?thesis by (simp only: settle.simps(2) wrap_sel_mod [OF assms(2-4)] Let_def if_False)
qed

definition dir :: "bool \<Rightarrow> int" where "dir d = (if d then 1 else -1)"

text \<open>The loop stops at the first element in its direction, cyclically, that is not a header.\<close>

lemma settle_reaches:
  assumes "N = int (length l)" "0 < N" "- N \<le> sel" "sel < 2 * N"
    and "\<forall>k < j. is_header (l ! nat ((sel + dir d * int k) mod N))"
    and "\<not> is_header (l ! nat ((sel + dir d * int j) mod N))" and "j < n"
  shows "settle n l N d sel = Settled ((sel + dir d * int j) mod N)"
  using assms(3-7)
proof (induction j arbitrary: sel n)
  case 0
  then obtain m where "n = Suc m" by (cases n) auto
  then show ?case using 0 settle_round [OF assms(1,2) 0(1,2)] by simp
next
  case (Suc j)
  then obtain m where n: "n = Suc m" and m: "j < m" by (cases n) auto
  let ?s = "sel mod N"
  have s: "0 \<le> ?s" "?s < N" using assms(2) by simp_all
  have sh: "(?s + dir d + dir d * int k) mod N = (sel + dir d * int (Suc k)) mod N" for k
    using mod_add_left_eq [of sel N "dir d + dir d * int k"] by (simp add: algebra_simps)
  have "is_header (l ! nat ?s)" using Suc.prems(3) [rule_format, of 0] by simp
  then have "settle n l N d sel = settle m l N d (?s + dir d)"
    using n settle_round [OF assms(1,2) Suc.prems(1,2)] by (simp add: dir_def)
  also have "\<dots> = Settled ((?s + dir d + dir d * int j) mod N)"
  proof (rule Suc.IH)
    show "- N \<le> ?s + dir d" "?s + dir d < 2 * N" using s by (auto simp: dir_def)
    show "\<forall>k<j. is_header (l ! nat ((?s + dir d + dir d * int k) mod N))"
      unfolding sh using Suc.prems(3) by blast
    show "\<not> is_header (l ! nat ((?s + dir d + dir d * int j) mod N))" unfolding sh using Suc.prems(4) .
  qed (rule m)
  finally show ?case unfolding sh .
qed

definition selectable :: "menuElement list \<Rightarrow> int \<Rightarrow> bool" where
  "selectable l i \<longleftrightarrow> 0 \<le> i \<and> i < int (length l) \<and> \<not> is_header (l ! nat i)"

lemma dir_dir: "dir d * (dir d * x) = x"
  by (simp add: dir_def)

lemma settle_selectable:
  assumes N: "N = int (length l)" and sel: "- N \<le> sel" "sel < 2 * N" and i: "selectable l i" and n: "length l < n"
  shows "\<exists>r. settle n l N d sel = Settled r \<and> selectable l r"
proof -
  have pos: "0 < N" using i N by (auto simp: selectable_def)
  define Q where "Q = (\<lambda>j. \<not> is_header (l ! nat ((sel + dir d * int j) mod N)))"
  let ?j = "nat ((dir d * (i - sel)) mod N)"
  have "(sel + dir d * ((dir d * (i - sel)) mod N)) mod N = (sel + dir d * (dir d * (i - sel))) mod N"
    by (metis mod_add_right_eq mod_mult_right_eq)
  then have "(sel + dir d * int ?j) mod N = i" using pos i N by (simp add: dir_dir selectable_def)
  then have Qj: "Q ?j" using i by (simp add: Q_def selectable_def)
  have "?j < length l" using pos N by (simp add: nat_less_iff)
  then have "(LEAST j. Q j) < n" using Least_le [of Q, OF Qj] n by simp
  moreover have "Q (LEAST j. Q j)" using Qj by (rule LeastI)
  moreover have "\<forall>k < (LEAST j. Q j). \<not> Q k" using not_less_Least by blast
  ultimately have "settle n l N d sel = Settled ((sel + dir d * int (LEAST j. Q j)) mod N)"
    using settle_reaches [OF N pos sel, of "LEAST j. Q j" d n] by (simp add: Q_def)
  moreover have "selectable l ((sel + dir d * int (LEAST j. Q j)) mod N)"
    using \<open>Q (LEAST j. Q j)\<close> pos N by (simp add: Q_def selectable_def)
  ultimately show ?thesis by blast
qed

lemma settle_headers:
  assumes "N = int (length l)" "0 < N" and "\<forall>e \<in> set l. is_header e"
  shows "- N \<le> sel \<Longrightarrow> sel < 2 * N \<Longrightarrow> settle n l N d sel = Never"
proof (induction n arbitrary: sel)
  case (Suc n)
  have s: "0 \<le> sel mod N" "sel mod N < N" using assms(2) by simp_all
  then have "nat (sel mod N) < length l" using assms(1) by linarith
  then have "is_header (l ! nat (sel mod N))" using assms(3) by simp
  then show ?case using settle_round [OF assms(1,2) Suc.prems] Suc.IH s by simp
qed (simp add: settle.simps)

lemma item_element_type [simp]: "me_type (item_element i t) = MENU_TYPE_ELEMENT"
  by (simp add: item_element_def Let_def)

text \<open>A menu that is up, with the highlight on something that can be chosen.\<close>

definition menu_ok :: "menuElement list \<Rightarrow> world \<Rightarrow> bool" where
  "menu_ok l s \<longleftrightarrow> menu_list s = Some l \<and> menu_items s = int (length l) \<and> selectable l (menu_sel s)"

lemma ui_menu_select_ok:
  assumes "menu_list s = Some l" "menu_items s = int (length l)" "selectable l i" "\<not> stopped s"
    and "- int (length l) \<le> sel" "sel < 2 * int (length l)"
  shows "\<exists>r. result (ui_menu_select sel) s = r \<and> selectable l r \<and> \<not> stopped (exec (ui_menu_select sel) s)
    \<and> menu_sel (exec (ui_menu_select sel) s) = r \<and> menu_ok l (exec (ui_menu_select sel) s)"
proof -
  obtain r where "settle (Suc (length l)) l (int (length l)) (menu_sel s \<le> sel) sel = Settled r" "selectable l r"
    using settle_selectable [OF refl assms(5,6,3), of "Suc (length l)" "menu_sel s \<le> sel"] by auto
  with assms show ?thesis by (simp add: ui_menu_select_def run_upd menu_ok_def)
qed

lemma menu_ok_select:
  assumes "menu_ok l s" "\<not> stopped s" "- 1 \<le> sel" "sel \<le> int (length l)"
  shows "menu_ok l (exec (ui_menu_select sel) s)"
proof -
  have "0 < int (length l)" using assms(1) by (auto simp: menu_ok_def selectable_def)
  with ui_menu_select_ok [of s l "menu_sel s" sel] assms show ?thesis by (auto simp: menu_ok_def)
qed

definition menu_up :: "menuElement list \<Rightarrow> world \<Rightarrow> bool" where
  "menu_up l s \<longleftrightarrow> stopped s \<or> menu_ok l s"

lemma menu_up_select:
  "menu_up l s \<Longrightarrow> stopped s \<or> (- 1 \<le> sel \<and> sel \<le> int (length l)) \<Longrightarrow> menu_up l (exec (ui_menu_select sel) s)"
  using menu_ok_select [of l s sel] emits_frozen [OF emits_ui_menu_select, of s sel]
  by (cases "stopped s") (auto simp: menu_up_def)

lemma menu_up_upd: "menu_up l s \<Longrightarrow> (menu_ok l s \<Longrightarrow> menu_ok l (f s)) \<Longrightarrow> menu_up l (exec (upd f) s)"
  by (auto simp: menu_up_def run_upd)

lemma menu_up_touch: "menu_up l s \<Longrightarrow> menu_up l (exec (touch_menu y) s)"
proof -
  assume up: "menu_up l s"
  define nsel where "nsel = cdiv (y - menu_pos s) MENU_ELEMENT_HEIGHT"
  obtain r t where t: "run_state (ui_menu_select nsel) s = (r, t)" by fastforce
  have "menu_up l t" if "0 \<le> nsel" "nsel < menu_items s"
    using menu_up_select [of l s nsel] up that t by (auto simp: menu_up_def menu_ok_def)
  then show ?thesis using up
    by (auto simp: touch_menu_def whenM_def nsel_def [symmetric] t Let_def run_upd menu_up_def menu_ok_def)
qed

lemma keeps_menu_up_upd: "(\<And>s. menu_ok l s \<Longrightarrow> menu_ok l (f s)) \<Longrightarrow> keeps (menu_up l) (upd f)"
  by (auto simp: keeps_def menu_up_def run_upd)

lemma keeps_menu_up_next: "keeps (menu_up l) next_input"
  by (auto simp: keeps_def menu_up_def menu_ok_def run_next_input split: list.splits)

lemma keeps_menu_up_input: "keeps (menu_up l) (handle_input e)"
proof -
  have "keeps (menu_up l) (touch_menu y)" for y by (simp add: keeps_def menu_up_touch)
  then show ?thesis
    unfolding handle_input_def by (cases e) (auto intro!: wp keeps_menu_up_upd simp: menu_ok_def)
qed

lemma menu_up_wait_key: "menu_up l s \<Longrightarrow> menu_up l (exec ui_wait_key s)"
proof -
  assume up: "menu_up l s"
  have k: "keeps (menu_up l) (do { e \<leftarrow> next_input; case e of None \<Rightarrow> ret (Inr 0) | Some e \<Rightarrow> handle_input e })"
    by (intro wp keeps_menu_up_next keeps_menu_up_input)
  have "hoare (menu_up l) ui_wait_key (\<lambda>y s. stopped s \<or> menu_up l s)"
    unfolding ui_wait_key_def
    by (rule hoare_key_loop [of "\<lambda>_. menu_up l" _ "\<lambda>_. menu_up l"], rule hoareI)
       (drule keepsD [OF k], simp split: sum.split)
  from hoareD [OF this up] show ?thesis by (auto simp: menu_up_def)
qed

text \<open>One round of \<open>get_menu_selection\<close>: the menu stays up, or something that is on it is chosen.\<close>

lemma menu_round_hoare:
  "hoare (menu_up l) (menu_round mo) (\<lambda>r s. stopped s \<or> (case r of Inl _ \<Rightarrow> menu_up l s
     | Inr y \<Rightarrow> y = GO_BACK \<or> (0 \<le> y \<and> selectable l (y + 1))))"
proof (rule hoareI)
  fix s assume up: "menu_up l s"
  obtain key t where t: "run_state ui_wait_key s = (key, t)" by fastforce
  have upt: "menu_up l t" using menu_up_wait_key [OF up] t by simp
  let ?a = "device_handle_key (build t) key (show_text t)"
  have neg: "?a < 0" by (rule device_handle_key_neg)
  have sel: "menu_up l (exec (ui_menu_select (menu_sel t + 1)) t)" "menu_up l (exec (ui_menu_select (menu_sel t - 1)) t)"
    using upt by (intro menu_up_select; auto simp: menu_up_def menu_ok_def selectable_def)+
  have run: "run_state (menu_round mo) s =
     (if ?a = HIGHLIGHT_UP then (Inl (), exec (ui_menu_select (menu_sel t - 1)) t)
      else if ?a = HIGHLIGHT_DOWN then (Inl (), exec (ui_menu_select (menu_sel t + 1)) t)
      else if ?a = SELECT_ITEM_MOUSE then (if menu_sel_mouse_valid t \<and> show_text t then chosen (menu_sel t - 1) else Inl (), t)
      else if ?a = SELECT_ITEM then (chosen (menu_sel t - 1), t)
      else if ?a = GO_BACK then (Inr GO_BACK, t) else (Inl (), t))"
    by (simp add: menu_round_def t Let_def neg ui_valid_mouse_select_def split_beta)
  define good :: "(unit + int) \<times> world \<Rightarrow> bool" where
    "good = (\<lambda>(r, u). stopped u \<or> (case r of Inl _ \<Rightarrow> menu_up l u | Inr y \<Rightarrow> y = GO_BACK \<or> (0 \<le> y \<and> selectable l (y + 1))))"
  have "good (chosen (menu_sel t - 1), t)" "good (Inl (), t)" "good (Inr GO_BACK, t)"
    "good (Inl (), exec (ui_menu_select (menu_sel t - 1)) t)" "good (Inl (), exec (ui_menu_select (menu_sel t + 1)) t)"
    using upt sel by (auto simp: good_def chosen_def menu_up_def menu_ok_def)
  then have "good (run_state (menu_round mo) s)"
    unfolding run by (cases "menu_sel_mouse_valid t \<and> show_text t") (simp_all only: if_True if_False split: if_split, simp_all)
  then show "stopped (exec (menu_round mo) s) \<or> (case result (menu_round mo) s of Inl _ \<Rightarrow> menu_up l (exec (menu_round mo) s)
     | Inr y \<Rightarrow> y = GO_BACK \<or> (0 \<le> y \<and> selectable l (y + 1)))"
    by (simp add: good_def split_beta)
qed

section \<open>Properties\<close>

text \<open>
  C9. The highlight. When the menu has an element that can be chosen, \<open>ui_menu_select\<close>
  returns for every position from one menu length before the first to one after the last
  element: the highlight is then on an element of the menu that is not a header, and it
  is the position asked for whenever that is such an element.
\<close>

theorem ui_menu_select_lands:
  assumes "menu_list s = Some l" and "menu_items s = int (length l)" and "selectable l i" and "\<not> stopped s"
    and "- int (length l) \<le> sel" and "sel < 2 * int (length l)"
  shows "\<not> stopped (exec (ui_menu_select sel) s)
    \<and> selectable l (result (ui_menu_select sel) s)
    \<and> menu_sel (exec (ui_menu_select sel) s) = result (ui_menu_select sel) s
    \<and> (selectable l sel \<longrightarrow> result (ui_menu_select sel) s = sel)"
proof -
  have pos: "0 < int (length l)" using assms(3) by (auto simp: selectable_def)
  have "settle (Suc (length l)) l (int (length l)) d sel = Settled sel" if "selectable l sel" for d
    using settle_round [OF refl pos assms(5,6)] that by (simp add: selectable_def)
  then have "result (ui_menu_select sel) s = sel" if "selectable l sel"
    using that assms by (simp add: ui_menu_select_def run_upd)
  with ui_menu_select_ok [OF assms] show ?thesis by auto
qed

text \<open>A screen with a header and two items.\<close>

definition two_items :: world where
  "two_items = exec (ui_start_menu [''Reboot?''] [''No'', ''Yes'']) sample_store"

lemma two_items_menu:
  "menu_list two_items = Some (old_menu [''Reboot?''] [''No'', ''Yes''])" "menu_items two_items = 3" "\<not> stopped two_items"
  "length (old_menu [''Reboot?''] [''No'', ''Yes'']) = 3" "selectable (old_menu [''Reboot?''] [''No'', ''Yes'']) 1"
  by (simp_all add: two_items_def ui_start_menu_def run_upd sample_store_def boot_state_def old_menu_def item_element_def
      selectable_def is_header_def menu_types)

theorem ui_menu_select_lands_witness:
  "selectable (old_menu [''Reboot?''] [''No'', ''Yes'']) (result (ui_menu_select 3) two_items)
    \<and> menu_sel (exec (ui_menu_select 3) two_items) = result (ui_menu_select 3) two_items"
  using ui_menu_select_lands [of two_items "old_menu [''Reboot?''] [''No'', ''Yes'']" 1 3] two_items_menu by simp

text \<open>
  A menu of headers only. \<open>ui_menu_select\<close> then never finds an element: however
  many rounds its loop is given, it does not end (and the function holds
  \<open>gUpdateMutex\<close> while it runs).
\<close>

theorem ui_menu_select_headers_only:
  assumes "menu_list s = Some l" and "menu_items s = int (length l)" and "l \<noteq> []" and "\<forall>e \<in> set l. is_header e"
    and "- int (length l) \<le> sel" and "sel < 2 * int (length l)"
  shows "settle n l (menu_items s) d sel = Never \<and> stopped (exec (ui_menu_select sel) s)"
proof -
  have never: "settle m l (int (length l)) e sel = Never" for m e
    using settle_headers [OF refl, of l sel m e] assms(3-6) by simp
  then show ?thesis using assms(1,2) by (cases "stopped s") (simp_all add: ui_menu_select_def run_upd stop_def)
qed

theorem ui_menu_select_headers_only_witness:
  "settle 1000 [zero_element] 1 True 1 = Never"
  using ui_menu_select_headers_only [of "two_items\<lparr>menu_list := Some [zero_element], menu_items := 1\<rparr>" "[zero_element]" 1 1000 True]
  by (simp add: zero_element_def is_header_def menu_types)

lemma menu_answer:
  assumes "headers \<noteq> []" and "items \<noteq> []" and "\<not> stopped s"
  shows "stopped (exec (get_menu_selection headers items mo) s)
    \<or> result (get_menu_selection headers items mo) s = GO_BACK
    \<or> (0 \<le> result (get_menu_selection headers items mo) s
        \<and> result (get_menu_selection headers items mo) s < int (length items))"
proof -
  let ?l = "old_menu headers items"
  define t where "t = s\<lparr>allow_display_toggle := True, gShowBackButton := False, menu_list := Some ?l,
    menu_items := 1 + int (length items), show_menu := True, menu_sel := 1, menu_pos := 0\<rparr>"
  obtain it its where its: "items = it # its" using assms(2) by (cases items) auto
  have l: "length ?l = 1 + length items" using assms(1) by (simp add: old_menu_def)
  have nth: "?l ! nat 1 = item_element 0 it" using assms(1) its by (simp add: old_menu_def)
  have "menu_ok ?l t"
    using l nth by (simp add: t_def menu_ok_def selectable_def its is_header_def menu_types)
  then have up: "menu_up ?l (exec (ui_menu_select 1) t)"
    using menu_up_select [of ?l t 1] by (simp add: menu_up_def l)
  have not0: "\<not> selectable ?l 0" using assms(1) by (simp add: selectable_def old_menu_def is_header_def menu_types)
  let ?k = "key_loop GO_BACK (\<lambda>_. menu_round mo) ()"
  have "hoare (menu_up ?l) ?k (\<lambda>y s. stopped s \<or> (y = GO_BACK \<or> (0 \<le> y \<and> selectable ?l (y + 1))))"
    by (rule hoare_key_loop [of "\<lambda>_. menu_up ?l", OF menu_round_hoare])
  from hoareD [OF this up] have k: "stopped (exec ?k (exec (ui_menu_select 1) t))
      \<or> result ?k (exec (ui_menu_select 1) t) = GO_BACK
      \<or> (0 \<le> result ?k (exec (ui_menu_select 1) t) \<and> selectable ?l (result ?k (exec (ui_menu_select 1) t) + 1))" .
  obtain r1 t1 where t1: "run_state (ui_menu_select 1) t = (r1, t1)" by fastforce
  obtain r2 t2 where t2: "run_state ?k t1 = (r2, t2)" by fastforce
  have pre: "run_state (get_menu_selection headers items mo) s =
      (let t3 = exec (do { ui_end_menu; upd (\<lambda>s. s\<lparr>allow_display_toggle := False\<rparr>); ui_set_show_text False }) t2 in (r2, t3))"
    using assms(1,3) t1 t2
    by (simp add: get_menu_selection_def ui_set_showing_back_button_def ui_start_menu_def run_upd t_def Let_def
        ui_simple_defs)
  have stop: "stopped t2 \<Longrightarrow> stopped (exec (do { ui_end_menu; upd (\<lambda>s. s\<lparr>allow_display_toggle := False\<rparr>); ui_set_show_text False }) t2)"
    by (simp add: ui_simple_defs run_upd)
  have "r2 + 1 < 1 + int (length items)" "0 \<le> r2" if "0 \<le> r2" "selectable ?l (r2 + 1)"
    using that l by (auto simp: selectable_def)
  then show ?thesis using k stop unfolding t1 t2 pre by (auto simp: Let_def t1 t2)
qed

lemma hoare_menu:
  assumes "headers \<noteq> []" and "items \<noteq> []"
  shows "hoare P (get_menu_selection headers items mo)
    (\<lambda>r s. stopped s \<or> r = GO_BACK \<or> (0 \<le> r \<and> r < int (length items)))"
proof (rule hoareI)
  fix s
  have "emits (\<lambda>_. True) (get_menu_selection headers items mo)" by (intro emits_intros)
  from emits_frozen [OF this, of s] show "stopped (exec (get_menu_selection headers items mo) s) \<or> result (get_menu_selection headers items mo) s = GO_BACK
      \<or> (0 \<le> result (get_menu_selection headers items mo) s \<and> result (get_menu_selection headers items mo) s < int (length items))"
    using menu_answer [OF assms, of s] by (cases "stopped s") auto
qed

text \<open>
  C10. The menu's answer. A menu with at least one header and one item, whatever keys
  and touches arrive, either keeps waiting or answers \<open>GO_BACK\<close> or the position of one
  of its items.
\<close>

theorem get_menu_selection_range:
  assumes "headers \<noteq> []" and "items \<noteq> []" and "\<not> stopped s"
  shows "stopped (exec (get_menu_selection headers items mo) s)
    \<or> result (get_menu_selection headers items mo) s = GO_BACK
    \<or> (0 \<le> result (get_menu_selection headers items mo) s
        \<and> result (get_menu_selection headers items mo) s < int (length items))"
  using assms by (rule menu_answer)

theorem get_menu_selection_range_witness:
  "stopped (exec (get_menu_selection [''Reboot?''] [''No'', ''Yes''] True) (sample_store\<lparr>keys := [Key 58, Key 50]\<rparr>))
    \<or> result (get_menu_selection [''Reboot?''] [''No'', ''Yes''] True) (sample_store\<lparr>keys := [Key 58, Key 50]\<rparr>) = GO_BACK
    \<or> (0 \<le> result (get_menu_selection [''Reboot?''] [''No'', ''Yes''] True) (sample_store\<lparr>keys := [Key 58, Key 50]\<rparr>)
       \<and> result (get_menu_selection [''Reboot?''] [''No'', ''Yes''] True) (sample_store\<lparr>keys := [Key 58, Key 50]\<rparr>) < 2)"
  using get_menu_selection_range [of "[''Reboot?'']" "[''No'', ''Yes'']" "sample_store\<lparr>keys := [Key 58, Key 50]\<rparr>" True]
  by (simp add: sample_store_def boot_state_def)

lemma ui_set_progress_mono:
  "0 \<le> gProgress s \<and> gProgress s \<le> 1 \<Longrightarrow>
   gProgress s \<le> gProgress (exec (ui_set_progress f) s) \<and> gProgress (exec (ui_set_progress f) s) \<le> 1"
  by (auto simp: ui_set_progress_def run_simps Let_def)

lemma ui_thread_tick_mono:
  "0 \<le> gProgress s \<and> gProgress s \<le> 1 \<Longrightarrow>
   gProgress s \<le> gProgress (exec ui_thread_tick s) \<and> gProgress (exec ui_thread_tick s) \<le> 1"
  by (auto simp: ui_thread_tick_def run_simps Let_def)

text \<open>Reports (\<open>Some\<close>) and ticks (\<open>None\<close>) in any order.\<close>

definition progress_run :: "rat option list \<Rightarrow> unit prog" where
  "progress_run es = for_each es (\<lambda>e. case e of Some f \<Rightarrow> ui_set_progress f | None \<Rightarrow> ui_thread_tick)"

lemma progress_run_mono:
  "0 \<le> gProgress s \<and> gProgress s \<le> 1 \<Longrightarrow>
   gProgress s \<le> gProgress (exec (progress_run es) s) \<and> gProgress (exec (progress_run es) s) \<le> 1"
proof (induction es arbitrary: s)
  case (Cons e es)
  obtain t where t: "run_state (case e of Some f \<Rightarrow> ui_set_progress f | None \<Rightarrow> ui_thread_tick) s = ((), t)"
    by (metis old.unit.exhaust surj_pair)
  have "gProgress s \<le> gProgress t \<and> gProgress t \<le> 1"
    using ui_set_progress_mono [OF Cons.prems] ui_thread_tick_mono [OF Cons.prems] t
    by (cases e) (metis option.simps snd_conv)+
  with Cons.IH [of t] Cons.prems t show ?case by (simp add: progress_run_def)
qed (simp add: progress_run_def)

text \<open>
  The progress bar never moves back. After \<open>ui_show_progress\<close> opens an operation,
  whatever progress is reported and however the clock ticks, in whatever order, the
  fraction shown starts at 0, only grows, and stays at most 1.
\<close>

theorem progress_never_back:
  assumes "\<not> stopped s"
  shows "gProgress (exec (ui_show_progress portion secs) s) = 0
    \<and> (\<forall>es es'. let t = exec (ui_show_progress portion secs) s; u = exec (progress_run es) t
        in 0 \<le> gProgress u \<and> gProgress u \<le> gProgress (exec (progress_run es') u)
           \<and> gProgress (exec (progress_run es') u) \<le> 1)"
proof -
  have z: "gProgress (exec (ui_show_progress portion secs) s) = 0"
    using assms by (simp add: ui_show_progress_def run_simps)
  then have "0 \<le> gProgress u \<and> gProgress u \<le> 1"
    if "u = exec (progress_run es) (exec (ui_show_progress portion secs) s)" for u es
    using progress_run_mono [of "exec (ui_show_progress portion secs) s" es] that by simp
  with z progress_run_mono show ?thesis unfolding Let_def by blast
qed

theorem progress_never_back_witness:
  "gProgress (exec (ui_show_progress (1/4) 60) sample_store) = 0"
  using progress_never_back [of sample_store "1/4" 60] by (simp add: sample_store_def boot_state_def)

text \<open>The queue under a sequence of presses (\<open>Inl (code, value)\<close>) and of takes by the main thread.\<close>

fun run_queue :: "(int \<times> int + unit) list \<Rightarrow> int list \<Rightarrow> int list \<times> int list" where
  "run_queue [] q = ([], q)"
| "run_queue (Inl (code, val) # ops) q = run_queue ops (queue_key code val q)"
| "run_queue (Inr () # ops) q = (case take_key q of
     None \<Rightarrow> run_queue ops q
   | Some (k, q') \<Rightarrow> (let (ks, q'') = run_queue ops q' in (k # ks, q'')))"

fun pressed :: "(int \<times> int + unit) list \<Rightarrow> int list" where
  "pressed [] = []"
| "pressed (Inl (code, val) # ops) = (if val > 0 then code # pressed ops else pressed ops)"
| "pressed (Inr () # ops) = pressed ops"

lemma run_queue_fifo:
  "length q \<le> QUEUE_MAX \<Longrightarrow> length (snd (run_queue ops q)) \<le> QUEUE_MAX
    \<and> subseq (fst (run_queue ops q) @ snd (run_queue ops q)) (q @ pressed ops)"
proof (induction ops q rule: run_queue.induct)
  case (2 code val ops q)
  have "length (queue_key code val q) \<le> QUEUE_MAX" using 2 by (auto simp: queue_key_def)
  moreover have "subseq (queue_key code val q @ pressed ops) (q @ pressed (Inl (code, val) # ops))"
    by (auto simp: queue_key_def subseq_append' list_emb_Cons)
  ultimately show ?case using "2.IH" by (auto intro: subseq_order.trans)
next
  case (3 ops q)
  then show ?case by (cases q) (auto split: prod.splits)
qed simp



subsection \<open>The keyboard\<close>

text \<open>Whether a key of the keyboard is a character.\<close>

definition types_char :: "char \<Rightarrow> bool" where
  "types_char c \<longleftrightarrow> c \<notin> {CHR 0x01, CHR 0x02, CHR 0x03}"

lemma console_key_bound:
  "length (console_cmd s) < 256 \<Longrightarrow> length (console_cmd (console_key c s)) < 256"
  by (auto simp: console_key_def Let_def)

lemma console_key_faulted:
  "faulted (console_key c s) \<longleftrightarrow> faulted s \<or> (types_char c \<and> 255 \<le> length (console_cmd s))"
  by (auto simp: console_key_def types_char_def Let_def)

lemma secret_touch_bound: "length cmd < 256 \<Longrightarrow> length (secret_touch c cmd) < 256"
  by (simp add: secret_touch_def)

lemma secret_up_bound: "length cmd < 256 \<Longrightarrow> length (secret_up cmd) < 256"
  by (simp add: secret_up_def)

text \<open>
  The array of the console. \<open>console_cmd\<close> has room for 255 bytes and a zero. What the user
  does keeps it within the array, except on the keyboard of the console: there a key that
  types a character when 255 have been typed is stored outside, and no other input faults.
\<close>

theorem console_overflow_iff:
  assumes "length (console_cmd s) < 256" and "\<not> stopped s" and "\<not> faulted s" and "\<not> (show_menu s \<and> show_text s)"
  shows "length (console_cmd (exec (handle_input e) s)) < 256
    \<and> (faulted (exec (handle_input e) s) \<longleftrightarrow>
        (\<exists>row col. e = Tap row col \<and> enable_console_screen s \<and> row < 4 \<and> col < length (keyboard_line (keyboard_page s) ! row)
           \<and> types_char (keyboard_line (keyboard_page s) ! row ! col) \<and> length (console_cmd s) = 255))"
proof (cases e)
  case (Tap row col)
  then show ?thesis using assms
    by (auto simp: handle_input_def run_upd console_tap_def console_key_bound console_key_faulted)
qed (use assms in \<open>auto simp: handle_input_def run_upd touch_menu_def whenM_def secret_touch_bound secret_up_bound\<close>)

definition full_console :: world where
  "full_console = (boot_state (\<lambda>_ _. Reply 0 [] []) \<lparr>has_misc = True, has_datadata = True, has_mtd_cache = True,
      has_cryptsetup = False, has_phone_controller = True, has_two_sdcards = True, ignore_bootables = False, ns_on_sgs = False\<rparr> [])
     \<lparr>enable_console_screen := True, console_cmd := replicate 255 CHR ''a''\<rparr>"

theorem console_overflow_iff_witness: "faulted (exec (handle_input (Tap 0 0)) full_console)"
  using console_overflow_iff [of full_console "Tap 0 0"]
  by (simp add: full_console_def boot_state_def keyboard_line_def types_char_def)

end
