(* ===== verification/Filesystems.thy ===== *)
theory Filesystems
  imports Ui
begin

unbundle bit_operations_syntax

text \<open>
  The second half of \<open>roots.c\<close> (``Steam additions''): encrypted partitions, autodetection,
  checking and mounting, formatting, the configured filesystem types, and unmounting.
  A filesystem type is a C \<open>int\<close> of flags. A secret is \<open>None\<close> for a null pointer; functions
  that may store into it return the new one. Partition names contain a slash, and the
  names built from them fit their buffers. \<open>printf\<close> is left out.
\<close>

section \<open>Types\<close>

definition TYPE_RFS :: int where "TYPE_RFS = 1"
definition TYPE_EXT2 :: int where "TYPE_EXT2 = 2"
definition TYPE_EXT4 :: int where "TYPE_EXT4 = 4"
definition TYPE_JFS :: int where "TYPE_JFS = 8"
definition TYPE_DIRECTORY :: int where "TYPE_DIRECTORY = 64"
definition TYPE_FSTYPE_MASK :: int where "TYPE_FSTYPE_MASK = 127"
definition TYPE_CRYPT :: int where "TYPE_CRYPT = 128"
definition TYPE_LOOP :: int where "TYPE_LOOP = 256"
definition TYPE_BIND :: int where "TYPE_BIND = 512"
definition TYPE_RFS_BAD :: int where "TYPE_RFS_BAD = 1024"

lemmas fs_types = TYPE_RFS_def TYPE_EXT2_def TYPE_EXT4_def TYPE_JFS_def TYPE_DIRECTORY_def TYPE_FSTYPE_MASK_def
  TYPE_CRYPT_def TYPE_LOOP_def TYPE_BIND_def TYPE_RFS_BAD_def

definition has :: "int \<Rightarrow> int \<Rightarrow> bool" where
  "has fstype flag \<longleftrightarrow> fstype AND flag \<noteq> 0"

definition TYPE_RFS_DEFAULT_MOUNT :: string where "TYPE_RFS_DEFAULT_MOUNT = ''nodev,nosuid,check=no''"
definition TYPE_EXT2_DEFAULT_MOUNT :: string where "TYPE_EXT2_DEFAULT_MOUNT = ''noatime,nodiratime''"
definition TYPE_EXT4_DEFAULT_MOUNT :: string where "TYPE_EXT4_DEFAULT_MOUNT = ''noatime,barrier=0,noauto_da_alloc''"
definition TYPE_JFS_DEFAULT_MOUNT :: string where "TYPE_JFS_DEFAULT_MOUNT = ''relatime,errors=continue''"

definition BLOCK_DATA_LOOP_SIZE :: int where "BLOCK_DATA_LOOP_SIZE = 1831634944"
definition BLOCK_DBDATA_LOOP_SIZE :: int where "BLOCK_DBDATA_LOOP_SIZE = 128382976"
definition BLOCK_CACHE_LOOP_SIZE :: int where "BLOCK_CACHE_LOOP_SIZE = 29726720"

text \<open>\<open>stat\<close>: the data of the reply says whether it is a directory.\<close>

definition is_dir :: "reply \<Rightarrow> bool" where
  "is_dir r \<longleftrightarrow> rc r = 0 \<and> dat r = ''dir''"

definition tool :: "string \<Rightarrow> string list \<Rightarrow> int prog" where
  "tool t as = call (Proc (Tool t as))"

definition run_tool :: "string \<Rightarrow> string list \<Rightarrow> unit prog" where
  "run_tool t as = do_call (Proc (Tool t as))"

definition bb :: "string list \<Rightarrow> unit prog" where
  "bb as = run_tool ''busybox'' as"

definition mount_fs :: "string \<Rightarrow> string \<Rightarrow> string \<Rightarrow> string \<Rightarrow> int prog" where
  "mount_fs ty opts from to = busybox [''mount'', ''-t'', ty, ''-o'', opts, from, to]"

section \<open>Encrypted partitions\<close>

definition secname :: "string \<Rightarrow> string" where
  "secname part = ''sec'' @ after_last CHR ''/'' part"

definition mapper :: "string \<Rightarrow> string" where
  "mapper part = ''/dev/mapper/'' @ secname part"

definition luksClose :: "string \<Rightarrow> unit prog" where
  "luksClose part = run_tool ''cryptsetup'' [''cryptsetup'', ''luksClose'', secname part]"

text \<open>
  Without \<open>STEAM_HAS_CRYPTSETUP\<close> the magic number is read over the part's name instead
  of into \<open>magic\<close>, which is then compared uninitialised.
\<close>

definition is_encrypted_partition :: "string \<Rightarrow> int prog" where
  "is_encrypted_partition part = do {
     c \<leftarrow> opt has_cryptsetup;
     if c then do {
       r \<leftarrow> tool ''cryptsetup'' [''cryptsetup'', ''isLuks'', part];
       ret (if r = 0 then TYPE_CRYPT else 0)
     } else do {
       fd \<leftarrow> call (Fs (ReadFile part));
       if fd \<ge> 0 then do { fault; ret 0 } else ret 0
     } }"

text \<open>\<open>popen3func\<close> with \<open>cryptsetup_popen\<close> or \<open>cryptformat_popen\<close>, or \<open>popen3\<close> of the external program.\<close>

definition luksOpen :: "string \<Rightarrow> string \<Rightarrow> int prog" where
  "luksOpen part secret = do {
     c \<leftarrow> opt has_cryptsetup;
     call (Proc (PipeTool
       (if c then [''cryptsetup'', ''luksOpen'', ''-q'', part, secname part]
        else [''/sbin/cryptsetup luksOpen -q '' @ part @ '' '' @ secname part]) (secret @ [LF]))) }"

definition luksFormat :: "string \<Rightarrow> string \<Rightarrow> int prog" where
  "luksFormat part secret = do {
     c \<leftarrow> opt has_cryptsetup;
     call (Proc (PipeTool
       (if c then [''cryptsetup'', ''luksFormat'', ''-q'', ''-c'', ''aes-plain'', part]
        else [''/sbin/cryptsetup luksFormat -q -c aes-plain '' @ part]) (secret @ [LF]))) }"

text \<open>The loop that asks for the password: the password that opened the partition, or None.\<close>

definition ask_secret :: "string \<Rightarrow> string option prog" where
  "ask_secret part = key_loop None (\<lambda>_. do {
     key \<leftarrow> ui_wait_key;
     b \<leftarrow> gets build;
     let action = device_handle_key b key True;
     if action = SELECT_ITEM then do {
       cmd \<leftarrow> gets console_cmd;
       r \<leftarrow> luksOpen part cmd;
       if r = 0 then ret (Inr (Some cmd))
       else do { ui_print (loc ''SECRET_FAIL'' []); set_console_cmd []; ret (Inl ()) }
     } else if action = GO_BACK then ret (Inr None)
     else ret (Inl ()) }) ()"

definition secret_screen_on :: "string \<Rightarrow> bool prog" where
  "secret_screen_on prompt = do {
     was_initialized \<leftarrow> gets ui_has_initialized;
     whenM (\<not> was_initialized) ui_init;
     set_console_cmd [];
     ui_clear_num_screen;
     ui_set_secret_screen True;
     ui_set_show_text True;
     ui_print prompt;
     ui_print (loc ''SECRET_HOWTO'' []);
     ret was_initialized }"

definition secret_screen_off :: "bool \<Rightarrow> unit prog" where
  "secret_screen_off was_initialized = do {
     ui_set_show_text False;
     ui_set_secret_screen False;
     whenM (\<not> was_initialized) ui_done }"

definition open_encrypted_partition :: "string \<Rightarrow> string option \<Rightarrow> (bool \<times> string option) prog" where
  "open_encrypted_partition part secret = do {
     e \<leftarrow> is_encrypted_partition part;
     if e \<noteq> 0 then do {
       r \<leftarrow> (case secret of
              Some p \<Rightarrow> if p \<noteq> [] then luksOpen part p else ret 1
            | None \<Rightarrow> ret 1);
       if r = 0 then ret (True, secret)
       else do {
         st \<leftarrow> call (Fs (Stat (mapper part)));
         if st = 0 then ret (True, secret)
         else do {
           was \<leftarrow> secret_screen_on (loc ''SECRET_ENTER_FOR'' [part]);
           a \<leftarrow> ask_secret part;
           secret_screen_off was;
           ret (case a of None \<Rightarrow> (False, secret) | Some cmd \<Rightarrow> (True, map_option (\<lambda>_. cmd) secret))
         } }
     } else ret (False, secret) }"

section \<open>Autodetection\<close>

definition bad_rfs_marks :: "string list" where
  "bad_rfs_marks = [''/res/.tmp/BIN'', ''/res/.tmp/APP'', ''/res/.tmp/DATA'', ''/res/.tmp/SYSTEM'', ''/res/.tmp/RECOVERY'']"

fun any_exists :: "string list \<Rightarrow> bool prog" where
  "any_exists [] = ret False"
| "any_exists (p # ps) = do { st \<leftarrow> call (Fs (Stat p)); r \<leftarrow> any_exists ps; ret (st = 0 \<or> r) }"

definition detect_rfs :: "int prog" where
  "detect_rfs = do {
     v \<leftarrow> get_conf_ro ''fs.system.rfs'';
     bad \<leftarrow> (if v = Some ''bad'' then ret True
             else do { w \<leftarrow> get_conf_ro_from ''/res/.tmp/etc/steam.conf'' ''fs.system.rfs''; ret (w = Some ''bad'') });
     m \<leftarrow> any_exists bad_rfs_marks;
     ret (if bad \<or> m then TYPE_RFS OR TYPE_RFS_BAD else TYPE_RFS) }"

definition detect :: "string \<Rightarrow> int prog" where
  "detect frommount = do {
     st \<leftarrow> sys (Fs (Stat frommount));
     d \<leftarrow> (if is_dir st then busybox [''mount'', ''-o'', ''bind'', frommount, ''/res/.tmp''] else ret 1);
     if d = 0 then ret TYPE_DIRECTORY
     else do {
       r \<leftarrow> mount_fs ''ext2'' TYPE_EXT2_DEFAULT_MOUNT frommount ''/res/.tmp'';
       if r = 0 then ret TYPE_EXT2
       else do {
         r \<leftarrow> mount_fs ''ext4'' TYPE_EXT4_DEFAULT_MOUNT frommount ''/res/.tmp'';
         if r = 0 then ret TYPE_EXT4
         else do {
           r \<leftarrow> mount_fs ''rfs'' TYPE_RFS_DEFAULT_MOUNT frommount ''/res/.tmp'';
           if r = 0 then detect_rfs
           else do {
             run_tool ''fsck_jfs'' [''fsck.jfs'', ''-p'', frommount];
             r \<leftarrow> mount_fs ''jfs'' TYPE_JFS_DEFAULT_MOUNT frommount ''/res/.tmp'';
             ret (if r = 0 then TYPE_JFS else 0)
           } } } } }"

text \<open>The part after the temporary directory has been made.\<close>

definition probe :: "string \<Rightarrow> int \<Rightarrow> string \<Rightarrow> int prog" where
  "probe part iscrypt frommount = do {
     fstype \<leftarrow> detect frommount;
     (isloop, isbind) \<leftarrow> (if fstype \<noteq> 0 then do {
        l \<leftarrow> call (Fs (Stat ''/res/.tmp/.extfs''));
        d \<leftarrow> call (Fs (Stat ''/res/.tmp/.data''));
        do_call Sync;
        bb [''umount'', ''-f'', frommount];
        bb [''umount'', ''-f'', ''/res/.tmp''];
        ret (if l = 0 then TYPE_LOOP else 0, if d = 0 then TYPE_BIND else 0)
      } else ret (0, 0));
     bb [''rmdir'', ''/res/.tmp''];
     whenM (has fstype TYPE_CRYPT) (luksClose part);
     ret (fstype OR iscrypt OR isloop OR isbind) }"

definition filesystem_check :: "string \<Rightarrow> int prog" where
  "filesystem_check part = do {
     iscrypt \<leftarrow> is_encrypted_partition part;
     opened \<leftarrow> (if iscrypt \<noteq> 0 then do { (ok, _) \<leftarrow> open_encrypted_partition part None; ret ok } else ret True);
     if \<not> opened then ret TYPE_CRYPT
     else do {
       bb [''mkdir'', ''/res/.tmp''];
       bb [''chmod'', ''700'', ''/res/.tmp''];
       probe part iscrypt (if iscrypt \<noteq> 0 then mapper part else part)
     } }"

section \<open>Mounting\<close>

definition underscored :: "string \<Rightarrow> string" where
  "underscored = map (\<lambda>c. if c = CHR ''/'' then CHR ''_'' else c)"

text \<open>The base filesystem: 0, or the number \<open>check_and_mount\<close> returns.\<close>

definition mount_base :: "int \<Rightarrow> string \<Rightarrow> string \<Rightarrow> int prog" where
  "mount_base fstype frompath topath =
     (if has fstype TYPE_RFS then do {
        r \<leftarrow> mount_fs ''rfs'' TYPE_RFS_DEFAULT_MOUNT frompath topath;
        ret (if r \<noteq> 0 then 2 else 0)
      } else if has fstype TYPE_EXT2 then do {
        run_tool ''e2fsck'' [''fsck.ext2'', ''-p'', frompath];
        r \<leftarrow> mount_fs ''ext2'' TYPE_EXT2_DEFAULT_MOUNT frompath topath;
        ret (if r \<noteq> 0 then 3 else 0)
      } else if has fstype TYPE_EXT4 then do {
        run_tool ''e2fsck'' [''fsck.ext4'', ''-p'', frompath];
        r \<leftarrow> mount_fs ''ext4'' TYPE_EXT4_DEFAULT_MOUNT frompath topath;
        ret (if r \<noteq> 0 then 4 else 0)
      } else if has fstype TYPE_JFS then do {
        run_tool ''fsck_jfs'' [''fsck.jfs'', ''-p'', frompath];
        r \<leftarrow> mount_fs ''jfs'' TYPE_JFS_DEFAULT_MOUNT frompath topath;
        ret (if r \<noteq> 0 then 5 else 0)
      } else if has fstype TYPE_DIRECTORY then do {
        r \<leftarrow> busybox [''mount'', ''-o'', ''bind'', frompath, topath];
        ret (if r \<noteq> 0 then 32766 else 0)
      } else ret 0)"

definition mount_loop :: "int \<Rightarrow> string \<Rightarrow> string \<Rightarrow> string \<Rightarrow> int prog" where
  "mount_loop fstype part loopname mtname = do {
     let orig = ''/res/.orig_'' @ underscored mtname;
     let dev = ''/dev/block/'' @ loopname;
     r \<leftarrow> busybox [''losetup'', dev, orig @ ''/.extfs''];
     if r \<noteq> 0 then do {
       bb [''umount'', ''-f'', dev];
       whenM (has fstype TYPE_CRYPT) (luksClose part);
       ret 6
     } else do {
       run_tool ''e2fsck'' [''fsck.ext2'', ''-p'', dev];
       r \<leftarrow> mount_fs ''ext2'' TYPE_EXT2_DEFAULT_MOUNT dev (''/'' @ mtname);
       if r \<noteq> 0 then do {
         bb [''losetup'', ''-d'', dev];
         bb [''umount'', ''-f'', orig];
         whenM (has fstype TYPE_CRYPT) (luksClose part);
         ret 7
       } else ret 0
     } }"

definition check_and_mount ::
  "int \<Rightarrow> string \<Rightarrow> string \<Rightarrow> string \<Rightarrow> string option \<Rightarrow> (int \<times> string option) prog" where
  "check_and_mount fstype part loopname mtname secret =
     (if has fstype TYPE_FSTYPE_MASK then do {
        (opened, secret) \<leftarrow> (if has fstype TYPE_CRYPT then open_encrypted_partition part secret
                             else ret (True, secret));
        if \<not> opened then ret (1, secret)
        else do {
          let frompath = (if has fstype TYPE_CRYPT then mapper part else part);
          let topath = (if has fstype TYPE_LOOP then ''/res/.orig_'' @ underscored mtname else ''/'' @ mtname);
          (if has fstype TYPE_LOOP then do {
             bb [''mkdir'', topath];
             bb [''chmod'', ''700'', topath]
           } else do {
             st \<leftarrow> call (Fs (Stat topath));
             whenM (st \<noteq> 0) (bb [''mkdir'', topath])
           });
          r \<leftarrow> mount_base fstype frompath topath;
          if r \<noteq> 0 then do {
            whenM (has fstype TYPE_CRYPT \<and> r \<noteq> 32766) (luksClose part);
            ret (r, secret)
          } else if has fstype TYPE_LOOP then do {
            r \<leftarrow> mount_loop fstype part loopname mtname;
            ret (r, secret)
          } else ret (0, secret)
        }
      } else ret (-1, secret))"

section \<open>Formatting\<close>

text \<open>The loop that asks for a new password twice: \<open>(again, first)\<close> is its state.\<close>

definition new_secret_round :: "bool \<times> string \<Rightarrow> ((bool \<times> string) + string) prog" where
  "new_secret_round st = (case st of (again, ss) \<Rightarrow> do {
     key \<leftarrow> ui_wait_key;
     b \<leftarrow> gets build;
     let action = device_handle_key b key True;
     cmd \<leftarrow> gets console_cmd;
     if action = SELECT_ITEM \<and> cmd \<noteq> [] then
       if \<not> again then do {
         set_console_cmd [];
         ui_print (loc ''SECRET_PASSWORD_AGAIN'' []);
         ret (Inl (True, cmd))
       } else if ss = cmd then ret (Inr ss)
       else do {
         ui_print (loc ''SECRET_PASSWORD_MISMATCH'' []);
         set_console_cmd [];
         ret (Inl (False, ss))
       }
     else if action = GO_BACK then do { set_console_cmd []; ret (Inl (False, ss)) }
     else ret (Inl (again, ss)) })"

definition new_secret :: "string prog" where
  "new_secret = key_loop [] new_secret_round (False, [])"

definition mkfs :: "int \<Rightarrow> string \<Rightarrow> string \<Rightarrow> string \<Rightarrow> unit prog" where
  "mkfs fstype part fromname mtname = do {
     b \<leftarrow> gets build;
     if has fstype TYPE_RFS then
       do_call (Proc (System (
         if part = DATA_BLOCK_NAME b then ''/sbin/fat.format -v -F 32 -S 4096 -s 4 '' @ fromname
         else if has_datadata b \<and> part = DBDATA_BLOCK_NAME then ''/sbin/fat.format -v -F 16 -S 4096 -s 1 '' @ fromname
         else if part = CACHE_BLOCK_NAME b then ''/sbin/fat.format -v -F 16 -S 4096 -s 1 '' @ fromname
         else if part = SYSTEM_BLOCK_NAME b then ''/sbin/fat.format -v -F 32 -S 4096 -s 1 '' @ fromname
         else ''/sbin/fat.format -v '' @ fromname)))
     else if has fstype TYPE_EXT2 then
       run_tool ''mke2fs'' ([''mkfs.ext2'', ''-L'', mtname, ''-b'', if part = DATA_BLOCK_NAME b then ''4096'' else ''1024'',
         ''-m'', ''0'', ''-F'', fromname])
     else if has fstype TYPE_EXT4 then
       run_tool ''mke2fs'' (
         if part = DATA_BLOCK_NAME b then [''mkfs.ext4'', ''-L'', mtname, ''-b'', ''4096'', ''-m'', ''0'', ''-F'', fromname]
         else [''mkfs.ext4'', ''-L'', mtname, ''-b'', ''1024'', ''-J'', ''size=4'', ''-m'', ''0'', ''-F'', fromname])
     else if has fstype TYPE_JFS then run_tool ''mkfs_jfs'' [''mkfs.jfs'', ''-q'', ''-L'', mtname, fromname]
     else if has fstype TYPE_DIRECTORY then do {
       bb [''rm'', ''-rf'', fromname];
       bb [''mkdir'', fromname]
     } else ret () }"

definition mkloop :: "int \<Rightarrow> string \<Rightarrow> string \<Rightarrow> string \<Rightarrow> string \<Rightarrow> unit prog" where
  "mkloop fstype part fromname mtname ss = do {
     b \<leftarrow> gets build;
     bb [''mkdir'', ''/res/.tmp''];
     bb [''chmod'', ''700'', ''/res/.tmp''];
     (m, _) \<leftarrow> check_and_mount (fstype AND TYPE_FSTYPE_MASK) fromname ''loop0'' ''res/.tmp'' (Some ss);
     whenM (m = 0) (do {
       let loopsize = (if part = DATA_BLOCK_NAME b then BLOCK_DATA_LOOP_SIZE
                       else if has_datadata b \<and> part = DBDATA_BLOCK_NAME then BLOCK_DBDATA_LOOP_SIZE
                       else if part = CACHE_BLOCK_NAME b then BLOCK_CACHE_LOOP_SIZE else 0);
       whenM (loopsize \<noteq> 0) (do {
         bb [''touch'', ''/res/.tmp/.extfs''];
         do_call (Fs (Truncate ''/res/.tmp/.extfs'' loopsize));
         bb [''losetup'', ''/dev/block/loop0'', ''/res/.tmp/.extfs''];
         run_tool ''mke2fs'' [''mkfs.ext2'', ''-L'', mtname, ''-b'', ''4096'', ''-m'', ''0'', ''-F'', ''/dev/block/loop0''];
         bb [''losetup'', ''-d'', ''/dev/block/loop0'']
       });
       bb [''umount'', ''-f'', ''/res/.tmp/.extfs''];
       bb [''umount'', ''-f'', ''/res/.tmp'']
     });
     bb [''rm'', ''-rf'', ''/res/.tmp''] }"

definition filesystem_format ::
  "int \<Rightarrow> string \<Rightarrow> string \<Rightarrow> string option \<Rightarrow> (int \<times> string option) prog" where
  "filesystem_format fstype part mtname secret = do {
     (ok, ss, secret) \<leftarrow>
       (if has fstype TYPE_CRYPT then do {
          (ss, secret) \<leftarrow> (case secret of
              Some p \<Rightarrow> if p \<noteq> [] then ret (p, secret)
                 else do { was \<leftarrow> secret_screen_on (loc ''SECRET_ENTER_PASS'' []); ss \<leftarrow> new_secret; secret_screen_off was;
                           ret (ss, Some ss) }
            | None \<Rightarrow> do { was \<leftarrow> secret_screen_on (loc ''SECRET_ENTER_PASS'' []); ss \<leftarrow> new_secret; secret_screen_off was;
                          ret (ss, None) });
          _ \<leftarrow> luksFormat part ss;
          (ok, ss') \<leftarrow> open_encrypted_partition part (Some ss);
          ret (ok, case ss' of Some p \<Rightarrow> p | None \<Rightarrow> ss, secret)
        } else ret (True, [], secret));
     if \<not> ok then ret (0, secret)
     else do {
       let fromname = (if has fstype TYPE_CRYPT then mapper part else part);
       mkfs fstype part fromname mtname;
       whenM (has fstype TYPE_LOOP) (mkloop fstype part fromname mtname ss);
       whenM (has fstype TYPE_CRYPT) (luksClose part);
       ret (fstype, secret)
     } }"

definition create_items :: "bool \<Rightarrow> string list" where
  "create_items fm = map (\<lambda>n. loc n []) ([''CREATE_PARTITION_RFS'', ''CREATE_PARTITION_EXT2'', ''CREATE_PARTITION_EXT4'',
     ''CREATE_PARTITION_JFS'', ''CREATE_PARTITION_NONE''] @ (if fm then [''CREATE_PARTITION_FM''] else []))"

text \<open>\<open>filesystem_create\<close>: its call of itself after the file manager is another round.\<close>

definition create_menu :: "string \<Rightarrow> bool \<Rightarrow> int prog" where
  "create_menu part fm = key_loop (-1) (\<lambda>_. do {
     c \<leftarrow> get_menu_selection [loc ''CREATE_PARTITION_HEADER'' [part]] (create_items fm) False;
     ret (if c < 0 then Inl () else Inr c) }) ()"

definition create_round :: "string \<Rightarrow> string \<Rightarrow> unit \<Rightarrow> (unit + int) prog" where
  "create_round part label _ = do {
     was_initialized \<leftarrow> gets ui_has_initialized;
     whenM (\<not> was_initialized) ui_init;
     v \<leftarrow> get_conf_def ''preinit.allowfm'' ''0'';
     chosen_item \<leftarrow> create_menu part (v = ''1'');
     if chosen_item = 5 then do {
       do_call (Hook ''file_manager'');
       whenM (\<not> was_initialized) ui_done;
       ret (Inl ())
     } else do {
       let ty = (if chosen_item = 0 then TYPE_RFS else if chosen_item = 1 then TYPE_EXT2
                 else if chosen_item = 2 then TYPE_EXT4 else if chosen_item = 3 then TYPE_JFS else 0);
       (fstype, _) \<leftarrow> (if ty \<noteq> 0 then filesystem_format ty part label None else ret (0, None));
       whenM (\<not> was_initialized) ui_done;
       ret (Inr fstype)
     } }"

definition filesystem_create :: "string \<Rightarrow> string \<Rightarrow> int prog" where
  "filesystem_create part label = key_loop 0 (create_round part label) ()"

section \<open>Mounting from the configuration\<close>

definition mount_from_config_or_autodetect ::
  "string \<Rightarrow> string \<Rightarrow> string \<Rightarrow> string \<Rightarrow> string option \<Rightarrow> (int \<times> string option) prog" where
  "mount_from_config_or_autodetect keyname part loopname mtname secret = do {
     v \<leftarrow> get_conf_def keyname ''0'';
     let fstype = (case scan_int v of Some i \<Rightarrow> i | None \<Rightarrow> 0);
     (res, secret) \<leftarrow> (if has fstype TYPE_FSTYPE_MASK then check_and_mount fstype part loopname mtname secret
                       else ret (-1, secret));
     if res = 0 then ret (fstype, secret)
     else do {
       fstype \<leftarrow> filesystem_check part;
       fstype \<leftarrow> (if \<not> has fstype TYPE_FSTYPE_MASK then filesystem_create part mtname else ret fstype);
       if has fstype TYPE_FSTYPE_MASK then do {
         _ \<leftarrow> set_conf keyname (Some (dec_int fstype));
         (res, secret) \<leftarrow> check_and_mount fstype part loopname mtname secret;
         ret (if res = 0 then fstype else 0, secret)
       } else ret (0, secret)
     } }"

definition unmount_names :: "build_opts \<Rightarrow> string \<Rightarrow> (string \<times> string) option" where
  "unmount_names b part =
     (if part = ''/system'' then Some (''/dev/block/loop4'', SYSTEM_BLOCK_NAME b)
      else if part = ''/tmp/sys'' then Some (''/dev/block/loop4'', SYSTEM_BLOCK_NAME b)
      else if part = ''/cache'' then Some (''/dev/block/loop1'', CACHE_BLOCK_NAME b)
      else if part = ''/data'' then Some (''/dev/block/loop2'', DATA_BLOCK_NAME b)
      else if has_datadata b \<and> part = ''/dbdata'' then Some (''/dev/block/loop3'', DBDATA_BLOCK_NAME)
      else if part = ''/efs'' then Some (''/dev/block/loop4'', EFS_BLOCK_NAME b)
      else None)"

definition unmount_filesystem :: "string \<Rightarrow> int prog" where
  "unmount_filesystem part = do {
     b \<leftarrow> gets build;
     case unmount_names b part of
       Some (loopname, blockname) \<Rightarrow> do {
         bb [''umount'', ''-f'', loopname];
         bb [''losetup'', ''-d'', loopname];
         bb [''umount'', ''-f'', blockname];
         bb [''umount'', ''-f'', mapper blockname];
         luksClose blockname;
         ret 0 }
     | None \<Rightarrow> ret (-1) }"

section \<open>What these programs touch\<close>

lemma emits_tool [emits_intros]: "P (Proc (Tool t as)) \<Longrightarrow> emits P (tool t as)"
  by (simp add: tool_def emits_call)

lemma emits_run_tool [emits_intros]: "P (Proc (Tool t as)) \<Longrightarrow> emits P (run_tool t as)"
  by (simp add: run_tool_def emits_do_call)

lemma emits_bb [emits_intros]: "P (Proc (Tool ''busybox'' as)) \<Longrightarrow> emits P (bb as)"
  by (simp add: bb_def emits_run_tool)

lemma emits_mount_fs [emits_intros]:
  "P (Proc (Tool ''busybox'' [''mount'', ''-t'', ty, ''-o'', opts, from, to])) \<Longrightarrow> emits P (mount_fs ty opts from to)"
  by (simp add: mount_fs_def emits_busybox)

lemma emits_luksClose [emits_intros]:
  "P (Proc (Tool ''cryptsetup'' [''cryptsetup'', ''luksClose'', secname p])) \<Longrightarrow> emits P (luksClose p)"
  by (simp add: luksClose_def emits_run_tool)

text \<open>Calls that cannot be the closing of an encrypted partition.\<close>

fun closes_luks :: "ext_call \<Rightarrow> bool" where
  "closes_luks (Proc (Tool t as)) \<longleftrightarrow> t = ''cryptsetup'' \<and> length as = 3 \<and> as ! 1 = ''luksClose''"
| "closes_luks c \<longleftrightarrow> False"

definition fs_keep_open :: "ext_call \<Rightarrow> bool" where
  "fs_keep_open c \<longleftrightarrow> fs_level c \<and> \<not> closes_luks c"

lemma ui_keep_open: "ui_call c \<Longrightarrow> fs_keep_open c"
  by (cases c rule: ui_call.cases) (auto simp: fs_keep_open_def)

lemma emits_is_encrypted_partition: "emits fs_keep_open (is_encrypted_partition p)"
  unfolding is_encrypted_partition_def by (intro emits_intros) (auto simp: fs_keep_open_def)

lemma emits_luksOpen: "emits fs_keep_open (luksOpen p t)"
  unfolding luksOpen_def by (intro emits_intros) (auto simp: fs_keep_open_def)

lemma emits_luksFormat: "emits fs_keep_open (luksFormat p t)"
  unfolding luksFormat_def by (intro emits_intros) (auto simp: fs_keep_open_def)

lemma emits_secret_screen_on: "emits fs_keep_open (secret_screen_on t)"
  unfolding secret_screen_on_def by (intro emits_intros) (auto intro: ui_keep_open)

lemma emits_secret_screen_off: "emits fs_keep_open (secret_screen_off w)"
  unfolding secret_screen_off_def by (intro emits_intros) (auto intro: ui_keep_open)

lemma emits_ask_secret: "emits fs_keep_open (ask_secret p)"
  unfolding ask_secret_def Let_def by (intro emits_intros emits_luksOpen) (auto intro: ui_keep_open)

lemma emits_open_encrypted_keep: "emits fs_keep_open (open_encrypted_partition p t)"
  unfolding open_encrypted_partition_def
  by (intro emits_intros emits_is_encrypted_partition emits_luksOpen emits_secret_screen_on emits_secret_screen_off
      emits_ask_secret) (auto simp: fs_keep_open_def)

lemma emits_any_exists: "emits fs_keep_open (any_exists ps)"
  by (induction ps) (auto intro!: emits_intros simp: fs_keep_open_def)

lemma emits_detect: "emits fs_keep_open (detect p)"
  unfolding detect_def detect_rfs_def
  by (intro emits_intros emits_any_exists) (auto simp: fs_keep_open_def)

lemma gives_detect: "gives {TYPE_DIRECTORY, TYPE_EXT2, TYPE_EXT4, TYPE_RFS, TYPE_RFS OR TYPE_RFS_BAD, TYPE_JFS, 0} (detect p)"
  unfolding detect_def detect_rfs_def by (intro wp) auto

lemma detect_not_crypt: "\<not> has (result (detect p) s) TYPE_CRYPT"
  using givesD [OF gives_detect, of p s] by (auto simp: has_def fs_types)

lemma emits_probe: "emits fs_keep_open (probe p c m)"
  unfolding probe_def
  by (rule emits_bind_result [OF emits_detect, of _ "{t. \<not> has t TYPE_CRYPT}"])
     (simp add: detect_not_crypt, intro emits_intros, auto simp: fs_keep_open_def)

lemma emits_filesystem_check_keep: "emits fs_keep_open (filesystem_check p)"
  unfolding filesystem_check_def
  by (intro emits_intros emits_is_encrypted_partition emits_open_encrypted_keep emits_probe)
     (auto simp: fs_keep_open_def)

lemma keep_fs_level: "emits fs_keep_open m \<Longrightarrow> (\<And>c. fs_level c \<Longrightarrow> P c) \<Longrightarrow> emits P m"
  by (erule emits_mono) (simp add: fs_keep_open_def)

lemmas emits_fs_simple = emits_is_encrypted_partition emits_luksOpen emits_luksFormat emits_secret_screen_on
  emits_secret_screen_off emits_ask_secret emits_open_encrypted_keep emits_filesystem_check_keep

lemmas emits_fs_level [emits_intros] = emits_fs_simple [THEN keep_fs_level]

lemma emits_check_and_mount [emits_intros]:
  "(\<And>c. fs_level c \<Longrightarrow> P c) \<Longrightarrow> emits P (check_and_mount t p l m sec)"
  unfolding check_and_mount_def mount_base_def mount_loop_def Let_def by (intro emits_intros) simp_all

lemma emits_mkfs [emits_intros]: "(\<And>c. fs_level c \<Longrightarrow> P c) \<Longrightarrow> emits P (mkfs t p f m)"
  unfolding mkfs_def by (intro emits_intros) simp_all

lemma emits_mkloop [emits_intros]: "(\<And>c. fs_level c \<Longrightarrow> P c) \<Longrightarrow> emits P (mkloop t p f m ss)"
  unfolding mkloop_def Let_def by (intro emits_intros) simp_all

lemma emits_new_secret [emits_intros]: "(\<And>c. fs_level c \<Longrightarrow> P c) \<Longrightarrow> emits P new_secret"
  unfolding new_secret_def new_secret_round_def Let_def by (intro emits_intros) simp_all

lemma emits_filesystem_format [emits_intros]:
  "(\<And>c. fs_level c \<Longrightarrow> P c) \<Longrightarrow> emits P (filesystem_format t p m sec)"
  unfolding filesystem_format_def Let_def by (intro emits_intros) simp_all

lemma emits_filesystem_create [emits_intros]: "(\<And>c. fs_level c \<Longrightarrow> P c) \<Longrightarrow> emits P (filesystem_create p l)"
  unfolding filesystem_create_def create_round_def create_menu_def Let_def by (intro emits_intros) simp_all

lemma emits_mount_from_config [emits_intros]:
  "(\<And>c. fs_level c \<Longrightarrow> P c) \<Longrightarrow> emits P (mount_from_config_or_autodetect k p l m sec)"
  unfolding mount_from_config_or_autodetect_def Let_def by (intro emits_intros) simp_all

lemma emits_unmount_filesystem [emits_intros]: "(\<And>c. fs_level c \<Longrightarrow> P c) \<Longrightarrow> emits P (unmount_filesystem p)"
  unfolding unmount_filesystem_def by (intro emits_intros) simp_all

section \<open>Properties\<close>

text \<open>A postcondition that does not depend on what ran before.\<close>

lemma hoare_last: "(\<And>x. hoare (\<lambda>_. True) (f x) Q) \<Longrightarrow> hoare (\<lambda>_. True) (m \<bind> f) Q"
  by (rule hoare_bind [where R = "\<lambda>_ _. True"]) (auto simp: hoare_def)

definition luks_closed :: "string \<Rightarrow> world \<Rightarrow> bool" where
  "luks_closed p s \<longleftrightarrow> stopped s \<or>
     last (trace s) = Proc (Tool ''cryptsetup'' [''cryptsetup'', ''luksClose'', secname p])"

lemma hoare_luksClose:
  "(\<And>s. luks_closed p s \<Longrightarrow> Q x s) \<Longrightarrow> hoare (\<lambda>_. True) (do { luksClose p; ret x }) Q"
  by (auto simp: hoare_def luksClose_def run_tool_def luks_closed_def run_simps)

lemma hoare_close_when:
  "(\<And>s. b \<Longrightarrow> luks_closed p s \<Longrightarrow> Q x s) \<Longrightarrow> (\<And>s. \<not> b \<Longrightarrow> Q x s) \<Longrightarrow>
   hoare (\<lambda>_. True) (do { whenM b (luksClose p); ret x }) Q"
  by (cases b) (auto simp: whenM_def intro: hoare_luksClose hoare_ret)

lemma mount_loop_closed:
  "has t TYPE_CRYPT \<Longrightarrow> hoare (\<lambda>_. True) (mount_loop t p l m) (\<lambda>r s. r \<noteq> 0 \<longrightarrow> luks_closed p s)"
  unfolding mount_loop_def Let_def
  by (rule hoare_if | (rule hoare_close_when; simp) | (rule hoare_ret; simp) | rule hoare_last)+

lemma check_and_mount_hoare:
  assumes c: "has t TYPE_CRYPT"
  shows "hoare (\<lambda>_. True) (check_and_mount t p l m sec)
    (\<lambda>r s. fst r \<notin> {0, 1, -1, 32766} \<longrightarrow> luks_closed p s)"
proof -
  have loop: "hoare (\<lambda>_. True) (do { r \<leftarrow> mount_loop t p l m; ret (r, sec) })
      (\<lambda>r s. fst r \<notin> {0, 1, -1, 32766} \<longrightarrow> luks_closed p s)" for sec :: "string option"
    by (rule hoare_bind [OF mount_loop_closed [OF c]]) (auto simp: hoare_def)
  have pair: "(\<And>a b. hoare (\<lambda>_. True) (f a b) Q) \<Longrightarrow> hoare (\<lambda>_. True) (case x of (a, b) \<Rightarrow> f a b) Q"
    for f :: "bool \<Rightarrow> string option \<Rightarrow> (int \<times> string option) prog" and Q x
    by (cases x) simp
  show ?thesis
    unfolding check_and_mount_def Let_def
    by (rule loop hoare_if pair | (rule hoare_close_when; simp add: c) | (rule hoare_ret; simp) | rule hoare_last)+
qed

text \<open>
  Nothing is left open on the error paths of an encrypted mount. When
  \<open>check_and_mount\<close> of an encrypted partition ends with one of its errors 2 to 7, the last
  thing it did was to close the encrypted partition.
\<close>

theorem check_and_mount_closes:
  assumes "has fstype TYPE_CRYPT" and "\<not> stopped (exec (check_and_mount fstype part loopname mtname secret) s)"
    and "fst (result (check_and_mount fstype part loopname mtname secret) s) \<notin> {0, 1, -1, 32766}"
  shows "last (trace (exec (check_and_mount fstype part loopname mtname secret) s)) =
    Proc (Tool ''cryptsetup'' [''cryptsetup'', ''luksClose'', secname part])"
  using hoareD [OF check_and_mount_hoare [OF assms(1), of part loopname mtname secret], of s] assms(2,3)
  by (simp add: luks_closed_def)

text \<open>A device on which mounting fails and everything else succeeds.\<close>

definition no_mounts :: "ext_call list \<Rightarrow> ext_call \<Rightarrow> reply" where
  "no_mounts h c = (case c of Proc (Tool t as) \<Rightarrow> if as \<noteq> [] \<and> hd as = ''mount'' then Reply 1 [] [] else Reply 0 [] []
     | _ \<Rightarrow> Reply 0 [] [])"

theorem check_and_mount_closes_witness:
  "last (trace (exec (check_and_mount 132 ''/dev/block/stl11'' ''loop1'' ''cache'' (Some ''pw'')) (sample_store\<lparr>env := no_mounts\<rparr>))) =
    Proc (Tool ''cryptsetup'' [''cryptsetup'', ''luksClose'', secname ''/dev/block/stl11''])"
proof (rule check_and_mount_closes)
  show "has 132 TYPE_CRYPT" by (simp add: has_def fs_types)
  have *: "has 132 TYPE_FSTYPE_MASK" "has 132 TYPE_CRYPT" "\<not> has 132 TYPE_LOOP" "\<not> has 132 TYPE_RFS" "\<not> has 132 TYPE_EXT2"
    "has 132 TYPE_EXT4" by (simp_all add: has_def fs_types)
  show "\<not> stopped (exec (check_and_mount 132 ''/dev/block/stl11'' ''loop1'' ''cache'' (Some ''pw'')) (sample_store\<lparr>env := no_mounts\<rparr>))"
    "fst (result (check_and_mount 132 ''/dev/block/stl11'' ''loop1'' ''cache'' (Some ''pw'')) (sample_store\<lparr>env := no_mounts\<rparr>)) \<notin> {0, 1, -1, 32766}"
    by (simp_all add: * check_and_mount_def mount_base_def mount_fs_def open_encrypted_partition_def is_encrypted_partition_def
        luksOpen_def luksClose_def tool_def run_tool_def run_simps sample_store_def boot_state_def no_mounts_def TYPE_CRYPT_def
        Let_def bb_def)
qed

text \<open>
  A mount that is not undone. When the loop device of an unencrypted partition
  cannot be set up, \<open>check_and_mount\<close> tries to unmount the loop device, and nothing else:
  the base filesystem it has just mounted on \<open>/res/.orig_...\<close> stays mounted.
\<close>

theorem losetup_failure_keeps_base:
  assumes "\<not> stopped s" and "\<not> has fstype TYPE_CRYPT"
    and "rc (env s (trace s) (Proc (Tool ''busybox'' [''losetup'', ''/dev/block/'' @ loopname, ''/res/.orig_'' @ underscored mtname @ ''/.extfs'']))) \<noteq> 0"
  shows "result (mount_loop fstype part loopname mtname) s = 6
    \<and> trace (exec (mount_loop fstype part loopname mtname) s) = trace s @
       [Proc (Tool ''busybox'' [''losetup'', ''/dev/block/'' @ loopname, ''/res/.orig_'' @ underscored mtname @ ''/.extfs'']),
        Proc (Tool ''busybox'' [''umount'', ''-f'', ''/dev/block/'' @ loopname])]"
  using assms by (simp add: mount_loop_def bb_def run_tool_def run_simps Let_def)

definition no_losetup :: "ext_call list \<Rightarrow> ext_call \<Rightarrow> reply" where
  "no_losetup h c = (case c of Proc (Tool t as) \<Rightarrow> if as \<noteq> [] \<and> hd as = ''losetup'' then Reply 1 [] [] else Reply 0 [] []
     | _ \<Rightarrow> Reply 0 [] [])"

theorem losetup_failure_keeps_base_witness:
  "result (mount_loop 260 ''/dev/block/stl11'' ''loop1'' ''cache'') (sample_store\<lparr>env := no_losetup\<rparr>) = 6"
  using losetup_failure_keeps_base [of "sample_store\<lparr>env := no_losetup\<rparr>" 260 "''loop1''" "''cache''" "''/dev/block/stl11''"]
  by (simp add: sample_store_def boot_state_def no_losetup_def has_def fs_types)

text \<open>
  Autodetection does not close what it opened: whatever the outside answers, no call
  that \<open>filesystem_check\<close> makes closes an encrypted partition. Its test
  \<open>fstype&TYPE_CRYPT\<close> looks at the type found by mounting, which never has that flag.
\<close>

theorem filesystem_check_never_closes:
  "\<not> list_ex closes_luks (drop (length (trace s)) (trace (exec (filesystem_check part) s)))"
proof -
  obtain t where "trace (exec (filesystem_check part) s) = trace s @ t" "list_all fs_keep_open t"
    using emitsD [OF emits_filesystem_check_keep] by blast
  then show ?thesis by (auto simp: list_ex_iff list_all_iff fs_keep_open_def)
qed

text \<open>
  What mounting from the configuration returns: 0, or a type with a filesystem in
  it; never a set of flags alone.
\<close>

theorem mount_from_config_type:
  "fst (result (mount_from_config_or_autodetect keyname part loopname mtname secret) s) = 0
    \<or> has (fst (result (mount_from_config_or_autodetect keyname part loopname mtname secret) s)) TYPE_FSTYPE_MASK"
proof -
  have "gives {t. fst t = 0 \<or> has (fst t) TYPE_FSTYPE_MASK} (mount_from_config_or_autodetect keyname part loopname mtname secret)"
    unfolding mount_from_config_or_autodetect_def Let_def
    by (auto simp: gives_def split: prod.splits option.splits if_splits)
  from givesD [OF this] show ?thesis by simp
qed

end
