(* ===== verification/Roots.thy ===== *)
theory Roots
  imports Filesystems
begin

text \<open>
  The first half of \<open>roots.c\<close>, and \<open>format_non_mtd_device\<close> of \<open>extendedcommands.c\<close>: the
  names of roots (\<open>SYSTEM:lib\<close>) and the paths behind them, mounting, unmounting and
  formatting by root, and the package root. A zip archive and an MTD partition are known by
  their names; a lookup outside that finds nothing answers a negative number. Mount flags,
  \<open>LOGW\<close> and the text of \<open>strerror\<close> are left out.
\<close>

section \<open>Names of roots\<close>

definition lookup_root :: "RootInfo list \<Rightarrow> string \<Rightarrow> RootInfo option" where
  "lookup_root table root_path = (case split_at_char CHR '':'' root_path of
     None \<Rightarrow> None
   | Some (n, _) \<Rightarrow> find (\<lambda>info. take (length n + 1) (r_name info) = take (length n + 1) root_path) table)"

definition get_root_info_for_path :: "build_opts \<Rightarrow> string \<Rightarrow> RootInfo option" where
  "get_root_info_for_path b root_path = lookup_root (g_roots b) root_path"

text \<open>
  What the code relies on of a table of roots: every name ends in its only colon, and no
  name is there twice. Then a lookup finds exactly the root named.
\<close>

definition root_name :: "string \<Rightarrow> bool" where
  "root_name n \<longleftrightarrow> n \<noteq> [] \<and> last n = CHR '':'' \<and> CHR '':'' \<notin> set (butlast n)"

lemma take_colon: "take (length n + 1) (m @ [c]) = n @ [c] \<Longrightarrow> c \<notin> set m \<Longrightarrow> m = n"
proof (cases "length n < length m")
  case True
  moreover assume "take (length n + 1) (m @ [c]) = n @ [c]"
  ultimately have "c \<in> set (take (length n + 1) m)" by simp
  then have "c \<in> set m" by (rule in_set_takeD)
  moreover assume "c \<notin> set m"
  ultimately show ?thesis by contradiction
qed simp

locale root_table =
  fixes table :: "RootInfo list"
  assumes names: "list_all (root_name \<circ> r_name) table"
    and distinct_names: "distinct (map r_name table)"
begin

lemma name_colon: "info \<in> set table \<Longrightarrow> \<exists>n. r_name info = n @ '':'' \<and> CHR '':'' \<notin> set n"
  using names append_butlast_last_id [of "r_name info"]
  by (auto simp: list_all_iff root_name_def intro!: exI [of _ "butlast (r_name info)"])

lemma lookup_sound:
  assumes "lookup_root table p = Some info"
  shows "info \<in> set table" and "\<exists>rest. p = r_name info @ rest"
proof -
  obtain n r where n: "split_at_char CHR '':'' p = Some (n, r)"
    and f: "find (\<lambda>info. take (length n + 1) (r_name info) = take (length n + 1) p) table = Some info"
    using assms by (auto simp: lookup_root_def split: option.splits)
  show i: "info \<in> set table" using f by (auto simp: find_Some_iff)
  have p: "p = n @ CHR '':'' # r" "CHR '':'' \<notin> set n" using n by (auto dest: split_at_char_Some)
  obtain m where m: "r_name info = m @ '':''" "CHR '':'' \<notin> set m" using name_colon [OF i] by blast
  have "take (length n + 1) (m @ '':'') = n @ '':''" using f p m by (auto simp: find_Some_iff)
  then have "m = n" by (rule take_colon [OF _ m(2)])
  then show "\<exists>rest. p = r_name info @ rest" using p m by auto
qed

lemma lookup_hit:
  assumes "info \<in> set table"
  shows "lookup_root table (r_name info @ rest) = Some info"
proof -
  obtain n where n: "r_name info = n @ '':''" "CHR '':'' \<notin> set n" using name_colon [OF assms] by blast
  have "lookup_root table (r_name info @ rest) \<noteq> None"
    using assms n by (simp add: lookup_root_def find_None_iff) (rule exI [of _ info], simp)
  then obtain j where j: "lookup_root table (r_name info @ rest) = Some j" by blast
  from lookup_sound [OF j] obtain r where r: "j \<in> set table" "r_name info @ rest = r_name j @ r" by blast
  obtain m where m: "r_name j = m @ '':''" "CHR '':'' \<notin> set m" using name_colon [OF r(1)] by blast
  have "split_at_char CHR '':'' (r_name info @ rest) = Some (n, rest)" using n by simp
  moreover have "split_at_char CHR '':'' (r_name j @ r) = Some (m, r)" using m by simp
  ultimately have "m = n" using r(2) by (metis option.inject prod.inject)
  then have "r_name j = r_name info" using n m by simp
  then show ?thesis using j r(1) assms distinct_names by (auto simp: distinct_map inj_on_def)
qed

end

lemma g_roots_names: "list_all (root_name \<circ> r_name) (g_roots b)"
  by (simp add: g_roots_def root_def root_name_def)

lemma g_roots_distinct: "distinct (map r_name (g_roots b))"
  by (simp add: g_roots_def root_def)

interpretation roots: root_table "g_roots b" for b
  by unfold_locales (rule g_roots_names, rule g_roots_distinct)

section \<open>Paths behind roots\<close>

definition register_package_root :: "string option \<Rightarrow> string \<Rightarrow> int prog" where
  "register_package_root package package_path = (case package of
     Some p \<Rightarrow> do {
       m \<leftarrow> call (Malloc (int (length package_path) + 1));
       if m = 0 then ret (-1)
       else do { upd (\<lambda>s. s\<lparr>g_package_path := Some package_path, g_package := Some p\<rparr>); ret 0 } }
   | None \<Rightarrow> do { upd (\<lambda>s. s\<lparr>g_package_path := None, g_package := None\<rparr>); ret 0 })"

definition is_package_root_path :: "build_opts \<Rightarrow> string \<Rightarrow> bool" where
  "is_package_root_path b root_path = (case get_root_info_for_path b root_path of
     Some info \<Rightarrow> r_filesystem info = Some G_package_file | None \<Rightarrow> False)"

text \<open>The path inside the package, and the package.\<close>

definition translate_package_root_path :: "string \<Rightarrow> nat \<Rightarrow> (string \<times> string option) option prog" where
  "translate_package_root_path root_path out_buf_len = do {
     b \<leftarrow> gets build;
     pkg \<leftarrow> gets g_package;
     ret (case get_root_info_for_path b root_path of
       None \<Rightarrow> None
     | Some info \<Rightarrow>
         if r_filesystem info \<noteq> Some G_package_file then None
         else (let rest = drop (length (r_name info)) root_path in
               if out_buf_len < length rest + 1 then None else Some (rest, pkg))) }"

definition translate_root_path :: "build_opts \<Rightarrow> string \<Rightarrow> nat \<Rightarrow> string option" where
  "translate_root_path b root_path out_buf_len =
     (if out_buf_len < 1 then None
      else case get_root_info_for_path b root_path of
        None \<Rightarrow> None
      | Some info \<Rightarrow> (case r_mount_point info of
          None \<Rightarrow> None
        | Some mp \<Rightarrow>
            (let rest = dropWhile (\<lambda>c. c = CHR ''/'') (drop (length (r_name info)) root_path) in
             if length mp + 1 + length rest + 1 > out_buf_len then None
             else Some ((if last mp \<noteq> CHR ''/'' then mp @ ''/'' else mp) @ rest))))"

definition PATH_MAX :: nat where "PATH_MAX = 4096"

section \<open>Mounting and unmounting by root\<close>

definition internal_root_mounted :: "RootInfo \<Rightarrow> int prog" where
  "internal_root_mounted info = (case r_mount_point info of
     None \<Rightarrow> ret (-1)
   | Some mp \<Rightarrow> do {
       r \<leftarrow> call (Vol ScanVolumes);
       if r < 0 then ret r
       else do { v \<leftarrow> call (Vol (FindVolume mp)); ret (if v \<ge> 0 then 0 else -1) } })"

definition is_root_path_mounted :: "string \<Rightarrow> int prog" where
  "is_root_path_mounted root_path = do {
     b \<leftarrow> gets build;
     case get_root_info_for_path b root_path of
       None \<Rightarrow> ret (-1)
     | Some info \<Rightarrow> do { r \<leftarrow> internal_root_mounted info; ret (if r \<ge> 0 then 1 else 0) } }"

text \<open>The marker strings read as the text \<open>@\<close>.\<close>

fun device_text :: "device \<Rightarrow> string" where
  "device_text (Block d) = d"
| "device_text _ = ''@''"

fun filesystem_text :: "filesystem \<Rightarrow> string" where
  "filesystem_text (Fsname f) = f"
| "filesystem_text _ = ''@''"

definition auto_names :: "build_opts \<Rightarrow> string \<Rightarrow> string \<times> string" where
  "auto_names b dev =
     (if dev = SYSTEM_BLOCK_NAME b then (''loop4'', ''system'')
      else if dev = CACHE_BLOCK_NAME b then (''loop1'', ''cache'')
      else if has_datadata b \<and> dev = DBDATA_BLOCK_NAME then (''loop3'', ''dbdata'')
      else if dev = DATA_BLOCK_NAME b then (''loop2'', ''data'')
      else (''loop5'', ''xxx''))"

definition mount_internal :: "string \<Rightarrow> string \<Rightarrow> filesystem \<Rightarrow> string option \<Rightarrow> int prog" where
  "mount_internal dev mount_point fs options =
     (if fs = G_auto then do {
        b \<leftarrow> gets build;
        let (loopname, mtname) = auto_names b dev;
        let keyname = ''fs.'' @ mtname @ ''.type'';
        (fstype, _) \<leftarrow> mount_from_config_or_autodetect keyname dev loopname mtname None;
        if has fstype TYPE_FSTYPE_MASK then ret 0
        else do {
          LOGE (''Couldn't mount autodetected filesystem. Parameters: '' @ keyname @ ''; '' @ loopname @ ''; '' @ mtname @ [LF]);
          ret (-1) }
      } else if filesystem_text fs \<noteq> ''auto'' \<and> options = None then
        call (Vol (Mount dev mount_point (filesystem_text fs) []))
      else call (Proc (System (''mount -t '' @ filesystem_text fs @ '' -o '' @
             (case options of None \<Rightarrow> ''noatime,nodiratime,nodev'' | Some os \<Rightarrow> os) @ '' '' @ dev @ '' '' @ mount_point))))"

definition mtd_mount_root :: "RootInfo \<Rightarrow> int prog" where
  "mtd_mount_root info = (case r_partition_name info of
     None \<Rightarrow> do { LOGE ''Partition name was NULL''; ret (-1) }
   | Some pn \<Rightarrow> do {
       do_call (Mtd MtdScan);
       p \<leftarrow> call (Mtd (MtdFind pn));
       if p < 0 then do { LOGE ''Partition was NULL''; ret (-1) }
       else call (Mtd (MtdMount pn (case r_mount_point info of None \<Rightarrow> [] | Some mp \<Rightarrow> mp)
              (case r_filesystem info of None \<Rightarrow> [] | Some fs \<Rightarrow> filesystem_text fs))) })"

definition null_text :: "string option \<Rightarrow> string" where
  "null_text t = (case t of None \<Rightarrow> ''(null)'' | Some x \<Rightarrow> x)"

definition mount_root :: "RootInfo \<Rightarrow> device \<Rightarrow> string \<Rightarrow> filesystem \<Rightarrow> int prog" where
  "mount_root info dev mp fs = do {
     do_call (Fs (Mkdir mp));
     r \<leftarrow> mount_internal (device_text dev) mp fs (r_filesystem_options info);
     if r = 0 then ret 0
     else case r_device2 info of
       None \<Rightarrow> do {
         LOGE (''Can't mount '' @ device_text dev @ '' to '' @ mp @ '' with parameters '' @ filesystem_text fs @ '' '' @
               null_text (r_filesystem_options info) @ [LF]);
         ret (-1) }
     | Some d2 \<Rightarrow> do {
         r \<leftarrow> call (Vol (Mount d2 mp (filesystem_text fs) []));
         if r \<noteq> 0 then do { LOGE (''Can't mount '' @ device_text dev @ '' (or '' @ d2 @ '')'' @ [LF]); ret (-1) }
         else ret 0 } }"

definition ensure_root_path_mounted :: "string \<Rightarrow> int prog" where
  "ensure_root_path_mounted root_path = do {
     b \<leftarrow> gets build;
     case get_root_info_for_path b root_path of
       None \<Rightarrow> do { LOGE ''No info found''; ret (-1) }
     | Some info \<Rightarrow> do {
         r \<leftarrow> internal_root_mounted info;
         if r \<ge> 0 then ret 0
         else if r_device info = Some G_mtd_device then mtd_mount_root info
         else case (r_device info, r_mount_point info, r_filesystem info) of
             (Some dev, Some mp, Some fs) \<Rightarrow>
               if fs = G_raw \<or> fs = G_package_file then do { LOGE ''INFO is WRONG''; ret (-1) }
               else mount_root info dev mp fs
           | _ \<Rightarrow> do { LOGE ''INFO is WRONG''; ret (-1) } } }"

definition ensure_root_path_unmounted :: "string \<Rightarrow> int prog" where
  "ensure_root_path_unmounted root_path = do {
     b \<leftarrow> gets build;
     case get_root_info_for_path b root_path of
       None \<Rightarrow> ret (-1)
     | Some info \<Rightarrow> (case r_mount_point info of
         None \<Rightarrow> ret 0
       | Some mp \<Rightarrow> do {
           r \<leftarrow> call (Vol ScanVolumes);
           if r < 0 then ret r
           else do {
             v \<leftarrow> call (Vol (FindVolume mp));
             if v < 0 then ret 0
             else do {
               r \<leftarrow> (if r_filesystem info = Some G_auto then unmount_filesystem mp else ret 0);
               if r \<noteq> 0 then call (Vol (UmountVolume mp)) else ret 0
             } } }) }"

section \<open>Flash partitions and formatting\<close>

text \<open>The name of the partition; a null pointer where a name is needed is a fault.\<close>

definition mtd_find :: "string option \<Rightarrow> string option prog" where
  "mtd_find pn = (case pn of
     None \<Rightarrow> do { fault; ret None }
   | Some n \<Rightarrow> do { do_call (Mtd MtdScan); p \<leftarrow> call (Mtd (MtdFind n)); ret (if p < 0 then None else Some n) })"

definition get_root_mtd_partition :: "string \<Rightarrow> string option prog" where
  "get_root_mtd_partition root_path = do {
     b \<leftarrow> gets build;
     case get_root_info_for_path b root_path of
       None \<Rightarrow> if has_mtd_cache b \<and> root_path = ''CACHE:'' then do { fault; ret None } else ret None
     | Some info \<Rightarrow>
         if (r_device info \<noteq> Some G_mtd_device \<or> r_partition_name info = None)
             \<and> \<not> (has_mtd_cache b \<and> root_path = ''CACHE:'') then ret None
         else mtd_find (r_partition_name info) }"

definition SDEXT_DEVICE :: string where "SDEXT_DEVICE = ''/dev/block/mmcblk0p2''"

text \<open>A path that was not translated is an uninitialised array: using it is a fault.\<close>

definition format_non_mtd_device :: "string \<Rightarrow> int prog" where
  "format_non_mtd_device r = do {
     st \<leftarrow> (if r = ''SDEXT:'' then call (Fs (Stat SDEXT_DEVICE)) else ret 0);
     if st \<noteq> 0 then do { ui_print (''No app2sd partition found. Skipping format of /sd-ext.'' @ [LF]); ret 0 }
     else do {
       b \<leftarrow> gets build;
       m \<leftarrow> ensure_root_path_mounted r;
       case translate_root_path b r PATH_MAX of
         None \<Rightarrow> do { fault; ret 0 }
       | Some path \<Rightarrow>
           if m \<noteq> 0 then do {
             ui_print (''Error mounting '' @ path @ ''!'' @ [LF]);
             ui_print (''Skipping format...'' @ [LF]);
             ret 0
           } else do {
             bb [''rm'', ''-rf'', path];
             bb [''mkdir'', path];
             _ \<leftarrow> ensure_root_path_unmounted r;
             ret 0
           } } }"

definition erase_mtd :: "string \<Rightarrow> int prog" where
  "erase_mtd pn = do {
     w \<leftarrow> call (Mtd (MtdWriteOpen pn));
     if w < 0 then ret (-1)
     else do {
       e \<leftarrow> call (Mtd (MtdEraseBlocks (-1)));
       if e = -1 then do { do_call (Mtd MtdWriteClose); ret (-1) }
       else do { c \<leftarrow> call (Mtd MtdWriteClose); ret (if c \<noteq> 0 then -1 else 0) } } }"

definition quoted :: "string \<Rightarrow> string" where
  "quoted t = CHR 0x22 # t @ [CHR 0x22]"

definition format_mmc :: "RootInfo \<Rightarrow> string \<Rightarrow> int prog" where
  "format_mmc info r = (case r_partition_name info of
     None \<Rightarrow> do { fault; ret (-1) }
   | Some pn \<Rightarrow> do {
       do_call (Mtd MmcScan);
       p \<leftarrow> call (Mtd (MmcFind pn));
       if p < 0 then do { LOGE (''format_root_device: can't find mmc partition '' @ quoted pn @ [LF]); ret (-1) }
       else do {
         whenM (r_filesystem info = Some (Fsname ''ext3'')) (do {
           f \<leftarrow> call (Mtd (MmcFormatExt3 pn));
           whenM (f \<noteq> 0) (LOGE ([LF] @ quoted pn @ '' wipe failed!'' @ [LF])) });
         format_non_mtd_device r } })"

definition format_root_device :: "string \<Rightarrow> int prog" where
  "format_root_device r = do {
     b \<leftarrow> gets build;
     case get_root_info_for_path b r of
       None \<Rightarrow> ret (-1)
     | Some info \<Rightarrow>
         if r_device info = None then ret (-1)
         else if r_device info = Some G_mtd_device then do {
           u \<leftarrow> (if r_mount_point info \<noteq> None then ensure_root_path_unmounted r else ret 0);
           if u < 0 then ret u
           else do {
             p \<leftarrow> mtd_find (r_partition_name info);
             case p of
               None \<Rightarrow> ret (-1)
             | Some pn \<Rightarrow>
                 (case r_filesystem info of
                    None \<Rightarrow> do { fault; ret (-1) }
                  | Some fs \<Rightarrow> if fs = G_raw \<or> fs = Fsname ''yaffs2'' then erase_mtd pn else format_non_mtd_device r)
           }
         } else if r_device info = Some G_mmc_device then format_mmc info r
         else format_non_mtd_device r }"

section \<open>What these programs touch\<close>

lemma emits_mount_internal [emits_intros]:
  "(\<And>c. fs_level c \<Longrightarrow> P c) \<Longrightarrow> emits P (mount_internal d mp fs os)"
  unfolding mount_internal_def Let_def by (intro emits_intros) simp_all

lemma emits_internal_root_mounted [emits_intros]:
  "(\<And>c. fs_level c \<Longrightarrow> P c) \<Longrightarrow> emits P (internal_root_mounted i)"
  unfolding internal_root_mounted_def by (intro emits_intros) simp_all

lemma emits_is_root_path_mounted [emits_intros]:
  "(\<And>c. fs_level c \<Longrightarrow> P c) \<Longrightarrow> emits P (is_root_path_mounted r)"
  unfolding is_root_path_mounted_def by (intro emits_intros) simp_all

lemma emits_ensure_root_path_mounted [emits_intros]:
  "(\<And>c. mount_level c \<Longrightarrow> P c) \<Longrightarrow> emits P (ensure_root_path_mounted r)"
  unfolding ensure_root_path_mounted_def mtd_mount_root_def mount_root_def by (intro emits_intros) simp_all

lemma emits_ensure_root_path_unmounted [emits_intros]:
  "(\<And>c. fs_level c \<Longrightarrow> P c) \<Longrightarrow> emits P (ensure_root_path_unmounted r)"
  unfolding ensure_root_path_unmounted_def by (intro emits_intros) simp_all

lemma emits_mtd_find [emits_intros]: "(\<And>c. mount_level c \<Longrightarrow> P c) \<Longrightarrow> emits P (mtd_find r)"
  unfolding mtd_find_def by (intro emits_intros) simp_all

lemma emits_get_root_mtd_partition [emits_intros]:
  "(\<And>c. mount_level c \<Longrightarrow> P c) \<Longrightarrow> emits P (get_root_mtd_partition r)"
  unfolding get_root_mtd_partition_def by (intro emits_intros) simp_all

lemma emits_format_non_mtd_device [emits_intros]:
  "(\<And>c. mount_level c \<Longrightarrow> P c) \<Longrightarrow> emits P (format_non_mtd_device r)"
  unfolding format_non_mtd_device_def by (intro emits_intros) simp_all

lemma emits_register_package_root [emits_intros]:
  "(\<And>c. ui_call c \<Longrightarrow> P c) \<Longrightarrow> emits P (register_package_root p q)"
  unfolding register_package_root_def by (intro emits_intros) simp_all

lemma emits_translate_package_root_path [emits_intros]: "emits P (translate_package_root_path r n)"
  unfolding translate_package_root_path_def by (intro emits_intros)

text \<open>Formatting may erase a partition and format a memory card, but never writes data into flash.\<close>

fun erase_level :: "ext_call \<Rightarrow> bool" where
  "erase_level (Mtd (MtdWriteOpen p)) = True"
| "erase_level (Mtd (MtdEraseBlocks n)) = (n = -1)"
| "erase_level (Mtd MtdWriteClose) = True"
| "erase_level (Mtd MmcScan) = True"
| "erase_level (Mtd (MmcFind p)) = True"
| "erase_level (Mtd (MmcFormatExt3 p)) = True"
| "erase_level c = mount_level c"

lemma mount_erase_level [simp]: "mount_level c \<Longrightarrow> erase_level c"
  by (cases c rule: erase_level.cases) auto

lemma emits_format_root_device [emits_intros]:
  "(\<And>c. erase_level c \<Longrightarrow> P c) \<Longrightarrow> emits P (format_root_device r)"
  unfolding format_root_device_def format_mmc_def erase_mtd_def by (intro emits_intros) simp_all

section \<open>Properties\<close>

lemma root_info: "info \<in> set (g_roots b) \<Longrightarrow> get_root_info_for_path b (r_name info @ rest) = Some info"
  by (simp add: get_root_info_for_path_def roots.lookup_hit)

lemma root_info_sound:
  "get_root_info_for_path b p = Some info \<Longrightarrow> info \<in> set (g_roots b) \<and> (\<exists>rest. p = r_name info @ rest)"
  unfolding get_root_info_for_path_def using roots.lookup_sound by blast

lemma mount_points_not_empty: "info \<in> set (g_roots b) \<Longrightarrow> r_mount_point info = Some mp \<Longrightarrow> mp \<noteq> []"
  by (auto simp: g_roots_def root_def split: if_splits)

text \<open>The path a root path stands for: the mount point, one slash, and the rest without leading slashes.\<close>

definition root_path_of :: "string \<Rightarrow> string \<Rightarrow> string" where
  "root_path_of mp rest = (if last mp = CHR ''/'' then mp else mp @ ''/'') @ dropWhile (\<lambda>c. c = CHR ''/'') rest"

text \<open>
  C19. Translation of a root path. A path that starts with the name of a root with a mount
  point is translated to that mount point, a slash and the rest; the result and its null
  byte fit the buffer given. It is refused only when the buffer is smaller than the mount
  point, the rest, a slash and a null byte together.
\<close>

theorem translate_root_path_correct:
  assumes "info \<in> set (g_roots b)" and "r_mount_point info = Some mp"
  shows "translate_root_path b (r_name info @ rest) n =
      (if length mp + length (dropWhile (\<lambda>c. c = CHR ''/'') rest) + 2 \<le> n then Some (root_path_of mp rest) else None)
    \<and> (\<forall>p. translate_root_path b (r_name info @ rest) n = Some p \<longrightarrow> length p + 1 \<le> n)"
  using root_info [OF assms(1)] assms(2) by (auto simp: translate_root_path_def root_path_of_def Let_def)

theorem translate_root_path_correct_witness:
  "translate_root_path (build sample_store) ''SYSTEM://lib/x'' 14 = Some ''/system/lib/x''
    \<and> translate_root_path (build sample_store) ''SYSTEM://lib/x'' 13 = None"
proof -
  let ?i = "root ''SYSTEM:'' (Some (Block ''/dev/block/stl9'')) (Some ''system'') (Some ''/system'') (Some G_auto) None"
  have "?i \<in> set (g_roots (build sample_store))"
    by (simp add: g_roots_def sample_store_def boot_state_def block_names)
  from translate_root_path_correct [OF this, of "''/system''" "''//lib/x''" 14]
    translate_root_path_correct [OF this, of "''/system''" "''//lib/x''" 13] show ?thesis
    by (simp add: root_def root_path_of_def)
qed

text \<open>
  A root that is not unmounted. For a mounted root whose filesystem is not
  autodetected (the SD card), \<open>ensure_root_path_unmounted\<close> looks, does nothing, and reports
  success.
\<close>

theorem ensure_unmounted_forgets:
  assumes "\<not> stopped s" and "info \<in> set (g_roots (build s))" and "r_mount_point info = Some mp"
    and "r_filesystem info \<noteq> Some G_auto" and "rc (env s (trace s) (Vol ScanVolumes)) \<ge> 0"
  shows "run_state (ensure_root_path_unmounted (r_name info @ rest)) s =
    (0, s\<lparr>trace := trace s @ [Vol ScanVolumes, Vol (FindVolume mp)]\<rparr>)"
  using assms root_info [OF assms(2)] by (simp add: ensure_root_path_unmounted_def run_simps)

theorem ensure_unmounted_forgets_witness:
  "trace (exec (ensure_root_path_unmounted ''SDCARD:'') sample_store) = [Vol ScanVolumes, Vol (FindVolume ''/mnt/sdcard'')]"
  using ensure_unmounted_forgets [of sample_store "root ''SDCARD:'' (Some (Block SDCARD_BLOCK_NAME)) (Some ''sdcard'')
      (Some ''/mnt/sdcard'') (Some (Fsname ''vfat'')) None" "''/mnt/sdcard''" "[]"]
  by (simp add: sample_store_def boot_state_def g_roots_def root_def)

text \<open>
  Formatting a raw flash root without a mount point (\<open>BOOT:\<close>, \<open>MBM:\<close>, \<open>MISC:\<close>):
  success is reported exactly when the partition was found, opened, erased and closed
  without an error.
\<close>

theorem format_raw_root:
  assumes "\<not> stopped s" and "info \<in> set (g_roots (build s))" and "r_device info = Some G_mtd_device"
    and "r_mount_point info = None" and "r_partition_name info = Some pn"
    and "ans = (\<lambda>h c. rc (env s (trace s @ h) c))"
  shows "result (format_root_device (r_name info)) s = 0 \<longleftrightarrow>
    ans [Mtd MtdScan] (Mtd (MtdFind pn)) \<ge> 0
    \<and> ans [Mtd MtdScan, Mtd (MtdFind pn)] (Mtd (MtdWriteOpen pn)) \<ge> 0
    \<and> ans [Mtd MtdScan, Mtd (MtdFind pn), Mtd (MtdWriteOpen pn)] (Mtd (MtdEraseBlocks (-1))) \<noteq> -1
    \<and> ans [Mtd MtdScan, Mtd (MtdFind pn), Mtd (MtdWriteOpen pn), Mtd (MtdEraseBlocks (-1))] (Mtd MtdWriteClose) = 0"
proof -
  have "r_filesystem info = Some G_raw"
    using assms(2,3) by (auto simp: g_roots_def root_def split: if_splits)
  then show ?thesis
    using assms root_info [OF assms(2), of "[]"]
    by (auto simp: format_root_device_def mtd_find_def erase_mtd_def run_simps)
qed

theorem format_raw_root_witness: "result (format_root_device ''MISC:'') sample_store = 0"
  using format_raw_root [of sample_store "root ''MISC:'' (Some G_mtd_device) (Some ''misc'') None (Some G_raw) None"
      "''misc''" "\<lambda>h c. 0"]
  by (simp add: sample_store_def boot_state_def g_roots_def root_def)

text \<open>
  The flash partition of a root. Whatever path it is asked for,
  \<open>get_root_mtd_partition\<close> never uses a null pointer, and answers nothing or one of the
  flash partitions of the build: \<open>boot\<close>, \<open>recovery\<close>, \<open>mbm\<close>, \<open>misc\<close> when the build has
  it, and \<open>cache\<close> only when the build says the cache is on flash.
\<close>

theorem mtd_partition_typed:
  "faulted (exec (get_root_mtd_partition root_path) s) = faulted s
   \<and> result (get_root_mtd_partition root_path) s \<in>
      {None, Some ''boot'', Some ''recovery'', Some ''mbm''} \<union> (if has_misc (build s) then {Some ''misc''} else {})
        \<union> (if has_mtd_cache (build s) then {Some ''cache''} else {})"
proof -
  let ?c = "root ''CACHE:'' (Some (Block (CACHE_BLOCK_NAME (build s)))) (Some ''cache'') (Some ''/cache'') (Some G_auto) None"
  have "?c \<in> set (g_roots (build s))" by (simp add: g_roots_def)
  from root_info [OF this, of "[]"] have c: "get_root_info_for_path (build s) ''CACHE:'' = Some ?c" by (simp add: root_def)
  show ?thesis
  proof (cases "root_path = ''CACHE:''")
    case True
    then show ?thesis using c by (simp add: get_root_mtd_partition_def mtd_find_def run_simps root_def)
  next
    case False
    show ?thesis
    proof (cases "get_root_info_for_path (build s) root_path")
      case (Some info)
      then have "info \<in> set (g_roots (build s))" using root_info_sound by blast
      then show ?thesis using Some False
        by (auto simp: get_root_mtd_partition_def mtd_find_def run_simps g_roots_def root_def split: if_splits)
    qed (use False in \<open>simp add: get_root_mtd_partition_def\<close>)
  qed
qed

end
