(* ===== verification/Bootloader.thy ===== *)
theory Bootloader
  imports Roots
begin

text \<open>
  \<open>bootloader.c\<close>: the command block the bootloader and the recovery share on the \<open>misc\<close>
  partition, and the firmware image handed over on the \<open>cache\<close> partition. \<open>MtdInfo\<close>
  answers the write size, or a negative number; opening answers a negative number for a
  null pointer. Sizes do not overflow an \<open>int\<close>. The dumps under \<open>LOG_VERBOSE\<close> are left out.
\<close>

section \<open>The command block\<close>

record bootloader_message =
  command :: string
  status :: string
  recovery :: string

definition message_size :: nat where "message_size = 1088"

definition wf_message :: "bootloader_message \<Rightarrow> bool" where
  "wf_message m \<longleftrightarrow> length (command m) = 32 \<and> length (status m) = 32 \<and> length (recovery m) = 1024"

definition message_bytes :: "bootloader_message \<Rightarrow> string" where
  "message_bytes m = command m @ status m @ recovery m"

definition bytes_message :: "string \<Rightarrow> bootloader_message" where
  "bytes_message d = \<lparr>command = take 32 d, status = take 32 (drop 32 d), recovery = take 1024 (drop 64 d)\<rparr>"

definition zero_message :: bootloader_message where
  "zero_message = \<lparr>command = replicate 32 NUL, status = replicate 32 NUL, recovery = replicate 1024 NUL\<rparr>"

definition CACHE_NAME :: string where "CACHE_NAME = ''CACHE:''"
definition MISC_NAME :: string where "MISC_NAME = ''MISC:''"
definition MISC_PAGES :: int where "MISC_PAGES = 3"
definition MISC_COMMAND_PAGE :: int where "MISC_COMMAND_PAGE = 1"

text \<open>
  The part both functions begin with: the partition, its write size and its first three
  pages. A page that cannot hold the message is an access outside the array.
\<close>

definition read_misc :: "(string \<times> int \<times> string) option prog" where
  "read_misc = do {
     part \<leftarrow> get_root_mtd_partition MISC_NAME;
     write_size \<leftarrow> (case part of None \<Rightarrow> ret (-1) | Some p \<Rightarrow> call (Mtd (MtdInfo p)));
     if write_size < 0 then do { LOGE (''Can't find '' @ MISC_NAME @ [LF]); ret None }
     else do {
       rd \<leftarrow> call (Mtd (MtdReadOpen (the part)));
       if rd < 0 then do { LOGE (''Can't open '' @ MISC_NAME @ [LF]); ret None }
       else do {
         let size = write_size * MISC_PAGES;
         r \<leftarrow> sys (Mtd (MtdReadData size));
         whenM (rc r \<noteq> size) (LOGE (''Can't read '' @ MISC_NAME @ [LF]));
         do_call (Mtd MtdReadClose);
         if rc r \<noteq> size then ret None
         else do {
           whenM (write_size * MISC_COMMAND_PAGE + int message_size > size) fault;
           ret (Some (the part, write_size, dat r))
         } } } }"

definition get_bootloader_message :: "bootloader_message option prog" where
  "get_bootloader_message = do {
     r \<leftarrow> read_misc;
     ret (case r of None \<Rightarrow> None
          | Some (p, w, d) \<Rightarrow> Some (bytes_message (take message_size (drop (nat (w * MISC_COMMAND_PAGE)) d)))) }"

definition set_bootloader_message :: "bootloader_message \<Rightarrow> int prog" where
  "set_bootloader_message m = do {
     r \<leftarrow> read_misc;
     case r of
       None \<Rightarrow> ret (-1)
     | Some (p, w, d) \<Rightarrow> do {
         let page = nat (w * MISC_COMMAND_PAGE);
         let d' = take page d @ message_bytes m @ drop (page + message_size) d;
         wr \<leftarrow> call (Mtd (MtdWriteOpen p));
         if wr < 0 then do { LOGE (''Can't open '' @ MISC_NAME @ [LF]); ret (-1) }
         else do {
           n \<leftarrow> call (Mtd (MtdWriteData d'));
           if n \<noteq> w * MISC_PAGES then do {
             LOGE (''Can't write '' @ MISC_NAME @ [LF]);
             do_call (Mtd MtdWriteClose);
             ret (-1)
           } else do {
             c \<leftarrow> call (Mtd MtdWriteClose);
             if c \<noteq> 0 then do { LOGE (''Can't finish '' @ MISC_NAME @ [LF]); ret (-1) } else ret 0
           } } } }"

section \<open>The update image\<close>

definition UPDATE_MAGIC :: string where "UPDATE_MAGIC = ''MSM-RADIO-UPDATE''"
definition UPDATE_MAGIC_SIZE :: nat where "UPDATE_MAGIC_SIZE = 16"
definition UPDATE_VERSION :: int where "UPDATE_VERSION = 65536"

record update_header =
  h_MAGIC :: string
  h_version :: int
  h_size :: int
  image_offset :: int
  image_length :: int
  bitmap_width :: int
  bitmap_height :: int
  bitmap_bpp :: int
  busy_bitmap_offset :: int
  busy_bitmap_length :: int
  fail_bitmap_offset :: int
  fail_bitmap_length :: int

definition zero_header :: update_header where
  "zero_header = \<lparr>h_MAGIC = replicate UPDATE_MAGIC_SIZE NUL, h_version = 0, h_size = 0, image_offset = 0, image_length = 0,
     bitmap_width = 0, bitmap_height = 0, bitmap_bpp = 0, busy_bitmap_offset = 0, busy_bitmap_length = 0,
     fail_bitmap_offset = 0, fail_bitmap_length = 0\<rparr>"

text \<open>The bytes of an \<open>unsigned\<close>, low byte first, and of the structure.\<close>

definition le32 :: "int \<Rightarrow> string" where
  "le32 x = map (\<lambda>i. char_of (nat (x div 256 ^ i mod 256))) [0..<4]"

definition header_bytes :: "update_header \<Rightarrow> string" where
  "header_bytes h = h_MAGIC h @ concat (map le32
     [h_version h, h_size h, image_offset h, image_length h, bitmap_width h, bitmap_height h, bitmap_bpp h,
      busy_bitmap_offset h, busy_bitmap_length h, fail_bitmap_offset h, fail_bitmap_length h])"

definition header_size :: int where "header_size = 60"

text \<open>\<open>mtd_write_data\<close> of a buffer: a null pointer may only be written with length 0.\<close>

definition mtd_write_buf :: "string option \<Rightarrow> int \<Rightarrow> int prog" where
  "mtd_write_buf buf len = (case buf of
     Some d \<Rightarrow> call (Mtd (MtdWriteData (take (nat len) d)))
   | None \<Rightarrow> if len = 0 then call (Mtd (MtdWriteData [])) else do { fault; ret 0 })"

definition write_failed :: "string \<Rightarrow> unit prog" where
  "write_failed what = do {
     LOGE (''Can't write '' @ what @ '' to '' @ CACHE_NAME @ [LF]);
     do_call (Mtd MtdWriteClose) }"

text \<open>
  The first pass over the partition: an invalid header, then the image and the two bitmaps,
  each on its own blocks. The result is the header to write and where the image starts.
\<close>

definition write_sections ::
  "string \<Rightarrow> string \<Rightarrow> int \<Rightarrow> int \<Rightarrow> int \<Rightarrow> int \<Rightarrow> string option \<Rightarrow> string option \<Rightarrow> (update_header \<times> int) option prog" where
  "write_sections part update ulen width height bpp busy fail = do {
     n \<leftarrow> call (Mtd (MtdWriteData (header_bytes zero_header)));
     if n \<noteq> header_size then do { write_failed ''header''; ret None }
     else do {
       let h = zero_header\<lparr>h_MAGIC := UPDATE_MAGIC, h_version := UPDATE_VERSION, h_size := header_size\<rparr>;
       image_start_pos \<leftarrow> call (Mtd (MtdEraseBlocks 0));
       let h = h\<lparr>image_length := ulen\<rparr>;
       n \<leftarrow> (if image_offset h = -1 then ret (-1) else mtd_write_buf (Some update) ulen);
       if n \<noteq> ulen then do { write_failed ''update''; ret None }
       else do {
         busy_start_pos \<leftarrow> call (Mtd (MtdEraseBlocks 0));
         off \<leftarrow> call (Mtd (MtdFindWriteStart image_start_pos));
         let bitmap_length = (bpp + 7) div 8 * width * height;
         let h = h\<lparr>image_offset := off, bitmap_width := width, bitmap_height := height, bitmap_bpp := bpp,
                   busy_bitmap_length := (if busy \<noteq> None then bitmap_length else 0)\<rparr>;
         n \<leftarrow> (if busy_bitmap_offset h = -1 then ret (-1) else mtd_write_buf busy bitmap_length);
         if n \<noteq> bitmap_length then do { write_failed ''bitmap''; ret None }
         else do {
           fail_start_pos \<leftarrow> call (Mtd (MtdEraseBlocks 0));
           off \<leftarrow> call (Mtd (MtdFindWriteStart busy_start_pos));
           let h = h\<lparr>busy_bitmap_offset := off, fail_bitmap_length := (if fail \<noteq> None then bitmap_length else 0)\<rparr>;
           n \<leftarrow> (if fail_bitmap_offset h = -1 then ret (-1) else mtd_write_buf fail bitmap_length);
           if n \<noteq> bitmap_length then do { write_failed ''bitmap''; ret None }
           else do {
             do_call (Mtd (MtdEraseBlocks 0));
             off \<leftarrow> call (Mtd (MtdFindWriteStart fail_start_pos));
             c \<leftarrow> call (Mtd MtdWriteClose);
             if c \<noteq> 0 then do { LOGE (''Can't finish writing '' @ CACHE_NAME @ [LF]); ret None }
             else ret (Some (h\<lparr>fail_bitmap_offset := off\<rparr>, image_start_pos))
           } } } } }"

text \<open>The second pass: the header that makes the image valid.\<close>

definition write_header :: "string \<Rightarrow> update_header \<Rightarrow> int \<Rightarrow> int prog" where
  "write_header part h image_start_pos = do {
     w \<leftarrow> call (Mtd (MtdWriteOpen part));
     if w < 0 then do { LOGE (''Can't reopen '' @ CACHE_NAME @ [LF]); ret (-1) }
     else do {
       n \<leftarrow> call (Mtd (MtdWriteData (header_bytes h)));
       if n \<noteq> header_size then do {
         LOGE (''Can't rewrite header to '' @ CACHE_NAME @ [LF]);
         do_call (Mtd MtdWriteClose);
         ret (-1)
       } else do {
         e \<leftarrow> call (Mtd (MtdEraseBlocks 0));
         if e \<noteq> image_start_pos then do {
           LOGE (''Misalignment rewriting '' @ CACHE_NAME @ [LF]);
           do_call (Mtd MtdWriteClose);
           ret (-1)
         } else do {
           c \<leftarrow> call (Mtd MtdWriteClose);
           if c \<noteq> 0 then do { LOGE (''Can't finish header of '' @ CACHE_NAME @ [LF]); ret (-1) } else ret 0
         } } } }"

definition write_to_partition ::
  "string \<Rightarrow> string \<Rightarrow> int \<Rightarrow> int \<Rightarrow> int \<Rightarrow> int \<Rightarrow> string option \<Rightarrow> string option \<Rightarrow> int prog" where
  "write_to_partition part update ulen width height bpp busy fail = do {
     w \<leftarrow> call (Mtd (MtdWriteOpen part));
     if w < 0 then do { LOGE (''Can't open '' @ CACHE_NAME @ [LF]); ret (-1) }
     else do {
       r \<leftarrow> write_sections part update ulen width height bpp busy fail;
       case r of None \<Rightarrow> ret (-1) | Some (h, pos) \<Rightarrow> write_header part h pos
     } }"

definition write_update_for_bootloader ::
  "string \<Rightarrow> int \<Rightarrow> int \<Rightarrow> int \<Rightarrow> int \<Rightarrow> string option \<Rightarrow> string option \<Rightarrow> int prog" where
  "write_update_for_bootloader update ulen width height bpp busy fail = do {
     u \<leftarrow> ensure_root_path_unmounted CACHE_NAME;
     if u \<noteq> 0 then do { LOGE (''Can't unmount '' @ CACHE_NAME @ [LF]); ret (-1) }
     else do {
       part \<leftarrow> get_root_mtd_partition CACHE_NAME;
       case part of
         None \<Rightarrow> do { LOGE (''Can't find '' @ CACHE_NAME @ [LF]); ret (-1) }
       | Some p \<Rightarrow> write_to_partition p update ulen width height bpp busy fail } }"

section \<open>What these programs touch\<close>

text \<open>Besides mounting, the flash is read and written; nothing is run, unpacked or rebooted.\<close>

fun flash_level :: "ext_call \<Rightarrow> bool" where
  "flash_level (Mtd x) = True"
| "flash_level c = mount_level c"

lemma erase_flash_level [simp]: "erase_level c \<Longrightarrow> flash_level c"
  by (cases c rule: erase_level.cases) auto

lemma mount_flash_level [simp]: "mount_level c \<Longrightarrow> flash_level c"
  by simp

text \<open>What reading \<open>misc\<close> may call: no write at all.\<close>

fun misc_read_level :: "ext_call \<Rightarrow> bool" where
  "misc_read_level (Mtd (MtdInfo p)) = True"
| "misc_read_level (Mtd (MtdReadOpen p)) = True"
| "misc_read_level (Mtd (MtdReadData n)) = True"
| "misc_read_level (Mtd MtdReadClose) = True"
| "misc_read_level c = mount_level c"

lemma mount_misc_read_level [simp]: "mount_level c \<Longrightarrow> misc_read_level c"
  by (cases c rule: misc_read_level.cases) auto

lemma misc_read_flash_level [simp]: "misc_read_level c \<Longrightarrow> flash_level c"
  by (cases c rule: misc_read_level.cases) auto

lemma emits_read_misc [emits_intros]: "(\<And>c. misc_read_level c \<Longrightarrow> P c) \<Longrightarrow> emits P read_misc"
  unfolding read_misc_def Let_def by (intro emits_intros) simp_all

lemma emits_get_bootloader_message [emits_intros]:
  "(\<And>c. misc_read_level c \<Longrightarrow> P c) \<Longrightarrow> emits P get_bootloader_message"
  unfolding get_bootloader_message_def by (intro emits_intros) simp_all

lemma emits_set_bootloader_message [emits_intros]:
  "(\<And>c. flash_level c \<Longrightarrow> P c) \<Longrightarrow> emits P (set_bootloader_message m)"
  unfolding set_bootloader_message_def Let_def by (intro emits_intros) simp_all

lemma emits_write_buf: "(\<And>d. P (Mtd (MtdWriteData d))) \<Longrightarrow> emits P (mtd_write_buf b n)"
  unfolding mtd_write_buf_def by (intro emits_intros) simp_all

lemma emits_write_failed [emits_intros]:
  "P (Mtd MtdWriteClose) \<Longrightarrow> (\<And>t. P (Print t)) \<Longrightarrow> emits P (write_failed w)"
  unfolding write_failed_def by (intro emits_intros) simp_all

lemma emits_write_header [emits_intros]: "(\<And>c. flash_level c \<Longrightarrow> P c) \<Longrightarrow> emits P (write_header p h i)"
  unfolding write_header_def by (intro emits_intros) simp_all

lemma emits_write_sections [emits_intros]:
  "(\<And>c. flash_level c \<Longrightarrow> P c) \<Longrightarrow> emits P (write_sections p u n w h b bi fi)"
  unfolding write_sections_def Let_def by (intro emits_intros emits_write_buf) simp_all

lemma emits_write_to_partition [emits_intros]:
  "(\<And>c. flash_level c \<Longrightarrow> P c) \<Longrightarrow> emits P (write_to_partition p u n w h b bi fi)"
  unfolding write_to_partition_def by (intro emits_intros) simp_all

lemma emits_write_update [emits_intros]:
  "(\<And>c. flash_level c \<Longrightarrow> P c) \<Longrightarrow> emits P (write_update_for_bootloader u n w h b bi fi)"
  unfolding write_update_for_bootloader_def by (intro emits_intros) simp_all

section \<open>The command block is kept\<close>

text \<open>
  What the flash driver promises of the \<open>misc\<close> partition: the bytes it holds are decided by
  what was written, each write after the one before; \<open>(open, position, bytes)\<close> is the
  state after a history of calls.
\<close>

fun flash_step :: "ext_call \<Rightarrow> bool \<times> nat \<times> string \<Rightarrow> bool \<times> nat \<times> string" where
  "flash_step (Mtd (MtdWriteOpen p)) (on, pos, c) = (p = ''misc'', 0, c)"
| "flash_step (Mtd (MtdWriteData d)) (on, pos, c) =
     (if on then (on, pos + length d, take pos c @ d @ drop (pos + length d) c) else (on, pos, c))"
| "flash_step (Mtd MtdWriteClose) (on, pos, c) = (False, 0, c)"
| "flash_step _ st = st"

definition flash_state :: "string \<Rightarrow> ext_call list \<Rightarrow> bool \<times> nat \<times> string" where
  "flash_state init h = fold flash_step h (False, 0, init)"

definition flash_bytes :: "string \<Rightarrow> ext_call list \<Rightarrow> string" where
  "flash_bytes init h = snd (snd (flash_state init h))"

text \<open>A \<open>misc\<close> partition with write size \<open>w\<close> on which nothing fails.\<close>

definition working_misc :: "nat \<Rightarrow> string \<Rightarrow> (ext_call list \<Rightarrow> ext_call \<Rightarrow> reply) \<Rightarrow> bool" where
  "working_misc w init e \<longleftrightarrow> (\<forall>h.
     rc (e h (Mtd (MtdFind ''misc''))) \<ge> 0 \<and> rc (e h (Mtd (MtdInfo ''misc''))) = int w
     \<and> rc (e h (Mtd (MtdReadOpen ''misc''))) \<ge> 0 \<and> rc (e h (Mtd (MtdWriteOpen ''misc''))) \<ge> 0
     \<and> (\<forall>n. e h (Mtd (MtdReadData n)) = Reply n (take (nat n) (flash_bytes init h)) [])
     \<and> (\<forall>d. rc (e h (Mtd (MtdWriteData d))) = int (length d)) \<and> rc (e h (Mtd MtdWriteClose)) = 0)"

lemma drop_take_drop: "k \<le> n \<Longrightarrow> n \<le> length c \<Longrightarrow> drop k (take n c) @ drop n c = drop k c"
  using drop_append [of k "take n c" "drop n c"] by (simp add: min_def)

lemma length_message_bytes: "wf_message m \<Longrightarrow> length (message_bytes m) = message_size"
  by (simp add: wf_message_def message_bytes_def message_size_def)

lemma bytes_message_bytes: "wf_message m \<Longrightarrow> bytes_message (message_bytes m) = m"
  by (simp add: wf_message_def message_bytes_def bytes_message_def)

lemma wf_zero_message: "wf_message zero_message"
  by (simp add: wf_message_def zero_message_def)

lemma flash_bytes_write:
  "flash_bytes init (h @ [Mtd (MtdWriteOpen ''misc''), Mtd (MtdWriteData d), Mtd MtdWriteClose]) =
     d @ drop (length d) (flash_bytes init h)"
  by (cases "flash_state init h") (simp add: flash_bytes_def flash_state_def)

definition misc_read_calls :: "nat \<Rightarrow> ext_call list" where
  "misc_read_calls w = map Mtd [MtdScan, MtdFind ''misc'', MtdInfo ''misc'', MtdReadOpen ''misc'', MtdReadData (3 * int w), MtdReadClose]"

lemma flash_bytes_read [simp]: "flash_bytes init (h @ misc_read_calls w) = flash_bytes init h"
  by (cases "flash_state init h") (simp add: flash_bytes_def flash_state_def misc_read_calls_def)

lemma misc_partition:
  assumes "\<not> stopped s" and "has_misc (build s)" and "rc (env s (trace s @ [Mtd MtdScan]) (Mtd (MtdFind ''misc''))) \<ge> 0"
  shows "run_state (get_root_mtd_partition MISC_NAME) s =
    (Some ''misc'', s\<lparr>trace := trace s @ [Mtd MtdScan, Mtd (MtdFind ''misc'')]\<rparr>)"
proof -
  have "root ''MISC:'' (Some G_mtd_device) (Some ''misc'') None (Some G_raw) None \<in> set (g_roots (build s))"
    using assms(2) by (simp add: g_roots_def)
  from root_info [OF this, of "[]"] assms show ?thesis
    by (simp add: get_root_mtd_partition_def mtd_find_def MISC_NAME_def root_def run_simps)
qed

lemma run_read_misc:
  assumes "\<not> stopped s" and "has_misc (build s)" and "working_misc w init (env s)" and "544 \<le> w"
  shows "run_state read_misc s =
    (Some (''misc'', int w, take (3 * w) (flash_bytes init (trace s))), s\<lparr>trace := trace s @ misc_read_calls w\<rparr>)"
proof -
  let ?h = "trace s @ map Mtd [MtdScan, MtdFind ''misc'', MtdInfo ''misc'', MtdReadOpen ''misc'']"
  have b: "flash_bytes init ?h = flash_bytes init (trace s)"
    by (cases "flash_state init (trace s)") (simp add: flash_bytes_def flash_state_def)
  have n: "nat (int w * 3) = w * 3" by simp
  show ?thesis
    using assms misc_partition [OF assms(1,2)] b
    by (simp add: read_misc_def working_misc_def run_simps misc_read_calls_def MISC_PAGES_def MISC_COMMAND_PAGE_def
        message_size_def mult.commute n Let_def not_less)
qed

text \<open>What storing and reading a message do on such a partition, whose pages hold the message.\<close>

definition holds_pages :: "nat \<Rightarrow> string \<Rightarrow> world \<Rightarrow> bool" where
  "holds_pages w init s \<longleftrightarrow> has_misc (build s) \<and> working_misc w init (env s) \<and> 544 \<le> w
     \<and> 3 * w \<le> length (flash_bytes init (trace s))"

definition flash_message :: "nat \<Rightarrow> string \<Rightarrow> world \<Rightarrow> bootloader_message" where
  "flash_message w init s = bytes_message (take message_size (drop w (flash_bytes init (trace s))))"

definition with_message :: "nat \<Rightarrow> bootloader_message \<Rightarrow> string \<Rightarrow> string" where
  "with_message w m c = take w c @ message_bytes m @ drop (w + message_size) c"

lemma run_set_message:
  assumes "\<not> stopped s" and "holds_pages w init s" and "wf_message m"
  obtains t where "run_state (set_bootloader_message m) s = (0, s\<lparr>trace := trace s @ t\<rparr>)"
    and "flash_bytes init (trace s @ t) = with_message w m (flash_bytes init (trace s))"
proof -
  let ?c = "flash_bytes init (trace s)"
  have misc: "has_misc (build s)" "working_misc w init (env s)" "544 \<le> w" "3 * w \<le> length ?c"
    using assms(2) by (simp_all add: holds_pages_def)
  define d where "d = take w ?c @ message_bytes m @ drop (w + message_size) (take (3 * w) ?c)"
  define t where "t = misc_read_calls w @ [Mtd (MtdWriteOpen ''misc''), Mtd (MtdWriteData d), Mtd MtdWriteClose]"
  note lm = length_message_bytes [OF assms(3)]
  have len: "length d = 3 * w" using misc lm by (simp add: d_def message_size_def)
  have run: "run_state (set_bootloader_message m) s = (0, s\<lparr>trace := trace s @ t\<rparr>)"
    using assms(1) misc run_read_misc [OF assms(1) misc(1-3)] lm
    by (simp add: set_bootloader_message_def working_misc_def run_simps MISC_PAGES_def MISC_COMMAND_PAGE_def t_def
        d_def mult.commute Let_def not_less min_def message_size_def)
  have "flash_bytes init (trace s @ t) = d @ drop (3 * w) ?c"
    using flash_bytes_write [of init "trace s @ misc_read_calls w" d] len by (simp add: t_def)
  moreover have "drop (w + message_size) (take (3 * w) ?c) @ drop (3 * w) ?c = drop (w + message_size) ?c"
    using misc by (intro drop_take_drop) (simp_all add: message_size_def)
  ultimately have "flash_bytes init (trace s @ t) = with_message w m ?c"
    by (simp add: d_def with_message_def)
  with run show thesis by (rule that)
qed

lemma run_get_message:
  assumes "\<not> stopped s" and "holds_pages w init s"
  shows "run_state get_bootloader_message s = (Some (flash_message w init s), s\<lparr>trace := trace s @ misc_read_calls w\<rparr>)"
proof -
  let ?c = "flash_bytes init (trace s)"
  have misc: "has_misc (build s)" "working_misc w init (env s)" "544 \<le> w" "3 * w \<le> length ?c"
    using assms(2) by (simp_all add: holds_pages_def)
  have "take message_size (drop w (take (3 * w) ?c)) = take message_size (drop w ?c)"
    using misc by (simp add: drop_take message_size_def min_def)
  then show ?thesis
    using run_read_misc [OF assms(1) misc(1-3)]
    by (simp add: get_bootloader_message_def MISC_COMMAND_PAGE_def flash_message_def)
qed

lemma with_message_back:
  "wf_message m \<Longrightarrow> w \<le> length c \<Longrightarrow> bytes_message (take message_size (drop w (with_message w m c))) = m"
  using length_message_bytes [of m] bytes_message_bytes [of m] by (simp add: with_message_def min_def)

lemma length_with_message:
  "wf_message m \<Longrightarrow> w + message_size \<le> length c \<Longrightarrow> length (with_message w m c) = length c"
  using length_message_bytes [of m] by (simp add: with_message_def)

lemma holds_pages_size: "holds_pages w init s \<Longrightarrow> w + message_size \<le> length (flash_bytes init (trace s))"
  by (simp add: holds_pages_def message_size_def)


text \<open>A device whose \<open>misc\<close> partition works and on which every other call answers 0.\<close>

definition misc_env :: "nat \<Rightarrow> string \<Rightarrow> ext_call list \<Rightarrow> ext_call \<Rightarrow> reply" where
  "misc_env w init h c = (case c of
     Mtd (MtdInfo p) \<Rightarrow> Reply (int w) [] []
   | Mtd (MtdReadData n) \<Rightarrow> Reply n (take (nat n) (flash_bytes init h)) []
   | Mtd (MtdWriteData d) \<Rightarrow> Reply (int (length d)) [] []
   | _ \<Rightarrow> Reply 0 [] [])"

lemma working_misc_env: "working_misc w init (misc_env w init)"
  by (simp add: working_misc_def misc_env_def)


section \<open>The order of calls\<close>

text \<open>\<open>preceded K Q n t\<close>: in the trace \<open>t\<close>, every call of kind \<open>K\<close> from position \<open>n\<close> on comes after a history with \<open>Q\<close>.\<close>

definition preceded :: "(ext_call \<Rightarrow> bool) \<Rightarrow> (ext_call list \<Rightarrow> bool) \<Rightarrow> nat \<Rightarrow> ext_call list \<Rightarrow> bool" where
  "preceded K Q n t \<longleftrightarrow> (\<forall>i. n \<le> i \<longrightarrow> i < length t \<longrightarrow> K (t ! i) \<longrightarrow> Q (take i t))"

lemma preceded_start: "preceded K Q (length t) t"
  by (simp add: preceded_def)

lemma preceded_snoc: "preceded K Q n t \<Longrightarrow> (K c \<Longrightarrow> Q t) \<Longrightarrow> preceded K Q n (t @ [c])"
  by (auto simp: preceded_def nth_append less_Suc_eq)

lemma preceded_append: "preceded K Q n t \<Longrightarrow> list_all (\<lambda>c. \<not> K c) u \<Longrightarrow> preceded K Q n (t @ u)"
  by (auto simp: preceded_def nth_append list_all_length)

lemma preceded_emits: "emits (\<lambda>c. \<not> K c) m \<Longrightarrow> preceded K Q n (trace s) \<Longrightarrow> preceded K Q n (trace (exec m s))"
  using emitsD [of "\<lambda>c. \<not> K c" m s] preceded_append by fastforce

lemma precededD: "preceded K Q (length t) (t @ a @ c # b) \<Longrightarrow> K c \<Longrightarrow> Q (t @ a)"
  unfolding preceded_def by (drule spec [of _ "length (t @ a)"]) (simp add: nth_append)

lemma preceded_extend: "preceded K Q n h \<Longrightarrow> (\<And>u. Q (h @ u)) \<Longrightarrow> preceded K Q n (h @ v)"
  by (auto simp: preceded_def nth_append)

lemma hoare_prod: "(\<And>a b. hoare P (f a b) Q) \<Longrightarrow> hoare P (case x of (a, b) \<Rightarrow> f a b) Q"
  by (cases x) simp

lemma hoare_after:
  assumes "emits (\<lambda>_. True) m" and "\<And>h u. Q h \<Longrightarrow> Q (h @ u)"
  shows "hoare (\<lambda>s. preceded K Q n (trace s) \<and> (stopped s \<or> Q (trace s))) m (\<lambda>_ s. preceded K Q n (trace s))"
proof (rule hoareI)
  fix s :: world
  assume s: "preceded K Q n (trace s) \<and> (stopped s \<or> Q (trace s))"
  obtain u where "trace (exec m s) = trace s @ u" using emitsD [OF assms(1)] by blast
  then show "preceded K Q n (trace (exec m s))"
    using s preceded_extend [of K Q n "trace s" u] assms(2) emits_frozen [OF assms(1)] by (cases "stopped s") auto
qed

lemma hoare_preceded_emits:
  "emits (\<lambda>c. \<not> K c) m \<Longrightarrow> hoare (\<lambda>s. preceded K Q n (trace s)) m (\<lambda>_ s. preceded K Q n (trace s))"
  by (simp add: hoare_def preceded_emits)

section \<open>The header comes last\<close>

fun magic_write :: "ext_call \<Rightarrow> bool" where
  "magic_write (Mtd (MtdWriteData d)) = (take UPDATE_MAGIC_SIZE d = UPDATE_MAGIC)"
| "magic_write _ = False"

definition buf_bytes :: "string option \<Rightarrow> int \<Rightarrow> string" where
  "buf_bytes buf len = (case buf of None \<Rightarrow> [] | Some d \<Rightarrow> take (nat len) d)"

definition no_magic :: "string option \<Rightarrow> bool" where
  "no_magic buf \<longleftrightarrow> (case buf of None \<Rightarrow> True | Some d \<Rightarrow> take UPDATE_MAGIC_SIZE d \<noteq> UPDATE_MAGIC)"

lemma take_no_magic: "take UPDATE_MAGIC_SIZE (take n d) = UPDATE_MAGIC \<Longrightarrow> take UPDATE_MAGIC_SIZE d = UPDATE_MAGIC"
  by (cases "n < UPDATE_MAGIC_SIZE")
     (auto simp: UPDATE_MAGIC_SIZE_def UPDATE_MAGIC_def min_def dest: arg_cong [where f = length] split: if_splits)

lemma buf_no_magic:
  assumes "no_magic buf"
  shows "take UPDATE_MAGIC_SIZE (buf_bytes buf n) \<noteq> UPDATE_MAGIC"
proof (cases buf)
  case (Some d)
  then show ?thesis using take_no_magic [of "nat n" d] assms by (auto simp: no_magic_def buf_bytes_def simp del: take_take)
qed (simp add: buf_bytes_def UPDATE_MAGIC_def)

lemma run_write_buf:
  "\<not> stopped s \<Longrightarrow> run_state (mtd_write_buf buf n) s =
    (if buf = None \<and> n \<noteq> 0 then (0, s\<lparr>stopped := True, faulted := True\<rparr>)
     else (rc (env s (trace s) (Mtd (MtdWriteData (buf_bytes buf n)))), s\<lparr>trace := trace s @ [Mtd (MtdWriteData (buf_bytes buf n))]\<rparr>))"
  by (cases buf) (auto simp: mtd_write_buf_def buf_bytes_def run_simps fault_def)

lemma emits_write_buf_no_magic: "no_magic buf \<Longrightarrow> emits (\<lambda>c. \<not> magic_write c) (mtd_write_buf buf n)"
  using buf_no_magic [of buf n]
  by (cases buf) (auto simp: mtd_write_buf_def buf_bytes_def intro!: emits_intros)

lemma mount_no_magic [simp]: "mount_level c \<Longrightarrow> \<not> magic_write c"
  by (cases c rule: magic_write.cases) auto

lemma zero_header_no_magic: "take UPDATE_MAGIC_SIZE (header_bytes zero_header) \<noteq> UPDATE_MAGIC"
  by (simp add: header_bytes_def zero_header_def UPDATE_MAGIC_def UPDATE_MAGIC_SIZE_def numeral_eq_Suc)

lemma sections_no_magic:
  "no_magic (Some u) \<Longrightarrow> no_magic bi \<Longrightarrow> no_magic fi \<Longrightarrow> emits (\<lambda>c. \<not> magic_write c) (write_sections p u n w h b bi fi)"
  unfolding write_sections_def write_failed_def Let_def
  by (intro emits_intros emits_write_buf_no_magic)
     (simp_all add: zero_header_no_magic)

text \<open>The calls of a first pass that succeeds: the three positions are what the driver reported.\<close>

definition section_calls ::
  "string \<Rightarrow> int \<Rightarrow> int \<Rightarrow> string option \<Rightarrow> string option \<Rightarrow> int \<Rightarrow> int \<Rightarrow> int \<Rightarrow> ext_call list" where
  "section_calls update ulen blen busy fail i j k = map Mtd
     [MtdWriteData (header_bytes zero_header), MtdEraseBlocks 0,
      MtdWriteData (take (nat ulen) update), MtdEraseBlocks 0, MtdFindWriteStart i,
      MtdWriteData (buf_bytes busy blen), MtdEraseBlocks 0, MtdFindWriteStart j,
      MtdWriteData (buf_bytes fail blen), MtdEraseBlocks 0, MtdFindWriteStart k,
      MtdWriteClose]"

text \<open>Every call of the pass was answered in full.\<close>

definition sections_ok :: "(ext_call list \<Rightarrow> ext_call \<Rightarrow> reply) \<Rightarrow> ext_call list \<Rightarrow> ext_call list \<Rightarrow> int \<Rightarrow> int \<Rightarrow> bool" where
  "sections_ok e h cs ulen blen \<longleftrightarrow>
     rc (e h (cs ! 0)) = header_size \<and> rc (e (h @ take 2 cs) (cs ! 2)) = ulen
     \<and> rc (e (h @ take 5 cs) (cs ! 5)) = blen \<and> rc (e (h @ take 8 cs) (cs ! 8)) = blen
     \<and> rc (e (h @ take 11 cs) (cs ! 11)) = 0"

lemma buf_bytes_Some [simp]: "buf_bytes (Some d) n = take (nat n) d"
  by (simp add: buf_bytes_def)

lemma trace_inj: "s\<lparr>trace := a\<rparr> = s\<lparr>trace := b\<rparr> \<longleftrightarrow> a = b"
  by (metis world.select_convs(3) world.surjective world.update_convs(3))

lemma runs_write_buf:
  assumes "off \<noteq> -1" and "\<not> stopped s" and "\<And>t. n \<noteq> 0 \<Longrightarrow> Q (result (f 0) t) (exec (f 0) t)"
    and "runs s (h @ [Mtd (MtdWriteData (buf_bytes buf n))]) (f (rc (env s h (Mtd (MtdWriteData (buf_bytes buf n)))))) Q"
  shows "runs s h ((if off = -1 then ret (-1) else mtd_write_buf buf n) \<bind> f) Q"
  using assms by (auto simp: runs_def run_write_buf)

lemma write_sections_calls:
  assumes "bl = (b + 7) div 8 * w * h" and "\<not> stopped s"
  shows "runs s g (write_sections p u n w h b bi fi) (\<lambda>r s'. r \<noteq> None \<longrightarrow>
     (\<exists>i j k. s' = s\<lparr>trace := g @ section_calls u n bl bi fi i j k\<rparr>
     \<and> sections_ok (env s) g (section_calls u n bl bi fi i j k) n bl))"
  unfolding write_sections_def Let_def assms(1) [symmetric]
  by (rule runs_call [OF assms(2)] runs_do_call [OF assms(2)] runs_if
     | (rule runs_write_buf, simp add: zero_header_def, rule assms(2), simp add: split_beta)
     | (rule runs_fails; simp; fail) | rule runs_ret)+
     (simp add: trace_inj section_calls_def sections_ok_def)

text \<open>A history in which the image has been written: the first pass over \<open>cache\<close> was completed, and \<open>cache\<close> was opened again.\<close>

definition image_written ::
  "(ext_call list \<Rightarrow> ext_call \<Rightarrow> reply) \<Rightarrow> string \<Rightarrow> int \<Rightarrow> int \<Rightarrow> string option \<Rightarrow> string option \<Rightarrow> ext_call list \<Rightarrow> bool" where
  "image_written e u n bl bi fi h \<longleftrightarrow> (\<exists>g p i j k.
     h = g @ [Mtd (MtdWriteOpen p)] @ section_calls u n bl bi fi i j k @ [Mtd (MtdWriteOpen p)]
     \<and> sections_ok e (g @ [Mtd (MtdWriteOpen p)]) (section_calls u n bl bi fi i j k) n bl)"

lemma image_writtenI:
  "sections_ok e (g @ [Mtd (MtdWriteOpen p)]) (section_calls u n bl bi fi i j k) n bl \<Longrightarrow>
   image_written e u n bl bi fi (g @ Mtd (MtdWriteOpen p) # section_calls u n bl bi fi i j k @ [Mtd (MtdWriteOpen p)])"
  unfolding image_written_def by (rule exI [of _ g], rule exI [of _ p], rule exI [of _ i], rule exI [of _ j], rule exI [of _ k]) simp

lemma runs_conj: "runs s h m R \<Longrightarrow> runs s h m R' \<Longrightarrow> runs s h m (\<lambda>x t. R x t \<and> R' x t)"
  by (simp add: runs_def)

lemma runs_then:
  "runs s h m R \<Longrightarrow> (\<And>x t. R x t \<Longrightarrow> Q (result (f x) t) (exec (f x) t)) \<Longrightarrow> runs s h (m \<bind> f) Q"
  by (simp add: runs_def split_beta)

lemma runs_preceded:
  "preceded K Q n h \<Longrightarrow> emits (\<lambda>c. \<not> K c) m \<Longrightarrow> runs s h m (\<lambda>r s'. preceded K Q n (trace s'))"
  using preceded_emits [of K m Q n "s\<lparr>trace := h\<rparr>"] by (simp add: runs_def)

lemma write_header_preceded:
  assumes "preceded magic_write Q n (trace s)" and "Q (trace s @ [Mtd (MtdWriteOpen p)])"
  shows "preceded magic_write Q n (trace (exec (write_header p h i) s))"
proof (cases "stopped s")
  case True
  then show ?thesis using assms(1) emits_frozen [OF emits_write_header [of "\<lambda>_. True"]] by simp
next
  case False
  have o: "preceded magic_write Q n (trace s @ [Mtd (MtdWriteOpen p)])"
    using assms(1) by (rule preceded_snoc) simp
  have pre: "preceded magic_write Q n ((trace s @ [Mtd (MtdWriteOpen p)]) @ [c])" for c
    using o assms(2) by (rule preceded_snoc)
  have "runs s (trace s) (write_header p h i) (\<lambda>r s'. preceded magic_write Q n (trace s'))"
    unfolding write_header_def
    apply (rule runs_call [OF False], rule runs_if)
     apply (rule runs_preceded [OF o], (intro emits_intros; simp))
    apply (rule runs_call [OF False], rule runs_preceded [OF pre], (intro emits_intros; simp))
    done
  from runsD [OF this] show ?thesis .
qed

lemma write_to_partition_preceded:
  assumes "no_magic (Some u)" and "no_magic bi" and "no_magic fi" and "bl = (b + 7) div 8 * w * h"
    and "preceded magic_write (image_written (env s) u n bl bi fi) k (trace s)"
  shows "preceded magic_write (image_written (env s) u n bl bi fi) k (trace (exec (write_to_partition p u n w h b bi fi) s))"
proof (cases "stopped s")
  case True
  then show ?thesis using assms(5) emits_frozen [OF emits_write_to_partition [of "\<lambda>_. True"]] by simp
next
  case False
  let ?Q = "image_written (env s) u n bl bi fi" and ?o = "trace s @ [Mtd (MtdWriteOpen p)]"
  have o: "preceded magic_write ?Q k ?o" using assms(5) by (rule preceded_snoc) simp
  note sections = runs_conj [OF write_sections_calls [OF assms(4) False]
    runs_preceded [OF o sections_no_magic [OF assms(1-3), of p n w h b]]]
  have "runs s (trace s) (write_to_partition p u n w h b bi fi) (\<lambda>r s'. preceded magic_write ?Q k (trace s'))"
    unfolding write_to_partition_def
  proof (rule runs_call [OF False], rule runs_if)
    show "runs s ?o (do { r \<leftarrow> write_sections p u n w h b bi fi;
        case r of None \<Rightarrow> ret (-1) | Some (hd', pos) \<Rightarrow> write_header p hd' pos }) (\<lambda>r s'. preceded magic_write ?Q k (trace s'))"
    proof (rule runs_then [OF sections])
      fix r :: "(update_header \<times> int) option" and s'
      assume r: "(r \<noteq> None \<longrightarrow> (\<exists>i j l. s' = s\<lparr>trace := ?o @ section_calls u n bl bi fi i j l\<rparr>
          \<and> sections_ok (env s) ?o (section_calls u n bl bi fi i j l) n bl)) \<and> preceded magic_write ?Q k (trace s')"
      then have "r \<noteq> None \<Longrightarrow> ?Q (trace s' @ [Mtd (MtdWriteOpen p)])" by (auto intro: image_writtenI)
      with r show "preceded magic_write ?Q k (trace (exec (case r of None \<Rightarrow> ret (-1) | Some (hd', pos) \<Rightarrow> write_header p hd' pos) s'))"
        by (auto intro: write_header_preceded split: option.splits prod.splits)
    qed
  qed (rule runs_preceded [OF o], (intro emits_intros; simp))
  from runsD [OF this] show ?thesis .
qed

text \<open>
  C16. The magic number comes last. Whenever \<open>write_update_for_bootloader\<close> writes a block that
  begins with the magic number of an update header, the image and both bitmaps have been
  written in full and the first pass over the partition has been closed without an error: at
  no moment does an incomplete image have a valid header.
\<close>

theorem update_header_last:
  assumes "no_magic (Some update)" and "no_magic busy" and "no_magic fail"
    and "blen = (bpp + 7) div 8 * width * height"
    and "trace (exec (write_update_for_bootloader update ulen width height bpp busy fail) s) = trace s @ a @ Mtd (MtdWriteData d) # b"
    and "take UPDATE_MAGIC_SIZE d = UPDATE_MAGIC"
  shows "image_written (env s) update ulen blen busy fail (trace s @ a)"
proof -
  let ?Q = "image_written (env s) update ulen blen busy fail"
  let ?I = "\<lambda>t. env t = env s \<and> preceded magic_write ?Q (length (trace s)) (trace t)"
  have E: "emits (\<lambda>c. \<not> magic_write c) (ensure_root_path_unmounted CACHE_NAME)"
    "emits (\<lambda>c. \<not> magic_write c) (get_root_mtd_partition CACHE_NAME)"
    "emits (\<lambda>c. \<not> magic_write c) (LOGE m)" for m
    by (intro emits_intros; simp)+
  have K: "keeps ?I (ensure_root_path_unmounted CACHE_NAME)" "keeps ?I (get_root_mtd_partition CACHE_NAME)"
    "keeps ?I (LOGE m)" "keeps ?I (write_to_partition p update ulen width height bpp busy fail)" for m p
    using preceded_emits [OF E(1)] preceded_emits [OF E(2)] preceded_emits [OF E(3)] emits_consts [OF E(1)]
      emits_consts [OF E(2)] emits_consts [OF E(3)] emits_consts [OF emits_write_to_partition [of "\<lambda>_. True"]]
      write_to_partition_preceded [OF assms(1-4)]
    by (simp_all add: keeps_def) metis
  have "keeps ?I (write_update_for_bootloader update ulen width height bpp busy fail)"
    unfolding write_update_for_bootloader_def by (intro wp K)
  from keepsD [OF this, of s] assms(5) have "preceded magic_write ?Q (length (trace s)) (trace s @ a @ Mtd (MtdWriteData d) # b)"
    by (simp add: preceded_start)
  from precededD [OF this] assms(6) show ?thesis by simp
qed

text \<open>A device with its cache on flash, not mounted, on which every write succeeds.\<close>

definition flash_env :: "ext_call list \<Rightarrow> ext_call \<Rightarrow> reply" where
  "flash_env h c = (case c of
     Mtd (MtdWriteData d) \<Rightarrow> Reply (int (length d)) [] []
   | Vol (FindVolume p) \<Rightarrow> Reply (-1) [] []
   | _ \<Rightarrow> Reply 0 [] [])"

definition flash_device :: world where
  "flash_device = sample_store\<lparr>env := flash_env, build := build sample_store\<lparr>has_mtd_cache := True\<rparr>\<rparr>"

lemma cache_info:
  "get_root_info_for_path b CACHE_NAME =
     Some (root CACHE_NAME (Some (Block (CACHE_BLOCK_NAME b))) (Some ''cache'') (Some ''/cache'') (Some G_auto) None)"
  using root_info [of "root CACHE_NAME (Some (Block (CACHE_BLOCK_NAME b))) (Some ''cache'') (Some ''/cache'') (Some G_auto) None" b "[]"]
  by (simp add: g_roots_def CACHE_NAME_def root_def)

lemma length_header_bytes: "length (header_bytes h) = length (h_MAGIC h) + 44"
  by (simp add: header_bytes_def le32_def)

theorem update_header_last_witness:
  "\<exists>a. image_written flash_env ''image'' 5 0 (Some []) (Some []) a"
proof -
  let ?m = "write_update_for_bootloader ''image'' 5 0 0 0 (Some []) (Some [])"
  define h where "h = zero_header\<lparr>h_MAGIC := UPDATE_MAGIC, h_version := UPDATE_VERSION, h_size := header_size, image_length := 5\<rparr>"
  define a where "a = map Vol [ScanVolumes, FindVolume ''/cache''] @ map Mtd ([MtdScan, MtdFind ''cache'', MtdWriteOpen ''cache''])
     @ section_calls ''image'' 5 0 (Some []) (Some []) 0 0 0 @ [Mtd (MtdWriteOpen ''cache'')]"
  have s: "trace flash_device = []" "\<not> stopped flash_device" "env flash_device = flash_env" "has_mtd_cache (build flash_device)"
    by (simp_all add: flash_device_def sample_store_def boot_state_def)
  have "h = zero_header\<lparr>h_MAGIC := UPDATE_MAGIC, h_version := UPDATE_VERSION, h_size := header_size, image_length := 5, image_offset := 0,
      bitmap_width := 0, bitmap_height := 0, bitmap_bpp := 0, busy_bitmap_length := 0, busy_bitmap_offset := 0, fail_bitmap_length := 0,
      fail_bitmap_offset := 0\<rparr>"
    by (simp add: h_def zero_header_def)
  moreover have "length (header_bytes h) = 60" "length (header_bytes zero_header) = 60"
    by (simp_all add: length_header_bytes h_def zero_header_def UPDATE_MAGIC_def UPDATE_MAGIC_SIZE_def)
  ultimately have "trace (exec ?m flash_device) =
      trace flash_device @ a @ Mtd (MtdWriteData (header_bytes h)) # [Mtd (MtdEraseBlocks 0), Mtd MtdWriteClose]"
    using s cache_info
    by (simp add: write_update_for_bootloader_def ensure_root_path_unmounted_def get_root_mtd_partition_def mtd_find_def
        write_to_partition_def write_sections_def write_header_def run_simps root_def flash_env_def Let_def
        run_write_buf header_size_def a_def section_calls_def zero_header_def CACHE_NAME_def)
  moreover have "take UPDATE_MAGIC_SIZE (header_bytes h) = UPDATE_MAGIC"
    by (simp add: header_bytes_def h_def UPDATE_MAGIC_def UPDATE_MAGIC_SIZE_def)
  ultimately have "image_written (env flash_device) ''image'' 5 0 (Some []) (Some []) (trace flash_device @ a)"
    by (intro update_header_last [where b = "[Mtd (MtdEraseBlocks 0), Mtd MtdWriteClose]"])
       (simp_all add: no_magic_def UPDATE_MAGIC_def UPDATE_MAGIC_SIZE_def)
  then show ?thesis using s by auto
qed

end
