(* ===== verification/Nandroid.thy ===== *)
theory Nandroid
  imports Bootloader
begin

unbundle bit_operations_syntax

text \<open>
  \<open>nandroid.c\<close>: backing partitions up to the SD card and restoring them. Making and
  unpacking a yaffs2 image and dumping a flash partition are calls outside; the first two
  report each file they handle, in order. A path that \<open>translate_root_path\<close> refused is an
  uninitialised array, and using it is a fault. Command lines fit their buffers.
\<close>

section \<open>Helpers\<close>

definition BACKUP_SYSTEM :: int where "BACKUP_SYSTEM = 1"
definition BACKUP_CACHE :: int where "BACKUP_CACHE = 2"
definition BACKUP_DATA :: int where "BACKUP_DATA = 4"
definition BACKUP_DATADATA :: int where "BACKUP_DATADATA = 8"
definition BACKUP_EFS :: int where "BACKUP_EFS = 16"
definition BACKUP_SDEXT :: int where "BACKUP_SDEXT = 32"
definition BACKUP_BOOTABLES :: int where "BACKUP_BOOTABLES = 64"
definition BACKUP_OTHERS :: int where "BACKUP_OTHERS = 128"
definition BACKUP_ALL :: int where "BACKUP_ALL = 255"
definition BACKUP_NOUMOUNT :: int where "BACKUP_NOUMOUNT = 512"
definition BACKUP_NOFORMAT :: int where "BACKUP_NOFORMAT = 1024"
definition BACKUP_NOMD5 :: int where "BACKUP_NOMD5 = 2048"

lemmas backup_flags = BACKUP_SYSTEM_def BACKUP_CACHE_def BACKUP_DATA_def BACKUP_DATADATA_def BACKUP_EFS_def
  BACKUP_SDEXT_def BACKUP_BOOTABLES_def BACKUP_OTHERS_def BACKUP_ALL_def BACKUP_NOUMOUNT_def BACKUP_NOFORMAT_def
  BACKUP_NOMD5_def

definition TEXTCONTAINER_MAIN :: int where "TEXTCONTAINER_MAIN = 0"

text \<open>\<open>basename\<close>.\<close>

definition basename :: "string \<Rightarrow> string" where
  "basename p = (let q = rev (dropWhile (\<lambda>c. c = CHR ''/'') (rev p)) in
     if q = [] then (if p = [] then ''.'' else ''/'') else rev (takeWhile (\<lambda>c. c \<noteq> CHR ''/'') (rev q)))"

text \<open>
  \<open>ui_print\<close> of a text that is not a literal: the text is the format. A conversion that
  needs an argument has none, which is a fault.
\<close>

fun expand_format :: "string \<Rightarrow> string option" where
  "expand_format [] = Some []"
| "expand_format (c # s) =
     (if c \<noteq> CHR ''%'' then map_option (\<lambda>t. c # t) (expand_format s)
      else case s of
        [] \<Rightarrow> Some []
      | d # s' \<Rightarrow> if d = CHR ''%'' then map_option (\<lambda>t. CHR ''%'' # t) (expand_format s') else None)"

definition ui_print_text :: "string \<Rightarrow> unit prog" where
  "ui_print_text m = (case expand_format m of Some t \<Rightarrow> ui_print t | None \<Rightarrow> fault)"

definition system_call :: "string \<Rightarrow> int prog" where
  "system_call cmd = call (Proc (System cmd))"

definition write_raw_image :: "string \<Rightarrow> string \<Rightarrow> int prog" where
  "write_raw_image part f = system_call (''flash_image boot '' @ f)"

definition read_raw_image :: "string \<Rightarrow> string \<Rightarrow> int prog" where
  "read_raw_image part f = call (DumpImage part f)"

definition print_and_error :: "string \<Rightarrow> int prog" where
  "print_and_error message = do { ui_print_text message; ret 1 }"

definition yaffs_callback :: "string \<Rightarrow> unit prog" where
  "yaffs_callback f = do {
     let justfile = basename f;
     whenM (length justfile < 30) (ui_print_text justfile);
     upd (\<lambda>s. s\<lparr>yaffs_files_count := yaffs_files_count s + 1\<rparr>);
     n \<leftarrow> gets yaffs_files_count;
     t \<leftarrow> gets yaffs_files_total;
     whenM (t \<noteq> 0) (ui_set_progress (of_int n / of_int t));
     upd (\<lambda>s. s\<lparr>mainlog := ui_reset_text_col (mainlog s)\<rparr>) }"

definition compute_directory_stats :: "string \<Rightarrow> unit prog" where
  "compute_directory_stats directory = do {
     _ \<leftarrow> system_call (''find '' @ directory @ '' | wc -l > /tmp/dircount'');
     f \<leftarrow> sys (Fs (ReadFile ''/tmp/dircount''));
     whenM (rc f < 0) fault;
     upd (\<lambda>s. s\<lparr>yaffs_files_count := 0, yaffs_files_total := atoi (take 100 (dat f))\<rparr>);
     ui_reset_progress;
     ui_show_progress 1 0 }"

text \<open>Whether the progress is shown, and the images.\<close>

definition HIDE_PROGRESS :: string where
  "HIDE_PROGRESS = ''/mnt/sdcard/clockworkmod/.hidenandroidprogress''"

definition mkyaffs2image :: "string \<Rightarrow> string \<Rightarrow> bool \<Rightarrow> int prog" where
  "mkyaffs2image d f callback = do {
     r \<leftarrow> sys (Mkyaffs d f);
     whenM callback (for_each (lst r) yaffs_callback);
     ret (rc r) }"

definition unyaffs :: "string \<Rightarrow> string \<Rightarrow> bool \<Rightarrow> int prog" where
  "unyaffs f d callback = do {
     r \<leftarrow> sys (Unyaffs f d);
     whenM callback (for_each (lst r) yaffs_callback);
     ret (rc r) }"

section \<open>Backup\<close>

definition nandroid_backup_partition_extended :: "string \<Rightarrow> string \<Rightarrow> bool \<Rightarrow> int prog" where
  "nandroid_backup_partition_extended backup_path r umount_when_finished = do {
     b \<leftarrow> gets build;
     case translate_root_path b r PATH_MAX of
       None \<Rightarrow> do { fault; ret 0 }
     | Some mount_point \<Rightarrow> do {
         let name = basename mount_point;
         st \<leftarrow> call (Fs (Stat HIDE_PROGRESS));
         ui_print (''Backing up '' @ name @ ''...'' @ [LF]);
         m \<leftarrow> ensure_root_path_mounted r;
         if m \<noteq> 0 then do { ui_print (''Can't mount '' @ mount_point @ ''!'' @ [LF]); ret 1 }
         else do {
           compute_directory_stats mount_point;
           e \<leftarrow> mkyaffs2image mount_point (backup_path @ ''/'' @ name @ ''.img'') (st \<noteq> 0);
           whenM umount_when_finished (do { _ \<leftarrow> ensure_root_path_unmounted r; ret () });
           if e \<noteq> 0 then do { ui_print (''Error while making a yaffs2 image of '' @ mount_point @ ''!'' @ [LF]); ret e }
           else ret 0
         } } }"

definition nandroid_backup_partition :: "string \<Rightarrow> string \<Rightarrow> int prog" where
  "nandroid_backup_partition backup_path r = nandroid_backup_partition_extended backup_path r True"

text \<open>Running a list of steps until one of them returns something else than 0.\<close>

fun steps :: "int prog list \<Rightarrow> int prog" where
  "steps [] = ret 0"
| "steps (m # ms) = do { r \<leftarrow> m; if r \<noteq> 0 then ret r else steps ms }"

definition only_if :: "bool \<Rightarrow> int prog \<Rightarrow> int prog" where
  "only_if c m = (if c then m else ret 0)"

definition backup_bootables :: "string \<Rightarrow> int prog" where
  "backup_bootables backup_path = do {
     ui_print (''Backing up boot...'' @ [LF]);
     r \<leftarrow> read_raw_image ''boot'' (backup_path @ ''/boot.img'');
     if r \<noteq> 0 then print_and_error (''Error while dumping boot image!'' @ [LF])
     else do {
       ui_print (''Backing up recovery...'' @ [LF]);
       r \<leftarrow> read_raw_image ''recovery'' (backup_path @ ''/recovery.img'');
       if r \<noteq> 0 then print_and_error (''Error while dumping recovery image!'' @ [LF]) else ret 0
     } }"

definition backup_others :: "string \<Rightarrow> int prog" where
  "backup_others backup_path = do {
     st \<leftarrow> call (Fs (Stat ''/mnt/sdcard/.android_secure''));
     if st \<noteq> 0 then do {
       ui_print (''No /mnt/sdcard/.android_secure found. Skipping backup of applications on external storage.'' @ [LF]);
       ret 0
     } else nandroid_backup_partition_extended backup_path ''SDCARD:/.android_secure'' False }"

definition backup_sdext :: "string \<Rightarrow> int prog" where
  "backup_sdext backup_path = do {
     st \<leftarrow> call (Fs (Stat SDEXT_DEVICE));
     if st \<noteq> 0 then do { ui_print (''No sd-ext found. Skipping backup of sd-ext.'' @ [LF]); ret 0 }
     else do {
       m \<leftarrow> ensure_root_path_mounted ''SDEXT:'';
       if m \<noteq> 0 then do {
         ui_print (''Could not mount sd-ext. sd-ext backup may not be supported on this device. Skipping backup of sd-ext.'' @ [LF]);
         ret 0
       } else nandroid_backup_partition backup_path ''SDEXT:''
     } }"

definition backup_finish :: "string \<Rightarrow> int prog" where
  "backup_finish backup_path = do {
     ui_print (''Generating md5 sum...'' @ [LF]);
     r \<leftarrow> system_call (''cd '' @ backup_path @ ''; md5sum *img > nandroid.md5'');
     if r \<noteq> 0 then do { ui_print (''Error while generating md5 sum!'' @ [LF]); ret r }
     else do {
       do_call Sync;
       ui_set_background BACKGROUND_ICON_NONE;
       ui_reset_progress;
       ui_print ([LF] @ ''Backup complete!'' @ [LF]);
       ret 0
     } }"

text \<open>\<open>statfs\<close> answers the number of free blocks and their size; the product is a \<open>uint64_t\<close>.\<close>

definition free_mb :: "reply \<Rightarrow> int" where
  "free_mb s = (case map atoi (lst s) of
     bavail # bsize # _ \<Rightarrow> (bavail * bsize) mod 2 ^ 64 div (1024 * 1024) | _ \<Rightarrow> 0)"

definition backup_steps :: "build_opts \<Rightarrow> string \<Rightarrow> int \<Rightarrow> int prog" where
  "backup_steps b backup_path flags = steps
    [only_if (\<not> ignore_bootables b \<and> has flags BACKUP_BOOTABLES) (backup_bootables backup_path),
     only_if (has flags BACKUP_SYSTEM) (nandroid_backup_partition backup_path ''SYSTEM:''),
     only_if (has flags BACKUP_DATA) (nandroid_backup_partition backup_path ''DATA:''),
     only_if (has_datadata b \<and> has flags BACKUP_DATADATA) (nandroid_backup_partition backup_path ''DATADATA:''),
     only_if (has flags BACKUP_OTHERS) (backup_others backup_path),
     only_if (has flags BACKUP_CACHE) (nandroid_backup_partition_extended backup_path ''CACHE:'' False),
     only_if (has flags BACKUP_EFS) (nandroid_backup_partition_extended backup_path ''EFS:'' False),
     only_if (has flags BACKUP_SDEXT) (backup_sdext backup_path),
     backup_finish backup_path]"

definition nandroid_backup_flags :: "string \<Rightarrow> int \<Rightarrow> int prog" where
  "nandroid_backup_flags backup_path flags = do {
     ui_set_background BACKGROUND_ICON_INSTALLING;
     _ \<leftarrow> ui_set_page TEXTCONTAINER_MAIN;
     ui_set_show_text False;
     m \<leftarrow> ensure_root_path_mounted ''SDCARD:'';
     if m \<noteq> 0 then print_and_error (''Can't mount /mnt/sdcard'' @ [LF])
     else do {
       s \<leftarrow> sys (Fs (Statfs ''/mnt/sdcard''));
       if rc s \<noteq> 0 then print_and_error (''Unable to stat /mnt/sdcard'' @ [LF])
       else do {
         ui_print (''SD Card space free: '' @ dec_int (free_mb s) @ ''MB'' @ [LF]);
         whenM (free_mb s < 150) (ui_print (''There may not be enough free space to complete backup... continuing...'' @ [LF]));
         _ \<leftarrow> system_call (''mkdir -p '' @ backup_path);
         b \<leftarrow> gets build;
         backup_steps b backup_path flags
       } } }"

definition nandroid_backup :: "string \<Rightarrow> int prog" where
  "nandroid_backup backup_path = nandroid_backup_flags backup_path BACKUP_ALL"

section \<open>Restore\<close>

definition ensure_directory :: "string \<Rightarrow> unit prog" where
  "ensure_directory d = do { _ \<leftarrow> system_call (''mkdir -p '' @ d); ret () }"

definition prepare_restore :: "string \<Rightarrow> string \<Rightarrow> int prog" where
  "prepare_restore mount_point r = do {
     u \<leftarrow> ensure_root_path_unmounted r;
     if u \<noteq> 0 then do { ui_print (''Can't unmount '' @ mount_point @ ''!'' @ [LF]); ret u }
     else do {
       f \<leftarrow> format_root_device r;
       if f \<noteq> 0 then do { ui_print (''Error while formatting '' @ r @ ''!'' @ [LF]); ret f } else ret 0
     } }"

definition unpack_restore :: "string \<Rightarrow> string \<Rightarrow> string \<Rightarrow> int \<Rightarrow> bool \<Rightarrow> int prog" where
  "unpack_restore img mount_point r flags callback = do {
     m \<leftarrow> ensure_root_path_mounted r;
     if m \<noteq> 0 then do { ui_print (''Can't mount '' @ mount_point @ ''!'' @ [LF]); ret m }
     else do {
       whenM (has flags BACKUP_NOFORMAT) (do { bb [''rm'', ''-rf'', mount_point]; bb [''mkdir'', mount_point] });
       e \<leftarrow> unyaffs img mount_point callback;
       if e \<noteq> 0 then do { ui_print (''Error while restoring '' @ mount_point @ ''!'' @ [LF]); ret e }
       else do {
         whenM (\<not> has flags BACKUP_NOUMOUNT) (do { _ \<leftarrow> ensure_root_path_unmounted r; ret () });
         ret 0
       } } }"

definition nandroid_restore_partition_extended :: "string \<Rightarrow> string \<Rightarrow> int \<Rightarrow> int prog" where
  "nandroid_restore_partition_extended backup_path r flags = do {
     b \<leftarrow> gets build;
     case translate_root_path b r PATH_MAX of
       None \<Rightarrow> do { fault; ret 0 }
     | Some mount_point \<Rightarrow> do {
         let name = basename mount_point;
         let img = backup_path @ ''/'' @ name @ ''.img'';
         st \<leftarrow> call (Fs (Stat img));
         if st \<noteq> 0 then do {
           ui_print (name @ ''.img not found. Skipping restore of '' @ mount_point @ ''.'' @ [LF]);
           ret 0
         } else do {
           ensure_directory mount_point;
           h \<leftarrow> call (Fs (Stat HIDE_PROGRESS));
           ui_print (''Restoring '' @ name @ ''...'' @ [LF]);
           p \<leftarrow> only_if (\<not> has flags BACKUP_NOFORMAT) (prepare_restore mount_point r);
           if p \<noteq> 0 then ret p else unpack_restore img mount_point r flags (h \<noteq> 0)
         } } }"

definition nandroid_restore_partition :: "string \<Rightarrow> string \<Rightarrow> int prog" where
  "nandroid_restore_partition backup_path r = nandroid_restore_partition_extended backup_path r 0"

definition restore_boot_image :: "string \<Rightarrow> int prog" where
  "restore_boot_image backup_path = do {
     ui_print (''Erasing boot before restore...'' @ [LF]);
     f \<leftarrow> format_root_device ''BOOT:'';
     if f \<noteq> 0 then print_and_error (''Error while formatting BOOT:!'' @ [LF])
     else do {
       ui_print (''Restoring boot image...'' @ [LF]);
       w \<leftarrow> write_raw_image ''boot'' (backup_path @ ''/boot.img'');
       if w \<noteq> 0 then do { ui_print ''Error while flashing boot image!''; ret w } else ret 0
     } }"

definition md5_check :: "string \<Rightarrow> string" where
  "md5_check backup_path = ''cd '' @ backup_path @ '' && md5sum -c nandroid.md5''"

definition check_md5 :: "string \<Rightarrow> int prog" where
  "check_md5 backup_path = do {
     ui_print (''Checking MD5 sums...'' @ [LF]);
     r \<leftarrow> system_call (md5_check backup_path);
     if r \<noteq> 0 then print_and_error (''MD5 mismatch!'' @ [LF]) else ret 0 }"

definition restore_finish :: "int prog" where
  "restore_finish = do {
     do_call Sync;
     ui_set_background BACKGROUND_ICON_NONE;
     ui_reset_progress;
     ui_print ([LF] @ ''Restore complete!'' @ [LF]);
     ret 0 }"

definition restore_steps :: "build_opts \<Rightarrow> string \<Rightarrow> int \<Rightarrow> int prog" where
  "restore_steps b backup_path flags = steps
     [only_if (\<not> ignore_bootables b \<and> has flags BACKUP_BOOTABLES) (restore_boot_image backup_path),
      only_if (has flags BACKUP_SYSTEM) (nandroid_restore_partition_extended backup_path ''SYSTEM:'' (flags AND BACKUP_NOUMOUNT)),
      only_if (has flags BACKUP_DATA) (nandroid_restore_partition_extended backup_path ''DATA:'' flags),
      only_if (has_datadata b \<and> has flags BACKUP_DATADATA) (nandroid_restore_partition_extended backup_path ''DATADATA:'' flags),
      only_if (has flags BACKUP_OTHERS) (nandroid_restore_partition_extended backup_path ''SDCARD:/.android_secure'' flags),
      only_if (has flags BACKUP_CACHE) (nandroid_restore_partition_extended backup_path ''CACHE:'' flags),
      only_if (has flags BACKUP_SDEXT) (nandroid_restore_partition_extended backup_path ''SDEXT:'' flags),
      restore_finish]"

definition nandroid_restore_flags :: "string \<Rightarrow> int \<Rightarrow> int prog" where
  "nandroid_restore_flags backup_path flags = do {
     ui_set_background BACKGROUND_ICON_INSTALLING;
     ui_show_indeterminate_progress;
     _ \<leftarrow> ui_set_page TEXTCONTAINER_MAIN;
     ui_set_show_text False;
     upd (\<lambda>s. s\<lparr>yaffs_files_total := 0\<rparr>);
     m \<leftarrow> ensure_root_path_mounted ''SDCARD:'';
     if m \<noteq> 0 then print_and_error (''Can't mount /mnt/sdcard'' @ [LF])
     else do {
       b \<leftarrow> gets build;
       c \<leftarrow> only_if (\<not> has flags BACKUP_NOMD5) (check_md5 backup_path);
       if c \<noteq> 0 then ret c else restore_steps b backup_path flags } }"

definition restore_flags_of :: "bool \<Rightarrow> bool \<Rightarrow> bool \<Rightarrow> bool \<Rightarrow> bool \<Rightarrow> int" where
  "restore_flags_of boot system data cache sdext =
     (if boot then BACKUP_BOOTABLES else 0) OR (if system then BACKUP_SYSTEM else 0) OR
     (if data then BACKUP_DATA OR BACKUP_DATADATA OR BACKUP_OTHERS else 0) OR
     (if cache then BACKUP_CACHE else 0) OR (if sdext then BACKUP_SDEXT else 0) OR BACKUP_NOFORMAT"

definition nandroid_restore :: "string \<Rightarrow> bool \<Rightarrow> bool \<Rightarrow> bool \<Rightarrow> bool \<Rightarrow> bool \<Rightarrow> int prog" where
  "nandroid_restore backup_path boot system data cache sdext =
     nandroid_restore_flags backup_path (restore_flags_of boot system data cache sdext)"

section \<open>The command line\<close>

text \<open>The time: \<open>localtime\<close> and \<open>strftime\<close> (the text in the data of the reply), or the seconds when it fails.\<close>

definition nandroid_generate_timestamp_path :: "string prog" where
  "nandroid_generate_timestamp_path = do {
     t \<leftarrow> sys TimeOf;
     if dat t = [] then do { tp \<leftarrow> call TimeOf; ret (''/mnt/sdcard/clockworkmod/backup/'' @ dec_int tp) }
     else ret (''/mnt/sdcard/clockworkmod/backup/'' @ dat t) }"

definition steam_nandroid_main :: "string list \<Rightarrow> int prog" where
  "steam_nandroid_main argv =
     (if length argv > 3 \<or> length argv < 2 then ret 1
      else if argv ! 1 = ''backup'' then
        if length argv \<noteq> 2 then ret 1
        else do { p \<leftarrow> nandroid_generate_timestamp_path; nandroid_backup p }
      else if argv ! 1 = ''restore'' then
        if length argv \<noteq> 3 then ret 1 else nandroid_restore (argv ! 2) True True True True True
      else ret 1)"

section \<open>What these programs touch\<close>

fun nand_level :: "ext_call \<Rightarrow> bool" where
  "nand_level (Mkyaffs d f) = True"
| "nand_level (Unyaffs f d) = True"
| "nand_level (DumpImage p f) = True"
| "nand_level c = flash_level c"

lemma flash_nand_level [simp]: "flash_level c \<Longrightarrow> nand_level c"
  by (cases c rule: nand_level.cases) auto

lemma emits_ui_print_text [emits_intros]: "(\<And>t. P (Print t)) \<Longrightarrow> emits P (ui_print_text m)"
  unfolding ui_print_text_def by (intro emits_intros) simp_all

lemma emits_system_call [emits_intros]: "P (Proc (System c)) \<Longrightarrow> emits P (system_call c)"
  unfolding system_call_def by (intro emits_intros)

lemma emits_print_and_error [emits_intros]: "(\<And>t. P (Print t)) \<Longrightarrow> emits P (print_and_error m)"
  unfolding print_and_error_def by (intro emits_intros) simp_all

lemma emits_yaffs_callback [emits_intros]: "(\<And>c. ui_call c \<Longrightarrow> P c) \<Longrightarrow> emits P (yaffs_callback f)"
  unfolding yaffs_callback_def by (intro emits_intros) simp_all

lemma emits_compute_directory_stats [emits_intros]:
  "(\<And>c. fs_level c \<Longrightarrow> P c) \<Longrightarrow> emits P (compute_directory_stats d)"
  unfolding compute_directory_stats_def by (intro emits_intros) simp_all

lemma emits_mkyaffs2image [emits_intros]:
  "P (Mkyaffs d f) \<Longrightarrow> (\<And>c. ui_call c \<Longrightarrow> P c) \<Longrightarrow> emits P (mkyaffs2image d f cb)"
  unfolding mkyaffs2image_def by (intro emits_intros) simp_all

lemma emits_unyaffs [emits_intros]:
  "P (Unyaffs f d) \<Longrightarrow> (\<And>c. ui_call c \<Longrightarrow> P c) \<Longrightarrow> emits P (unyaffs f d cb)"
  unfolding unyaffs_def by (intro emits_intros) simp_all

lemma emits_ui_set_page [emits_intros]: "emits P (ui_set_page n)"
  unfolding ui_set_page_def by (intro emits_intros) simp_all

lemma emits_only_if [emits_intros]: "(c \<Longrightarrow> emits P m) \<Longrightarrow> emits P (only_if c m)"
  by (simp add: only_if_def emits_ret)

lemma emits_backup_partition [emits_intros]:
  "(\<And>c. nand_level c \<Longrightarrow> P c) \<Longrightarrow> emits P (nandroid_backup_partition_extended p r u)"
  "(\<And>c. nand_level c \<Longrightarrow> P c) \<Longrightarrow> emits P (nandroid_backup_partition p r)"
  unfolding nandroid_backup_partition_def nandroid_backup_partition_extended_def Let_def by (intro emits_intros; simp)+

lemma emits_backup_parts [emits_intros]:
  "(\<And>c. nand_level c \<Longrightarrow> P c) \<Longrightarrow> emits P (backup_bootables p)"
  "(\<And>c. nand_level c \<Longrightarrow> P c) \<Longrightarrow> emits P (backup_others p)"
  "(\<And>c. nand_level c \<Longrightarrow> P c) \<Longrightarrow> emits P (backup_sdext p)"
  "(\<And>c. nand_level c \<Longrightarrow> P c) \<Longrightarrow> emits P (backup_finish p)"
  unfolding backup_bootables_def read_raw_image_def backup_others_def backup_sdext_def backup_finish_def
  by (intro emits_intros; simp)+

lemma emits_backup_steps [emits_intros]: "(\<And>c. nand_level c \<Longrightarrow> P c) \<Longrightarrow> emits P (backup_steps b p f)"
  unfolding backup_steps_def steps.simps by (intro emits_intros; simp)

lemma emits_nandroid_backup [emits_intros]:
  "(\<And>c. nand_level c \<Longrightarrow> P c) \<Longrightarrow> emits P (nandroid_backup_flags p f)"
  "(\<And>c. nand_level c \<Longrightarrow> P c) \<Longrightarrow> emits P (nandroid_backup p)"
  unfolding nandroid_backup_def nandroid_backup_flags_def by (intro emits_intros; simp)+

lemma emits_restore_partition [emits_intros]:
  "(\<And>c. nand_level c \<Longrightarrow> P c) \<Longrightarrow> emits P (nandroid_restore_partition_extended p r f)"
  unfolding nandroid_restore_partition_extended_def prepare_restore_def unpack_restore_def ensure_directory_def Let_def
  by (intro emits_intros; simp)

lemma emits_restore_parts [emits_intros]:
  "(\<And>c. nand_level c \<Longrightarrow> P c) \<Longrightarrow> emits P (restore_boot_image p)"
  "(\<And>c. nand_level c \<Longrightarrow> P c) \<Longrightarrow> emits P (check_md5 p)"
  "(\<And>c. nand_level c \<Longrightarrow> P c) \<Longrightarrow> emits P restore_finish"
  unfolding restore_boot_image_def write_raw_image_def check_md5_def restore_finish_def by (intro emits_intros; simp)+

lemma emits_restore_steps [emits_intros]: "(\<And>c. nand_level c \<Longrightarrow> P c) \<Longrightarrow> emits P (restore_steps b p f)"
  unfolding restore_steps_def steps.simps by (intro emits_intros) simp_all

lemma emits_nandroid_restore [emits_intros]:
  "(\<And>c. nand_level c \<Longrightarrow> P c) \<Longrightarrow> emits P (nandroid_restore_flags p f)"
  "(\<And>c. nand_level c \<Longrightarrow> P c) \<Longrightarrow> emits P (nandroid_restore p b1 b2 b3 b4 b5)"
  unfolding nandroid_restore_def nandroid_restore_flags_def by (intro emits_intros; simp)+

lemma emits_generate_timestamp_path [emits_intros]:
  "(\<And>c. ui_call c \<Longrightarrow> P c) \<Longrightarrow> emits P nandroid_generate_timestamp_path"
  unfolding nandroid_generate_timestamp_path_def by (intro emits_intros) simp_all

section \<open>Properties\<close>

text \<open>Calls that unpack a backup or open a flash partition for writing.\<close>

fun restores :: "ext_call \<Rightarrow> bool" where
  "restores (Unyaffs f d) = True"
| "restores (Mtd (MtdWriteOpen p)) = True"
| "restores _ = False"

lemma mount_not_restores [simp]: "mount_level c \<Longrightarrow> \<not> restores c"
  by (cases c rule: restores.cases) auto

definition md5_passed :: "(ext_call list \<Rightarrow> ext_call \<Rightarrow> reply) \<Rightarrow> string \<Rightarrow> ext_call list \<Rightarrow> ext_call list \<Rightarrow> bool" where
  "md5_passed e p h0 cs \<longleftrightarrow> (\<exists>g rest. cs = g @ Proc (System (md5_check p)) # rest
     \<and> rc (e (h0 @ g) (Proc (System (md5_check p)))) = 0)"

lemma check_md5_passed:
  assumes "result (check_md5 p) s = 0" and "\<not> stopped (exec (check_md5 p) s)"
  shows "\<exists>cs. trace (exec (check_md5 p) s) = trace s @ cs \<and> md5_passed (env s) p (trace s) cs"
proof -
  have e: "emits (\<lambda>_. True) (ui_print (''Checking MD5 sums...'' @ [LF]))" by (intro emits_intros TrueI)
  obtain s1 where s1: "run_state (ui_print (''Checking MD5 sums...'' @ [LF])) s = ((), s1)"
    by (cases "run_state (ui_print (''Checking MD5 sums...'' @ [LF])) s") simp
  obtain t where t: "trace s1 = trace s @ t" using emitsD [OF e, of s] s1 by auto
  have env: "env s1 = env s" using emits_consts [OF e, of s] s1 by simp
  have res: "rc (env s1 (trace s1) (Proc (System (md5_check p)))) = 0 \<and> \<not> stopped s1"
    using assms s1 by (auto simp: check_md5_def system_call_def print_and_error_def call_def run_sys split_beta split: if_splits)
  then have "trace (exec (check_md5 p) s) = trace s @ t @ [Proc (System (md5_check p))]"
    using s1 t by (simp add: check_md5_def system_call_def call_def run_sys)
  then show ?thesis using res env t by (auto simp: md5_passed_def)
qed

lemma md5_passed_append: "md5_passed e p h cs \<Longrightarrow> md5_passed e p h (cs @ u)"
  unfolding md5_passed_def by fastforce

lemma md5_passed_prefix: "md5_passed e p (h @ t) cs \<Longrightarrow> md5_passed e p h (t @ cs)"
  unfolding md5_passed_def by (metis append.assoc)

text \<open>
  C18. The checksums come first. Unless it is told to skip them, \<open>nandroid_restore_flags\<close>
  unpacks no image and opens no flash partition for writing before \<open>md5sum\<close> has accepted
  the backup.
\<close>

theorem restore_after_md5:
  assumes "\<not> has flags BACKUP_NOMD5"
    and "trace (exec (nandroid_restore_flags backup_path flags) s) = trace s @ a @ c # b" and "restores c"
  shows "md5_passed (env s) backup_path (trace s) a"
proof -
  let ?n = "length (trace s)"
  let ?Q = "\<lambda>h. md5_passed (env s) backup_path (trace s) (drop ?n h)"
  let ?J = "\<lambda>t. env t = env s \<and> (\<exists>u. trace t = trace s @ u) \<and> preceded restores ?Q ?n (trace t)"
  have E: "hoare ?J m (\<lambda>_. ?J)" if em: "emits (\<lambda>c. \<not> restores c) m" for m :: "'a prog"
  proof (rule hoareI)
    fix t :: world assume t: "?J t"
    obtain u where "trace (exec m t) = trace t @ u" using emitsD [OF em] by blast
    then show "?J (exec m t)" using t preceded_emits [OF em, of ?Q ?n t] emits_consts [OF em, of t] by auto
  qed
  have e: "emits (\<lambda>c. \<not> restores c) (check_md5 backup_path)"
    unfolding check_md5_def by (intro emits_intros; simp)
  have md5: "hoare ?J (check_md5 backup_path) (\<lambda>r t. preceded restores ?Q ?n (trace t) \<and> (r = 0 \<longrightarrow> stopped t \<or> ?Q (trace t)))"
  proof (rule hoareI)
    fix t :: world assume t: "?J t"
    have J: "?J (exec (check_md5 backup_path) t)" using hoareD [OF E [OF e], of t] t by blast
    have "?Q (trace (exec (check_md5 backup_path) t))"
      if r: "result (check_md5 backup_path) t = 0" and ns: "\<not> stopped (exec (check_md5 backup_path) t)"
    proof -
      obtain cs where "trace (exec (check_md5 backup_path) t) = trace t @ cs" "md5_passed (env t) backup_path (trace t) cs"
        using check_md5_passed [OF r ns] by blast
      then show ?thesis using t md5_passed_prefix [of "env s" backup_path "trace s"] by auto
    qed
    with J show "preceded restores ?Q ?n (trace (exec (check_md5 backup_path) t)) \<and> (result (check_md5 backup_path) t = 0 \<longrightarrow>
      stopped (exec (check_md5 backup_path) t) \<or> ?Q (trace (exec (check_md5 backup_path) t)))" by blast
  qed
  have mono: "?Q (h @ u)" if "?Q h" for h u using that md5_passed_append by simp
  have rest: "hoare (\<lambda>t. preceded restores ?Q ?n (trace t) \<and> (stopped t \<or> ?Q (trace t))) (restore_steps bo backup_path flags)
      (\<lambda>_ t. preceded restores ?Q ?n (trace t))" for bo
    by (rule hoare_after) (intro emits_intros TrueI, rule mono)
  have F: "hoare ?J m (\<lambda>_ t. preceded restores ?Q ?n (trace t))" if "emits (\<lambda>c. \<not> restores c) m" for m :: "int prog"
    using E [OF that] by (rule hoare_weaken) blast+
  have "hoare ?J (nandroid_restore_flags backup_path flags) (\<lambda>_ t. preceded restores ?Q ?n (trace t))"
    unfolding nandroid_restore_flags_def only_if_def if_P [OF assms(1)]
    apply (rule hoare_bind [OF E], (intro emits_intros; simp; fail))+
    apply (rule hoare_if, rule F, (intro emits_intros; simp; fail))
    apply (rule hoare_bind [OF E [OF emits_gets]], rule hoare_bind [OF md5], rule hoare_if)
     apply (rule hoare_ret, blast)
    apply (rule hoare_weaken [OF rest], blast+)
    done
  from hoareD [OF this, of s] assms(2) have "preceded restores ?Q ?n (trace s @ a @ c # b)" by (simp add: preceded_start)
  from precededD [OF this assms(3)] show ?thesis by simp
qed

lemma log_main_blank: "mainlog s = ui_clear_screen 0 0 \<Longrightarrow> log_main m s = s"
  by (simp add: log_main_def vui_print_to_def ui_clear_screen_def)

lemma boot_info:
  "get_root_info_for_path b ''BOOT:'' = Some (root ''BOOT:'' (Some G_mtd_device) (Some ''boot'') None (Some G_raw) None)"
  using root_info [of "root ''BOOT:'' (Some G_mtd_device) (Some ''boot'') None (Some G_raw) None" b "[]"]
  by (simp add: g_roots_def root_def)

lemma sdcard_info:
  "get_root_info_for_path b ''SDCARD:'' =
     Some (root ''SDCARD:'' (Some (Block SDCARD_BLOCK_NAME)) (Some ''sdcard'') (Some ''/mnt/sdcard'') (Some (Fsname ''vfat'')) None)"
  using root_info [of "root ''SDCARD:'' (Some (Block SDCARD_BLOCK_NAME)) (Some ''sdcard'') (Some ''/mnt/sdcard'') (Some (Fsname ''vfat'')) None" b "[]"]
  by (simp add: g_roots_def root_def)

theorem restore_after_md5_witness:
  "md5_passed (env sample_store) ''/b'' []
     [Vol ScanVolumes, Vol (FindVolume ''/mnt/sdcard''), Print (''Checking MD5 sums...'' @ [LF]), Proc (System (md5_check ''/b'')),
      Print (''Erasing boot before restore...'' @ [LF]), Mtd MtdScan, Mtd (MtdFind ''boot'')]" (is "md5_passed _ _ _ ?a")
proof -
  have s: "\<not> stopped sample_store" "env sample_store h c = Reply 0 [] []" "\<not> ignore_bootables (build sample_store)"
    "mainlog sample_store = ui_clear_screen 0 0" "trace sample_store = []" for h c
    by (simp_all add: sample_store_def boot_state_def)
  have f: "\<not> has 64 BACKUP_NOMD5" "has 64 BACKUP_BOOTABLES" "\<not> has 64 BACKUP_SYSTEM" "\<not> has 64 BACKUP_DATA" "\<not> has 64 BACKUP_DATADATA"
    "\<not> has 64 BACKUP_OTHERS" "\<not> has 64 BACKUP_CACHE" "\<not> has 64 BACKUP_SDEXT"
    by (simp_all add: has_def backup_flags)
  have "trace (exec (nandroid_restore_flags ''/b'' 64) sample_store) = trace sample_store @ ?a @ Mtd (MtdWriteOpen ''boot'') #
     [Mtd (MtdEraseBlocks (-1)), Mtd MtdWriteClose, Print (''Restoring boot image...'' @ [LF]),
      Proc (System ''flash_image boot /b/boot.img''), Sync, Print ([LF] @ ''Restore complete!'' @ [LF])]"
    using s boot_info sdcard_info f
    by (simp add: nandroid_restore_flags_def ui_set_background_def ui_show_indeterminate_progress_def ui_set_page_def
        ui_set_show_text_def ensure_root_path_mounted_def internal_root_mounted_def root_def run_simps only_if_def
        check_md5_def system_call_def restore_steps_def restore_boot_image_def format_root_device_def mtd_find_def
        erase_mtd_def write_raw_image_def restore_finish_def ui_reset_progress_def log_main_blank Let_def)
  from restore_after_md5 [OF f(1) this] show ?thesis using s by simp
qed

text \<open>
  A backup that reads an uninitialised path. A full backup includes the EFS partition;
  in a build without a phone controller there is no such root, \<open>translate_root_path\<close> fills in
  nothing, and the path is used all the same.
\<close>

theorem efs_backup_uninitialised:
  assumes "\<not> stopped s" and "\<not> has_phone_controller (build s)"
  shows "has BACKUP_ALL BACKUP_EFS \<and> faulted (exec (nandroid_backup_partition_extended backup_path ''EFS:'' False) s)"
proof -
  have "get_root_info_for_path (build s) ''EFS:'' = None"
    using assms(2) by (simp add: get_root_info_for_path_def lookup_root_def g_roots_def root_def)
  then show ?thesis using assms(1)
    by (simp add: nandroid_backup_partition_extended_def translate_root_path_def PATH_MAX_def fault_def run_upd has_def backup_flags)
qed

theorem efs_backup_uninitialised_witness:
  "faulted (exec (nandroid_backup_partition_extended ''/b'' ''EFS:'' False) sample_store)"
  using efs_backup_uninitialised [of sample_store "''/b''"] by (simp add: sample_store_def boot_state_def)

end
