(* ===== verification/Firmware.thy ===== *)
theory Firmware
  imports Bootloader
begin

text \<open>
  \<open>firmware.c\<close>: the firmware image an update package may leave behind, and handing it to
  the bootloader. The order of its writes is what makes an interruption harmless: first the
  order to wipe the cache, then the image, then the order to install it.
\<close>

section \<open>Operations\<close>

definition remember_firmware_update :: "string option \<Rightarrow> string option \<Rightarrow> int \<Rightarrow> int prog" where
  "remember_firmware_update type data len = do {
     t \<leftarrow> gets update_type;
     d \<leftarrow> gets update_data;
     if t \<noteq> None \<or> d \<noteq> None then do { LOGE (''Multiple firmware images'' @ [LF]); ret (-1) }
     else do { upd (\<lambda>s. s\<lparr>update_type := type, update_data := data, update_length := len\<rparr>); ret 0 } }"

definition firmware_update_pending :: "world \<Rightarrow> bool" where
  "firmware_update_pending s \<longleftrightarrow> update_data s \<noteq> None \<and> update_length s > 0"

definition wipe_text :: string where
  "wipe_text = ''recovery'' @ [LF] @ ''--wipe_cache'' @ [LF]"

text \<open>The message that makes the recovery wipe the cache; the size given with its second copy is that of \<open>command\<close>.\<close>

definition wipe_message :: "string option \<Rightarrow> bootloader_message" where
  "wipe_message send_intent = (let
     boot = zero_message\<lparr>command := strlcpy (command zero_message) ''boot-recovery'' 32,
                         recovery := strlcpy (recovery zero_message) wipe_text 32\<rparr> in
     case send_intent of None \<Rightarrow> boot
     | Some i \<Rightarrow> boot\<lparr>recovery := strlcat (strlcat (strlcat (recovery boot) ''--send_intent='' 1024) i 1024) [LF] 1024\<rparr>)"

text \<open>\<open>snprintf\<close> with \<open>%s\<close> only is \<open>strlcpy\<close> of the text.\<close>

definition update_message :: "string option \<Rightarrow> bootloader_message \<Rightarrow> bootloader_message" where
  "update_message type boot = boot\<lparr>command := strlcpy (command boot) (''update-'' @ null_text type) 32\<rparr>"

text \<open>What follows once the order to wipe the cache is stored.\<close>

definition hand_over_image :: "string option \<Rightarrow> string \<Rightarrow> int \<Rightarrow> bootloader_message \<Rightarrow> int prog" where
  "hand_over_image type data len boot = do {
     (busy_image, _, _, _) \<leftarrow> ui_copy_image BACKGROUND_ICON_FIRMWARE_INSTALLING;
     (fail_image, width, height, bpp) \<leftarrow> ui_copy_image BACKGROUND_ICON_FIRMWARE_ERROR;
     ui_print (''Writing '' @ null_text type @ '' image...'' @ [LF]);
     r \<leftarrow> write_update_for_bootloader data len width height bpp busy_image fail_image;
     if r \<noteq> 0 then do {
       LOGE (''Can't write '' @ null_text type @ '' image'' @ [LF]);
       _ \<leftarrow> format_root_device ''CACHE:'';
       ret (-1)
     } else do {
       r \<leftarrow> set_bootloader_message (update_message type boot);
       if r \<noteq> 0 then do { _ \<leftarrow> format_root_device ''CACHE:''; ret (-1) }
       else do {
         do_call (Reboot ''RB_AUTOBOOT'');
         LOGE (''Can't reboot'' @ [LF]);
         ret (-1)
       } } }"

definition maybe_install_firmware_update :: "string option \<Rightarrow> int prog" where
  "maybe_install_firmware_update send_intent = do {
     d \<leftarrow> gets update_data;
     len \<leftarrow> gets update_length;
     type \<leftarrow> gets update_type;
     if d = None \<or> len = 0 then ret 0
     else do {
       let boot = wipe_message send_intent;
       r \<leftarrow> set_bootloader_message boot;
       if r \<noteq> 0 then ret (-1) else hand_over_image type (the d) len boot } }"

section \<open>The messages\<close>

lemma cstr_replicate_NUL [simp]: "cstr (replicate n NUL) = []"
  by (cases n) (simp_all add: cstr_def)

lemma wf_wipe_message: "wf_message (wipe_message i)"
  by (cases i) (simp_all add: wipe_message_def zero_message_def wf_message_def Let_def)

lemma wf_update_message: "wf_message m \<Longrightarrow> wf_message (update_message t m)"
  by (simp add: update_message_def wf_message_def)

lemma no_nul_wipe_text [simp]: "no_nul wipe_text"
  by (simp add: wipe_text_def)

text \<open>
  The order to wipe the cache, byte for byte: the command is \<open>boot-recovery\<close> and the
  recovery's arguments are \<open>--wipe_cache\<close> and, when an intent is given that fits the 1024
  bytes, \<open>--send_intent\<close> with it, each on a line. Both texts end inside their arrays.
\<close>

theorem wipe_message_text:
  assumes "no_nul intent" and "length intent \<le> 986"
  shows "wf_message (wipe_message (Some intent))
    \<and> cstr (command (wipe_message (Some intent))) = ''boot-recovery''
    \<and> cstr (recovery (wipe_message (Some intent))) = wipe_text @ ''--send_intent='' @ intent @ [LF]"
proof -
  let ?r = "strlcpy (replicate 1024 NUL) wipe_text 32"
  have l: "length wipe_text = 22" by (simp add: wipe_text_def)
  have r0: "cstr ?r = wipe_text" "length ?r = 1024" using l by (simp_all add: cstr_strlcpy)
  have r1: "cstr (strlcat ?r ''--send_intent='' 1024) = wipe_text @ ''--send_intent=''"
    using r0 l by (subst cstr_strlcat) simp_all
  have r2: "cstr (strlcat (strlcat ?r ''--send_intent='' 1024) intent 1024) = wipe_text @ ''--send_intent='' @ intent"
    using r0 r1 l assms by (subst cstr_strlcat) simp_all
  have r3: "cstr (strlcat (strlcat (strlcat ?r ''--send_intent='' 1024) intent 1024) [LF] 1024) = wipe_text @ ''--send_intent='' @ intent @ [LF]"
    using r0 r2 l assms by (subst cstr_strlcat) simp_all
  have c: "cstr (strlcpy (replicate 32 NUL) ''boot-recovery'' 32) = ''boot-recovery''"
    by (simp add: cstr_strlcpy)
  show ?thesis using r3 c wf_wipe_message [of "Some intent"] by (simp add: wipe_message_def zero_message_def Let_def)
qed

theorem wipe_message_text_witness:
  "cstr (recovery (wipe_message (Some ''x''))) = wipe_text @ ''--send_intent='' @ ''x'' @ [LF]"
  using wipe_message_text [of "''x''"] by simp

section \<open>What these programs touch\<close>

lemma emits_remember_firmware_update [emits_intros]:
  "(\<And>c. ui_call c \<Longrightarrow> P c) \<Longrightarrow> emits P (remember_firmware_update t d n)"
  unfolding remember_firmware_update_def by (intro emits_intros) simp_all

lemma emits_hand_over_image [emits_intros]:
  "(\<And>c. flash_level c \<Longrightarrow> P c) \<Longrightarrow> (\<And>a. P (Reboot a)) \<Longrightarrow> emits P (hand_over_image t d n m)"
  unfolding hand_over_image_def by (intro emits_intros) simp_all

lemma emits_maybe_install_firmware_update [emits_intros]:
  "(\<And>c. flash_level c \<Longrightarrow> P c) \<Longrightarrow> (\<And>a. P (Reboot a)) \<Longrightarrow> emits P (maybe_install_firmware_update i)"
  unfolding maybe_install_firmware_update_def Let_def by (intro emits_intros) simp_all

section \<open>The order of the writes\<close>

text \<open>A history in which the message \<open>m\<close> has been stored on \<open>misc\<close>: the partition was opened, written and closed.\<close>

definition message_stored :: "bootloader_message \<Rightarrow> ext_call list \<Rightarrow> bool" where
  "message_stored m h \<longleftrightarrow> (\<exists>g pre post rest. h = g @ map Mtd
     [MtdWriteOpen ''misc'', MtdWriteData (pre @ message_bytes m @ post), MtdWriteClose] @ rest)"

lemma message_stored_mono: "message_stored m h \<Longrightarrow> message_stored m (h @ u)"
  unfolding message_stored_def by fastforce

lemma message_storedI:
  "message_stored m (g @ [Mtd (MtdWriteOpen ''misc''), Mtd (MtdWriteData (pre @ message_bytes m @ post)), Mtd MtdWriteClose])"
  unfolding message_stored_def by (rule exI [of _ g], rule exI [of _ pre], rule exI [of _ post], rule exI [of _ "[]"]) simp

lemma misc_info:
  "get_root_info_for_path b MISC_NAME = (if has_misc b then Some (root ''MISC:'' (Some G_mtd_device) (Some ''misc'') None (Some G_raw) None) else None)"
  by (simp add: get_root_info_for_path_def lookup_root_def g_roots_def root_def MISC_NAME_def)

lemma gives_misc: "gives {None, Some ''misc''} (get_root_mtd_partition MISC_NAME)"
  unfolding get_root_mtd_partition_def
  by (auto simp: gives_def misc_info root_def mtd_find_def run_simps) (simp_all add: MISC_NAME_def)

lemma gives_bind_in: "gives A m \<Longrightarrow> (\<And>x. x \<in> A \<Longrightarrow> gives R (f x)) \<Longrightarrow> gives R (m \<bind> f)"
  by (auto simp: gives_def split: prod.splits) (metis fst_conv)

lemma gives_Let [wp]: "(\<And>x. x = t \<Longrightarrow> gives R (f x)) \<Longrightarrow> gives R (Let t f)"
  by simp

lemma gives_read_misc: "gives {r. \<forall>p w d. r = Some (p, w, d) \<longrightarrow> p = ''misc''} read_misc"
  unfolding read_misc_def
  by (rule gives_bind_in [OF gives_misc], elim insertE emptyE; simp) (intro wp; simp)+

text \<open>The only partition \<open>set_bootloader_message\<close> opens for writing is \<open>misc\<close>.\<close>

fun opens_cache :: "ext_call \<Rightarrow> bool" where
  "opens_cache (Mtd (MtdWriteOpen p)) = (p \<noteq> ''misc'')"
| "opens_cache _ = False"

lemma misc_read_opens_no_cache [simp]: "misc_read_level c \<Longrightarrow> \<not> opens_cache c"
  by (cases c rule: opens_cache.cases) auto

lemma set_message_no_cache: "emits (\<lambda>c. \<not> opens_cache c) (set_bootloader_message m)"
  unfolding set_bootloader_message_def Let_def
  by (rule emits_bind_result [OF emits_read_misc, of _ "{r. \<forall>p w d. r = Some (p, w, d) \<longrightarrow> p = ''misc''}"])
     (use givesD [OF gives_read_misc] in \<open>simp_all add: emits_intros split: option.split prod.split\<close>)

lemma runs_gives: "gives {x. \<forall>t. Q x t} m \<Longrightarrow> runs s h m Q"
  using givesD [of "{x. \<forall>t. Q x t}" m] by (simp add: runs_def)

lemma set_message_stored:
  assumes "result (set_bootloader_message m) s = 0" and "\<not> stopped (exec (set_bootloader_message m) s)"
  shows "\<exists>cs. trace (exec (set_bootloader_message m) s) = trace s @ cs \<and> message_stored m cs"
proof -
  obtain r s1 where r: "run_state read_misc s = (r, s1)" by fastforce
  obtain t0 where t0: "trace s1 = trace s @ t0"
    using emitsD [OF emits_read_misc [of "\<lambda>_. True"], of s] r by auto
  obtain f where f: "set_bootloader_message m = read_misc \<bind> f" and fr: "emits (\<lambda>_. True) (f r)"
    and run: "\<not> stopped s1 \<Longrightarrow> runs s1 (trace s1) (f r) (\<lambda>x t. x = 0 \<longrightarrow> (\<exists>cs. trace t = trace s1 @ cs \<and> message_stored m cs))"
  proof
    show "set_bootloader_message m = read_misc \<bind> (\<lambda>r. case r of
       None \<Rightarrow> ret (-1)
     | Some (p, w, d) \<Rightarrow> do {
         let page = nat (w * MISC_COMMAND_PAGE);
         let d' = take page d @ message_bytes m @ drop (page + message_size) d;
         wr \<leftarrow> call (Mtd (MtdWriteOpen p));
         if wr < 0 then do { LOGE (''Can't open '' @ MISC_NAME @ [LF]); ret (-1) }
         else do {
           n \<leftarrow> call (Mtd (MtdWriteData d'));
           if n \<noteq> w * MISC_PAGES then do {
             LOGE (''Can't write '' @ MISC_NAME @ [LF]);
             do_call (Mtd MtdWriteClose);
             ret (-1)
           } else do {
             c \<leftarrow> call (Mtd MtdWriteClose);
             if c \<noteq> 0 then do { LOGE (''Can't finish '' @ MISC_NAME @ [LF]); ret (-1) } else ret 0
           } } })" (is "_ = read_misc \<bind> ?f") by (simp add: set_bootloader_message_def)
    show "emits (\<lambda>_. True) (?f r)" unfolding Let_def by (intro emits_intros TrueI)
    assume ns: "\<not> stopped s1"
    have p: "p = ''misc''" if "r = Some (p, w, d)" for p w d using givesD [OF gives_read_misc, of s] r that by simp
    show "runs s1 (trace s1) (?f r) (\<lambda>x t. x = 0 \<longrightarrow> (\<exists>cs. trace t = trace s1 @ cs \<and> message_stored m cs))"
    proof (cases r)
      case (Some q)
      then obtain w d where q: "r = Some (''misc'', w, d)" using p by (cases q) auto
      show ?thesis unfolding q option.case prod.case Let_def
        by (rule runs_call [OF ns] runs_if | (rule runs_gives, intro wp, simp; fail) | rule runs_ret)+
           (use message_storedI [of m "[]"] in simp)
    qed (simp add: runs_def)
  qed
  have "stopped s1 \<Longrightarrow> exec (f r) s1 = s1" using emits_frozen [OF fr] by blast
  with assms f r have "\<not> stopped s1" "result (f r) s1 = 0" by (auto)
  with runsD [OF run] obtain cs where "trace (exec (f r) s1) = trace s1 @ cs" "message_stored m cs" by auto
  moreover have "message_stored m (t0 @ cs)" using calculation(2) unfolding message_stored_def by (metis append.assoc)
  ultimately show ?thesis using f r t0 by auto
qed

text \<open>
  C14. The order to wipe the cache comes first. Whenever installing a firmware image opens
  any partition but \<open>misc\<close> for writing, the message that makes the recovery wipe the cache
  has been stored on \<open>misc\<close> before: an interruption while the cache is overwritten leaves a
  device that repairs itself.
\<close>

theorem firmware_wipe_first:
  assumes "trace (exec (maybe_install_firmware_update send_intent) s) = trace s @ a @ c # b" and "opens_cache c"
  shows "message_stored (wipe_message send_intent) a"
proof -
  let ?m = "wipe_message send_intent" and ?n = "length (trace s)"
  let ?Q = "\<lambda>h. message_stored ?m (drop ?n h)"
  obtain r s1 where r: "run_state (set_bootloader_message ?m) s = (r, s1)" by fastforce
  have pre: "preceded opens_cache ?Q ?n (trace s1)"
    using preceded_emits [OF set_message_no_cache, of ?Q ?n s ?m] r by (simp add: preceded_start)
  have "preceded opens_cache ?Q ?n (trace (exec (maybe_install_firmware_update send_intent) s))"
  proof (cases "update_data s = None \<or> update_length s = 0 \<or> r \<noteq> 0")
    case True
    then show ?thesis using r pre by (auto simp: maybe_install_firmware_update_def preceded_start Let_def)
  next
    case False
    let ?h = "hand_over_image (update_type s) (the (update_data s)) (update_length s) ?m"
    have e: "emits (\<lambda>_. True) ?h" by (intro emits_intros TrueI)
    have x: "exec (maybe_install_firmware_update send_intent) s = exec ?h s1"
      using False r by (auto simp: maybe_install_firmware_update_def Let_def)
    show ?thesis
    proof (cases "stopped s1")
      case True
      then show ?thesis using x pre emits_frozen [OF e] by simp
    next
      case ns: False
      then obtain cs where "trace s1 = trace s @ cs" "message_stored ?m cs"
        using set_message_stored [of ?m s] r False by auto
      then have "?Q (trace s1 @ u)" for u using message_stored_mono by simp
      moreover obtain u where "trace (exec ?h s1) = trace s1 @ u" using emitsD [OF e] by blast
      ultimately show ?thesis using preceded_extend [OF pre] x by simp
    qed
  qed
  then have "preceded opens_cache ?Q ?n (trace s @ a @ c # b)" using assms(1) by simp
  from precededD [OF this assms(2)] show ?thesis by simp
qed

section \<open>The image is complete before the reboot\<close>

text \<open>
  Calls \<open>cs\<close> after the history \<open>h0\<close> with which an image has been written and made valid:
  the first pass, answered in full, then the header.
\<close>

definition image_complete ::
  "(ext_call list \<Rightarrow> ext_call \<Rightarrow> reply) \<Rightarrow> ext_call list \<Rightarrow> string \<Rightarrow> int \<Rightarrow> int \<Rightarrow> string option \<Rightarrow> string option \<Rightarrow> ext_call list \<Rightarrow> bool" where
  "image_complete e h0 u n bl bi fi cs \<longleftrightarrow> (\<exists>g p i j k h.
     cs = g @ [Mtd (MtdWriteOpen p)] @ section_calls u n bl bi fi i j k
            @ map Mtd [MtdWriteOpen p, MtdWriteData (header_bytes h), MtdEraseBlocks 0, MtdWriteClose]
     \<and> sections_ok e (h0 @ g @ [Mtd (MtdWriteOpen p)]) (section_calls u n bl bi fi i j k) n bl)"

lemma image_completeI:
  "sections_ok e (h0 @ g @ [Mtd (MtdWriteOpen p)]) (section_calls u n bl bi fi i j k) n bl \<Longrightarrow>
   image_complete e h0 u n bl bi fi (g @ Mtd (MtdWriteOpen p) # section_calls u n bl bi fi i j k
            @ [Mtd (MtdWriteOpen p), Mtd (MtdWriteData (header_bytes h)), Mtd (MtdEraseBlocks 0), Mtd MtdWriteClose])"
  unfolding image_complete_def
  by (rule exI [of _ g], rule exI [of _ p], rule exI [of _ i], rule exI [of _ j], rule exI [of _ k], rule exI [of _ h]) simp

lemma write_header_calls:
  assumes "\<not> stopped s"
  shows "runs s g (write_header p h i) (\<lambda>r t. r = 0 \<longrightarrow>
    trace t = g @ [Mtd (MtdWriteOpen p), Mtd (MtdWriteData (header_bytes h)), Mtd (MtdEraseBlocks 0), Mtd MtdWriteClose])"
  unfolding write_header_def
  by (rule runs_call [OF assms] runs_if | (rule runs_gives, intro wp, simp; fail) | rule runs_ret)+ simp

lemma write_to_partition_complete:
  assumes "\<not> stopped s" and "bl = (b + 7) div 8 * w * h"
  shows "runs s g (write_to_partition p u n w h b bi fi) (\<lambda>r t. r = 0 \<longrightarrow>
    (\<exists>cs. trace t = g @ cs \<and> image_complete (env s) g u n bl bi fi cs))"
  unfolding write_to_partition_def
proof (rule runs_call [OF assms(1)], rule runs_if)
  let ?o = "g @ [Mtd (MtdWriteOpen p)]"
  show "runs s ?o (do { r \<leftarrow> write_sections p u n w h b bi fi;
      case r of None \<Rightarrow> ret (-1) | Some (hd', pos) \<Rightarrow> write_header p hd' pos }) (\<lambda>r t. r = 0 \<longrightarrow>
    (\<exists>cs. trace t = g @ cs \<and> image_complete (env s) g u n bl bi fi cs))"
  proof (rule runs_then [OF write_sections_calls [OF assms(2,1)]])
    fix r :: "(update_header \<times> int) option" and t
    assume r: "r \<noteq> None \<longrightarrow> (\<exists>i j l. t = s\<lparr>trace := ?o @ section_calls u n bl bi fi i j l\<rparr>
        \<and> sections_ok (env s) ?o (section_calls u n bl bi fi i j l) n bl)"
    let ?f = "case r of None \<Rightarrow> ret (-1) | Some (hd', pos) \<Rightarrow> write_header p hd' pos"
    show "result ?f t = 0 \<longrightarrow> (\<exists>cs. trace (exec ?f t) = g @ cs \<and> image_complete (env s) g u n bl bi fi cs)"
    proof (cases r)
      case (Some x)
      then obtain hd' pos i j l where x: "x = (hd', pos)" "t = s\<lparr>trace := ?o @ section_calls u n bl bi fi i j l\<rparr>"
        "sections_ok (env s) ?o (section_calls u n bl bi fi i j l) n bl" using r by (cases x) auto
      show ?thesis
        using write_header_calls [OF assms(1), of "?o @ section_calls u n bl bi fi i j l" p hd' pos] Some x
          image_completeI [of "env s" g "[]"] by (simp add: runs_def)
    qed simp
  qed
qed (rule runs_gives, intro wp, simp)

lemma write_update_complete:
  assumes "result (write_update_for_bootloader u n w h b bi fi) s = 0"
    and "\<not> stopped (exec (write_update_for_bootloader u n w h b bi fi) s)" and "bl = (b + 7) div 8 * w * h"
  shows "\<exists>g cs. trace (exec (write_update_for_bootloader u n w h b bi fi) s) = trace s @ g @ cs
    \<and> image_complete (env s) (trace s @ g) u n bl bi fi cs"
proof -
  let ?m1 = "ensure_root_path_unmounted CACHE_NAME" and ?m2 = "get_root_mtd_partition CACHE_NAME"
  have e: "emits (\<lambda>_. True) ?m1" "emits (\<lambda>_. True) ?m2" by (intro emits_intros TrueI)+
  obtain r s1 where r: "run_state ?m1 s = (r, s1)" by fastforce
  obtain q s2 where q: "run_state ?m2 s1 = (q, s2)" by fastforce
  obtain g where g: "trace s2 = trace s @ g" using emitsD [OF e(1), of s] emitsD [OF e(2), of s1] r q by auto
  have env: "env s2 = env s" using emits_consts [OF e(1), of s] emits_consts [OF e(2), of s1] r q by simp
  have r0: "r = 0" and qn: "q \<noteq> None" using assms(1) r q by (auto simp: write_update_for_bootloader_def split_beta split: if_splits option.splits)
  then obtain p where p: "q = Some p" by blast
  have run: "run_state (write_update_for_bootloader u n w h b bi fi) s = run_state (write_to_partition p u n w h b bi fi) s2"
    using r q r0 p by (simp add: write_update_for_bootloader_def)
  have "\<not> stopped s2" using assms(2) run emits_frozen [OF emits_write_to_partition [of "\<lambda>_. True"]] by auto
  from runsD [OF write_to_partition_complete [OF this assms(3), of "trace s2" p u n bi fi]] run assms(1) env g show ?thesis by auto
qed

fun is_reboot :: "ext_call \<Rightarrow> bool" where
  "is_reboot (Reboot x) = True"
| "is_reboot _ = False"

lemma flash_no_reboot [simp]: "flash_level c \<Longrightarrow> \<not> is_reboot c"
  by (cases c rule: is_reboot.cases) auto

lemma hand_over_preceded:
  assumes pre: "preceded is_reboot Q k (trace s)"
    and Q: "\<And>g cs cs' bl bi fi. image_complete (env s) (trace s @ g) d n bl bi fi cs \<Longrightarrow>
      message_stored (update_message type boot) cs' \<Longrightarrow> Q (trace s @ g @ cs @ cs')"
  shows "preceded is_reboot Q k (trace (exec (hand_over_image type d n boot) s))"
proof -
  let ?E = "emits (\<lambda>c. \<not> is_reboot c)"
  obtain bi w0 h0 b0 s1 where s1: "run_state (ui_copy_image BACKGROUND_ICON_FIRMWARE_INSTALLING) s = ((bi, w0, h0, b0), s1)"
    by (metis prod.exhaust)
  obtain fi w h b s2 where s2: "run_state (ui_copy_image BACKGROUND_ICON_FIRMWARE_ERROR) s1 = ((fi, w, h, b), s2)"
    by (metis prod.exhaust)
  obtain s3 where s3: "run_state (ui_print (''Writing '' @ null_text type @ '' image...'' @ [LF])) s2 = ((), s3)"
    by (cases "run_state (ui_print (''Writing '' @ null_text type @ '' image...'' @ [LF])) s2") simp
  obtain r s4 where s4: "run_state (write_update_for_bootloader d n w h b bi fi) s3 = (r, s4)" by fastforce
  obtain r' s5 where s5: "run_state (set_bootloader_message (update_message type boot)) s4 = (r', s5)" by fastforce
  have e: "?E (ui_copy_image i)" "?E (ui_print m)" "?E (write_update_for_bootloader d n w h b bi fi)"
    "?E (set_bootloader_message m')" "?E (format_root_device ''CACHE:'')" "?E (LOGE m)" for i m m'
    by (intro emits_intros; simp)+
  obtain g where g: "trace s3 = trace s @ g" and env: "env s3 = env s"
    using emitsD [OF e(1) [of BACKGROUND_ICON_FIRMWARE_INSTALLING], of s] emitsD [OF e(1) [of BACKGROUND_ICON_FIRMWARE_ERROR], of s1]
      emitsD [OF e(2) [of "''Writing '' @ null_text type @ '' image...'' @ [LF]"], of s2]
      emits_consts [OF e(1) [of BACKGROUND_ICON_FIRMWARE_INSTALLING], of s]
      emits_consts [OF e(1) [of BACKGROUND_ICON_FIRMWARE_ERROR], of s1]
      emits_consts [OF e(2) [of "''Writing '' @ null_text type @ '' image...'' @ [LF]"], of s2] s1 s2 s3 by fastforce
  have p4: "preceded is_reboot Q k (trace s4)"
    using preceded_emits [OF e(3)] preceded_emits [OF e(2)] preceded_emits [OF e(1)] pre s1 s2 s3 s4 by (metis snd_conv)
  have p5: "preceded is_reboot Q k (trace s5)" using preceded_emits [OF e(4) p4] s5 by (metis snd_conv)
  note x = s1 s2 s3 s4 s5
  have tail: "?E (do { LOGE m; _ \<leftarrow> format_root_device ''CACHE:''; ret y })" "?E (do { _ \<leftarrow> format_root_device ''CACHE:''; ret y })"
    "?E (do { LOGE m; ret y })" "emits (\<lambda>_. True) (do { do_call (Reboot z); LOGE m; ret y })" for m z and y :: int
    by (intro emits_intros e; simp)+
  consider "r \<noteq> 0" | "r = 0" "r' \<noteq> 0" | "r = 0" "r' = 0" "stopped s5" | "r = 0" "r' = 0" "\<not> stopped s5" by blast
  then show ?thesis
  proof cases
    case 1
    then show ?thesis using preceded_emits [OF tail(1) p4] x by (simp add: hand_over_image_def)
  next
    case 2
    then show ?thesis using preceded_emits [OF tail(2) p5] x by (simp add: hand_over_image_def)
  next
    case 3
    then show ?thesis using emits_frozen [OF tail(4)] p5 x by (simp add: hand_over_image_def)
  next
    case 4
    then have "\<not> stopped s4" using emits_frozen [OF e(4)] s5 by (metis snd_conv)
    then obtain g' cs where cs: "trace s4 = trace s3 @ g' @ cs" "image_complete (env s) (trace s3 @ g') d n ((b + 7) div 8 * w * h) bi fi cs"
      using write_update_complete [of d n w h b bi fi s3] s4 4 env by auto
    obtain cs' where cs': "trace s5 = trace s4 @ cs'" "message_stored (update_message type boot) cs'"
      using set_message_stored [of "update_message type boot" s4] s5 4 by auto
    have "Q (trace s5)" using Q [of "g @ g'" _ _ _ cs cs'] cs cs' g by simp
    then have "preceded is_reboot Q k (trace s5 @ [Reboot ''RB_AUTOBOOT''])" using p5 by (intro preceded_snoc)
    from preceded_emits [OF tail(3), of Q k "s5\<lparr>trace := trace s5 @ [Reboot ''RB_AUTOBOOT'']\<rparr>"] this
    show ?thesis using 4 x by (simp add: hand_over_image_def do_call_def run_sys)
  qed
qed

text \<open>
  C15. The reboot comes last. When installing a firmware image reaches the reboot, it has
  stored the order to wipe the cache, then written the complete image with its header last,
  then stored the order to install it, in this order.
\<close>

theorem firmware_reboot_last:
  assumes "trace (exec (maybe_install_firmware_update send_intent) s) = trace s @ a @ Reboot x # b"
  shows "\<exists>a1 a2 a3 a4 data bl busy fail. a = a1 @ a2 @ a3 @ a4 \<and> update_data s = Some data
    \<and> message_stored (wipe_message send_intent) a1
    \<and> image_complete (env s) (trace s @ a1 @ a2) data (update_length s) bl busy fail a3
    \<and> message_stored (update_message (update_type s) (wipe_message send_intent)) a4"
proof -
  let ?m = "wipe_message send_intent" and ?n = "length (trace s)"
  let ?Q = "\<lambda>h. \<exists>a1 a2 a3 a4 data bl busy fail. drop ?n h = a1 @ a2 @ a3 @ a4 \<and> update_data s = Some data
    \<and> message_stored ?m a1 \<and> image_complete (env s) (trace s @ a1 @ a2) data (update_length s) bl busy fail a3
    \<and> message_stored (update_message (update_type s) ?m) a4"
  obtain r s1 where r: "run_state (set_bootloader_message ?m) s = (r, s1)" by fastforce
  have e: "emits (\<lambda>c. \<not> is_reboot c) (set_bootloader_message ?m)" by (intro emits_intros; simp)
  have pre: "preceded is_reboot ?Q ?n (trace s1)"
    using preceded_emits [OF e, of ?Q ?n s] r by (simp add: preceded_start)
  have "preceded is_reboot ?Q ?n (trace (exec (maybe_install_firmware_update send_intent) s))"
  proof (cases "update_data s = None \<or> update_length s = 0 \<or> r \<noteq> 0")
    case True
    then show ?thesis using r pre by (auto simp: maybe_install_firmware_update_def preceded_start Let_def)
  next
    case False
    then obtain d where d: "update_data s = Some d" by auto
    let ?h = "hand_over_image (update_type s) d (update_length s) ?m"
    have x: "exec (maybe_install_firmware_update send_intent) s = exec ?h s1"
      using False r d by (auto simp: maybe_install_firmware_update_def Let_def)
    show ?thesis
    proof (cases "stopped s1")
      case True
      have h: "emits (\<lambda>_. True) ?h" by (intro emits_intros TrueI)
      show ?thesis unfolding x emits_frozen [OF h True] by (rule pre)
    next
      case ns: False
      then obtain cs where cs: "trace s1 = trace s @ cs" "message_stored ?m cs"
        using set_message_stored [of ?m s] r False by auto
      have env: "env s1 = env s" using emits_consts [OF e, of s] r by simp
      show ?thesis unfolding x
      proof (rule hand_over_preceded [OF pre])
        fix g c3 c4 bl bi fi
        assume "image_complete (env s1) (trace s1 @ g) d (update_length s) bl bi fi c3"
          and "message_stored (update_message (update_type s) ?m) c4"
        then show "?Q (trace s1 @ g @ c3 @ c4)" using cs env d
          by (intro exI [of _ cs] exI [of _ g] exI [of _ c3] exI [of _ c4] exI [of _ d] exI [of _ bl] exI [of _ bi] exI [of _ fi]) simp
      qed
    qed
  qed
  then have "preceded is_reboot ?Q ?n (trace s @ a @ Reboot x # b)" using assms(1) by simp
  from precededD [OF this] show ?thesis by simp
qed

lemma write_update_needs_mtd_cache:
  assumes "\<not> has_mtd_cache (build t)"
  shows "result (write_update_for_bootloader d n w h b bi fi) t \<noteq> 0"
proof -
  have "emits (\<lambda>_. True) (ensure_root_path_unmounted CACHE_NAME)" by (intro emits_intros TrueI)
  from emits_consts [OF this] have "build (exec (ensure_root_path_unmounted CACHE_NAME) t) = build t" by blast
  then show ?thesis using assms cache_info
    by (auto simp: write_update_for_bootloader_def get_root_mtd_partition_def root_def split_beta)
qed

text \<open>
  No update without the cache on flash. In a build without \<open>BOARD_HAS_MTD_CACHE\<close> the
  device tables of this repository have the cache on a block device, so a firmware image is
  never installed: the device is not rebooted to install it.
\<close>

theorem firmware_needs_mtd_cache:
  assumes "\<not> has_mtd_cache (build s)"
  shows "\<not> list_ex is_reboot (drop (length (trace s)) (trace (exec (maybe_install_firmware_update send_intent) s)))"
proof -
  let ?I = "\<lambda>t. \<not> has_mtd_cache (build t) \<and> preceded is_reboot (\<lambda>_. False) (length (trace s)) (trace t)"
  have E: "hoare ?I m (\<lambda>_. ?I)" if "emits (\<lambda>c. \<not> is_reboot c) m" for m :: "'a prog"
    using preceded_emits [OF that, of "\<lambda>_. False"] emits_consts [OF that] by (simp add: hoare_def)
  have e: "emits (\<lambda>c. \<not> is_reboot c) (write_update_for_bootloader d n w h b bi fi)"
    "emits (\<lambda>c. \<not> is_reboot c) (set_bootloader_message m)" "emits (\<lambda>c. \<not> is_reboot c) (ui_copy_image i)"
    "emits (\<lambda>c. \<not> is_reboot c) (ui_print x)" "emits (\<lambda>c. \<not> is_reboot c) (do { LOGE x; _ \<leftarrow> format_root_device ''CACHE:''; ret y })"
    for d n w h b bi fi m i x and y :: int by (intro emits_intros; simp)+
  have W: "hoare ?I (write_update_for_bootloader d n w h b bi fi) (\<lambda>r t. ?I t \<and> r \<noteq> 0)" for d n w h b bi fi
    using hoareD [OF E [OF e(1)]] write_update_needs_mtd_cache by (simp add: hoare_def)
  have hand: "hoare ?I (hand_over_image ty d n m) (\<lambda>_. ?I)" for ty d n m
    unfolding hand_over_image_def
    by (rule hoare_bind [OF E [OF e(3)]], (rule hoare_prod)+)+
       (rule hoare_bind [OF E [OF e(4)]], rule hoare_bind [OF W], rule hoare_if,
        use E [OF e(5)] in \<open>simp_all add: hoare_def\<close>)
  have "hoare ?I (maybe_install_firmware_update send_intent) (\<lambda>_. ?I)"
    unfolding maybe_install_firmware_update_def Let_def
    by (rule hoare_bind [OF E [OF emits_gets]])+
       (rule hoare_if, rule E [OF emits_ret], rule hoare_bind [OF E [OF e(2)]], rule hoare_if, rule E [OF emits_ret], rule hand)
  from hoareD [OF this, of s] assms have "preceded is_reboot (\<lambda>_. False) (length (trace s)) (trace (exec (maybe_install_firmware_update send_intent) s))"
    by (simp add: preceded_start)
  then show ?thesis
    by (auto simp: preceded_def list_ex_length)
qed

theorem firmware_needs_mtd_cache_witness:
  "\<not> list_ex is_reboot (trace (exec (maybe_install_firmware_update None) (sample_store\<lparr>update_data := Some ''x'', update_length := 1\<rparr>)))"
  using firmware_needs_mtd_cache [of "sample_store\<lparr>update_data := Some ''x'', update_length := 1\<rparr>" None]
  by (simp add: sample_store_def boot_state_def)

section \<open>A run\<close>

text \<open>A device with a firmware image waiting, on which every flash write succeeds.\<close>

definition firmware_env :: "ext_call list \<Rightarrow> ext_call \<Rightarrow> reply" where
  "firmware_env h c = (case c of
     Mtd (MtdInfo p) \<Rightarrow> Reply 544 [] []
   | Mtd (MtdReadData n) \<Rightarrow> Reply n (replicate (nat n) NUL) []
   | Mtd (MtdWriteData d) \<Rightarrow> Reply (int (length d)) [] []
   | Vol (FindVolume p) \<Rightarrow> Reply (-1) [] []
   | Malloc n \<Rightarrow> Reply 1 [] []
   | _ \<Rightarrow> Reply 0 [] [])"

definition firmware_device :: world where
  "firmware_device = sample_store\<lparr>env := firmware_env, build := build sample_store\<lparr>has_mtd_cache := True\<rparr>,
     update_type := Some ''radio'', update_data := Some ''image'', update_length := 5\<rparr>"

lemma firmware_device [simp]:
  "trace firmware_device = []" "\<not> stopped firmware_device" "env firmware_device = firmware_env"
  "has_mtd_cache (build firmware_device)" "has_misc (build firmware_device)"
  "update_type firmware_device = Some ''radio''" "update_data firmware_device = Some ''image''" "update_length firmware_device = 5"
  by (simp_all add: firmware_device_def sample_store_def boot_state_def)

lemma firmware_device_log [simp]: "log_main m (firmware_device\<lparr>trace := h\<rparr>) = firmware_device\<lparr>trace := h\<rparr>"
  by (simp add: log_main_def vui_print_to_def firmware_device_def sample_store_def boot_state_def ui_clear_screen_def)

definition set_calls :: "bootloader_message \<Rightarrow> ext_call list" where
  "set_calls m = misc_read_calls 544 @ [Mtd (MtdWriteOpen ''misc''), Mtd (MtdWriteData (replicate 544 NUL @ message_bytes m)),
     Mtd MtdWriteClose]"

lemma run_set_calls:
  assumes "wf_message m"
  shows "run_state (set_bootloader_message m) (firmware_device\<lparr>trace := h\<rparr>) = (0, firmware_device\<lparr>trace := h @ set_calls m\<rparr>)"
proof -
  have l: "int (length (message_bytes m)) = 1088" using length_message_bytes [OF assms] by (simp add: message_size_def)
  show ?thesis
    using misc_partition [of "firmware_device\<lparr>trace := h\<rparr>"] l
    by (simp add: set_bootloader_message_def read_misc_def run_simps firmware_env_def MISC_PAGES_def MISC_COMMAND_PAGE_def
        message_size_def set_calls_def misc_read_calls_def Let_def)
qed

definition run_header :: update_header where
  "run_header = zero_header\<lparr>h_MAGIC := UPDATE_MAGIC, h_version := UPDATE_VERSION, h_size := header_size, image_length := 5, bitmap_bpp := 16\<rparr>"

definition update_calls :: "ext_call list" where
  "update_calls = section_calls ''image'' 5 0 (Some []) (Some []) 0 0 0
     @ map Mtd [MtdWriteOpen ''cache'', MtdWriteData (header_bytes run_header), MtdEraseBlocks 0, MtdWriteClose]"

definition cache_calls :: "ext_call list" where
  "cache_calls = [Vol ScanVolumes, Vol (FindVolume ''/cache''), Mtd MtdScan, Mtd (MtdFind ''cache'')]"

lemma run_write_calls:
  "run_state (write_update_for_bootloader ''image'' 5 0 0 16 (Some []) (Some [])) (firmware_device\<lparr>trace := h\<rparr>)
   = (0, firmware_device\<lparr>trace := h @ cache_calls @ Mtd (MtdWriteOpen ''cache'') # update_calls\<rparr>)"
  using cache_info [of "build firmware_device"]
  by (simp add: write_update_for_bootloader_def ensure_root_path_unmounted_def get_root_mtd_partition_def mtd_find_def
      write_to_partition_def write_sections_def write_header_def run_simps root_def firmware_env_def Let_def
      run_write_buf header_size_def update_calls_def cache_calls_def section_calls_def zero_header_def run_header_def
      CACHE_NAME_def length_header_bytes UPDATE_MAGIC_def UPDATE_MAGIC_SIZE_def)

definition copy_calls :: "ext_call list" where
  "copy_calls = [FbWidth, FbHeight, Malloc 0, FbImage 3, FbWidth, FbHeight, Malloc 0, FbImage 4,
     Print (''Writing radio image...'' @ [LF])]"

lemma firmware_trace:
  "trace (exec (maybe_install_firmware_update None) firmware_device) =
     (set_calls (wipe_message None) @ copy_calls @ cache_calls) @ Mtd (MtdWriteOpen ''cache'') #
       update_calls @ set_calls (update_message (Some ''radio'') (wipe_message None)) @ Reboot ''RB_AUTOBOOT'' # [Print (''E:Can't reboot'' @ [LF])]"
proof -
  have "firmware_device\<lparr>trace := []\<rparr> = firmware_device"
    by (simp add: firmware_device_def sample_store_def boot_state_def)
  then have "run_state (set_bootloader_message (wipe_message None)) firmware_device =
      (0, firmware_device\<lparr>trace := set_calls (wipe_message None)\<rparr>)"
    using run_set_calls [OF wf_wipe_message [of None], of "[]"] by (simp only: append_Nil)
  then show ?thesis
    using run_set_calls [OF wf_update_message [OF wf_wipe_message]] run_write_calls
    by (simp add: maybe_install_firmware_update_def hand_over_image_def ui_copy_image_def run_simps Let_def firmware_env_def
        copy_calls_def null_text_def BACKGROUND_ICON_FIRMWARE_INSTALLING_def BACKGROUND_ICON_FIRMWARE_ERROR_def)
qed

theorem firmware_wipe_first_witness:
  "message_stored (wipe_message None) (set_calls (wipe_message None) @ copy_calls @ cache_calls)"
  using firmware_wipe_first [of None firmware_device] firmware_trace by simp

theorem firmware_reboot_last_witness:
  "\<exists>a1 a2 a3 a4 data bl busy fail. set_calls (wipe_message None) @ copy_calls @ cache_calls @ Mtd (MtdWriteOpen ''cache'') #
       update_calls @ set_calls (update_message (Some ''radio'') (wipe_message None)) = a1 @ a2 @ a3 @ a4
    \<and> message_stored (wipe_message None) a1
    \<and> image_complete firmware_env (a1 @ a2) data 5 bl busy fail a3
    \<and> message_stored (update_message (Some ''radio'') (wipe_message None)) a4"
proof -
  let ?a = "set_calls (wipe_message None) @ copy_calls @ cache_calls @ Mtd (MtdWriteOpen ''cache'') #
       update_calls @ set_calls (update_message (Some ''radio'') (wipe_message None))"
  have "trace (exec (maybe_install_firmware_update None) firmware_device)
      = trace firmware_device @ ?a @ Reboot ''RB_AUTOBOOT'' # [Print (''E:Can't reboot'' @ [LF])]"
    using firmware_trace by simp
  from firmware_reboot_last [OF this] show ?thesis by simp blast
qed

end
