(* ===== verification/Install.thy ===== *)
theory Install
  imports Nandroid Firmware Verifier
begin

text \<open>
  \<open>install.c\<close> and \<open>legacy.c\<close>: installing an update package. The package is verified with
  the keys of \<open>/res/keys\<close>, opened, and installed by the program it contains
  (\<open>update-binary\<close>), whose output is read line by line, or by its script, which the amend
  interpreter runs. SHA-1 and RSA are the parameter \<open>v\<close> of the verifier. What \<open>fgets\<close>
  returns are the lines of the reply; process ids and pipe numbers do not appear.
\<close>

section \<open>Numbers in text\<close>

text \<open>Digits of any base up to 16, as \<open>scanf\<close>, \<open>strtoul\<close> and \<open>printf\<close> use them.\<close>

definition digit_value :: "char \<Rightarrow> nat" where
  "digit_value c = (let k = of_char c in
     if 48 \<le> k \<and> k \<le> 57 then k - 48 else if 97 \<le> k \<and> k \<le> 102 then k - 87
     else if 65 \<le> k \<and> k \<le> 70 then k - 55 else 99)"

definition base_digit :: "nat \<Rightarrow> char \<Rightarrow> bool" where
  "base_digit b c \<longleftrightarrow> digit_value c < b"

definition digits_value :: "nat \<Rightarrow> string \<Rightarrow> nat" where
  "digits_value b = foldl (\<lambda>acc c. b * acc + digit_value c) 0"

definition skip_ws :: "string \<Rightarrow> string" where
  "skip_ws = dropWhile is_space"

definition sign_of :: "string \<Rightarrow> bool \<times> string" where
  "sign_of t = (case t of c # u \<Rightarrow> if c = CHR ''-'' then (True, u) else if c = CHR ''+'' then (False, u) else (False, t) | [] \<Rightarrow> (False, []))"

definition hex_prefix :: "string \<Rightarrow> bool" where
  "hex_prefix t \<longleftrightarrow> (case t of a # x # c # u \<Rightarrow> a = CHR ''0'' \<and> (x = CHR ''x'' \<or> x = CHR ''X'') \<and> base_digit 16 c | _ \<Rightarrow> False)"

text \<open>The value of an \<open>unsigned\<close>: too large a number becomes the largest, a minus sign negates.\<close>

definition unsigned_value :: "bool \<Rightarrow> nat \<Rightarrow> int" where
  "unsigned_value neg n = (if n \<ge> 2 ^ 32 then 2 ^ 32 - 1 else if neg then (- int n) mod 2 ^ 32 else int n)"

definition to_int32 :: "int \<Rightarrow> int" where
  "to_int32 x = (x + 2 ^ 31) mod 2 ^ 32 - 2 ^ 31"

text \<open>A number of base \<open>b\<close> (10 or 16) after white space and a sign; what is left of the text.\<close>

definition scan_base :: "nat \<Rightarrow> string \<Rightarrow> (int \<times> string) option" where
  "scan_base b t = (let (neg, u) = sign_of (skip_ws t); w = (if b = 16 \<and> hex_prefix u then drop 2 u else u);
       ds = takeWhile (base_digit b) w in
     if ds = [] then None else Some (unsigned_value neg (digits_value b ds), drop (length ds) w))"

text \<open>\<open>strtoul(s, &end, 0)\<close>: the base is 16 after \<open>0x\<close>, 8 after \<open>0\<close>, else 10; without digits nothing is read.\<close>

definition strtoul0 :: "string \<Rightarrow> int \<times> string" where
  "strtoul0 t = (let (neg, u) = sign_of (skip_ws t);
       (b, w) = (if hex_prefix u then (16, drop 2 u) else if u \<noteq> [] \<and> hd u = CHR ''0'' then (8, u) else (10, u));
       ds = takeWhile (base_digit b) w in
     if ds = [] then (0, t) else (unsigned_value neg (digits_value b ds), drop (length ds) w))"

text \<open>\<open>strtod\<close> and \<open>strtof\<close> on decimal fractions; exponents, hexadecimal numbers and names are left out.\<close>

definition strtod :: "string \<Rightarrow> rat \<times> string" where
  "strtod t = (let (neg, u) = sign_of (skip_ws t); ds = takeWhile is_digit u; r = drop (length ds) u;
       fs = (case r of c # v \<Rightarrow> if c = CHR ''.'' then takeWhile is_digit v else [] | [] \<Rightarrow> []);
       r' = (case r of c # v \<Rightarrow> if c = CHR ''.'' then drop (length fs) v else r | [] \<Rightarrow> []);
       x = of_nat (digits_value 10 (ds @ fs)) / 10 ^ length fs in
     if ds = [] \<and> fs = [] then (0, t) else (if neg then - x else x, r'))"

section \<open>The keys\<close>

text \<open>\<open>RSAPublicKey\<close> of mincrypt: 64 words each for the modulus and for \<open>R^2\<close>.\<close>

record RSAPublicKey =
  k_len :: int
  n0inv :: int
  k_n :: "int list"
  k_rr :: "int list"

definition lit :: "char \<Rightarrow> string \<Rightarrow> string option" where
  "lit c t = (case t of d # u \<Rightarrow> if d = c then Some u else None | [] \<Rightarrow> None)"

text \<open>A literal after optional white space, as \<open>" {"\<close> in a format.\<close>

definition ws_lit :: "char \<Rightarrow> string \<Rightarrow> string option" where
  "ws_lit c t = lit c (skip_ws t)"

text \<open>\<open>%i\<close>.\<close>

definition scan_i :: "string \<Rightarrow> (int \<times> string) option" where
  "scan_i t = (let (x, r) = strtoul0 t in if r = t then None else Some (to_int32 x, r))"

primrec scan_words :: "nat \<Rightarrow> string \<Rightarrow> (int list \<times> string) option" where
  "scan_words 0 t = Some ([], t)"
| "scan_words (Suc k) t = do {
     t \<leftarrow> ws_lit CHR '','' t;
     (x, t) \<leftarrow> scan_base 10 t;
     (xs, t) \<leftarrow> scan_words k t;
     Some (x # xs, t) }"

definition key_head :: "string \<Rightarrow> (int \<times> int \<times> int \<times> string) option" where
  "key_head t = do {
     t \<leftarrow> ws_lit CHR ''{'' t;
     (len, t) \<leftarrow> scan_i t;
     t \<leftarrow> ws_lit CHR '','' t;
     t \<leftarrow> ws_lit CHR ''0'' t;
     t \<leftarrow> lit CHR ''x'' t;
     (ninv, t) \<leftarrow> scan_base 16 t;
     t \<leftarrow> ws_lit CHR '','' t;
     t \<leftarrow> ws_lit CHR ''{'' t;
     (x, t) \<leftarrow> scan_base 10 t;
     Some (len, ninv, x, t) }"

definition key_tail :: "nat \<Rightarrow> string \<Rightarrow> (int list \<times> int list \<times> string) option" where
  "key_tail k t = do {
     (ns, t) \<leftarrow> scan_words k t;
     t \<leftarrow> ws_lit CHR ''}'' t;
     t \<leftarrow> ws_lit CHR '','' t;
     t \<leftarrow> ws_lit CHR ''{'' t;
     (x, t) \<leftarrow> scan_base 10 t;
     (rs, t) \<leftarrow> scan_words k t;
     Some (ns, x # rs, t) }"

text \<open>\<open>fscanf(f, " } } ")\<close>: as far as the format matches.\<close>

definition key_end :: "string \<Rightarrow> string" where
  "key_end t = (case ws_lit CHR ''}'' t of
     None \<Rightarrow> skip_ws t
   | Some t \<Rightarrow> (case ws_lit CHR ''}'' t of None \<Rightarrow> skip_ws t | Some t \<Rightarrow> skip_ws t))"

text \<open>One key: the key and what follows it, or the message (if any) that is printed.\<close>

definition parse_key :: "string \<Rightarrow> string option + RSAPublicKey \<times> string" where
  "parse_key t = (case key_head t of
     None \<Rightarrow> Inl None
   | Some (len, ninv, x, t) \<Rightarrow>
       if len \<noteq> int RSANUMWORDS then Inl (Some (''key length ('' @ dec_int len @ '') does not match expected size'' @ [LF]))
       else (case key_tail (RSANUMWORDS - 1) t of
         None \<Rightarrow> Inl None
       | Some (ns, rs, t) \<Rightarrow> Inr (\<lparr>k_len = len, n0inv = ninv, k_n = x # ns, k_rr = rs\<rparr>, key_end t)))"

lemma length_lit: "lit c t = Some u \<Longrightarrow> length u < length t"
  by (auto simp: lit_def split: list.splits if_splits)

lemma length_skip_ws: "length (skip_ws t) \<le> length t"
  by (simp add: skip_ws_def length_dropWhile_le)

lemma length_ws_lit: "ws_lit c t = Some u \<Longrightarrow> length u < length t"
  using length_lit [of c "skip_ws t" u] length_skip_ws [of t] by (simp add: ws_lit_def)

lemma length_sign_of: "length (snd (sign_of t)) \<le> length t"
  by (auto simp: sign_of_def split: list.splits)

lemma length_scan_base: "scan_base b t = Some (x, u) \<Longrightarrow> length u \<le> length t"
  using length_sign_of [of "skip_ws t"] length_skip_ws [of t]
  by (auto simp: scan_base_def Let_def split: prod.splits if_splits)

lemma length_scan_i: "scan_i t = Some (x, u) \<Longrightarrow> length u \<le> length t"
  using length_sign_of [of "skip_ws t"] length_skip_ws [of t]
  by (auto simp: scan_i_def strtoul0_def Let_def split: prod.splits if_splits)

lemma length_scan_words: "scan_words k t = Some (xs, u) \<Longrightarrow> length u \<le> length t"
proof (induction k arbitrary: t xs)
  case (Suc k)
  then obtain t1 x t2 ys where s: "ws_lit CHR '','' t = Some t1" "scan_base 10 t1 = Some (x, t2)" "scan_words k t2 = Some (ys, u)"
    by (auto simp: bind_eq_Some_conv split: prod.splits)
  from Suc.IH [OF s(3)] length_ws_lit [OF s(1)] length_scan_base [OF s(2)] show ?case by simp
qed simp

lemma length_key_head: "key_head t = Some (l, i, x, u) \<Longrightarrow> length u < length t"
  by (auto simp: key_head_def bind_eq_Some_conv dest!: length_ws_lit length_lit length_scan_base length_scan_i)

lemma length_key_tail: "key_tail k t = Some (ns, rs, u) \<Longrightarrow> length u < length t"
  by (auto simp: key_tail_def bind_eq_Some_conv dest!: length_ws_lit length_scan_base length_scan_words)

lemma length_key_end: "length (key_end t) \<le> length t"
  using length_skip_ws by (auto simp: key_end_def split: option.splits dest!: length_ws_lit)
    (meson le_trans less_imp_le order.strict_trans2)+

lemma length_parse_key: "parse_key t = Inr (k, u) \<Longrightarrow> length u < length t"
  using length_key_end
  by (auto simp: parse_key_def split: option.splits if_splits prod.splits dest!: length_key_head length_key_tail)
     (meson le_less_trans less_trans)

text \<open>The loop over the keys, which ends because every key takes some text.\<close>

function load_keys_text :: "string \<Rightarrow> string option + RSAPublicKey list" where
  "load_keys_text t = (case parse_key t of
     Inl e \<Rightarrow> Inl e
   | Inr (k, u) \<Rightarrow> (case u of
       [] \<Rightarrow> Inr [k]
     | c # u' \<Rightarrow>
         if c = CHR '','' then (case load_keys_text u' of Inl e \<Rightarrow> Inl e | Inr ks \<Rightarrow> Inr (k # ks))
         else Inl (Some (''unexpected character between keys'' @ [LF]))))"
  by pat_completeness auto
termination
  by (relation "measure length") (auto dest!: length_parse_key)

declare load_keys_text.simps [simp del]

definition PUBLIC_KEYS_FILE :: string where "PUBLIC_KEYS_FILE = ''/res/keys''"

definition load_keys :: "string \<Rightarrow> RSAPublicKey list option prog" where
  "load_keys f = do {
     r \<leftarrow> sys (Fs (ReadFile f));
     if rc r < 0 then do { LOGE (''opening '' @ f @ [LF]); ret None }
     else (case load_keys_text (dat r) of
       Inr ks \<Rightarrow> ret (Some ks)
     | Inl (Some m) \<Rightarrow> do { LOGE m; ret None }
     | Inl None \<Rightarrow> ret None) }"

section \<open>Installing\<close>

definition INSTALL_SUCCESS :: int where "INSTALL_SUCCESS = 0"
definition INSTALL_ERROR :: int where "INSTALL_ERROR = 1"
definition INSTALL_CORRUPT :: int where "INSTALL_CORRUPT = 2"
definition INSTALL_UPDATE_SCRIPT_MISSING :: int where "INSTALL_UPDATE_SCRIPT_MISSING = 3"
definition INSTALL_UPDATE_BINARY_MISSING :: int where "INSTALL_UPDATE_BINARY_MISSING = 4"

lemmas install_codes = INSTALL_SUCCESS_def INSTALL_ERROR_def INSTALL_CORRUPT_def INSTALL_UPDATE_SCRIPT_MISSING_def
  INSTALL_UPDATE_BINARY_MISSING_def

definition VERIFICATION_PROGRESS_TIME :: int where "VERIFICATION_PROGRESS_TIME = 60"
definition VERIFICATION_PROGRESS_FRACTION :: rat where "VERIFICATION_PROGRESS_FRACTION = 1 / 4"

text \<open>Looking an entry of an archive up, and the yes or no of minzip.\<close>

definition mz_find :: "string \<Rightarrow> string \<Rightarrow> bool prog" where
  "mz_find arch entry = do { e \<leftarrow> call (Mz (MzFind arch entry)); ret (e \<ge> 0) }"

definition mz_ok :: "mz_call \<Rightarrow> bool prog" where
  "mz_ok c = do { r \<leftarrow> call (Mz c); ret (r \<noteq> 0) }"

text \<open>\<open>st_size\<close> in the answer of \<open>stat\<close>.\<close>

definition st_size :: "reply \<Rightarrow> int" where
  "st_size st = (case lst st of [n] \<Rightarrow> atoi n | _ \<Rightarrow> 0)"

text \<open>The image a firmware command names, from the package or from a file; its size comes first.\<close>

definition handle_firmware_update :: "string \<Rightarrow> string \<Rightarrow> string \<Rightarrow> int prog" where
  "handle_firmware_update type f arch = do {
     let inpkg = (take 8 f = ''PACKAGE:'');
     (found, size) \<leftarrow>
       (if inpkg then do {
          e \<leftarrow> mz_find arch (drop 8 f);
          if e then do { n \<leftarrow> call (Mz (MzUncompLen arch (drop 8 f))); ret (True, n) } else ret (False, 0)
        } else do { st \<leftarrow> sys (Fs (Stat f)); ret (rc st \<ge> 0, st_size st) });
     if \<not> found then do {
       LOGE (if inpkg then ''Failed to find '' @ quoted (drop 8 f) @ '' in package'' else ''Error stat'ing '' @ f @ [LF]);
       ret INSTALL_ERROR
     } else do {
       m \<leftarrow> call (Malloc size);
       if m = 0 then ret INSTALL_ERROR
       else do {
         d \<leftarrow> (if inpkg then sys (Mz (MzRead arch (drop 8 f))) else sys (Fs (ReadFile f)));
         if (inpkg \<and> rc d = 0) \<or> (\<not> inpkg \<and> (rc d < 0 \<or> int (length (dat d)) < size)) then do {
           LOGE (if inpkg then ''Failed to read '' @ quoted (drop 8 f) @ '' from package''
                 else if rc d < 0 then ''Failed to open '' @ f @ [LF] else ''Failed to read firmware data'' @ [LF]);
           ret INSTALL_ERROR
         } else do {
           misc \<leftarrow> opt has_misc;
           r \<leftarrow> (if misc then remember_firmware_update (Some type) (Some (take (nat size) (dat d))) size else ret 0);
           if r \<noteq> 0 then do { LOGE (''Can't store '' @ type @ '' image'' @ [LF]); ret INSTALL_ERROR }
           else ret INSTALL_SUCCESS
         } } } }"

text \<open>One call of \<open>strtok\<close>: the token, if there is one, and the text after its delimiter.\<close>

definition strtok :: "char list \<Rightarrow> string \<Rightarrow> string option \<times> string" where
  "strtok d t = (let u = dropWhile (\<lambda>c. c \<in> set d) t; w = takeWhile (\<lambda>c. c \<notin> set d) u in
     if u = [] then (None, []) else (Some w, drop (length w + 1) u))"

text \<open>A line the update program sends. A missing number is a null pointer given to \<open>strtof\<close> or \<open>strtol\<close>.\<close>

definition update_line :: "string \<Rightarrow> unit prog" where
  "update_line buffer = (let (command, rest) = strtok [CHR '' '', LF] (cstr buffer) in
     case command of
       None \<Rightarrow> ret ()
     | Some c \<Rightarrow>
         if c = ''progress'' then
           (let (fraction_s, rest) = strtok [CHR '' '', LF] rest; (seconds_s, _) = strtok [CHR '' '', LF] rest in
            case (fraction_s, seconds_s) of
              (Some f, Some sec) \<Rightarrow> ui_show_progress (fst (strtod f) * (1 - VERIFICATION_PROGRESS_FRACTION)) (atoi sec)
            | _ \<Rightarrow> fault)
         else if c = ''set_progress'' then
           (case fst (strtok [CHR '' '', LF] rest) of
              Some f \<Rightarrow> ui_set_progress (fst (strtod f))
            | None \<Rightarrow> fault)
         else if c = ''ui_print'' then
           (case fst (strtok [LF] rest) of Some str \<Rightarrow> ui_print_text str | None \<Rightarrow> ui_print [LF])
         else LOGE (''unknown command ['' @ c @ '']'' @ [LF]))"

definition ASSUMED_UPDATE_BINARY_NAME :: string where
  "ASSUMED_UPDATE_BINARY_NAME = ''META-INF/com/google/android/update-binary''"

definition UPDATE_BINARY :: string where "UPDATE_BINARY = ''/tmp/update_binary''"

text \<open>\<open>EXPAND(RECOVERY_API_VERSION)\<close> is the parameter \<open>api\<close>; the number of the pipe is not shown.\<close>

definition try_update_binary :: "string \<Rightarrow> string \<Rightarrow> string \<Rightarrow> int prog" where
  "try_update_binary api path arch = do {
     e \<leftarrow> mz_find arch ASSUMED_UPDATE_BINARY_NAME;
     if \<not> e then ret INSTALL_UPDATE_BINARY_MISSING
     else do {
       do_call (Fs (Unlink UPDATE_BINARY));
       fd \<leftarrow> call (Fs (Creat UPDATE_BINARY));
       if fd < 0 then do { LOGE (''Can't make '' @ UPDATE_BINARY @ [LF]); ret 1 }
       else do {
         ok \<leftarrow> mz_ok (MzExtract arch ASSUMED_UPDATE_BINARY_NAME UPDATE_BINARY);
         if \<not> ok then do { LOGE (''Can't copy '' @ ASSUMED_UPDATE_BINARY_NAME @ [LF]); ret 1 }
         else do {
           r \<leftarrow> sys (Proc (RunPiped UPDATE_BINARY [UPDATE_BINARY, api, path]));
           for_each (lst r) update_line;
           if rc r \<noteq> 0 then do {
             LOGE (''Error in '' @ path @ [LF] @ ''(Status '' @ dec_int (rc r) @ '')'' @ [LF]);
             ret INSTALL_ERROR
           } else ret INSTALL_SUCCESS
         } } } }"

section \<open>The update script\<close>

text \<open>The entry of the script; a null pointer when it was not found.\<close>

definition ASSUMED_UPDATE_SCRIPT_NAME :: string where
  "ASSUMED_UPDATE_SCRIPT_NAME = ''META-INF/com/google/android/update-script''"

definition find_update_script :: "string \<Rightarrow> string option prog" where
  "find_update_script arch = do {
     e \<leftarrow> mz_find arch ASSUMED_UPDATE_SCRIPT_NAME;
     ret (if e then Some ASSUMED_UPDATE_SCRIPT_NAME else None) }"

text \<open>The data, or the negative number returned. The size of an entry that was not found is read through a null pointer.\<close>

definition read_data :: "string \<Rightarrow> string option \<Rightarrow> (int + string) prog" where
  "read_data arch entry = (case entry of
     None \<Rightarrow> do { fault; ret (Inl 0) }
   | Some e \<Rightarrow> do {
       len \<leftarrow> call (Mz (MzUncompLen arch e));
       if len \<le> 0 then do { LOGE (''Bad data length '' @ dec_int len @ [LF]); ret (Inl (-1)) }
       else do {
         m \<leftarrow> call (Malloc (len + 1));
         if m = 0 then do { LOGE (''Can't allocate '' @ dec_int (len + 1) @ '' bytes for data'' @ [LF]); ret (Inl (-2)) }
         else do {
           r \<leftarrow> sys (Mz (MzRead arch e));
           if rc r = 0 then do { LOGE (''Error while reading data'' @ [LF]); ret (Inl (-3)) }
           else ret (Inr (take (nat len) (dat r)))
         } } })"

text \<open>
  The search for the line that failed: \<open>line\<close> is the last line cut off, and the rest of the
  script is None after a line without a newline.
\<close>

fun failed_line :: "nat \<Rightarrow> string option \<Rightarrow> string option \<Rightarrow> string option \<times> string option" where
  "failed_line 0 line next = (line, next)"
| "failed_line (Suc n) line None = (line, None)"
| "failed_line (Suc n) line (Some t) = (case split_at_char LF t of
     None \<Rightarrow> failed_line n (Some t) None | Some (l, r) \<Rightarrow> failed_line n (Some l) (Some r))"

definition report_failure :: "int \<Rightarrow> string \<Rightarrow> unit prog" where
  "report_failure num script = (case failed_line (nat num) None (Some script) of
     (_, None) \<Rightarrow> LOGE (''Failure at line '' @ dec_int num @ '':'' @ [LF] @ ''(not found)'' @ [LF])
   | (Some l, Some _) \<Rightarrow> LOGE (''Failure at line '' @ dec_int num @ '':'' @ [LF] @ cstr l @ [LF])
   | (None, Some _) \<Rightarrow> fault)"

definition handle_update_script :: "string \<Rightarrow> string option \<Rightarrow> int prog" where
  "handle_update_script arch entry = do {
     d \<leftarrow> read_data arch entry;
     case d of
       Inl _ \<Rightarrow> do { LOGE (''Can't read update script'' @ [LF]); ret INSTALL_UPDATE_SCRIPT_MISSING }
     | Inr script \<Rightarrow> do {
         c \<leftarrow> call (AmendParse script);
         if c < 0 then do { LOGE (''Syntax error in update script'' @ [LF]); ret INSTALL_ERROR }
         else do {
           r \<leftarrow> call (AmendExec script);
           if r \<noteq> 0 then do { report_failure r script; ret INSTALL_ERROR }
           else do { ui_print (''Installation complete.'' @ [LF]); ret INSTALL_SUCCESS }
         } } }"

definition handle_update_package :: "string \<Rightarrow> string \<Rightarrow> string \<Rightarrow> int prog" where
  "handle_update_package api path arch = do {
     ui_print (''Installing update...'' @ [LF]);
     r \<leftarrow> try_update_binary api path arch;
     if r = INSTALL_UPDATE_BINARY_MISSING then do {
       _ \<leftarrow> register_package_root None [];
       p \<leftarrow> register_package_root (Some arch) path;
       if p < 0 then do { LOGE (''Can't register package root'' @ [LF]); ret INSTALL_ERROR }
       else do {
         entry \<leftarrow> find_update_script arch;
         r \<leftarrow> handle_update_script arch entry;
         _ \<leftarrow> register_package_root None [];
         ret (if r = INSTALL_UPDATE_SCRIPT_MISSING then INSTALL_ERROR else r)
       }
     } else do { _ \<leftarrow> register_package_root None []; ret r } }"

text \<open>\<open>verify_file\<close> on a path: the file is read, and the fractions it reports are shown.\<close>

definition verify_path :: "('c, RSAPublicKey) venv \<Rightarrow> string \<Rightarrow> RSAPublicKey list \<Rightarrow> bool prog" where
  "verify_path v path ks = do {
     r \<leftarrow> sys (Fs (ReadFile path));
     let (o1, reps) = verify_file v (if rc r < 0 then None else Some (dat r)) ks;
     for_each reps ui_set_progress;
     whenM (o1 = Bad_read) fault;
     ret (o1 = VERIFY_SUCCESS) }"

definition check_signature :: "('c, RSAPublicKey) venv \<Rightarrow> string \<Rightarrow> bool prog" where
  "check_signature v path = do {
     keys \<leftarrow> load_keys PUBLIC_KEYS_FILE;
     case keys of
       None \<Rightarrow> do { LOGE (''Failed to load keys'' @ [LF]); ret False }
     | Some ks \<Rightarrow> do {
         ui_print (''Verifying update package...'' @ [LF]);
         ui_show_progress VERIFICATION_PROGRESS_FRACTION VERIFICATION_PROGRESS_TIME;
         ok \<leftarrow> verify_path v path ks;
         whenM (\<not> ok) (LOGE (''signature verification failed'' @ [LF]));
         ret ok } }"

definition install_package :: "('c, RSAPublicKey) venv \<Rightarrow> string \<Rightarrow> string \<Rightarrow> int prog" where
  "install_package v api root_path = do {
     ui_set_background BACKGROUND_ICON_INSTALLING;
     ui_print (''Finding update package...'' @ [LF]);
     ui_show_indeterminate_progress;
     m \<leftarrow> ensure_root_path_mounted root_path;
     if m \<noteq> 0 then do { LOGE (''Can't mount '' @ root_path @ [LF]); ret INSTALL_CORRUPT }
     else do {
       b \<leftarrow> gets build;
       case translate_root_path b root_path PATH_MAX of
         None \<Rightarrow> do { LOGE (''Bad path '' @ root_path @ [LF]); ret INSTALL_CORRUPT }
       | Some path \<Rightarrow> do {
           ui_print (''Opening update package...'' @ [LF]);
           sc \<leftarrow> gets signature_check_enabled;
           ok \<leftarrow> (if sc then check_signature v path else ret True);
           if \<not> ok then ret INSTALL_CORRUPT
           else do {
             e \<leftarrow> call (Mz (MzOpen path));
             if e \<noteq> 0 then do { LOGE (''Can't open '' @ path @ [LF]); ret INSTALL_CORRUPT }
             else do {
               r \<leftarrow> handle_update_package api path path;
               do_call (Mz MzClose);
               ret r
             } } } } }"

section \<open>Keys are read back\<close>

text \<open>How \<open>DumpPublicKey\<close> writes keys: numbers in base 10 and 16 without leading zeros, braces and commas.\<close>

definition digit_text :: "nat \<Rightarrow> char" where
  "digit_text d = (if d < 10 then char_of (48 + d) else char_of (87 + d))"

fun num_text :: "nat \<Rightarrow> nat \<Rightarrow> string" where
  "num_text b n = (if n < b \<or> b < 2 then [digit_text n] else num_text b (n div b) @ [digit_text (n mod b)])"

declare num_text.simps [simp del]

definition words_text :: "int list \<Rightarrow> string" where
  "words_text xs = concat (map (\<lambda>x. CHR '','' # num_text 10 (nat x)) xs)"

definition key_text :: "RSAPublicKey \<Rightarrow> string" where
  "key_text k = ''{64,0x'' @ num_text 16 (nat (n0inv k)) @ '',{'' @ tl (words_text (k_n k)) @ ''},{'' @ tl (words_text (k_rr k)) @ ''}}''"

fun keys_text :: "RSAPublicKey list \<Rightarrow> string" where
  "keys_text [] = []"
| "keys_text [k] = key_text k"
| "keys_text (k # ks) = key_text k @ '','' @ keys_text ks"

definition is_word :: "int \<Rightarrow> bool" where
  "is_word x \<longleftrightarrow> 0 \<le> x \<and> x < 2 ^ 32"

definition wf_key :: "RSAPublicKey \<Rightarrow> bool" where
  "wf_key k \<longleftrightarrow> k_len k = 64 \<and> is_word (n0inv k) \<and> length (k_n k) = 64 \<and> length (k_rr k) = 64
     \<and> list_all is_word (k_n k) \<and> list_all is_word (k_rr k)"

lemma digit_value_text: "d < 16 \<Longrightarrow> digit_value (digit_text d) = d"
  by (simp add: digit_value_def digit_text_def Let_def)

lemma num_text_digits: "2 \<le> b \<Longrightarrow> b \<le> 16 \<Longrightarrow> \<forall>c \<in> set (num_text b n). base_digit b c"
proof (induction b n rule: num_text.induct)
  case (1 b n)
  have m: "n mod b < b" "n mod b < 16" using 1(2,3) mod_less_divisor [of b n] by linarith+
  show ?case using 1 m by (subst num_text.simps) (auto simp: base_digit_def digit_value_text)
qed

lemma num_text_not_Nil [simp]: "num_text b n \<noteq> []"
  by (subst num_text.simps) simp

lemma digits_value_snoc: "digits_value b (ds @ [c]) = b * digits_value b ds + digit_value c"
  by (simp add: digits_value_def)

lemma digits_value_text: "2 \<le> b \<Longrightarrow> b \<le> 16 \<Longrightarrow> digits_value b (num_text b n) = n"
proof (induction b n rule: num_text.induct)
  case (1 b n)
  show ?case
  proof (cases "n < b")
    case True
    then show ?thesis using 1 by (subst num_text.simps) (simp add: digits_value_def digit_value_text)
  next
    case False
    have m: "n mod b < 16" using 1(2,3) mod_less_divisor [of b n] by linarith
    have "num_text b n = num_text b (n div b) @ [digit_text (n mod b)]" using False 1(2) by (subst num_text.simps) simp
    then show ?thesis using 1 False m by (simp add: digits_value_snoc digit_value_text)
  qed
qed

text \<open>A text a number can stand before.\<close>

definition after_number :: "string \<Rightarrow> bool" where
  "after_number r \<longleftrightarrow> (case r of [] \<Rightarrow> True | c # _ \<Rightarrow> c = CHR '','' \<or> c = CHR ''}'')"

lemma base_digit_plain: "base_digit b c \<Longrightarrow> b \<le> 16 \<Longrightarrow> \<not> is_space c \<and> c \<noteq> CHR ''-'' \<and> c \<noteq> CHR ''+'' \<and> c \<noteq> CHR ''x'' \<and> c \<noteq> CHR ''X''"
  by (auto simp: base_digit_def digit_value_def is_space_def Let_def split: if_splits)

lemma takeWhile_number:
  "2 \<le> b \<Longrightarrow> b \<le> 16 \<Longrightarrow> after_number r \<Longrightarrow> takeWhile (base_digit b) (num_text b n @ r) = num_text b n"
  using num_text_digits [of b n]
  by (cases r) (auto simp: takeWhile_append2 after_number_def base_digit_def digit_value_def)

lemma number_plain:
  assumes "2 \<le> b" "b \<le> 16"
  shows "skip_ws (num_text b n @ r) = num_text b n @ r" "sign_of (num_text b n @ r) = (False, num_text b n @ r)"
proof -
  obtain c cs where c: "num_text b n = c # cs" by (cases "num_text b n") auto
  then have "base_digit b c" using num_text_digits [of b n] assms by simp
  then show "skip_ws (num_text b n @ r) = num_text b n @ r" "sign_of (num_text b n @ r) = (False, num_text b n @ r)"
    using base_digit_plain [of b c] assms c by (simp_all add: skip_ws_def sign_of_def)
qed

lemma number_no_prefix: "after_number r \<Longrightarrow> \<not> hex_prefix (num_text 16 n @ r)"
  using num_text_digits [of 16 n] base_digit_plain [of 16]
  by (cases "num_text 16 n"; cases "tl (num_text 16 n)") (auto simp: hex_prefix_def after_number_def split: list.splits)

lemma scan_base_number:
  assumes "b = 10 \<or> b = 16" and "is_word x" and "after_number r"
  shows "scan_base b (num_text b (nat x) @ r) = Some (x, r)"
proof -
  have b: "2 \<le> b" "b \<le> 16" using assms(1) by auto
  have x: "unsigned_value False (nat x) = x" "nat x < 2 ^ 32" using assms(2) by (auto simp: unsigned_value_def is_word_def)
  have "\<not> (b = 16 \<and> hex_prefix (num_text b (nat x) @ r))" using number_no_prefix [OF assms(3)] by auto
  note w = if_not_P [OF this]
  show ?thesis
    unfolding scan_base_def Let_def number_plain [OF b] prod.case w takeWhile_number [OF b assms(3)]
    using digits_value_text [OF b] x by simp
qed

lemma lit_simps [simp]: "lit c (c # t) = Some t" "\<not> is_space c \<Longrightarrow> ws_lit c (c # t) = Some t"
  by (simp_all add: lit_def ws_lit_def skip_ws_def)

lemma key_chars [simp]: "\<not> is_space CHR '',''" "\<not> is_space CHR ''{''" "\<not> is_space CHR ''}''" "\<not> is_space CHR ''0''"
  by (simp_all add: is_space_def)

lemma after_number_simps [simp]: "after_number []" "after_number (CHR '','' # r)" "after_number (CHR ''}'' # r)"
  by (simp_all add: after_number_def)

lemma words_text_simps [simp]: "words_text [] = []" "words_text (x # xs) = CHR '','' # num_text 10 (nat x) @ words_text xs"
  by (simp_all add: words_text_def)

lemma after_words: "after_number r \<Longrightarrow> after_number (words_text xs @ r)"
  by (cases xs) simp_all

lemma scan_words_text:
  "list_all is_word xs \<Longrightarrow> after_number r \<Longrightarrow> scan_words (length xs) (words_text xs @ r) = Some (xs, r)"
  by (induction xs) (simp_all add: scan_base_number after_words)

lemma key_head_text:
  assumes "is_word i" and "is_word x" and "after_number r"
  shows "key_head (''{64,0x'' @ num_text 16 (nat i) @ '',{'' @ num_text 10 (nat x) @ r) = Some (64, i, x, r)"
proof -
  have "strtoul0 (CHR ''6'' # CHR ''4'' # CHR '','' # t) = (64, CHR '','' # t)" for t
    by (simp add: strtoul0_def skip_ws_def is_space_def sign_of_def hex_prefix_def base_digit_def digit_value_def digits_value_def
        unsigned_value_def Let_def split: list.splits)
  then show ?thesis using assms scan_base_number [of 16 i] scan_base_number [of 10 x r]
    by (simp add: key_head_def scan_i_def to_int32_def)
qed

lemma parse_key_text:
  assumes "wf_key k" and "r = [] \<or> hd r = CHR '',''"
  shows "parse_key (key_text k @ r) = Inr (k, r)"
proof -
  obtain n ns where n: "k_n k = n # ns" "length ns = 63" using assms(1) by (cases "k_n k") (auto simp: wf_key_def)
  obtain m ms where m: "k_rr k = m # ms" "length ms = 63" using assms(1) by (cases "k_rr k") (auto simp: wf_key_def)
  have w: "is_word (n0inv k)" "is_word n" "is_word m" "list_all is_word ns" "list_all is_word ms" "k_len k = 64"
    using assms(1) n m by (auto simp: wf_key_def)
  let ?t = "words_text ns @ ''},{'' @ num_text 10 (nat m) @ words_text ms @ ''}}'' @ r"
  have h: "key_head (key_text k @ r) = Some (64, n0inv k, n, ?t)"
    using key_head_text [OF w(1,2), of ?t] after_words [of "''},{'' @ num_text 10 (nat m) @ words_text ms @ ''}}'' @ r" ns] n m
    by (simp add: key_text_def)
  have t: "key_tail 63 ?t = Some (ns, m # ms, ''}}'' @ r)"
    using scan_words_text [OF w(4), of "''},{'' @ num_text 10 (nat m) @ words_text ms @ ''}}'' @ r"]
      scan_words_text [OF w(5), of "''}}'' @ r"] scan_base_number [OF _ w(3), of 10 "words_text ms @ ''}}'' @ r"]
      after_words [of "''}}'' @ r" ms] n(2) m(2)
    by (simp add: key_tail_def)
  have e: "key_end (''}}'' @ r) = r" using assms(2) by (cases r) (auto simp: key_end_def skip_ws_def)
  show ?thesis using h t e w(6) n(1) m(1) by (simp add: parse_key_def verifier_consts)
qed



section \<open>What these programs touch\<close>

text \<open>Installing may call anything outside but a reboot, and never writes the flash by itself.\<close>

fun install_level :: "ext_call \<Rightarrow> bool" where
  "install_level (Mz x) = True"
| "install_level (AmendParse x) = True"
| "install_level (AmendExec x) = True"
| "install_level c = mount_level c"

fun is_mz :: "ext_call \<Rightarrow> bool" where
  "is_mz (Mz x) = True"
| "is_mz _ = False"

text \<open>No archive is opened.\<close>

fun no_open :: "ext_call \<Rightarrow> bool" where
  "no_open (Mz (MzOpen p)) = False"
| "no_open _ = True"

lemma mount_no_open [simp]: "mount_level c \<Longrightarrow> no_open c"
  by (cases c rule: no_open.cases) auto

lemma mount_install_level [simp]: "mount_level c \<Longrightarrow> install_level c"
  by (cases c rule: install_level.cases) auto

lemma mount_not_mz [simp]: "mount_level c \<Longrightarrow> \<not> is_mz c"
  by (cases c rule: is_mz.cases) auto

lemma emits_mz [emits_intros]: "P (Mz (MzFind a e)) \<Longrightarrow> emits P (mz_find a e)" "P (Mz c) \<Longrightarrow> emits P (mz_ok c)"
  unfolding mz_find_def mz_ok_def by (intro emits_intros; simp)+

lemma emits_load_keys [emits_intros]: "(\<And>c. fs_level c \<Longrightarrow> P c) \<Longrightarrow> emits P (load_keys f)"
  unfolding load_keys_def by (intro emits_intros) simp_all

lemma emits_handle_firmware_update [emits_intros]:
  "(\<And>c. install_level c \<Longrightarrow> no_open c \<Longrightarrow> P c) \<Longrightarrow> emits P (handle_firmware_update t f a)"
  unfolding handle_firmware_update_def Let_def by (intro emits_intros; simp)

lemma emits_update_line [emits_intros]: "(\<And>c. ui_call c \<Longrightarrow> P c) \<Longrightarrow> emits P (update_line b)"
  unfolding update_line_def Let_def by (intro emits_intros) simp_all

lemma emits_try_update_binary [emits_intros]:
  "(\<And>c. install_level c \<Longrightarrow> no_open c \<Longrightarrow> P c) \<Longrightarrow> emits P (try_update_binary i p a)"
  unfolding try_update_binary_def by (intro emits_intros; simp)

lemma emits_find_update_script [emits_intros]: "(\<And>x y. P (Mz (MzFind x y))) \<Longrightarrow> emits P (find_update_script a)"
  unfolding find_update_script_def by (intro emits_intros; simp)

lemma emits_read_data [emits_intros]: "(\<And>c. install_level c \<Longrightarrow> no_open c \<Longrightarrow> P c) \<Longrightarrow> emits P (read_data a e)"
  unfolding read_data_def by (intro emits_intros; simp)

lemma emits_report_failure [emits_intros]: "(\<And>t. P (Print t)) \<Longrightarrow> emits P (report_failure n t)"
  unfolding report_failure_def by (intro emits_intros; simp)

lemma emits_handle_update_script [emits_intros]:
  "(\<And>c. install_level c \<Longrightarrow> no_open c \<Longrightarrow> P c) \<Longrightarrow> emits P (handle_update_script a e)"
  unfolding handle_update_script_def by (intro emits_intros; simp)

lemma emits_handle_update_package [emits_intros]:
  "(\<And>c. install_level c \<Longrightarrow> no_open c \<Longrightarrow> P c) \<Longrightarrow> emits P (handle_update_package i p a)"
  unfolding handle_update_package_def by (intro emits_intros; simp)

lemma emits_verify_path [emits_intros]: "(\<And>c. fs_level c \<Longrightarrow> P c) \<Longrightarrow> emits P (verify_path v p ks)"
  unfolding verify_path_def Let_def by (intro emits_intros; simp)

lemma emits_check_signature [emits_intros]: "(\<And>c. fs_level c \<Longrightarrow> P c) \<Longrightarrow> emits P (check_signature v p)"
  unfolding check_signature_def by (intro emits_intros; simp)

lemma emits_install_package [emits_intros]:
  "(\<And>c. install_level c \<Longrightarrow> P c) \<Longrightarrow> emits P (install_package v i r)"
  unfolding install_package_def by (intro emits_intros; simp)

section \<open>The signature comes first\<close>

text \<open>States reached from \<open>s\<close> by programs that \<open>emits\<close> describes, with the order of calls kept.\<close>

definition tracked :: "(ext_call \<Rightarrow> bool) \<Rightarrow> (ext_call list \<Rightarrow> bool) \<Rightarrow> world \<Rightarrow> world \<Rightarrow> bool" where
  "tracked K Q s t \<longleftrightarrow> extends (\<lambda>_. True) s t \<and> preceded K Q (length (trace s)) (trace t)"

lemma tracked_start: "tracked K Q s s"
  by (simp add: tracked_def preceded_start)

lemma emits_extends: "emits P m \<Longrightarrow> extends (\<lambda>_. True) s (exec m s)"
  using emits_mono [of P m "\<lambda>_. True"] by (simp add: emits_def)

lemma tracked_emits:
  assumes "emits (\<lambda>c. \<not> K c) m"
  shows "hoare (tracked K Q s) m (\<lambda>_. tracked K Q s)"
  using preceded_emits [OF assms] emits_extends [OF assms] extends_trans by (fastforce simp: hoare_def tracked_def)

lemma tracked_preceded: "tracked K Q s t \<Longrightarrow> preceded K Q (length (trace s)) (trace t)"
  by (simp add: tracked_def)

definition package_verified ::
  "('c, RSAPublicKey) venv \<Rightarrow> (ext_call list \<Rightarrow> ext_call \<Rightarrow> reply) \<Rightarrow> string \<Rightarrow> ext_call list \<Rightarrow> ext_call list \<Rightarrow> bool" where
  "package_verified v e path h0 cs \<longleftrightarrow> (\<exists>g g' rest ks. cs = g @ Fs (ReadFile PUBLIC_KEYS_FILE) # g' @ Fs (ReadFile path) # rest
     \<and> load_keys_text (dat (e (h0 @ g) (Fs (ReadFile PUBLIC_KEYS_FILE)))) = Inr ks
     \<and> fst (verify_file v (Some (dat (e (h0 @ g @ Fs (ReadFile PUBLIC_KEYS_FILE) # g') (Fs (ReadFile path))))) ks) = VERIFY_SUCCESS)"

lemma package_verified_append: "package_verified v e p h cs \<Longrightarrow> package_verified v e p h (cs @ u)"
  unfolding package_verified_def by fastforce

lemma package_verified_prefix: "package_verified v e p (h @ t) cs \<Longrightarrow> package_verified v e p h (t @ cs)"
  unfolding package_verified_def by (metis append.assoc)

lemma load_keys_Some:
  "\<not> stopped s \<Longrightarrow> result (load_keys f) s = Some ks \<Longrightarrow> exec (load_keys f) s = s\<lparr>trace := trace s @ [Fs (ReadFile f)]\<rparr>
    \<and> load_keys_text (dat (env s (trace s) (Fs (ReadFile f)))) = Inr ks"
  by (auto simp: load_keys_def run_sys split_beta split: if_splits sum.splits option.splits)

lemma verify_path_True:
  assumes "\<not> stopped s" and "result (verify_path v p ks) s"
  shows "fst (verify_file v (Some (dat (env s (trace s) (Fs (ReadFile p))))) ks) = VERIFY_SUCCESS
    \<and> (\<exists>u. trace (exec (verify_path v p ks) s) = trace s @ Fs (ReadFile p) # u)"
proof -
  let ?r = "env s (trace s) (Fs (ReadFile p))" and ?s1 = "s\<lparr>trace := trace s @ [Fs (ReadFile p)]\<rparr>"
  let ?f = "if rc ?r < 0 then None else Some (dat ?r)"
  obtain o1 reps where o: "verify_file v ?f ks = (o1, reps)" by fastforce
  have run: "run_state (verify_path v p ks) s = run_state (do { for_each reps ui_set_progress; whenM (o1 = Bad_read) fault; ret (o1 = VERIFY_SUCCESS) }) ?s1"
    using assms(1) o by (simp add: verify_path_def run_sys Let_def)
  have "o1 = VERIFY_SUCCESS" using assms(2) run by (simp add: split_beta)
  moreover have "\<not> rc ?r < 0" using o calculation by (auto simp: verify_file_def)
  moreover have "emits (\<lambda>_. True) (do { for_each reps ui_set_progress; whenM (o1 = Bad_read) fault; ret (o1 = VERIFY_SUCCESS) })"
    by (intro emits_intros TrueI)
  ultimately show ?thesis using o run emitsD [of "\<lambda>_. True" "do { for_each reps ui_set_progress; whenM (o1 = Bad_read) fault; ret (o1 = VERIFY_SUCCESS) }" ?s1] by auto
qed

lemma check_signature_ok:
  assumes "result (check_signature v p) s" and "\<not> stopped (exec (check_signature v p) s)"
  shows "\<exists>cs. trace (exec (check_signature v p) s) = trace s @ cs \<and> package_verified v (env s) p (trace s) cs"
proof -
  have e: "emits (\<lambda>_. True) (check_signature v p)" by (intro emits_intros TrueI)
  have ns: "\<not> stopped s" using assms(2) emits_frozen [OF e, of s] by auto
  obtain ks where ks: "result (load_keys PUBLIC_KEYS_FILE) s = Some ks"
    using assms(1) by (cases "result (load_keys PUBLIC_KEYS_FILE) s") (simp_all add: check_signature_def split_beta)
  define s1 where "s1 = s\<lparr>trace := trace s @ [Fs (ReadFile PUBLIC_KEYS_FILE)]\<rparr>"
  have k: "run_state (load_keys PUBLIC_KEYS_FILE) s = (Some ks, s1)"
    "load_keys_text (dat (env s (trace s) (Fs (ReadFile PUBLIC_KEYS_FILE)))) = Inr ks"
    using load_keys_Some [OF ns ks] ks by (simp_all add: s1_def prod_eq_iff)
  let ?show = "do { ui_print (''Verifying update package...'' @ [LF]); ui_show_progress VERIFICATION_PROGRESS_FRACTION VERIFICATION_PROGRESS_TIME }"
  let ?tail = "do { ok \<leftarrow> verify_path v p ks; whenM (\<not> ok) (LOGE (''signature verification failed'' @ [LF])); ret ok }"
  define s2 where "s2 = exec ?show s1"
  have es: "emits (\<lambda>_. True) ?show" "emits (\<lambda>_. True) ?tail" by (intro emits_intros TrueI)+
  obtain g where g: "trace s2 = trace s1 @ g" using emitsD [OF es(1), of s1] by (auto simp: s2_def)
  have env: "env s2 = env s" using emits_consts [OF es(1), of s1] by (simp add: s2_def s1_def)
  have run: "run_state (check_signature v p) s = run_state ?tail s2"
    using k by (simp add: check_signature_def s2_def split_beta)
  have ns2: "\<not> stopped s2" using assms(2) run emits_frozen [OF es(2), of s2] by auto
  have ok: "result (verify_path v p ks) s2" using assms(1) run by (simp add: split_beta)
  from verify_path_True [OF ns2 this] obtain u where u: "trace (exec (verify_path v p ks) s2) = trace s2 @ Fs (ReadFile p) # u"
    and vf: "fst (verify_file v (Some (dat (env s (trace s2) (Fs (ReadFile p))))) ks) = VERIFY_SUCCESS" using env by auto
  have "trace (exec (check_signature v p) s) = trace s @ [] @ Fs (ReadFile PUBLIC_KEYS_FILE) # g @ Fs (ReadFile p) # u"
    using run ok u g by (simp add: s1_def split_beta whenM_def)
  moreover have "trace s2 = trace s @ [] @ Fs (ReadFile PUBLIC_KEYS_FILE) # g" using g by (simp add: s1_def)
  ultimately show ?thesis using k(2) vf unfolding package_verified_def by (metis append_Nil append_Nil2)
qed

lemma check_signature_tracked:
  assumes "Q = (\<lambda>h. package_verified v (env s) p (trace s) (drop (length (trace s)) h))"
  shows "hoare (tracked K Q s) (check_signature v p)
    (\<lambda>ok t. ok \<longrightarrow> stopped t \<or> Q (trace t))"
proof (rule hoareI, rule impI)
  fix t :: world assume t: "tracked K Q s t" and ok: "result (check_signature v p) t"
  obtain u where u: "trace t = trace s @ u" "env t = env s" using t by (auto simp: tracked_def extends_def)
  show "stopped (exec (check_signature v p) t) \<or> Q (trace (exec (check_signature v p) t))"
  proof (cases "stopped (exec (check_signature v p) t)")
    case False
    from check_signature_ok [OF ok False] obtain cs
      where "trace (exec (check_signature v p) t) = trace t @ cs" "package_verified v (env t) p (trace t) cs" by blast
    then show ?thesis using u assms package_verified_prefix [of v "env s" p "trace s" u cs] by simp
  qed simp
qed

lemma hoare_pure: "(a \<Longrightarrow> hoare P m Q) \<Longrightarrow> hoare (\<lambda>s. P s \<and> a) m Q"
  by (auto simp: hoare_def)

lemma install_package_preceded:
  assumes "signature_check_enabled s" and "translate_root_path (build s) root_path PATH_MAX = Some p"
    and Q: "Q = (\<lambda>h. package_verified v (env s) p (trace s) (drop (length (trace s)) h))"
  shows "preceded is_mz Q (length (trace s)) (trace (exec (install_package v api root_path) s))"
proof -
  let ?I = "tracked is_mz Q s" and ?P = "\<lambda>_ t. preceded is_mz Q (length (trace s)) (trace t)"
  have E: "hoare ?I m (\<lambda>_. ?I)" if "emits mount_level m" for m :: "'z prog"
    by (rule tracked_emits [OF emits_mono [OF that]]) simp
  have F: "hoare ?I m ?P" if "emits mount_level m" for m :: "int prog"
    using E [OF that] by (rule hoare_weaken) (simp_all add: tracked_preceded)
  have "emits mount_level (check_signature v p)" by (intro emits_intros; simp)
  from E [OF this] have sig: "hoare ?I (check_signature v p) (\<lambda>ok t. ?I t \<and> (ok \<longrightarrow> stopped t \<or> Q (trace t)))"
    using hoareD [OF check_signature_tracked [OF Q]] by (simp add: hoare_def)
  have rest: "hoare (\<lambda>t. ?I t \<and> (stopped t \<or> Q (trace t))) m ?P" if "emits (\<lambda>_. True) m" for m :: "int prog"
    by (rule hoare_weaken [OF hoare_after [OF that, of Q is_mz "length (trace s)"]])
       (simp_all add: Q package_verified_append tracked_preceded)
  have "hoare ?I (install_package v api root_path) ?P"
    unfolding install_package_def
    apply (rule hoare_bind [OF E], (intro emits_intros; simp; fail))+
    apply (rule hoare_if, rule F, (intro emits_intros; simp; fail))
    apply (rule hoare_bind [where R = "\<lambda>b t. ?I t \<and> b = build s"], rule hoare_gets, simp add: tracked_def extends_def, rule hoare_pure)
    apply (simp only: assms(2) option.case)
    apply (rule hoare_bind [OF E], (intro emits_intros; simp; fail))
    apply (rule hoare_bind [where R = "\<lambda>b t. ?I t \<and> b = True"], rule hoare_gets, simp add: tracked_def extends_def assms(1), rule hoare_pure)
    apply (simp only: if_True)
    apply (rule hoare_bind [OF sig], rule hoare_if)
     apply (rule hoare_ret, simp add: tracked_preceded)
    apply (rule hoare_weaken [OF rest], (intro emits_intros TrueI)[1], simp_all)
    done
  from hoareD [OF this tracked_start] show ?thesis .
qed

lemma install_package_bad_path:
  assumes "translate_root_path (build s) root_path PATH_MAX = None"
  shows "\<not> list_ex is_mz (drop (length (trace s)) (trace (exec (install_package v api root_path) s)))"
proof -
  let ?I = "tracked is_mz (\<lambda>_. False) s"
  have E: "hoare ?I m (\<lambda>_. ?I)" if "emits mount_level m" for m :: "'z prog"
    by (rule tracked_emits [OF emits_mono [OF that]]) simp
  have "hoare ?I (install_package v api root_path) (\<lambda>_. ?I)"
    unfolding install_package_def
    apply (rule hoare_bind [OF E], (intro emits_intros; simp; fail))+
    apply (rule hoare_if, rule E, (intro emits_intros; simp; fail))
    apply (rule hoare_bind [where R = "\<lambda>b t. ?I t \<and> b = build s"], rule hoare_gets, simp add: tracked_def extends_def, rule hoare_pure)
    apply (simp only: assms option.case, rule E, (intro emits_intros; simp; fail))
    done
  from tracked_preceded [OF hoareD [OF this tracked_start]] show ?thesis
    by (auto simp: preceded_def list_ex_length)
qed

text \<open>
  C12. The signature comes first. With the signature check enabled, \<open>install_package\<close> does
  nothing with the archive (it does not open it, nor look up, unpack or read an entry)
  before the keys have been read and \<open>verify_file\<close> has accepted the bytes of the package
  with them.
\<close>

theorem install_signature_first:
  assumes "signature_check_enabled s"
    and "trace (exec (install_package v api root_path) s) = trace s @ a @ Mz x # b"
  shows "\<exists>path. translate_root_path (build s) root_path PATH_MAX = Some path \<and> package_verified v (env s) path (trace s) a"
proof (cases "translate_root_path (build s) root_path PATH_MAX")
  case None
  from install_package_bad_path [OF None, of v api] assms(2) show ?thesis by simp
next
  case (Some p)
  have "preceded is_mz (\<lambda>h. package_verified v (env s) p (trace s) (drop (length (trace s)) h)) (length (trace s)) (trace s @ a @ Mz x # b)"
    using install_package_preceded [OF assms(1) Some refl, of v api] assms(2) by simp
  from precededD [OF this] Some show ?thesis by simp
qed

text \<open>
  A package without a program and without a script. \<open>find_update_script\<close> then answers
  a null pointer, which \<open>handle_update_script\<close> hands on and \<open>read_data\<close> follows: the
  recovery crashes instead of reporting an error.
\<close>

theorem missing_script_crashes:
  assumes "\<not> stopped s" and "\<And>h. rc (env s h (Mz (MzFind arch ASSUMED_UPDATE_BINARY_NAME))) < 0"
    and "\<And>h. rc (env s h (Mz (MzFind arch ASSUMED_UPDATE_SCRIPT_NAME))) < 0" and "\<And>h n. rc (env s h (Malloc n)) \<noteq> 0"
  shows "faulted (exec (handle_update_package api path arch) s)"
proof -
  let ?m = "''Installing update...'' @ [LF]"
  obtain s1 where s1: "run_state (ui_print ?m) s = ((), s1)" by (cases "run_state (ui_print ?m) s") simp
  have c: "env s1 = env s" "stopped s1 \<longrightarrow> faulted s1"
    using s1 assms(1) by (auto simp: ui_print_def do_call_def run_sys run_upd log_main_def split: option.splits)
  define tail where "tail = do {
     r \<leftarrow> try_update_binary api path arch;
     if r = INSTALL_UPDATE_BINARY_MISSING then do {
       _ \<leftarrow> register_package_root None [];
       p \<leftarrow> register_package_root (Some arch) path;
       if p < 0 then do { LOGE (''Can't register package root'' @ [LF]); ret INSTALL_ERROR }
       else do {
         entry \<leftarrow> find_update_script arch;
         r \<leftarrow> handle_update_script arch entry;
         _ \<leftarrow> register_package_root None [];
         ret (if r = INSTALL_UPDATE_SCRIPT_MISSING then INSTALL_ERROR else r)
       }
     } else do { _ \<leftarrow> register_package_root None []; ret r } }"
  have x: "exec (handle_update_package api path arch) s = exec tail s1"
    using s1 by (simp add: handle_update_package_def tail_def)
  show ?thesis
  proof (cases "stopped s1")
    case True
    have "emits (\<lambda>_. True) tail" unfolding tail_def by (intro emits_intros TrueI)
    from emits_frozen [OF this True] show ?thesis using x c True by simp
  next
    case False
    have n: "(0 \<le> rc (env s h (Mz (MzFind arch ASSUMED_UPDATE_BINARY_NAME)))) = False"
      "(0 \<le> rc (env s h (Mz (MzFind arch ASSUMED_UPDATE_SCRIPT_NAME)))) = False" for h using assms(2,3) by (simp_all add: not_le)
    from False show ?thesis unfolding x
      by (simp add: n assms(4) c(1) tail_def try_update_binary_def mz_find_def find_update_script_def register_package_root_def
          handle_update_script_def read_data_def run_simps fault_def)
  qed
qed

definition empty_zip :: "ext_call list \<Rightarrow> ext_call \<Rightarrow> reply" where
  "empty_zip h c = (case c of Mz (MzFind a e) \<Rightarrow> Reply (-1) [] [] | _ \<Rightarrow> Reply 1 [] [])"

theorem missing_script_crashes_witness:
  "faulted (exec (handle_update_package ''3'' ''/p.zip'' ''/p.zip'') (sample_store\<lparr>env := empty_zip\<rparr>))"
  by (rule missing_script_crashes) (simp_all add: sample_store_def boot_state_def empty_zip_def)

section \<open>A signed package\<close>

definition demo_key :: RSAPublicKey where
  "demo_key = \<lparr>k_len = 64, n0inv = 255, k_n = replicate 64 7, k_rr = replicate 64 0\<rparr>"

text \<open>A signature check that accepts every signature.\<close>

definition key_venv :: "(string, RSAPublicKey) venv" where
  "key_venv = \<lparr>SHA_init = [], SHA_update = (@), SHA_final = (\<lambda>c. c), RSA_verify = (\<lambda>k sig h. True),
     malloc_ok = (\<lambda>_. True), read_ok = (\<lambda>_ _. True)\<rparr>"

definition signed_env :: "ext_call list \<Rightarrow> ext_call \<Rightarrow> reply" where
  "signed_env h c = (case c of
     Fs (ReadFile f) \<Rightarrow> Reply 0 (if f = PUBLIC_KEYS_FILE then key_text demo_key else demo_archive) []
   | Mz (MzOpen f) \<Rightarrow> Reply (-1) [] []
   | _ \<Rightarrow> Reply 0 [] [])"

lemma key_verified: "fst (verify_file key_venv (Some demo_archive) [demo_key]) = VERIFY_SUCCESS"
proof -
  have ok: "\<And>p n. read_ok key_venv p n" "\<And>n. malloc_ok key_venv n" by (simp_all add: key_venv_def)
  obtain ctx where "fst (verify_file key_venv (Some demo_archive) [demo_key]) =
      try_keys key_venv demo_archive 284 (SHA_final key_venv ctx) [demo_key]"
    using verify_file_all_ok [OF ok demo_wf, of "[demo_key]"] by (auto simp: demo_eocd demo_comment)
  then show ?thesis by (simp add: verifier_consts) (simp add: key_venv_def)
qed

lemma demo_keys: "load_keys_text (key_text demo_key) = Inr [demo_key]"
  using parse_key_text [of demo_key "[]"]
  by (simp add: load_keys_text.simps wf_key_def demo_key_def is_word_def list_all_iff)

lemma ui_set_progress_runs [wp]: "keeps (\<lambda>t. \<not> stopped t) (ui_set_progress f)"
  unfolding ui_set_progress_def Let_def by (intro wp keeps_sys keeps_upd) simp_all

lemma signed_verify:
  assumes "\<not> stopped s" and "env s = signed_env" and "p \<noteq> PUBLIC_KEYS_FILE"
  shows "result (verify_path key_venv p [demo_key]) s \<and> \<not> stopped (exec (verify_path key_venv p [demo_key]) s)"
proof -
  obtain reps where v: "verify_file key_venv (Some demo_archive) [demo_key] = (VERIFY_SUCCESS, reps)"
    using key_verified by (cases "verify_file key_venv (Some demo_archive) [demo_key]") auto
  let ?s1 = "s\<lparr>trace := trace s @ [Fs (ReadFile p)]\<rparr>"
  have "keeps (\<lambda>t. \<not> stopped t) (for_each reps ui_set_progress)" by (intro wp)
  from keepsD [OF this, of ?s1] have "\<not> stopped (exec (for_each reps ui_set_progress) ?s1)" using assms(1) by simp
  moreover have "run_state (verify_path key_venv p [demo_key]) s = (True, exec (for_each reps ui_set_progress) ?s1)"
    using assms v by (simp add: verify_path_def run_sys signed_env_def whenM_def split_beta)
  ultimately show ?thesis by simp
qed

lemma signed_check:
  assumes "\<not> stopped s" and "env s = signed_env" and "mainlog s = ui_clear_screen 0 0" and "p \<noteq> PUBLIC_KEYS_FILE"
  shows "result (check_signature key_venv p) s \<and> \<not> stopped (exec (check_signature key_venv p) s)"
proof -
  define s1 where "s1 = s\<lparr>trace := trace s @ [Fs (ReadFile PUBLIC_KEYS_FILE)]\<rparr>"
  have 1: "run_state (load_keys PUBLIC_KEYS_FILE) s = (Some [demo_key], s1)"
    using assms demo_keys by (simp add: load_keys_def run_sys signed_env_def s1_def)
  let ?show = "do { ui_print (''Verifying update package...'' @ [LF]); ui_show_progress VERIFICATION_PROGRESS_FRACTION VERIFICATION_PROGRESS_TIME }"
  define s2 where "s2 = exec ?show s1"
  have "\<not> stopped s1" "env s1 = signed_env" "mainlog s1 = ui_clear_screen 0 0" using assms by (simp_all add: s1_def)
  then have 2: "\<not> stopped s2" "env s2 = signed_env"
    by (simp_all add: s2_def ui_print_def ui_show_progress_def run_simps log_main_blank)
  have "run_state (check_signature key_venv p) s = run_state (do { ok \<leftarrow> verify_path key_venv p [demo_key];
      whenM (\<not> ok) (LOGE (''signature verification failed'' @ [LF])); ret ok }) s2"
    using 1 by (simp add: check_signature_def s2_def split_beta)
  then show ?thesis using signed_verify [OF 2 assms(4)] by (simp add: whenM_def split_beta)
qed

lemma signed_install_opens:
  assumes s: "\<not> stopped s" "env s = signed_env" "mainlog s = ui_clear_screen 0 0" "signature_check_enabled s"
  shows "\<exists>a b. trace (exec (install_package key_venv api ''SDCARD:u.zip'') s) = trace s @ a @ Mz (MzOpen ''/mnt/sdcard/u.zip'') # b"
proof -
  let ?m = "install_package key_venv api ''SDCARD:u.zip''"
  have b: "get_root_info_for_path (build s) ''SDCARD:u.zip'' =
      Some (root ''SDCARD:'' (Some (Block SDCARD_BLOCK_NAME)) (Some ''sdcard'') (Some ''/mnt/sdcard'') (Some (Fsname ''vfat'')) None)"
    using root_info [of "root ''SDCARD:'' (Some (Block SDCARD_BLOCK_NAME)) (Some ''sdcard'') (Some ''/mnt/sdcard'') (Some (Fsname ''vfat'')) None" _ "''u.zip''"]
    by (simp add: g_roots_def root_def)
  then have t: "translate_root_path (build s) ''SDCARD:u.zip'' PATH_MAX = Some ''/mnt/sdcard/u.zip''"
    by (simp add: translate_root_path_def root_def PATH_MAX_def)
  let ?pre = "do { ui_set_background BACKGROUND_ICON_INSTALLING; ui_print (''Finding update package...'' @ [LF]);
      ui_show_indeterminate_progress; _ \<leftarrow> ensure_root_path_mounted ''SDCARD:u.zip''; ui_print (''Opening update package...'' @ [LF]) }"
  obtain S where S: "\<not> stopped S" "env S = signed_env" "mainlog S = ui_clear_screen 0 0" "signature_check_enabled S"
    "\<exists>a. trace S = trace s @ a"
    "run_state ?m s = run_state (do { ok \<leftarrow> check_signature key_venv ''/mnt/sdcard/u.zip'';
       if \<not> ok then ret INSTALL_CORRUPT
       else do {
         e \<leftarrow> call (Mz (MzOpen ''/mnt/sdcard/u.zip''));
         if e \<noteq> 0 then do { LOGE (''Can't open '' @ ''/mnt/sdcard/u.zip'' @ [LF]); ret INSTALL_CORRUPT }
         else do { r \<leftarrow> handle_update_package api ''/mnt/sdcard/u.zip'' ''/mnt/sdcard/u.zip''; do_call (Mz MzClose); ret r } } }) S" (is "_ = run_state ?tail S")
  proof
    show "\<not> stopped (exec ?pre s)" "env (exec ?pre s) = signed_env" "mainlog (exec ?pre s) = ui_clear_screen 0 0"
      "signature_check_enabled (exec ?pre s)" "\<exists>a. trace (exec ?pre s) = trace s @ a"
      using s b by (simp_all add: ui_simple_defs run_simps ensure_root_path_mounted_def internal_root_mounted_def root_def log_main_blank signed_env_def)
    show "run_state ?m s = run_state ?tail (exec ?pre s)"
      using s b t by (simp add: install_package_def ui_simple_defs run_simps ensure_root_path_mounted_def internal_root_mounted_def
          root_def log_main_blank signed_env_def)
  qed
  let ?S' = "exec (check_signature key_venv ''/mnt/sdcard/u.zip'') S"
  have "result (check_signature key_venv ''/mnt/sdcard/u.zip'') S" "\<not> stopped ?S'"
    using signed_check [OF S(1-3), of "''/mnt/sdcard/u.zip''"] by (simp_all add: PUBLIC_KEYS_FILE_def)
  moreover have e: "emits (\<lambda>_. True) (check_signature key_venv ''/mnt/sdcard/u.zip'')" by (intro emits_intros TrueI)
  have "env ?S' = signed_env" using emits_consts [OF e, of S] S(2) by simp
  moreover obtain a where "trace ?S' = trace s @ a" using emitsD [OF e, of S] S(5) by auto
  ultimately show ?thesis using S(6) by (simp add: split_beta run_simps signed_env_def) blast
qed

theorem install_signature_first_witness:
  "\<exists>a. package_verified key_venv signed_env ''/mnt/sdcard/u.zip'' [] a"
proof -
  let ?s = "sample_store\<lparr>env := signed_env\<rparr>"
  have s: "\<not> stopped ?s" "env ?s = signed_env" "mainlog ?s = ui_clear_screen 0 0" "signature_check_enabled ?s" "trace ?s = []"
    by (simp_all add: sample_store_def boot_state_def)
  from signed_install_opens [OF s(1-4), of "''3''"] obtain a b where
    t: "trace (exec (install_package key_venv ''3'' ''SDCARD:u.zip'') ?s) = trace ?s @ a @ Mz (MzOpen ''/mnt/sdcard/u.zip'') # b" by blast
  have "get_root_info_for_path (build ?s) ''SDCARD:u.zip'' =
      Some (root ''SDCARD:'' (Some (Block SDCARD_BLOCK_NAME)) (Some ''sdcard'') (Some ''/mnt/sdcard'') (Some (Fsname ''vfat'')) None)"
    using root_info [of "root ''SDCARD:'' (Some (Block SDCARD_BLOCK_NAME)) (Some ''sdcard'') (Some ''/mnt/sdcard'') (Some (Fsname ''vfat'')) None" _ "''u.zip''"]
    by (simp add: g_roots_def root_def)
  with install_signature_first [OF s(4) t] s(2,5) show ?thesis by (auto simp: translate_root_path_def root_def PATH_MAX_def)
qed

end
