(* ===== verification/Commands.thy ===== *)
theory Commands
  imports Install
begin

text \<open>
  \<open>commands.c\<close>: the commands and functions of update scripts, and the part of
  \<open>extendedcommands.c\<close> and \<open>recovery.c\<close> that installs an archive. The amend interpreter
  parses a script and calls the hooks registered here by name, with the words of the
  command as \<open>argv\<close>; it is outside. A hook is called with \<open>permissions\<close> null when a script
  is executed, which is the case modelled: the tests of \<open>CHECK_WORDS\<close> and \<open>CHECK_FN\<close> then
  say that \<open>argv\<close> is a list of words and that there is a place for the result.
  Warnings (\<open>LOGW\<close>, \<open>LOGI\<close>) go to a stream nobody reads and are left out.
\<close>

section \<open>Installing an archive\<close>

text \<open>The switches of the install menu.\<close>

definition toggle_signature_check :: "unit prog" where
  "toggle_signature_check = do {
     upd (\<lambda>s. s\<lparr>signature_check_enabled := \<not> signature_check_enabled s\<rparr>);
     b \<leftarrow> gets signature_check_enabled;
     ui_print (''Signature Check: '' @ (if b then ''Enabled'' else ''Disabled'') @ [LF]) }"

definition toggle_script_asserts :: "unit prog" where
  "toggle_script_asserts = do {
     upd (\<lambda>s. s\<lparr>script_assert_enabled := \<not> script_assert_enabled s\<rparr>);
     b \<leftarrow> gets script_assert_enabled;
     ui_print (''Script Asserts: '' @ (if b then ''Enabled'' else ''Disabled'') @ [LF]) }"

definition sdcard_update_message :: bootloader_message where
  "sdcard_update_message = zero_message\<lparr>
     command := strlcpy (command zero_message) ''boot-recovery'' 32,
     recovery := strlcpy (recovery zero_message) (''recovery'' @ [LF]) 1024\<rparr>"

definition set_sdcard_update_bootloader_message :: "unit prog" where
  "set_sdcard_update_bootloader_message = do {
     _ \<leftarrow> set_bootloader_message sdcard_update_message;
     ret () }"

definition install_zip :: "('c, RSAPublicKey) venv \<Rightarrow> string \<Rightarrow> string \<Rightarrow> int prog" where
  "install_zip v api packagefilepath = do {
     ui_print ([LF] @ ''-- Installing: '' @ packagefilepath @ [LF]);
     misc \<leftarrow> opt has_misc;
     whenM misc set_sdcard_update_bootloader_message;
     st \<leftarrow> install_package v api packagefilepath;
     ui_reset_progress;
     if st \<noteq> INSTALL_SUCCESS then do {
       ui_set_background BACKGROUND_ICON_ERROR;
       ui_print (''Installation aborted.'' @ [LF]);
       ret 1
     } else do {
       pending \<leftarrow> gets firmware_update_pending;
       whenM (misc \<and> pending) (ui_print ([LF] @ ''Reboot via menu to complete'' @ [LF] @ ''installation.'' @ [LF]));
       ui_set_background BACKGROUND_ICON_NONE;
       ui_print ([LF] @ ''Install from sdcard complete.'' @ [LF]);
       ret 0
     } }"


text \<open>The question before something that cannot be undone: the eighth line of the menu says yes.\<close>

definition confirm_selection :: "string \<Rightarrow> string \<Rightarrow> bool prog" where
  "confirm_selection title confirm = do {
     st \<leftarrow> call (Fs (Stat ''/mnt/sdcard/clockworkmod/.no_confirm''));
     if st = 0 then ret True
     else do {
       let no = loc ''CONFIRM_NO'' [];
       chosen_item \<leftarrow> get_menu_selection [title, loc ''CONFIRM_NOUNDO'' [], []]
         (replicate 7 no @ [confirm] @ replicate 3 no) False;
       ret (chosen_item = 7)
     } }"

section \<open>Commands on files and partitions\<close>

text \<open>\<open>assert\<close> is the one command with a boolean for \<open>argc\<close>.\<close>

definition cmd_assert :: "bool \<Rightarrow> int prog" where
  "cmd_assert argc = do {
     enabled \<leftarrow> gets script_assert_enabled;
     ret (if \<not> enabled then 0 else if argc then 0 else 1) }"

definition requires :: "string \<Rightarrow> string \<Rightarrow> int prog" where
  "requires name what = do { LOGE (''Command '' @ name @ '' requires '' @ what @ [LF]); ret 1 }"

definition cmd_format :: "string \<Rightarrow> string list \<Rightarrow> int prog" where
  "cmd_format name argv = (case argv of
     [arg] \<Rightarrow> do {
       ui_print (''Formatting '' @ arg @ ''...'' @ [LF]);
       r \<leftarrow> format_root_device arg;
       if r \<noteq> 0 then do { LOGE (''Can't format '' @ arg @ [LF]); ret 1 }
       else do {
         datadata \<leftarrow> opt has_datadata;
         if datadata \<and> arg = ''DATA:'' then do {
           r \<leftarrow> format_root_device ''DATADATA:'';
           if r \<noteq> 0 then do { LOGE (''Can't format '' @ arg @ [LF]); ret 1 } else ret 0
         } else ret 0
       } }
   | _ \<Rightarrow> requires name ''exactly one argument'')"

definition delete_path :: "bool \<Rightarrow> string \<Rightarrow> unit prog" where
  "delete_path recurse root_path = do {
     b \<leftarrow> gets build;
     case translate_root_path b root_path PATH_MAX of
       None \<Rightarrow> ret ()
     | Some path \<Rightarrow> do {
         r \<leftarrow> ensure_root_path_mounted root_path;
         if r < 0 then ret ()
         else do_call (Fs (if recurse then UnlinkHierarchy path else Unlink path)) } }"

definition cmd_delete :: "string \<Rightarrow> string list \<Rightarrow> int prog" where
  "cmd_delete name argv =
     (if length argv < 1 then requires name ''at least one argument''
      else do {
        let recurse = (name = ''delete_recursive'');
        ui_print (''Deleting files...'' @ [LF]);
        for_each argv (delete_path recurse);
        ret 0 })"

definition DEFAULT_FILES_PROGRESS_FRACTION :: rat where "DEFAULT_FILES_PROGRESS_FRACTION = 4 / 10"
definition DEFAULT_IMAGE_PROGRESS_FRACTION :: rat where "DEFAULT_IMAGE_PROGRESS_FRACTION = 1 / 10"

text \<open>The time stamp of the files: 8/1/2008 unless a later one is given; \<open>time_t\<close> has 32 bits.\<close>

definition copy_timestamp :: "string list \<Rightarrow> string + int" where
  "copy_timestamp argv =
     (if length argv = 3 then
        (let (x, rest) = strtoul0 (argv ! 2); val = to_int32 x in
         if val = 0 \<or> rest \<noteq> [] then Inl (''invalid timestamp '' @ quoted (argv ! 2))
         else if val < 1217592000 then Inl (''timestamp '' @ quoted (argv ! 2) @ '' too early'')
         else Inr val)
      else Inr 1217592000)"

text \<open>\<open>extract_cb\<close>, for each of the files: the quotient of a float by zero counts as all of it.\<close>

fun extract_progress :: "nat \<Rightarrow> nat \<Rightarrow> string list \<Rightarrow> unit prog" where
  "extract_progress num_total num_done [] = ret ()"
| "extract_progress num_total num_done (f # fs) = do {
     ui_set_progress (if num_total = 0 then 1 else of_nat (num_done + 1) / of_nat num_total);
     extract_progress num_total (num_done + 1) fs }"

definition extract_package :: "string \<Rightarrow> string \<Rightarrow> string \<Rightarrow> int \<Rightarrow> bool prog" where
  "extract_package package src_path dst_path timestamp = do {
     r \<leftarrow> sys (Mz (MzExtractRecursive package src_path dst_path True timestamp));
     if rc r = 0 then ret False
     else do {
       r' \<leftarrow> sys (Mz (MzExtractRecursive package src_path dst_path False timestamp));
       extract_progress (length (lst r)) 0 (lst r');
       ret (rc r' \<noteq> 0) } }"

text \<open>Copying the package's files; without a registered package a null pointer is followed.\<close>

definition copy_from :: "string \<Rightarrow> string \<Rightarrow> string \<Rightarrow> string \<Rightarrow> int \<Rightarrow> int prog" where
  "copy_from name src_root_path dst_root_path dst_path timestamp = do {
     b \<leftarrow> gets build;
     if is_package_root_path b src_root_path then do {
       src \<leftarrow> translate_package_root_path src_root_path PATH_MAX;
       case src of
         None \<Rightarrow> do { LOGE (''Command '' @ name @ '': bad source path '' @ quoted src_root_path @ [LF]); ret 1 }
       | Some (src_path, package) \<Rightarrow> (case package of
           None \<Rightarrow> do { fault; ret 1 }
         | Some p \<Rightarrow> do {
             ok \<leftarrow> extract_package p src_path dst_path timestamp;
             ret (if ok then 0 else 1) })
     } else do {
       LOGE (''Command '' @ name @ '': non-package source path '' @ quoted src_root_path @ '' not yet supported'' @ [LF]);
       ret 255
     } }"

definition cmd_copy_dir :: "string \<Rightarrow> string list \<Rightarrow> int prog" where
  "cmd_copy_dir name argv =
     (if length argv \<noteq> 3 \<and> length argv \<noteq> 2 then requires name ''exactly two arguments''
      else case copy_timestamp argv of
        Inl m \<Rightarrow> do { LOGE (''Command '' @ name @ '': '' @ m @ [LF]); ret 1 }
      | Inr timestamp \<Rightarrow> do {
          ui_print (''Copying files...'' @ [LF]);
          shown \<leftarrow> gets gDidShowProgress;
          whenM (\<not> shown) (ui_show_progress DEFAULT_FILES_PROGRESS_FRACTION 0);
          let dst_root_path = argv ! 1;
          r \<leftarrow> ensure_root_path_mounted dst_root_path;
          if r < 0 then do { LOGE (''Can't mount '' @ dst_root_path @ [LF]); ret 1 }
          else do {
            b \<leftarrow> gets build;
            case translate_root_path b dst_root_path PATH_MAX of
              None \<Rightarrow> do { LOGE (''Command '' @ name @ '': bad destination path '' @ quoted dst_root_path @ [LF]); ret 1 }
            | Some dst_path \<Rightarrow> copy_from name (argv ! 0) dst_root_path dst_path timestamp } })"

text \<open>
  \<open>run_program\<close>: the file to run. The static variable \<open>binary\<close> keeps the path of the last
  program that was not in the package, and the next program of the package is unpacked there
  (the words of a command outlive it in this model). A path that does not fit \<open>path\<close> is
  stored outside it.
\<close>

definition unpack_program :: "string \<Rightarrow> string \<Rightarrow> string option prog" where
  "unpack_program name arg = do {
     src \<leftarrow> translate_package_root_path arg PATH_MAX;
     case src of
       None \<Rightarrow> do { LOGE (''Command '' @ name @ '': bad source path '' @ quoted arg @ [LF]); ret None }
     | Some (path, package) \<Rightarrow> (case package of
         None \<Rightarrow> do { fault; ret None }
       | Some p \<Rightarrow> do {
           e \<leftarrow> mz_find p path;
           if \<not> e then do { LOGE (''Can't find '' @ path @ [LF]); ret None }
           else do {
             binary \<leftarrow> gets run_program_binary;
             do_call (Fs (Unlink binary));
             fd \<leftarrow> call (Fs (Creat binary));
             if fd < 0 then do { LOGE (''Can't make '' @ binary @ [LF]); ret None }
             else do {
               ok \<leftarrow> mz_ok (MzExtract p path binary);
               if \<not> ok then do { LOGE (''Can't copy '' @ path @ [LF]); ret None } else ret (Some path)
             } } }) }"

definition program_path :: "string \<Rightarrow> string \<Rightarrow> string option prog" where
  "program_path name arg = do {
     b \<leftarrow> gets build;
     if is_package_root_path b arg then unpack_program name arg
     else do {
       upd (\<lambda>s. s\<lparr>run_program_binary := arg\<rparr>);
       whenM (length arg \<ge> PATH_MAX) fault;
       ret (Some arg) } }"

text \<open>The status of \<open>waitpid\<close> (a pointer has four bytes): \<open>WIFEXITED\<close> and \<open>WEXITSTATUS\<close>.\<close>

definition exited_well :: "int \<Rightarrow> bool" where
  "exited_well st \<longleftrightarrow> st mod 128 = 0 \<and> st div 256 mod 256 = 0"

definition cmd_run_program :: "string \<Rightarrow> string list \<Rightarrow> int prog" where
  "cmd_run_program name argv =
     (if length argv < 1 then requires name ''at least one argument''
      else do {
        p \<leftarrow> program_path name (argv ! 0);
        case p of
          None \<Rightarrow> ret 1
        | Some path \<Rightarrow> do {
            binary \<leftarrow> gets run_program_binary;
            m \<leftarrow> call (Malloc (4 * (int (length argv) + 1)));
            whenM (m = 0) fault;
            st \<leftarrow> call (Proc (Run binary argv));
            asserts \<leftarrow> gets script_assert_enabled;
            if exited_well st \<or> \<not> asserts then ret 0
            else do { LOGE (''Error in '' @ path @ [LF] @ ''(Status '' @ dec_int st @ '')'' @ [LF]); ret 1 } } })"

text \<open>\<open>set_perm\<close>: the numbers, up to the first that is none; only one path follows them.\<close>

fun perm_numbers :: "string list \<Rightarrow> string + int list" where
  "perm_numbers [] = Inr []"
| "perm_numbers (a # as) = (let (x, rest) = strtoul0 a in
     if rest \<noteq> [] \<or> a = [] then Inl a
     else (case perm_numbers as of Inl e \<Rightarrow> Inl e | Inr xs \<Rightarrow> Inr (to_int32 x # xs)))"

definition apply_perm :: "bool \<Rightarrow> string \<Rightarrow> int list \<Rightarrow> bool prog" where
  "apply_perm recurse path n =
     (if recurse then do { r \<leftarrow> call (Fs (SetHierarchyPerm path (n ! 0) (n ! 1) (n ! 2) (n ! 3))); ret (r \<noteq> 0) }
      else do {
        r \<leftarrow> call (Fs (Chown path (n ! 0) (n ! 1)));
        if r \<noteq> 0 then ret True
        else do { r \<leftarrow> call (Fs (Chmod path (n ! 2))); ret (r \<noteq> 0) } })"

definition cmd_set_perm :: "string \<Rightarrow> string list \<Rightarrow> int prog" where
  "cmd_set_perm name argv =
     (let recurse = (name = ''set_perm_recursive''); min_args = (if recurse then 5 else 4) in
      if length argv < min_args then requires name (''at least '' @ dec_int (int min_args) @ '' args'')
      else case perm_numbers (take (min_args - 1) argv) of
        Inl a \<Rightarrow> do { LOGE (''Command '' @ name @ '': invalid argument '' @ quoted a @ [LF]); ret 1 }
      | Inr n \<Rightarrow> do {
          let arg = argv ! (min_args - 1);
          b \<leftarrow> gets build;
          case translate_root_path b arg PATH_MAX of
            None \<Rightarrow> do { LOGE (''Command '' @ name @ '': bad path '' @ quoted arg @ [LF]); ret 1 }
          | Some path \<Rightarrow> do {
              r \<leftarrow> ensure_root_path_mounted arg;
              if r \<noteq> 0 then do { LOGE (''Can't mount '' @ arg @ [LF]); ret 1 }
              else do {
                failed \<leftarrow> apply_perm recurse path n;
                if failed then do { LOGE (''Can't chown/mod '' @ path @ [LF]); ret 1 } else ret 0
              } } })"

text \<open>The test after the second number looks at the first argument again, which is not empty then.\<close>

definition cmd_show_progress :: "string \<Rightarrow> string list \<Rightarrow> int prog" where
  "cmd_show_progress name argv = (case argv of
     [a, b] \<Rightarrow>
       (let (fraction, rest) = strtod a in
        if rest \<noteq> [] \<or> a = [] \<or> fraction < 0 \<or> fraction > 1 then
          do { LOGE (''Command '' @ name @ '': invalid fraction '' @ quoted a @ [LF]); ret 1 }
        else (let (x, rest') = strtoul0 b in
          if rest' \<noteq> [] \<or> a = [] then
            do { LOGE (''Command '' @ name @ '': invalid duration '' @ quoted b @ [LF]); ret 1 }
          else do {
            ui_show_progress (fraction * (1 - VERIFICATION_PROGRESS_FRACTION)) (to_int32 x);
            upd (\<lambda>s. s\<lparr>gDidShowProgress := True\<rparr>);
            ret 0 }))
   | _ \<Rightarrow> requires name ''exactly two arguments'')"

definition cmd_symlink :: "string \<Rightarrow> string list \<Rightarrow> int prog" where
  "cmd_symlink name argv = (case argv of
     [target, link] \<Rightarrow> do {
       b \<leftarrow> gets build;
       case translate_root_path b link PATH_MAX of
         None \<Rightarrow> do { LOGE (''Command '' @ name @ '': bad path '' @ quoted link @ [LF]); ret 1 }
       | Some path \<Rightarrow> do {
           r \<leftarrow> ensure_root_path_mounted link;
           if r \<noteq> 0 then do { LOGE (''Can't mount '' @ link @ [LF]); ret 1 }
           else do {
             r \<leftarrow> call (Fs (Symlink target path));
             if r \<noteq> 0 then do { LOGE (''Can't symlink '' @ path @ [LF]); ret 1 } else ret 0
           } } }
   | _ \<Rightarrow> requires name ''exactly two arguments'')"

section \<open>Images from the package\<close>

text \<open>
  \<open>mzProcessZipEntryContents\<close> hands the contents of an entry over in chunks until the
  callback refuses one (None), and fails then or when the entry cannot be read.
\<close>

primrec feed :: "string list \<Rightarrow> ('a \<Rightarrow> string \<Rightarrow> 'a option prog) \<Rightarrow> 'a \<Rightarrow> 'a option prog" where
  "feed [] f x = ret (Some x)"
| "feed (c # cs) f x = do { r \<leftarrow> f x c; case r of None \<Rightarrow> ret None | Some y \<Rightarrow> feed cs f y }"

definition process_entry :: "string \<Rightarrow> string \<Rightarrow> ('a \<Rightarrow> string \<Rightarrow> 'a option prog) \<Rightarrow> 'a \<Rightarrow> 'a option prog" where
  "process_entry arch entry f x = do {
     r \<leftarrow> sys (Mz (MzProcess arch entry));
     y \<leftarrow> feed (lst r) f x;
     ret (if rc r = 0 then None else y) }"

text \<open>The context of \<open>firmware_fn\<close> is the data stored so far.\<close>

definition firmware_fn :: "int \<Rightarrow> string \<Rightarrow> string \<Rightarrow> string option prog" where
  "firmware_fn total_bytes context chunk =
     (if int (length context) + int (length chunk) > total_bytes then do {
        LOGE (''Data overrun in firmware'' @ [LF]);
        ret None
      } else do {
        ui_set_progress (of_nat (length context + length chunk) / of_int total_bytes);
        ret (Some (context @ chunk)) })"

definition image_type :: "string \<Rightarrow> string option" where
  "image_type name = (if name = ''write_radio_image'' then Some ''radio''
     else if name = ''write_hboot_image'' then Some ''hboot'' else None)"

definition store_image :: "string \<Rightarrow> string \<Rightarrow> int \<Rightarrow> int prog" where
  "store_image type img total_bytes = do {
     misc \<leftarrow> opt has_misc;
     r \<leftarrow> (if misc then remember_firmware_update (Some type) (Some img) total_bytes else ret 0);
     if r \<noteq> 0 then do { LOGE (''Can't store '' @ type @ '' image'' @ [LF]); ret 1 } else ret 0 }"

definition load_image :: "string \<Rightarrow> string \<Rightarrow> string \<Rightarrow> string \<Rightarrow> int prog" where
  "load_image type arg p path = do {
     total_bytes \<leftarrow> call (Mz (MzUncompLen p path));
     m \<leftarrow> call (Malloc total_bytes);
     if m = 0 then do { LOGE (''Can't allocate '' @ dec_int total_bytes @ '' bytes for '' @ arg @ [LF]); ret 1 }
     else do {
       r \<leftarrow> process_entry p path (firmware_fn total_bytes) [];
       case r of
         None \<Rightarrow> do { LOGE (''Can't read '' @ arg @ [LF]); ret 1 }
       | Some img \<Rightarrow>
           if int (length img) \<noteq> total_bytes then do { LOGE (''Can't read '' @ arg @ [LF]); ret 1 }
           else store_image type img total_bytes } }"

definition cmd_write_firmware_image :: "string \<Rightarrow> string list \<Rightarrow> int prog" where
  "cmd_write_firmware_image name argv = (case argv of
     [arg] \<Rightarrow> (case image_type name of
       None \<Rightarrow> do { LOGE (''Unknown firmware update command '' @ name @ [LF]); ret 1 }
     | Some type \<Rightarrow> do {
         b \<leftarrow> gets build;
         if \<not> is_package_root_path b arg then do {
           LOGE (''Command '' @ name @ '': non-package image file '' @ quoted arg @ '' not supported'' @ [LF]);
           ret 1
         } else do {
           ui_print (''Extracting '' @ type @ '' image...'' @ [LF]);
           src \<leftarrow> translate_package_root_path arg PATH_MAX;
           case src of
             None \<Rightarrow> do { LOGE (''Command '' @ name @ '': bad source path '' @ quoted arg @ [LF]); ret 1 }
           | Some (path, package) \<Rightarrow> (case package of
               None \<Rightarrow> do { fault; ret 1 }
             | Some p \<Rightarrow> do {
                 e \<leftarrow> mz_find p path;
                 if \<not> e then do { LOGE (''Can't find '' @ path @ [LF]); ret 1 } else load_image type arg p path }) } })
   | _ \<Rightarrow> requires name ''exactly one argument'')"

definition write_raw_image_process_fn :: "unit \<Rightarrow> string \<Rightarrow> unit option prog" where
  "write_raw_image_process_fn ctx chunk = do {
     r \<leftarrow> call (Mtd (MtdWriteData chunk));
     if r = int (length chunk) then ret (Some ()) else do { LOGE [LF]; ret None } }"

text \<open>Writing the image: the partition is opened, filled, its rest erased, and closed.\<close>

definition raw_image_to :: "string \<Rightarrow> string \<Rightarrow> string \<Rightarrow> string \<Rightarrow> int prog" where
  "raw_image_to dst_root_path part p src_path = do {
     ctx \<leftarrow> call (Mtd (MtdWriteOpen part));
     if ctx < 0 then do { LOGE (''Can't open '' @ dst_root_path @ [LF]); ret 1 }
     else do {
       ok \<leftarrow> process_entry p src_path write_raw_image_process_fn ();
       if ok = None then do {
         LOGE (''Error writing '' @ dst_root_path @ [LF]);
         do_call (Mtd MtdWriteClose);
         ret 1
       } else do {
         e \<leftarrow> call (Mtd (MtdEraseBlocks (-1)));
         if e = -1 then do {
           LOGE (''Error finishing '' @ dst_root_path @ [LF]);
           do_call (Mtd MtdWriteClose);
           ret (-1)
         } else do {
           c \<leftarrow> call (Mtd MtdWriteClose);
           if c \<noteq> 0 then do { LOGE (''Error closing '' @ dst_root_path @ [LF]); ret (-1) } else ret 0
         } } } }"

definition raw_image_from :: "string \<Rightarrow> string \<Rightarrow> string \<Rightarrow> int prog" where
  "raw_image_from dst_root_path p src_path = do {
     e \<leftarrow> mz_find p src_path;
     if \<not> e then do { LOGE (''Missing file '' @ src_path @ [LF]); ret 1 }
     else do {
       r \<leftarrow> ensure_root_path_unmounted dst_root_path;
       if r < 0 then do { LOGE (''Can't unmount '' @ dst_root_path @ [LF]); ret 1 }
       else do {
         partition \<leftarrow> get_root_mtd_partition dst_root_path;
         case partition of
           None \<Rightarrow> do { LOGE (''Can't find '' @ dst_root_path @ [LF]); ret 1 }
         | Some part \<Rightarrow> raw_image_to dst_root_path part p src_path } } }"

definition cmd_write_raw_image :: "string \<Rightarrow> string list \<Rightarrow> int prog" where
  "cmd_write_raw_image name argv = (case argv of
     [src_root_path, dst_root_path] \<Rightarrow> do {
       ui_print (''Writing '' @ dst_root_path @ ''...'' @ [LF]);
       shown \<leftarrow> gets gDidShowProgress;
       whenM (\<not> shown) (ui_show_progress DEFAULT_IMAGE_PROGRESS_FRACTION 0);
       b \<leftarrow> gets build;
       if \<not> is_package_root_path b src_root_path then do {
         LOGE (''Command '' @ name @ '': non-package source path '' @ quoted src_root_path @ '' not yet supported'' @ [LF]);
         ret 255
       } else do {
         src \<leftarrow> translate_package_root_path src_root_path PATH_MAX;
         case src of
           None \<Rightarrow> do { LOGE (''Command '' @ name @ '': bad source path '' @ quoted src_root_path @ [LF]); ret 1 }
         | Some (src_path, package) \<Rightarrow> (case package of
             None \<Rightarrow> do { fault; ret 1 }
           | Some p \<Rightarrow> raw_image_from dst_root_path p src_path) } }
   | _ \<Rightarrow> requires name ''exactly two arguments'')"

section \<open>The other commands\<close>

definition cmd_mark :: "string \<Rightarrow> string list \<Rightarrow> int prog" where
  "cmd_mark name argv = ret (-1)"

definition cmd_done :: "string \<Rightarrow> string list \<Rightarrow> int prog" where
  "cmd_done name argv = ret (-1)"

text \<open>
  The path made from the time is read after the block that declares it; the model takes it to
  be what was written there.
\<close>

definition cmd_backup_rom :: "string \<Rightarrow> string list \<Rightarrow> int prog" where
  "cmd_backup_rom name argv = (case argv of
     [] \<Rightarrow> do { p \<leftarrow> nandroid_generate_timestamp_path; nandroid_backup p }
   | [p] \<Rightarrow> nandroid_backup p
   | _ \<Rightarrow> requires name ''zero or one argument'')"

text \<open>The loop over the words: \<open>nosd-ext\<close> switches the cache off. Without words \<open>argv[0]\<close> is a bad pointer.\<close>

definition restore_options :: "string list \<Rightarrow> bool \<times> bool \<times> bool \<times> bool \<times> bool" where
  "restore_options argv =
     foldl (\<lambda>(boot, system, data, cache, sdext) a.
       if a = ''noboot'' then (False, system, data, cache, sdext)
       else if a = ''nosystem'' then (boot, False, data, cache, sdext)
       else if a = ''nodata'' then (boot, system, False, cache, sdext)
       else if a = ''nocache'' then (boot, system, data, False, sdext)
       else if a = ''nosd-ext'' then (boot, system, data, False, sdext)
       else (boot, system, data, cache, sdext)) (True, True, True, True, True) argv"

definition cmd_restore_rom :: "string \<Rightarrow> string list \<Rightarrow> int prog" where
  "cmd_restore_rom name argv = (case argv of
     [] \<Rightarrow> do { fault; ret 0 }
   | p # _ \<Rightarrow> (let (boot, system, data, cache, sdext) = restore_options argv in
       nandroid_restore p boot system data cache sdext))"

definition cmd_sleep :: "string \<Rightarrow> string list \<Rightarrow> int prog" where
  "cmd_sleep name argv = (case argv of
     [n] \<Rightarrow> do { do_call (Sleep (atoi n)); ret 0 }
   | _ \<Rightarrow> requires name ''exactly one argument'')"

text \<open>\<open>message\<close> has 1024 bytes and is printed as a format.\<close>

definition print_message :: "string list \<Rightarrow> string" where
  "print_message argv = concat (map (\<lambda>a. a @ '' '') argv) @ [LF]"

definition cmd_print :: "string \<Rightarrow> string list \<Rightarrow> int prog" where
  "cmd_print name argv = (let message = print_message argv in
     if length message + 1 > 1024 then do { fault; ret 0 }
     else do { ui_print_text message; ret 0 })"

definition cmd_install_zip :: "('c, RSAPublicKey) venv \<Rightarrow> string \<Rightarrow> string \<Rightarrow> string list \<Rightarrow> int prog" where
  "cmd_install_zip v api name argv = (case argv of
     [p] \<Rightarrow> install_zip v api p
   | _ \<Rightarrow> requires name ''exactly one argument'')"

section \<open>Functions\<close>

text \<open>
  A function answers an error code, or a string and the length it reports for it;
  \<open>strdup\<close> is taken to find memory for it.
\<close>

definition answer :: "string \<Rightarrow> int + string \<times> nat" where
  "answer t = Inr (t, length t)"

definition fn_compatible_with :: "string \<Rightarrow> string list \<Rightarrow> (int + string \<times> nat) prog" where
  "fn_compatible_with name argv = (case argv of
     [a] \<Rightarrow> ret (answer (if a = ''0.1'' \<or> a = ''0.2'' then ''true'' else []))
   | _ \<Rightarrow> ret (Inl 1))"

definition fn_update_forced :: "string \<Rightarrow> string list \<Rightarrow> (int + string \<times> nat) prog" where
  "fn_update_forced name argv = ret (if argv \<noteq> [] then Inl 1 else answer ''true'')"

definition fn_get_mark :: "string \<Rightarrow> string list \<Rightarrow> (int + string \<times> nat) prog" where
  "fn_get_mark name argv = ret (if length argv \<noteq> 1 then Inl 1 else answer [])"

definition fn_hash_dir :: "string \<Rightarrow> string list \<Rightarrow> (int + string \<times> nat) prog" where
  "fn_hash_dir name argv = ret (if length argv \<noteq> 1 then Inl 1 else answer ''hashvalue'')"

text \<open>When nothing matches, the empty string is reported with the length 1.\<close>

definition fn_matches :: "string \<Rightarrow> string list \<Rightarrow> (int + string \<times> nat) prog" where
  "fn_matches name argv = ret (
     if length argv < 2 then Inl 1
     else if argv ! 0 \<in> set (drop 1 argv) then answer (argv ! 0) else Inr ([], 1))"

text \<open>
  \<open>fn_concat\<close>: the block \<open>malloc\<close> answers holds whatever memory held before (the data of the
  reply). Only its last byte is set, and \<open>strcat\<close> starts where the text in it ends. None: a
  store outside the block.
\<close>

fun strcat_all :: "nat \<Rightarrow> string list \<Rightarrow> string \<Rightarrow> string option" where
  "strcat_all cap [] s = Some s"
| "strcat_all cap (a # as) s =
     (if length s + length a + 1 > cap then None else strcat_all cap as (s @ a))"

definition fn_concat :: "string \<Rightarrow> string list \<Rightarrow> (int + string \<times> nat) prog" where
  "fn_concat name argv = do {
     let totalLen = length (concat argv);
     m \<leftarrow> sys (Malloc (int totalLen + 1));
     if rc m = 0 then ret (Inl (-1))
     else (case strcat_all (totalLen + 1) argv (cstr (take totalLen (dat m))) of
       None \<Rightarrow> do { fault; ret (Inl 0) }
     | Some s \<Rightarrow> ret (answer s)) }"

text \<open>\<open>property_get\<close> with an empty default: the number of bytes of the value, and the value.\<close>

definition fn_getprop :: "string \<Rightarrow> string list \<Rightarrow> (int + string \<times> nat) prog" where
  "fn_getprop name argv = (case argv of
     [a] \<Rightarrow> do { r \<leftarrow> sys (PropGet a); ret (answer (if rc r > 0 then cstr (dat r) else [])) }
   | _ \<Rightarrow> do { LOGE (''Command '' @ name @ '' requires exactly one argument'' @ [LF]); ret (Inl 1) })"

text \<open>\<open>load_file\<close> ends the contents with a new line and a zero byte.\<close>

fun strstr :: "string \<Rightarrow> string \<Rightarrow> bool" where
  "strstr [] needle \<longleftrightarrow> needle = []"
| "strstr (c # s) needle \<longleftrightarrow> take (length needle) (c # s) = needle \<or> strstr s needle"

definition fn_file_contains :: "string \<Rightarrow> string list \<Rightarrow> (int + string \<times> nat) prog" where
  "fn_file_contains name argv = (case argv of
     [root_path, needle] \<Rightarrow> do {
       b \<leftarrow> gets build;
       case translate_root_path b root_path PATH_MAX of
         None \<Rightarrow> do { LOGE (''Command '' @ name @ '': bad path '' @ quoted root_path @ [LF]); ret (Inl 1) }
       | Some path \<Rightarrow> do {
           r \<leftarrow> ensure_root_path_mounted root_path;
           if r \<noteq> 0 then do { LOGE (''Can't mount '' @ root_path @ [LF]); ret (Inl 1) }
           else do {
             f \<leftarrow> sys (Fs (ReadFile path));
             ret (answer (if rc f \<ge> 0 \<and> strstr (cstr (dat f @ [LF])) needle then ''true'' else []))
           } } }
   | _ \<Rightarrow> do { LOGE (''Command '' @ name @ '' requires exactly two arguments'' @ [LF]); ret (Inl 1) })"

section \<open>The table of commands\<close>

text \<open>
  The commands with words, and the functions, in the order \<open>register_update_commands\<close>
  registers them (\<open>assert\<close> is registered first).
\<close>

definition word_commands ::
  "('c, RSAPublicKey) venv \<Rightarrow> string \<Rightarrow> (string \<times> (string \<Rightarrow> string list \<Rightarrow> int prog)) list" where
  "word_commands v api =
     [(''delete'', cmd_delete), (''delete_recursive'', cmd_delete), (''copy_dir'', cmd_copy_dir),
      (''run_program'', cmd_run_program), (''set_perm'', cmd_set_perm), (''set_perm_recursive'', cmd_set_perm),
      (''show_progress'', cmd_show_progress), (''symlink'', cmd_symlink), (''format'', cmd_format),
      (''write_radio_image'', cmd_write_firmware_image), (''write_hboot_image'', cmd_write_firmware_image),
      (''write_raw_image'', cmd_write_raw_image), (''mark'', cmd_mark), (''done'', cmd_done),
      (''backup_rom'', cmd_backup_rom), (''restore_rom'', cmd_restore_rom), (''sleep'', cmd_sleep),
      (''print'', cmd_print), (''install_zip'', cmd_install_zip v api)]"

definition script_functions :: "(string \<times> (string \<Rightarrow> string list \<Rightarrow> (int + string \<times> nat) prog)) list" where
  "script_functions =
     [(''compatible_with'', fn_compatible_with), (''update_forced'', fn_update_forced), (''get_mark'', fn_get_mark),
      (''hash_dir'', fn_hash_dir), (''matches'', fn_matches), (''concat'', fn_concat), (''getprop'', fn_getprop),
      (''file_contains'', fn_file_contains)]"

fun register_all :: "string list \<Rightarrow> int prog" where
  "register_all [] = ret 0"
| "register_all (c # cs) = do { r \<leftarrow> call (Hook c); if r < 0 then ret r else register_all cs }"

definition register_update_commands :: "('c, RSAPublicKey) venv \<Rightarrow> string \<Rightarrow> int prog" where
  "register_update_commands v api = register_all (''commandInit'' #
     map (\<lambda>n. ''registerCommand '' @ n) (''assert'' # map fst (word_commands v api)) @
     map (\<lambda>n. ''registerFunction '' @ n) (map fst script_functions))"

text \<open>
  What a script can make the interpreter do: call the hook of an assertion, of a command with
  words, or of a function. A name that is not registered has no hook.
\<close>

datatype script_step = Assertion bool | Command string "string list" | Function string "string list"

definition run_step :: "('c, RSAPublicKey) venv \<Rightarrow> string \<Rightarrow> script_step \<Rightarrow> unit prog" where
  "run_step v api c = (case c of
     Assertion b \<Rightarrow> do { _ \<leftarrow> cmd_assert b; ret () }
   | Command name argv \<Rightarrow> (case map_of (word_commands v api) name of
       None \<Rightarrow> ret () | Some hook \<Rightarrow> do { _ \<leftarrow> hook name argv; ret () })
   | Function name argv \<Rightarrow> (case map_of script_functions name of
       None \<Rightarrow> ret () | Some hook \<Rightarrow> do { _ \<leftarrow> hook name argv; ret () }))"

section \<open>What these programs touch\<close>

text \<open>Only \<open>install_zip\<close> opens an archive; every command leaves the switch of the signature check alone.\<close>

lemma nand_no_open [simp]: "nand_level c \<Longrightarrow> no_open c"
  by (cases c rule: no_open.cases) auto

lemma emits_requires [emits_intros]: "(\<And>t. P (Print t)) \<Longrightarrow> emits P (requires n w)"
  unfolding requires_def by (intro emits_intros; simp)

lemma emits_extract_progress [emits_intros]: "(\<And>c. ui_call c \<Longrightarrow> P c) \<Longrightarrow> emits P (extract_progress n k fs)"
  by (induction fs arbitrary: k) (auto intro!: emits_intros)

lemma emits_feed: "(\<And>x c. emits P (f x c)) \<Longrightarrow> emits P (feed cs f x)"
  by (induction cs arbitrary: x) (auto intro!: emits_intros split: option.splits)

lemma emits_process_entry [emits_intros]:
  "P (Mz (MzProcess a e)) \<Longrightarrow> (\<And>x c. emits P (f x c)) \<Longrightarrow> emits P (process_entry a e f x)"
  unfolding process_entry_def by (intro emits_intros emits_feed)

lemma emits_firmware_fn [emits_intros]: "(\<And>c. ui_call c \<Longrightarrow> P c) \<Longrightarrow> emits P (firmware_fn n x c)"
  unfolding firmware_fn_def by (intro emits_intros; simp)

lemma emits_write_raw_image_process_fn [emits_intros]:
  "(\<And>c. no_open c \<Longrightarrow> P c) \<Longrightarrow> emits P (write_raw_image_process_fn x c)"
  unfolding write_raw_image_process_fn_def by (intro emits_intros; simp)

lemma emits_register_all: "(\<And>x. P (Hook x)) \<Longrightarrow> emits P (register_all cs)"
  by (induction cs) (auto intro!: emits_intros)

lemmas file_commands = cmd_assert_def cmd_format_def cmd_delete_def delete_path_def cmd_copy_dir_def copy_from_def
  extract_package_def cmd_set_perm_def apply_perm_def cmd_symlink_def cmd_mark_def cmd_done_def

lemmas image_commands = cmd_write_firmware_image_def load_image_def store_image_def cmd_write_raw_image_def raw_image_from_def raw_image_to_def

lemmas other_commands = cmd_run_program_def program_path_def unpack_program_def cmd_show_progress_def cmd_backup_rom_def
  cmd_restore_rom_def cmd_sleep_def cmd_print_def

lemmas function_defs = fn_compatible_with_def fn_update_forced_def fn_get_mark_def fn_hash_dir_def fn_matches_def
  fn_concat_def fn_getprop_def fn_file_contains_def

lemma emits_file_commands:
  "emits no_open (cmd_assert b)" "emits no_open (cmd_format n as)" "emits no_open (cmd_delete n as)"
  "emits no_open (cmd_copy_dir n as)" "emits no_open (cmd_set_perm n as)" "emits no_open (cmd_symlink n as)"
  "emits no_open (cmd_mark n as)" "emits no_open (cmd_done n as)"
  unfolding file_commands Let_def by (intro emits_intros; simp)+

lemma emits_image_commands:
  "emits no_open (cmd_write_firmware_image n as)" "emits no_open (cmd_write_raw_image n as)"
  unfolding image_commands Let_def by (intro emits_intros; simp)+

lemma emits_other_commands:
  "emits no_open (cmd_run_program n as)" "emits no_open (cmd_show_progress n as)" "emits no_open (cmd_backup_rom n as)"
  "emits no_open (cmd_restore_rom n as)" "emits no_open (cmd_sleep n as)" "emits no_open (cmd_print n as)"
  unfolding other_commands Let_def by (intro emits_intros; simp)+

lemma emits_functions:
  "emits no_open (fn_compatible_with n as)" "emits no_open (fn_update_forced n as)" "emits no_open (fn_get_mark n as)"
  "emits no_open (fn_hash_dir n as)" "emits no_open (fn_matches n as)" "emits no_open (fn_concat n as)"
  "emits no_open (fn_getprop n as)" "emits no_open (fn_file_contains n as)"
  unfolding function_defs Let_def by (intro emits_intros; simp)+

lemma word_command_cases:
  "map_of (word_commands v api) n = Some hook \<Longrightarrow> hook = cmd_install_zip v api \<or> emits no_open (hook n as)"
  by (auto simp: word_commands_def split: if_splits intro: emits_file_commands emits_image_commands emits_other_commands)

lemma function_cases: "map_of script_functions n = Some hook \<Longrightarrow> emits no_open (hook n as)"
  by (auto simp: script_functions_def split: if_splits intro: emits_functions)

section \<open>Packages a script installs are verified\<close>

text \<open>The opening of one archive, and the verification that is to come before it.\<close>

definition opens :: "string \<Rightarrow> ext_call \<Rightarrow> bool" where
  "opens p c \<longleftrightarrow> c = Mz (MzOpen p)"

definition verified_since :: "('c, RSAPublicKey) venv \<Rightarrow> world \<Rightarrow> string \<Rightarrow> ext_call list \<Rightarrow> bool" where
  "verified_since v s p h \<longleftrightarrow> package_verified v (env s) p (trace s) (drop (length (trace s)) h)"

lemma no_open_opens [simp]: "no_open c \<Longrightarrow> \<not> opens p c"
  by (auto simp: opens_def)

lemma opens_Mz [simp]: "opens p (Mz x) \<longleftrightarrow> x = MzOpen p"
  by (simp add: opens_def)

lemma tracked_no_open: "emits no_open m \<Longrightarrow> hoare (tracked (opens p) Q s) m (\<lambda>_. tracked (opens p) Q s)"
  by (rule tracked_emits) (erule emits_mono, simp)

lemma tracked_after:
  assumes "emits (\<lambda>_. True) m" and "Q = verified_since v s p"
  shows "hoare (\<lambda>t. tracked K Q s t \<and> (stopped t \<or> Q (trace t))) m (\<lambda>_. tracked K Q s)"
proof (rule hoareI)
  fix t :: world assume t: "tracked K Q s t \<and> (stopped t \<or> Q (trace t))"
  obtain u where u: "trace t = trace s @ u" using t by (auto simp: tracked_def extends_def)
  show "tracked K Q s (exec m t)"
  proof (cases "stopped t")
    case True
    then show ?thesis using emits_frozen [OF assms(1)] t by simp
  next
    case False
    obtain w where w: "trace (exec m t) = trace t @ w" using emitsD [OF assms(1)] by blast
    have "Q (trace t @ x)" for x
      using t False u package_verified_append [of v "env s" p "trace s" u x] by (simp add: assms(2) verified_since_def)
    then show ?thesis
      using t w preceded_extend [of K Q "length (trace s)" "trace t" w] emits_extends [OF assms(1), of t] extends_trans
      unfolding tracked_def by (metis (no_types, lifting))
  qed
qed

lemma install_package_tracked:
  assumes sc: "signature_check_enabled s" and Q: "Q = verified_since v s p"
  shows "hoare (tracked (opens p) Q s) (install_package v api root_path) (\<lambda>_. tracked (opens p) Q s)"
proof -
  let ?I = "tracked (opens p) Q s"
  have E: "hoare ?I m (\<lambda>_. ?I)" if "emits mount_level m" for m :: "'z prog"
    by (rule tracked_no_open [OF emits_mono [OF that]]) simp
  have other: "hoare ?I m (\<lambda>_. ?I)" if "emits (\<lambda>c. \<not> opens p c) m" for m :: "int prog"
    using that by (rule tracked_emits)
  have rest: "hoare (\<lambda>t. ?I t \<and> (stopped t \<or> Q (trace t))) m (\<lambda>_. ?I)" if "emits (\<lambda>_. True) m" for m :: "int prog"
    using that Q by (rule tracked_after)
  have sig: "hoare ?I (check_signature v p') (\<lambda>ok t. ?I t \<and> (ok \<and> p' = p \<longrightarrow> stopped t \<or> Q (trace t)))" for p'
  proof -
    have "emits mount_level (check_signature v p')" by (intro emits_intros; simp)
    from E [OF this] hoareD [OF check_signature_tracked [of Q v s p "opens p"]] show ?thesis
      by (auto simp: hoare_def Q verified_since_def fun_eq_iff)
  qed
  show ?thesis
    unfolding install_package_def
    apply (rule hoare_bind [OF E], (intro emits_intros; simp; fail))+
    apply (rule hoare_if, rule E, (intro emits_intros; simp; fail))
    apply (rule hoare_bind [OF hoare_gets [where Q = "\<lambda>_. ?I"]], assumption)
    subgoal for _ _ _ m b
      apply (cases "translate_root_path b root_path PATH_MAX")
       apply (simp only: option.case, rule E, (intro emits_intros; simp; fail))
      apply (simp only: option.case)
      apply (rule hoare_bind [OF E], (intro emits_intros; simp; fail))
      apply (rule hoare_bind [where R = "\<lambda>c t. ?I t \<and> c = True"], rule hoare_gets, simp add: tracked_def extends_def sc, rule hoare_pure)
      apply (simp only: if_True)
      subgoal for p'
        apply (rule hoare_bind [OF sig], rule hoare_if)
         apply (rule hoare_ret, simp)
        apply (cases "p' = p")
         apply (rule hoare_weaken [OF rest], (intro emits_intros TrueI)[1], simp, simp)
        apply (rule hoare_weaken [OF other], (intro emits_intros; simp), simp, simp)
        done
      done
    done
qed

lemma install_zip_tracked:
  assumes sc: "signature_check_enabled s" and Q: "Q = verified_since v s p"
  shows "hoare (tracked (opens p) Q s) (install_zip v api f) (\<lambda>_. tracked (opens p) Q s)"
proof -
  let ?I = "tracked (opens p) Q s"
  have E: "hoare ?I m (\<lambda>_. ?I)" if "emits no_open m" for m :: "'z prog"
    using that by (rule tracked_no_open)
  show ?thesis
    unfolding install_zip_def set_sdcard_update_bootloader_message_def
    by (rule hoare_bind [OF E], (intro emits_intros; simp; fail))+
       (rule hoare_bind [OF install_package_tracked [OF sc Q]], rule E, (intro emits_intros; simp))
qed

lemma run_step_tracked:
  assumes sc: "signature_check_enabled s" and Q: "Q = verified_since v s p"
  shows "hoare (tracked (opens p) Q s) (run_step v api c) (\<lambda>_. tracked (opens p) Q s)"
proof -
  let ?I = "tracked (opens p) Q s"
  have E: "hoare ?I (do { _ \<leftarrow> m; ret () }) (\<lambda>_. ?I)" if "emits no_open m" for m :: "'z prog"
    by (rule tracked_no_open) (intro emits_intros that)
  show ?thesis
  proof (cases c)
    case (Assertion b)
    then show ?thesis by (simp add: run_step_def E emits_file_commands)
  next
    case (Command n as)
    show ?thesis
    proof (cases "map_of (word_commands v api) n")
      case (Some hook)
      from word_command_cases [OF this, of as] consider "hook = cmd_install_zip v api" | "emits no_open (hook n as)" by blast
      then show ?thesis
      proof cases
        case 1
        have "hoare ?I (cmd_install_zip v api n as) (\<lambda>_. ?I)"
          unfolding cmd_install_zip_def
          by (cases as rule: remdups_adj.cases)
             (simp_all add: install_zip_tracked [OF sc Q] tracked_no_open emits_requires)
        with Some 1 Command show ?thesis by (simp add: run_step_def hoare_bind [OF _ hoare_ret])
      qed (simp add: run_step_def Command Some E)
    qed (simp add: run_step_def Command hoare_ret)
  next
    case (Function n as)
    then show ?thesis
      by (cases "map_of script_functions n") (auto simp: run_step_def hoare_ret intro: E function_cases)
  qed
qed

lemma hoare_for_each: "(\<And>x. hoare I (f x) (\<lambda>_. I)) \<Longrightarrow> hoare I (for_each xs f) (\<lambda>_. I)"
  by (induction xs) (auto intro: hoare_ret hoare_bind)

text \<open>
  C20. Scripts cannot get around the signature. Whatever commands and functions a script
  runs, in whatever order and with whatever arguments: with the signature check enabled no
  archive is opened before the keys have been read and \<open>verify_file\<close> has accepted its bytes.
  The switch itself is out of a script's reach.
\<close>

theorem script_packages_verified:
  assumes "signature_check_enabled s"
  shows "signature_check_enabled (exec (for_each cs (run_step v api)) s) \<and>
    (\<forall>a p b. trace (exec (for_each cs (run_step v api)) s) = trace s @ a @ Mz (MzOpen p) # b \<longrightarrow>
      package_verified v (env s) p (trace s) a)"
proof -
  have t: "tracked (opens p) (verified_since v s p) s (exec (for_each cs (run_step v api)) s)" for p
    by (rule hoareD [OF hoare_for_each tracked_start], rule run_step_tracked [OF assms refl])
  have "package_verified v (env s) p (trace s) a"
    if "trace (exec (for_each cs (run_step v api)) s) = trace s @ a @ Mz (MzOpen p) # b" for a p b
    using that tracked_preceded [OF t [of p]] precededD [of "opens p" "verified_since v s p" "trace s" a "Mz (MzOpen p)" b]
    by (simp add: verified_since_def)
  moreover from t have "signature_check_enabled (exec (for_each cs (run_step v api)) s)"
    using assms by (simp add: tracked_def extends_def)
  ultimately show ?thesis by blast
qed

text \<open>A script that installs a signed archive: it is opened, and verified before.\<close>

definition signed_device :: world where
  "signed_device = sample_store\<lparr>env := signed_env, build := (build sample_store)\<lparr>has_misc := False\<rparr>\<rparr>"

theorem script_packages_verified_witness:
  "\<exists>a. package_verified key_venv signed_env ''/mnt/sdcard/u.zip'' [] a"
proof -
  let ?p = "[LF] @ ''-- Installing: '' @ ''SDCARD:u.zip'' @ [LF]" and ?cs = "[Command ''install_zip'' [''SDCARD:u.zip'']]"
  let ?s = "exec (ui_print ?p) signed_device"
  let ?m = "install_package key_venv ''3'' ''SDCARD:u.zip''"
  have d: "\<not> stopped signed_device" "mainlog signed_device = ui_clear_screen 0 0" "signature_check_enabled signed_device"
    "trace signed_device = []" "env signed_device = signed_env" "\<not> has_misc (build signed_device)"
    by (simp_all add: signed_device_def sample_store_def boot_state_def)
  then have s: "\<not> stopped ?s" "env ?s = signed_env" "mainlog ?s = ui_clear_screen 0 0" "signature_check_enabled ?s" "trace ?s = [Print ?p]"
    "\<not> has_misc (build ?s)"
    by (simp_all add: run_simps log_main_blank)
  from signed_install_opens [OF s(1-4), of "''3''"] s(5) obtain a b where
    t: "trace (exec ?m ?s) = Print ?p # a @ Mz (MzOpen ''/mnt/sdcard/u.zip'') # b" by auto
  define rest where "rest = (\<lambda>st. do { ui_reset_progress;
     if st \<noteq> INSTALL_SUCCESS then do { ui_set_background BACKGROUND_ICON_ERROR; ui_print (''Installation aborted.'' @ [LF]); ret 1 }
     else do {
       pending \<leftarrow> gets firmware_update_pending;
       whenM (False \<and> pending) (ui_print ([LF] @ ''Reboot via menu to complete'' @ [LF] @ ''installation.'' @ [LF]));
       ui_set_background BACKGROUND_ICON_NONE; ui_print ([LF] @ ''Install from sdcard complete.'' @ [LF]); ret (0::int) } })"
  have "emits (\<lambda>_. True) (rest st)" for st unfolding rest_def by (intro emits_intros TrueI)
  from emitsD [OF this, of "result ?m ?s" "exec ?m ?s"] obtain u where
    "trace (exec (rest (result ?m ?s)) (exec ?m ?s)) = trace (exec ?m ?s) @ u" by blast
  moreover have "exec (for_each ?cs (run_step key_venv ''3'')) signed_device = exec (rest (result ?m ?s)) (exec ?m ?s)"
    using s(6) by (simp add: run_step_def word_commands_def cmd_install_zip_def install_zip_def rest_def whenM_def split_beta)
  ultimately have "trace (exec (for_each ?cs (run_step key_venv ''3'')) signed_device) =
      trace signed_device @ (Print ?p # a) @ Mz (MzOpen ''/mnt/sdcard/u.zip'') # (b @ u)" using t d(4) by simp
  with script_packages_verified [OF d(3), of ?cs key_venv "''3''"] d(4,5) show ?thesis by fastforce
qed

section \<open>Permissions, and concatenation\<close>

text \<open>
  \<open>set_perm\<close> and \<open>set_perm_recursive\<close> are documented to take any number of paths. The
  loop ends after the first: a script with more paths does exactly what it does without
  them, and is told that all went well.
\<close>

theorem set_perm_first_path_only:
  assumes "length argv \<ge> (if name = ''set_perm_recursive'' then 5 else 4)"
  shows "cmd_set_perm name (argv @ extra) = cmd_set_perm name argv"
  using assms by (auto simp: cmd_set_perm_def Let_def nth_append cong: sum.case_cong)

theorem set_perm_first_path_only_witness:
  "cmd_set_perm ''set_perm'' [''0'', ''0'', ''0644'', ''SYSTEM:a'', ''SYSTEM:b''] =
   cmd_set_perm ''set_perm'' [''0'', ''0'', ''0644'', ''SYSTEM:a'']"
  using set_perm_first_path_only [of "''set_perm''" "[''0'', ''0'', ''0644'', ''SYSTEM:a'']" "[''SYSTEM:b'']"] by simp

lemma strcat_all_eq:
  "length t < cap \<Longrightarrow> strcat_all cap as t = (if length t + length (concat as) < cap then Some (t @ concat as) else None)"
  by (induction as arbitrary: t) auto

text \<open>
  \<open>fn_concat\<close> is right exactly when the block it gets from \<open>malloc\<close> happens to start with
  a zero byte (or it is asked for the empty string): then it answers the concatenation and
  changes nothing. Otherwise it stores behind the end of the block.
\<close>

theorem fn_concat_correct_iff:
  assumes "\<not> stopped s" and "m = env s (trace s) (Malloc (int (length (concat argv)) + 1))" and "rc m \<noteq> 0"
  shows "run_state (fn_concat name argv) s =
    (if cstr (take (length (concat argv)) (dat m)) = []
     then (Inr (concat argv, length (concat argv)), s\<lparr>trace := trace s @ [Malloc (int (length (concat argv)) + 1)]\<rparr>)
     else (Inl 0, s\<lparr>trace := trace s @ [Malloc (int (length (concat argv)) + 1)], stopped := True, faulted := True\<rparr>))"
proof -
  have "length (cstr t) \<le> length t" for t by (simp add: cstr_def length_takeWhile_le)
  from this [of "take (length (concat argv)) (dat m)"] have "length (cstr (take (length (concat argv)) (dat m))) < length (concat argv) + 1"
    by simp
  from strcat_all_eq [OF this, of argv] assms show ?thesis
    by (auto simp: fn_concat_def run_simps fault_def answer_def Let_def)
qed

text \<open>A block that holds old text, and \<open>concat("a", "b")\<close>.\<close>

definition old_memory :: world where
  "old_memory = sample_store\<lparr>env := (\<lambda>h c. Reply 1 ''x'' [])\<rparr>"

theorem fn_concat_correct_iff_witness: "faulted (exec (fn_concat ''concat'' [''a'', ''b'']) old_memory)"
proof -
  have "\<not> stopped old_memory" "env old_memory = (\<lambda>h c. Reply 1 ''x'' [])"
    by (simp_all add: old_memory_def sample_store_def boot_state_def)
  then show ?thesis
    using fn_concat_correct_iff [of old_memory "Reply 1 ''x'' []" "[''a'', ''b'']" "''concat''"] by (simp add: cstr_def)
qed

section \<open>Raw images\<close>

text \<open>
  A complete writing of an image, at the end of a trace: the partition is opened, every chunk
  of the entry is written in full and in order, the rest is erased, and closing succeeds.
\<close>

definition flash_writes :: "string list \<Rightarrow> ext_call list" where
  "flash_writes cs = map (\<lambda>c. Mtd (MtdWriteData c)) cs"

definition flashed ::
  "(ext_call list \<Rightarrow> ext_call \<Rightarrow> reply) \<Rightarrow> string \<Rightarrow> string \<Rightarrow> string \<Rightarrow> ext_call list \<Rightarrow> bool" where
  "flashed e part p path t \<longleftrightarrow> (\<exists>g h cs. h = g @ [Mtd (MtdWriteOpen part), Mz (MzProcess p path)]
     \<and> t = h @ flash_writes cs @ [Mtd (MtdEraseBlocks (-1)), Mtd MtdWriteClose]
     \<and> rc (e g (Mtd (MtdWriteOpen part))) \<ge> 0
     \<and> rc (e (g @ [Mtd (MtdWriteOpen part)]) (Mz (MzProcess p path))) \<noteq> 0
     \<and> lst (e (g @ [Mtd (MtdWriteOpen part)]) (Mz (MzProcess p path))) = cs
     \<and> (\<forall>i < length cs. rc (e (h @ flash_writes (take i cs)) (Mtd (MtdWriteData (cs ! i)))) = int (length (cs ! i)))
     \<and> rc (e (h @ flash_writes cs) (Mtd (MtdEraseBlocks (-1)))) \<noteq> -1
     \<and> rc (e (h @ flash_writes cs @ [Mtd (MtdEraseBlocks (-1))]) (Mtd MtdWriteClose)) = 0)"

text \<open>The partition on flash of a root.\<close>

definition root_flash :: "build_opts \<Rightarrow> string \<Rightarrow> string \<Rightarrow> bool" where
  "root_flash b r part \<longleftrightarrow> (\<exists>info. get_root_info_for_path b r = Some info \<and> r_partition_name info = Some part)"

lemma get_root_mtd_partition_root: "result (get_root_mtd_partition r) t = Some part \<Longrightarrow> root_flash (build t) r part"
  by (auto simp: get_root_mtd_partition_def mtd_find_def root_flash_def run_simps fault_def split: option.splits if_splits)

lemma feed_raw_image:
  assumes "\<not> stopped s" and "result (feed cs write_raw_image_process_fn ()) s \<noteq> None"
  shows "run_state (feed cs write_raw_image_process_fn ()) s = (Some (), s\<lparr>trace := trace s @ flash_writes cs\<rparr>)
    \<and> (\<forall>i < length cs. rc (env s (trace s @ flash_writes (take i cs)) (Mtd (MtdWriteData (cs ! i)))) = int (length (cs ! i)))"
  using assms
proof (induction cs arbitrary: s)
  case (Cons c cs)
  let ?s = "s\<lparr>trace := trace s @ [Mtd (MtdWriteData c)]\<rparr>"
  have w: "rc (env s (trace s) (Mtd (MtdWriteData c))) = int (length c)"
    using Cons.prems by (auto simp: write_raw_image_process_fn_def call_def run_sys split_beta split: if_splits)
  then have f: "run_state (write_raw_image_process_fn () c) s = (Some (), ?s)"
    using Cons.prems(1) by (simp add: write_raw_image_process_fn_def call_def run_sys)
  have "\<not> stopped ?s" "result (feed cs write_raw_image_process_fn ()) ?s \<noteq> None" using Cons.prems f by simp_all
  from Cons.IH [OF this] w f show ?case
    by (auto simp: flash_writes_def less_Suc_eq_0_disj)
qed (simp add: flash_writes_def)

lemma raw_image_to_flashed:
  assumes "\<not> stopped s" and "result (raw_image_to d part p path) s = 0"
  shows "flashed (env s) part p path (trace (exec (raw_image_to d part p path) s))"
proof -
  let ?o = "Mtd (MtdWriteOpen part)" and ?z = "Mz (MzProcess p path)"
  let ?s = "s\<lparr>trace := trace s @ [?o, ?z]\<rparr>" and ?r = "env s (trace s @ [?o]) (Mz (MzProcess p path))"
  let ?f = "feed (lst ?r) write_raw_image_process_fn ()"
  have o: "rc (env s (trace s) ?o) \<ge> 0"
    using assms by (auto simp: raw_image_to_def call_def run_sys split_beta split: if_splits)
  then have ok: "rc ?r \<noteq> 0" "result ?f ?s \<noteq> None"
    using assms by (auto simp: raw_image_to_def process_entry_def call_def run_sys split_beta split: if_splits)
  have "\<not> stopped ?s" using assms(1) by simp
  from feed_raw_image [OF this ok(2)] have f:
    "run_state ?f ?s = (Some (), s\<lparr>trace := (trace s @ [?o, ?z]) @ flash_writes (lst ?r)\<rparr>)"
    "\<forall>i < length (lst ?r). rc (env s ((trace s @ [?o, ?z]) @ flash_writes (take i (lst ?r))) (Mtd (MtdWriteData (lst ?r ! i)))) = int (length (lst ?r ! i))"
    by simp_all
  then have "rc (env s ((trace s @ [?o, ?z]) @ flash_writes (lst ?r)) (Mtd (MtdEraseBlocks (-1)))) \<noteq> -1"
    "rc (env s ((trace s @ [?o, ?z]) @ flash_writes (lst ?r) @ [Mtd (MtdEraseBlocks (-1))]) (Mtd MtdWriteClose)) = 0"
    "trace (exec (raw_image_to d part p path) s) = (trace s @ [?o, ?z]) @ flash_writes (lst ?r) @ [Mtd (MtdEraseBlocks (-1)), Mtd MtdWriteClose]"
    using assms o ok by (auto simp: raw_image_to_def process_entry_def call_def run_sys split_beta split: if_splits)
  with o ok(1) f(2) show ?thesis unfolding flashed_def by blast
qed

text \<open>From \<open>s\<close>, a result 0 only comes with a complete image at the end of the trace, unless the program has stopped.\<close>

lemma hoare_extends: "emits P m \<Longrightarrow> hoare (extends (\<lambda>_. True) s) m (\<lambda>_. extends (\<lambda>_. True) s)"
  by (auto simp: hoare_def dest: emits_extends intro: extends_trans)

lemma raw_image_to_hoare:
  "hoare (extends (\<lambda>_. True) s) (raw_image_to d part p path)
    (\<lambda>r t. r = 0 \<longrightarrow> stopped t \<or> flashed (env s) part p path (trace t))"
proof (rule hoareI, rule impI)
  fix t :: world assume t: "extends (\<lambda>_. True) s t" and r: "result (raw_image_to d part p path) t = 0"
  have e: "emits (\<lambda>_. True) (raw_image_to d part p path)" unfolding raw_image_to_def by (intro emits_intros TrueI)
  show "stopped (exec (raw_image_to d part p path) t) \<or> flashed (env s) part p path (trace (exec (raw_image_to d part p path) t))"
    using raw_image_to_flashed [OF _ r] emits_frozen [OF e, of t] t by (cases "stopped t") (auto simp: extends_def)
qed

lemma hoare_option:
  "hoare P m Q \<Longrightarrow> (\<And>y. x = Some y \<Longrightarrow> hoare P (f y) Q) \<Longrightarrow> hoare P (case x of None \<Rightarrow> m | Some y \<Rightarrow> f y) Q"
  by (cases x) auto

lemma hoare_fails: "\<not> R r \<Longrightarrow> hoare P (m \<bind> (\<lambda>_. ret r)) (\<lambda>r t. R r \<longrightarrow> Q t)"
  by (simp add: hoare_def split_beta)

lemma raw_image_from_hoare:
  "hoare (extends (\<lambda>_. True) s) (raw_image_from d p path)
    (\<lambda>r t. r = 0 \<longrightarrow> stopped t \<or> (\<exists>part. root_flash (build s) d part \<and> flashed (env s) part p path (trace t)))"
    (is "hoare ?I _ ?Q")
proof -
  have E: "hoare ?I m (\<lambda>_. ?I)" if "emits (\<lambda>_. True) m" for m :: "'z prog"
    using that by (rule hoare_extends)
  have part: "hoare ?I (get_root_mtd_partition d) (\<lambda>x t. ?I t \<and> (\<forall>part. x = Some part \<longrightarrow> root_flash (build s) d part))"
    using hoareD [OF E [of "get_root_mtd_partition d"]] get_root_mtd_partition_root [of d]
    by (fastforce simp: hoare_def extends_def intro!: emits_intros)
  have finish: "hoare (\<lambda>t. ?I t \<and> (\<forall>part. x = Some part \<longrightarrow> root_flash (build s) d part)) (raw_image_to d q p path) ?Q"
    if "x = Some q" for x q
    using raw_image_to_hoare [of s d q p path] that by (fastforce simp: hoare_def)
  show ?thesis
    unfolding raw_image_from_def
    apply (rule hoare_bind [OF E], (intro emits_intros; simp))
    apply (rule hoare_if, rule hoare_fails, simp)
    apply (rule hoare_bind [OF E], (intro emits_intros; simp))
    apply (rule hoare_if, rule hoare_fails, simp)
    apply (rule hoare_bind [OF part], rule hoare_option, rule hoare_fails, simp, erule finish)
    done
qed

lemma g_package_frame:
  "g_package (exec (ui_print m) s) = g_package s" "g_package (exec (whenM b (ui_show_progress p n)) s) = g_package s"
  by (simp_all add: ui_print_def ui_show_progress_def run_simps log_main_def split: option.split)

lemma translate_package_result:
  "build t = build s \<Longrightarrow> g_package t = g_package s \<Longrightarrow>
    result (translate_package_root_path r n) t = result (translate_package_root_path r n) s"
  by (simp add: translate_package_root_path_def Let_def split: option.split)

lemma exec_translate_package [simp]: "exec (translate_package_root_path r n) t = t"
  by (simp add: translate_package_root_path_def)

lemma cmd_write_raw_image_hoare:
  "hoare (\<lambda>t. extends (\<lambda>_. True) s t \<and> g_package t = g_package s) (cmd_write_raw_image name argv)
    (\<lambda>r t. r = 0 \<longrightarrow> stopped t \<or> (\<exists>src dst path p part. argv = [src, dst]
       \<and> result (translate_package_root_path src PATH_MAX) s = Some (path, Some p)
       \<and> root_flash (build s) dst part \<and> flashed (env s) part p path (trace t)))"
    (is "hoare ?I _ ?Q")
proof (cases "\<exists>src dst. argv = [src, dst]")
  case False
  then have "cmd_write_raw_image name argv = requires name ''exactly two arguments''"
    by (auto simp: cmd_write_raw_image_def split: list.split)
  then show ?thesis by (simp add: requires_def hoare_fails)
next
  case True
  then obtain src dst where a: "argv = [src, dst]" by blast
  have E: "hoare ?I m (\<lambda>_. ?I)" if "emits (\<lambda>_. True) m" "\<And>t. g_package (exec m t) = g_package t" for m :: "'z prog"
    using hoareD [OF hoare_extends [OF that(1)]] that(2) by (simp add: hoare_def)
  have src: "hoare ?I (translate_package_root_path src PATH_MAX)
      (\<lambda>x t. ?I t \<and> x = result (translate_package_root_path src PATH_MAX) s)"
    by (auto simp: hoare_def extends_def intro!: translate_package_result)
  have finish: "hoare (\<lambda>t. ?I t \<and> x = result (translate_package_root_path src PATH_MAX) s) (raw_image_from dst p path) ?Q"
    if "x = Some (path, Some p)" for x p path
    using raw_image_from_hoare [of s dst p path] that a by (fastforce simp: hoare_def)
  show ?thesis
    unfolding cmd_write_raw_image_def a list.case
    apply (rule hoare_bind [OF E], (intro emits_intros; simp), simp add: g_package_frame)
    apply (rule hoare_bind [OF E], (intro emits_intros; simp), simp)
    apply (rule hoare_bind [OF E], (intro emits_intros; simp), simp add: g_package_frame)
    apply (rule hoare_bind [OF E], (intro emits_intros; simp), simp)
    apply (rule hoare_if, rule hoare_fails, simp)
    apply (rule hoare_bind [OF src], rule hoare_option, rule hoare_fails, simp)
    subgoal for _ _ _ _ _ y
      apply (cases y)
      subgoal for path pkg
        by (cases pkg; simp only: prod.case option.case) (rule hoare_fails, simp, rule finish [unfolded a], simp)
      done
    done
qed

text \<open>
  C21. A raw image is written completely or not reported. When \<open>write_raw_image\<close> answers 0,
  the calls end with one complete writing of the entry the source names, from the registered
  package, to the flash partition of the destination root: all chunks, in order and in full,
  the rest of the partition erased, and the partition closed without error.
\<close>

theorem raw_image_complete:
  assumes "result (cmd_write_raw_image name argv) s = 0" and "\<not> stopped (exec (cmd_write_raw_image name argv) s)"
  shows "\<exists>src dst path p part. argv = [src, dst]
    \<and> result (translate_package_root_path src PATH_MAX) s = Some (path, Some p)
    \<and> root_flash (build s) dst part
    \<and> flashed (env s) part p path (trace (exec (cmd_write_raw_image name argv) s))"
  using hoareD [OF cmd_write_raw_image_hoare [of s name argv], of s] assms by simp

text \<open>A package with an image in two chunks, and a flash that takes everything.\<close>

definition image_env :: "ext_call list \<Rightarrow> ext_call \<Rightarrow> reply" where
  "image_env h c = (case c of
     Mz (MzProcess p e) \<Rightarrow> Reply 1 [] [''ab'', ''c'']
   | Mz (MzUncompLen p e) \<Rightarrow> Reply 3 [] []
   | Malloc n \<Rightarrow> Reply 1 [] []
   | Mtd (MtdWriteData d) \<Rightarrow> Reply (int (length d)) [] []
   | _ \<Rightarrow> Reply 0 [] [])"

definition image_device :: world where
  "image_device = sample_store\<lparr>env := image_env, g_package := Some ''/p.zip'', gDidShowProgress := True\<rparr>"

lemma image_device_simps [simp]:
  "\<not> stopped image_device" "mainlog image_device = ui_clear_screen 0 0" "env image_device = image_env"
  "g_package image_device = Some ''/p.zip''" "gDidShowProgress image_device" "trace image_device = []"
  "gProgressBarType image_device = ProgressNone" "update_type image_device = None" "update_data image_device = None"
  by (simp_all add: image_device_def sample_store_def boot_state_def)

lemma package_root: "get_root_info_for_path b ''PACKAGE:boot.img'' = Some (root ''PACKAGE:'' None None None (Some G_package_file) None)"
  using root_info [of "root ''PACKAGE:'' None None None (Some G_package_file) None" b "''boot.img''"]
  by (simp add: g_roots_def root_def)

theorem raw_image_complete_witness:
  "\<exists>path p part. flashed image_env part p path (trace (exec (cmd_write_raw_image ''write_raw_image'' [''PACKAGE:boot.img'', ''BOOT:'']) image_device))"
proof -
  let ?m = "cmd_write_raw_image ''write_raw_image'' [''PACKAGE:boot.img'', ''BOOT:'']"
  have "result ?m image_device = 0 \<and> \<not> stopped (exec ?m image_device)"
    by (simp add: cmd_write_raw_image_def raw_image_from_def raw_image_to_def process_entry_def write_raw_image_process_fn_def
        translate_package_root_path_def is_package_root_path_def package_root boot_info root_def mz_find_def PATH_MAX_def
        ensure_root_path_unmounted_def internal_root_mounted_def get_root_mtd_partition_def mtd_find_def run_simps image_env_def log_main_blank)
  with raw_image_complete [of "''write_raw_image''" "[''PACKAGE:boot.img'', ''BOOT:'']" image_device] show ?thesis by auto
qed

section \<open>Firmware images\<close>

text \<open>The pending update.\<close>

definition pending :: "world \<Rightarrow> string option \<times> string option \<times> int" where
  "pending s = (update_type s, update_data s, update_length s)"

lemma pending_frame [simp]:
  "pending (log_main m s) = pending s" "pending (s\<lparr>trace := h\<rparr>) = pending s" "pending (s\<lparr>gProgress := f\<rparr>) = pending s"
  by (simp_all add: pending_def log_main_def split: option.split)

definition pends :: "'a prog \<Rightarrow> bool" where
  "pends m \<longleftrightarrow> emits (\<lambda>_. True) m \<and> (\<forall>s. pending (exec m s) = pending s)"

named_theorems pends

lemma pends_ret [pends]: "pends (ret x)"
  by (simp add: pends_def emits_ret)

lemma pends_bind [pends]: "pends m \<Longrightarrow> (\<And>x. pends (f x)) \<Longrightarrow> pends (m \<bind> f)"
  by (simp add: pends_def emits_bind split_beta)

lemma pends_sys [pends]: "pends (sys c)"
  by (simp add: pends_def emits_sys run_sys)

lemma pends_gets [pends]: "pends (gets f)" "pends (opt g)"
  by (simp_all add: pends_def emits_gets emits_opt)

lemma pends_call [pends]: "pends (call c)" "pends (do_call c)"
  unfolding call_def do_call_def by (intro pends)+

lemma pends_print [pends]: "pends (ui_print m)" "pends (LOGE m)"
proof -
  have "pends (upd (log_main m))" for m
    by (simp add: pends_def emits_upd run_upd)
  then show "pends (ui_print m)" "pends (LOGE m)" unfolding LOGE_def ui_print_def by (intro pends; simp)+
qed

lemma pends_if [pends]: "(b \<Longrightarrow> pends m) \<Longrightarrow> (\<not> b \<Longrightarrow> pends m') \<Longrightarrow> pends (if b then m else m')"
  by simp

lemma pends_ui_set_progress [pends]: "pends (ui_set_progress f)"
proof -
  have "pends (whenM b (upd (\<lambda>s. s\<lparr>gProgress := x\<rparr>)))" for b x
    by (cases b) (simp_all add: whenM_def pends_def emits_upd emits_ret run_upd)
  then show ?thesis unfolding ui_set_progress_def Let_def by (intro pends)
qed

lemma pends_feed: "(\<And>x c. pends (f x c)) \<Longrightarrow> pends (feed cs f x)"
  by (induction cs arbitrary: x) (auto intro!: pends split: option.split)

lemma pends_firmware_fn [pends]: "pends (firmware_fn n x c)"
  unfolding firmware_fn_def by (intro pends)

lemma feed_firmware: "result (feed cs (firmware_fn n) x) t = Some y \<Longrightarrow> y = x @ concat cs"
  by (induction cs arbitrary: x t) (auto simp: firmware_fn_def split_beta split: if_splits, metis append_assoc)

text \<open>The states reached from \<open>s\<close> with the same pending update.\<close>

definition unchanged :: "world \<Rightarrow> world \<Rightarrow> bool" where
  "unchanged s t \<longleftrightarrow> extends (\<lambda>_. True) s t \<and> pending t = pending s"

lemma unchanged_pends: "pends m \<Longrightarrow> hoare (unchanged s) m (\<lambda>_. unchanged s)"
  using hoareD [OF hoare_extends [of "\<lambda>_. True" m s]] by (simp add: hoare_def unchanged_def pends_def)

text \<open>
  What the command is to achieve: with result 0, the image that is pending is the whole entry
  and none was pending before; otherwise nothing has changed.
\<close>

definition image_stored :: "world \<Rightarrow> string \<Rightarrow> string \<Rightarrow> string \<Rightarrow> int \<Rightarrow> world \<Rightarrow> bool" where
  "image_stored s type p path r t \<longleftrightarrow>
     (if r = 0 then update_type s = None \<and> update_data s = None \<and>
        (\<exists>h. pending t = (Some type, Some (concat (lst (env s h (Mz (MzProcess p path))))),
               int (length (concat (lst (env s h (Mz (MzProcess p path))))))))
      else pending t = pending s)"

lemma process_firmware:
  "hoare (unchanged s) (process_entry p path (firmware_fn n) [])
    (\<lambda>r t. unchanged s t \<and> (\<forall>img. r = Some img \<longrightarrow> stopped t \<or> (\<exists>h. img = concat (lst (env s h (Mz (MzProcess p path)))))))"
proof (rule hoareI)
  fix t :: world assume t: "unchanged s t"
  have pe: "pends (process_entry p path (firmware_fn n) [])"
    unfolding process_entry_def by (intro pends pends_feed)
  have "r = concat (lst (env s (trace t) (Mz (MzProcess p path))))"
    if "result (process_entry p path (firmware_fn n) []) t = Some r" "\<not> stopped t" for r
    using that t by (auto simp: process_entry_def run_sys split_beta unchanged_def extends_def split: if_splits dest!: feed_firmware)
  moreover have "stopped (exec (process_entry p path (firmware_fn n) []) t)" if "stopped t"
    using that pe emits_frozen [of "\<lambda>_. True" "process_entry p path (firmware_fn n) []" t] by (simp add: pends_def)
  ultimately show "unchanged s (exec (process_entry p path (firmware_fn n) []) t) \<and>
      (\<forall>img. result (process_entry p path (firmware_fn n) []) t = Some img \<longrightarrow>
        stopped (exec (process_entry p path (firmware_fn n) []) t) \<or> (\<exists>h. img = concat (lst (env s h (Mz (MzProcess p path))))))"
    using hoareD [OF unchanged_pends [OF pe] t] by blast
qed

lemma hoare_failed:
  "pends m \<Longrightarrow> r \<noteq> 0 \<Longrightarrow> hoare (unchanged s) (do { m; ret r }) (\<lambda>r t. stopped t \<or> image_stored s ty p path r t)"
  using hoareD [OF unchanged_pends] by (fastforce simp: hoare_def split_beta image_stored_def unchanged_def)

lemma store_image_stored:
  assumes "has_misc (build s)" and "img = concat (lst (env s h (Mz (MzProcess p path))))" and "unchanged s t"
  shows "image_stored s ty p path (result (store_image ty img (int (length img))) t) (exec (store_image ty img (int (length img))) t)
    \<or> stopped (exec (store_image ty img (int (length img))) t)"
proof -
  have l: "pending (exec (LOGE m) t) = pending t" for m and t :: world
    using pends_print(2) [of m] by (simp add: pends_def)
  show ?thesis
  proof (cases "update_type t \<noteq> None \<or> update_data t \<noteq> None")
    case True
    then show ?thesis using assms(1,3)
      by (simp add: store_image_def remember_firmware_update_def unchanged_def extends_def image_stored_def split_beta l)
  next
    case False
    then show ?thesis using assms
      by (auto simp: store_image_def remember_firmware_update_def unchanged_def extends_def image_stored_def run_upd pending_def)
  qed
qed

lemma hoare_failed_pre:
  "pends m \<Longrightarrow> r \<noteq> 0 \<Longrightarrow> hoare (\<lambda>t. unchanged s t \<and> R t) (do { m; ret r }) (\<lambda>r t. stopped t \<or> image_stored s ty p path r t)"
  by (rule hoare_weaken [OF hoare_failed]) simp_all

lemma store_image_hoare:
  assumes "has_misc (build s)" and "n = int (length img)"
  shows "hoare (\<lambda>t. unchanged s t \<and> (\<forall>i. Some img = Some i \<longrightarrow> stopped t \<or> (\<exists>h. i = concat (lst (env s h (Mz (MzProcess p path)))))))
    (store_image ty img n) (\<lambda>r t. stopped t \<or> image_stored s ty p path r t)"
proof (rule hoareI)
  fix t :: world
  assume t: "unchanged s t \<and> (\<forall>i. Some img = Some i \<longrightarrow> stopped t \<or> (\<exists>h. i = concat (lst (env s h (Mz (MzProcess p path))))))"
  have e: "emits (\<lambda>_. True) (store_image ty img n)" unfolding store_image_def by (intro emits_intros TrueI)
  show "stopped (exec (store_image ty img n) t) \<or> image_stored s ty p path (result (store_image ty img n) t) (exec (store_image ty img n) t)"
    using t emits_frozen [OF e, of t] store_image_stored [OF assms(1), of img _ p path t ty] assms(2)
    by (cases "stopped t") auto
qed

lemma load_image_stored:
  assumes "has_misc (build s)"
  shows "hoare (unchanged s) (load_image ty arg p path) (\<lambda>r t. stopped t \<or> image_stored s ty p path r t)"
  unfolding load_image_def
  apply (rule hoare_bind [OF unchanged_pends], (intro pends))
  apply (rule hoare_bind [OF unchanged_pends], (intro pends))
  apply (rule hoare_if, rule hoare_failed, (intro pends), simp)
  apply (rule hoare_bind [OF process_firmware])
  apply (rule hoare_option, rule hoare_failed_pre, (intro pends), simp)
  apply (simp only:, rule hoare_if, rule hoare_failed_pre, (intro pends), simp)
  apply (rule store_image_hoare [OF assms], simp)
  done

lemma pends_lookup [pends]: "pends (mz_find p e)" "pends (translate_package_root_path r n)"
  unfolding mz_find_def translate_package_root_path_def by (intro pends)+

lemma pends_fault [pends]: "pends fault"
  using emits_fault by (simp add: pends_def fault_def run_upd pending_def)

lemma firmware_image_hoare:
  assumes "has_misc (build s)"
  shows "hoare (unchanged s) (cmd_write_firmware_image name argv)
    (\<lambda>r t. stopped t \<or> (\<exists>p path. image_stored s (the (image_type name)) p path r t))"
proof -
  define ty where "ty = the (image_type name)"
  have F: "hoare (unchanged s) (do { m; ret r }) (\<lambda>r t. stopped t \<or> (\<exists>p path. image_stored s ty p path r t))"
    if "pends m" "r \<noteq> 0" for m r
    by (rule hoare_weaken [OF hoare_failed [OF that]]) auto
  have L: "hoare (unchanged s) (load_image ty' arg p path) (\<lambda>r t. stopped t \<or> (\<exists>p path. image_stored s ty p path r t))"
    if "image_type name = Some ty'" for ty' arg p path
    by (rule hoare_weaken [OF load_image_stored [OF assms]]) (use that ty_def in auto)
  show ?thesis
  proof (cases "\<exists>arg. argv = [arg]")
    case False
    have r: "cmd_write_firmware_image name argv = requires name ''exactly one argument''"
      using False by (auto simp: cmd_write_firmware_image_def split: list.split)
    show ?thesis unfolding r requires_def ty_def [symmetric] by (rule F, (intro pends), simp)
  next
    case True
    then obtain arg where a: "argv = [arg]" by blast
    show ?thesis
      unfolding cmd_write_firmware_image_def a list.case ty_def [symmetric]
      apply (rule hoare_option, rule F, (intro pends), simp)
      apply (rule hoare_bind [OF unchanged_pends], (intro pends))
      apply (rule hoare_if, rule F, (intro pends), simp)
      apply (rule hoare_bind [OF unchanged_pends], (intro pends))
      apply (rule hoare_bind [OF unchanged_pends], (intro pends))
      apply (rule hoare_option, rule F, (intro pends), simp)
      subgoal for _ _ _ _ y
        apply (cases y)
        subgoal for path pkg
          apply (cases pkg; simp only: prod.case option.case)
           apply (rule F, (intro pends), simp)
          apply (rule hoare_bind [OF unchanged_pends], (intro pends))
          apply (rule hoare_if, rule F, (intro pends), simp)
          apply (rule L, assumption)
          done
        done
      done
  qed
qed


lemma ui_set_progress_hidden: "gProgressBarType s = ProgressNone \<Longrightarrow> run_state (ui_set_progress f) s = ((), s)"
  by (simp add: ui_set_progress_def Let_def)


end
