(* ===== verification/Extended.thy ===== *)
theory Extended
  imports Commands "HOL-Library.List_Lexorder" "HOL-Library.Char_ord" "HOL-Library.Multiset"
begin

text \<open>
  \<open>extendedcommands.c\<close>: the file chooser, the menus of installation, backup, mounting and
  the advanced one, scripts of the main system, and \<open>/etc/fstab\<close>. A text of \<open>locale/*.h\<close>
  appears as its name (\<open>loc\<close>). Memory for the lists of names is taken to be found. The queue
  of keys holds nothing before the user acts (\<open>keys\<close>), so \<open>ui_clear_key_queue\<close> has nothing
  to do; \<open>ui_set_mouse_test\<close> only changes what is drawn.
\<close>

section \<open>The files of a directory\<close>

text \<open>
  The two passes over the directory: the entries that are wanted. Without an extension these
  are directories, asked for with \<open>stat\<close> of a path put together in an array of \<open>PATH_MAX\<close>.
\<close>

definition ends_with :: "string \<Rightarrow> string \<Rightarrow> bool" where
  "ends_with n ext \<longleftrightarrow> length n \<ge> length ext \<and> drop (length n - length ext) n = ext"

definition wanted :: "string \<Rightarrow> string option \<Rightarrow> string \<Rightarrow> bool prog" where
  "wanted directory ext n =
     (if take 1 n = ''.'' then ret False
      else case ext of
        Some e \<Rightarrow> ret (ends_with n e)
      | None \<Rightarrow> do {
          whenM (length directory + length n \<ge> PATH_MAX) fault;
          st \<leftarrow> sys (Fs (Stat (directory @ n)));
          ret (is_dir st) })"

fun filterM :: "('a \<Rightarrow> bool prog) \<Rightarrow> 'a list \<Rightarrow> 'a list prog" where
  "filterM f [] = ret []"
| "filterM f (x # xs) = do { b \<leftarrow> f x; ys \<leftarrow> filterM f xs; ret (if b then x # ys else ys) }"

text \<open>
  The sorting of the result: in every round the first of the greatest names among the first
  \<open>m\<close> is swapped with the name at \<open>m - 1\<close>. \<open>strcmp\<close> compares bytes, as \<open><\<close> on strings does.
\<close>

fun cur_max :: "string list \<Rightarrow> nat \<Rightarrow> nat" where
  "cur_max fs 0 = 0"
| "cur_max fs (Suc 0) = 0"
| "cur_max fs (Suc (Suc j)) = (let c = cur_max fs (Suc j) in if fs ! c < fs ! Suc j then Suc j else c)"

fun sort_files :: "nat \<Rightarrow> string list \<Rightarrow> string list" where
  "sort_files 0 fs = fs"
| "sort_files (Suc m) fs = (let c = cur_max fs (Suc m) in sort_files m (fs[c := fs ! m, m := fs ! c]))"

text \<open>
  None: a null pointer. The list has room for as many names as the first pass has counted:
  one more in the second is stored outside, one less leaves a name uninitialised.
\<close>

definition gather_files :: "string \<Rightarrow> string option \<Rightarrow> string list option prog" where
  "gather_files directory ext = do {
     r \<leftarrow> sys (Fs (ReadDir directory));
     if rc r < 0 then do { ui_print (''Couldn't open directory.'' @ [LF]); ret None }
     else do {
       counted \<leftarrow> filterM (wanted directory ext) (lst r);
       if counted = [] then ret None
       else do {
         r \<leftarrow> sys (Fs (ReadDir directory));
         names \<leftarrow> filterM (wanted directory ext) (lst r);
         whenM (length names \<noteq> length counted) fault;
         let files = map (\<lambda>n. directory @ n @ (if ext = None then ''/'' else [])) names;
         ret (Some (sort_files (length files) files))
       } } }"

text \<open>
  The chooser. A directory opens the chooser again, so the depth is the number of choices the
  user makes; \<open>fuel\<close> counts the actions left.
\<close>

fun choose_file :: "nat \<Rightarrow> string \<Rightarrow> string option \<Rightarrow> string list \<Rightarrow> string option prog" where
  "choose_file 0 directory ext headers = do { stop; ret None }"
| "choose_file (Suc fuel) directory ext headers = do {
     fs \<leftarrow> gather_files directory ext;
     ds \<leftarrow> (if ext \<noteq> None then gather_files directory None else ret None);
     let files = (case fs of None \<Rightarrow> [] | Some l \<Rightarrow> l);
     let dirs = (case ds of None \<Rightarrow> [] | Some l \<Rightarrow> l);
     if dirs @ files = [] then do { ui_print (''No files found.'' @ [LF]); ret None }
     else key_loop None (\<lambda>_. do {
       chosen_item \<leftarrow> get_menu_selection headers (map (drop (length directory)) (dirs @ files)) False;
       if chosen_item = GO_BACK then ret (Inr None)
       else if chosen_item < int (length dirs) then do {
         subret \<leftarrow> choose_file fuel (dirs ! nat chosen_item) ext headers;
         ret (case subret of Some f \<Rightarrow> Inr (Some f) | None \<Rightarrow> Inl ())
       } else do {
         let f = files ! (nat chosen_item - length dirs);
         whenM (length f \<ge> PATH_MAX) fault;
         ret (Inr (Some f)) } }) () }"

definition choose_file_menu :: "string \<Rightarrow> string option \<Rightarrow> string list \<Rightarrow> string option prog" where
  "choose_file_menu directory ext headers = do {
     n \<leftarrow> gets (\<lambda>s. length (keys s));
     choose_file (Suc n) directory ext headers }"

section \<open>Installing\<close>

text \<open>
  The paths of the two SD cards. The directory of the second one lacks the slash at its end,
  which the offset of the file's name counts.
\<close>

definition zip_directory :: "bool \<Rightarrow> string" where
  "zip_directory second = (if second then ''/mnt/external_sd'' else ''/mnt/sdcard/'')"

definition zip_root_path :: "bool \<Rightarrow> string \<Rightarrow> string" where
  "zip_root_path second f = (if second then ''SDCARD2:'' @ drop 17 f else ''SDCARD:'' @ drop 12 f)"

definition show_choose_zip_menu :: "('c, RSAPublicKey) venv \<Rightarrow> string \<Rightarrow> bool \<Rightarrow> unit prog" where
  "show_choose_zip_menu v api second = do {
     m \<leftarrow> ensure_root_path_mounted (if second then ''SDCARD2:'' else ''SDCARD:'');
     if m \<noteq> 0 then LOGE (if second then ''Can't mount /mnt/external_sd'' @ [LF] else ''Can't mount /mnt/sdcard'' @ [LF])
     else do {
       f \<leftarrow> choose_file_menu (zip_directory second) (Some ''.zip'') [''Choose a zip to apply'', []];
       case f of
         None \<Rightarrow> ret ()
       | Some file \<Rightarrow> do {
           let sdcard_package_file = zip_root_path second file;
           let confirm = ''Yes - Install '' @ basename file;
           whenM (length sdcard_package_file \<ge> 1024 \<or> length confirm \<ge> PATH_MAX) fault;
           yes \<leftarrow> confirm_selection ''Confirm install?'' confirm;
           if yes then do { _ \<leftarrow> install_zip v api sdcard_package_file; ret () } else ret ()
         } } }"

definition install_items :: "build_opts \<Rightarrow> string list" where
  "install_items b = [loc ''UPDATE_APPLY_SDCARD'' [], loc ''UPDATE_CHOOSE_ZIP'' [], loc ''UPDATE_SIG_CHECK'' [], loc ''UPDATE_ASSERTS'' []] @
     (if has_two_sdcards b then [loc ''UPDATE_APPLY_SDCARD2'' [], loc ''UPDATE_CHOOSE_ZIP2'' []] else [])"

definition install_confirmed :: "('c, RSAPublicKey) venv \<Rightarrow> string \<Rightarrow> string \<Rightarrow> string \<Rightarrow> unit prog" where
  "install_confirmed v api confirm f = do {
     yes \<leftarrow> confirm_selection ''Confirm install?'' confirm;
     if yes then do { _ \<leftarrow> install_zip v api f; ret () } else ret () }"

definition show_install_update_menu :: "('c, RSAPublicKey) venv \<Rightarrow> string \<Rightarrow> unit prog" where
  "show_install_update_menu v api = key_loop () (\<lambda>_. do {
     b \<leftarrow> gets build;
     chosen_item \<leftarrow> get_menu_selection [''Apply update from .zip file on SD card'', []] (install_items b) False;
     if chosen_item = 3 then do { toggle_script_asserts; ret (Inl ()) }
     else if chosen_item = 2 then do { toggle_signature_check; ret (Inl ()) }
     else if chosen_item = 0 then do {
       install_confirmed v api ''Yes - Install /mnt/sdcard/update.zip'' ''SDCARD:update.zip''; ret (Inl ()) }
     else if has_two_sdcards b \<and> chosen_item = 4 then do {
       install_confirmed v api ''Yes - Install /mnt/external_sd/update.zip'' ''SDCARD2:update.zip''; ret (Inl ()) }
     else if chosen_item = 1 then do { show_choose_zip_menu v api False; ret (Inl ()) }
     else if has_two_sdcards b \<and> chosen_item = 5 then do { show_choose_zip_menu v api True; ret (Inl ()) }
     else ret (Inr ()) }) ()"

section \<open>Restoring and USB storage\<close>

text \<open>\<open>BACKUP_ALL&BACKUP_NOFORMAT\<close>, as the source has it.\<close>

definition show_nandroid_restore_menu :: "unit prog" where
  "show_nandroid_restore_menu = do {
     m \<leftarrow> ensure_root_path_mounted ''SDCARD:'';
     if m \<noteq> 0 then LOGE (''Can't mount /mnt/sdcard'' @ [LF])
     else do {
       f \<leftarrow> choose_file_menu ''/mnt/sdcard/clockworkmod/backup/'' None [loc ''NANDROID_HEADER'' []];
       case f of
         None \<Rightarrow> ret ()
       | Some file \<Rightarrow> do {
           yes \<leftarrow> confirm_selection (loc ''NANDROID_CONFIRM'' []) (loc ''NANDROID_YES'' []);
           if yes then do { _ \<leftarrow> nandroid_restore_flags file (BACKUP_ALL AND BACKUP_NOFORMAT); ret () } else ret ()
         } } }"

definition SDCARD_LUN_FILE :: string where "SDCARD_LUN_FILE = ''/sys/devices/platform/s3c-usbgadget/gadget/lun1''"
definition SDCARD2_LUN_FILE :: string where "SDCARD2_LUN_FILE = ''/sys/devices/platform/s3c-usbgadget/gadget/lun2''"

definition unshare :: "string \<Rightarrow> unit prog" where
  "unshare lun = do {
     _ \<leftarrow> system_call (''echo '' @ [CHR 0x27, CHR 0x27] @ '' > '' @ lun @ ''/file'');
     _ \<leftarrow> system_call (''echo 0 > '' @ lun @ ''/enable'');
     ret () }"

definition show_mount_usb_storage_menu :: "string option \<Rightarrow> unit prog" where
  "show_mount_usb_storage_menu message = do {
     two \<leftarrow> opt has_two_sdcards;
     _ \<leftarrow> system_call (''echo '' @ SDCARD_BLOCK_NAME @ '' > '' @ SDCARD_LUN_FILE @ ''/file'');
     whenM two (do { _ \<leftarrow> system_call (''echo '' @ SDCARD2_BLOCK_NAME @ '' > '' @ SDCARD2_LUN_FILE @ ''/file''); ret () });
     (case message of None \<Rightarrow> ret () | Some m \<Rightarrow> ui_print_text m);
     key_loop () (\<lambda>_. do {
       chosen_item \<leftarrow> get_menu_selection [loc ''MOUNTS_USBMASS_HEADER'' []] [loc ''MOUNTS_USBMASS_EXIT'' []] False;
       ret (if chosen_item = GO_BACK \<or> chosen_item = 0 then Inr () else Inl ()) }) ();
     unshare SDCARD_LUN_FILE;
     whenM two (unshare SDCARD2_LUN_FILE) }"

section \<open>Partitions\<close>

definition MOUNTABLE_COUNT :: nat where "MOUNTABLE_COUNT = 7"
definition MTD_COUNT :: nat where "MTD_COUNT = 4"
definition MMC_COUNT :: nat where "MMC_COUNT = 3"

definition mounts :: "build_opts \<Rightarrow> (string \<times> string \<times> string) list" where
  "mounts b = [(''mount /system'', ''unmount /system'', ''SYSTEM:''), (''mount /data'', ''unmount /data'', ''DATA:''),
       (''mount /cache'', ''unmount /cache'', ''CACHE:'')] @
     (if has_datadata b then [(''mount /dbdata'', ''unmount /dbdata'', ''DATADATA:'')] else []) @
     [(''mount /mnt/sdcard'', ''unmount /mnt/sdcard'', ''SDCARD:'')] @
     (if has_two_sdcards b then [(''mount /mnt/external_sd'', ''unmount /mnt/external_sd'', ''SDCARD2:'')] else []) @
     [(''mount /sd-ext'', ''unmount /sd-ext'', ''SDEXT:'')]"

definition mtds :: "(string \<times> string) list" where
  "mtds = [(''format system'', ''SYSTEM:''), (''format data'', ''DATA:''), (''format dbdata'', ''DATADATA:''),
     (''format cache'', ''CACHE:'')]"

definition mmcs :: "(string \<times> string) list" where
  "mmcs = [(''format sdcard'', ''SDCARD:''), (''format external sdcard'', ''SDCARD2:''), (''format sd-ext'', ''SDEXT:'')]"

text \<open>Which entries are mounted. The rest of a table shorter than its size is null pointers, which are followed.\<close>

fun mounted_marks :: "(string \<times> string \<times> string) list \<Rightarrow> bool list prog" where
  "mounted_marks [] = ret []"
| "mounted_marks ((on, off, r) # ms) = do {
     m \<leftarrow> is_root_path_mounted r;
     bs \<leftarrow> mounted_marks ms;
     ret ((m \<noteq> 0) # bs) }"

definition toggle_mount :: "bool \<Rightarrow> string \<Rightarrow> unit prog" where
  "toggle_mount ismounted r =
     (if ismounted then do {
        u \<leftarrow> ensure_root_path_unmounted r;
        whenM (u \<noteq> 0) (ui_print (''Error unmounting '' @ r @ ''!'' @ [LF]))
      } else do {
        m \<leftarrow> ensure_root_path_mounted r;
        whenM (m \<noteq> 0) (ui_print (''Error mounting '' @ r @ ''!'' @ [LF])) })"

definition format_item :: "(string \<Rightarrow> int prog) \<Rightarrow> string \<Rightarrow> unit prog" where
  "format_item format r = do {
     yes \<leftarrow> confirm_selection (loc ''PARTITION_CONFIRM'' []) (loc ''PARTITION_YES'' []);
     if \<not> yes then ret ()
     else do {
       ui_print (''Formatting '' @ r @ ''...'' @ [LF]);
       e \<leftarrow> format r;
       if e \<noteq> 0 then ui_print (''Error formatting '' @ r @ ''!'' @ [LF]) else ui_print (''Done.'' @ [LF]) } }"

definition partition_options :: "build_opts \<Rightarrow> bool list \<Rightarrow> string list" where
  "partition_options b ismounted =
     map (\<lambda>(m, on, off, r). if m then off else on) (zip ismounted (mounts b)) @ map fst mtds @ map fst mmcs @
     [loc ''PARTITION_USB_STORAGE'' []]"

definition show_partition_menu :: "unit prog" where
  "show_partition_menu = key_loop () (\<lambda>_. do {
     b \<leftarrow> gets build;
     ismounted \<leftarrow> mounted_marks (mounts b);
     whenM (length (mounts b) < MOUNTABLE_COUNT) fault;
     chosen_item \<leftarrow> get_menu_selection [loc ''PARTITION_HEADER'' []] (partition_options b ismounted) False;
     let i = nat chosen_item;
     if chosen_item = GO_BACK then ret (Inr ())
     else if i = MOUNTABLE_COUNT + MTD_COUNT + MMC_COUNT then do { show_mount_usb_storage_menu None; ret (Inl ()) }
     else if i < MOUNTABLE_COUNT then do { toggle_mount (ismounted ! i) (snd (snd (mounts b ! i))); ret (Inl ()) }
     else if i < MOUNTABLE_COUNT + MTD_COUNT then do {
       format_item format_root_device (snd (mtds ! (i - MOUNTABLE_COUNT))); ret (Inl ()) }
     else if i < MOUNTABLE_COUNT + MTD_COUNT + MMC_COUNT then do {
       format_item format_non_mtd_device (snd (mmcs ! (i - MOUNTABLE_COUNT - MTD_COUNT))); ret (Inl ()) }
     else ret (Inl ()) }) ()"

section \<open>Scripts of the main system\<close>

definition EXTENDEDCOMMAND_SCRIPT :: string where "EXTENDEDCOMMAND_SCRIPT = ''/cache/recovery/extendedcommand''"

definition extendedcommand_file_exists :: "bool prog" where
  "extendedcommand_file_exists = do { st \<leftarrow> call (Fs (Stat EXTENDEDCOMMAND_SCRIPT)); ret (st = 0) }"

text \<open>The report of the line that failed goes to the standard output; its text may be missing.\<close>

definition run_script_from_buffer :: "string \<Rightarrow> int prog" where
  "run_script_from_buffer script_data = do {
     c \<leftarrow> call (AmendParse script_data);
     if c < 0 then ret 1
     else do {
       r \<leftarrow> call (AmendExec script_data);
       if r \<noteq> 0 then do {
         whenM (fst (failed_line (nat r) None (Some script_data)) = None \<and> snd (failed_line (nat r) None (Some script_data)) \<noteq> None) fault;
         ret 1
       } else ret 0 } }"

text \<open>
  The file is read without a test that it could be opened, and the memory is used without one
  that there was any. Bytes that a file shortened in the meantime no longer has are uninitialised.
\<close>

definition run_script :: "string \<Rightarrow> int prog" where
  "run_script filename = do {
     st \<leftarrow> sys (Fs (Stat filename));
     if rc st \<noteq> 0 then ret 1
     else do {
       m \<leftarrow> call (Malloc (st_size st + 1));
       r \<leftarrow> sys (Fs (ReadFile filename));
       whenM (m = 0 \<or> rc r < 0 \<or> int (length (dat r)) < st_size st) fault;
       run_script_from_buffer (take (nat (st_size st)) (dat r)) } }"

fun wait_sdcard :: "nat \<Rightarrow> bool prog" where
  "wait_sdcard 0 = ret False"
| "wait_sdcard (Suc i) = do {
     ui_print (''Waiting for SD Card to mount ('' @ dec_int (int (Suc i)) @ ''s)'' @ [LF]);
     m \<leftarrow> ensure_root_path_mounted ''SDCARD:'';
     if m = 0 then do { ui_print (''SD Card mounted...'' @ [LF]); ret True }
     else do { do_call (Sleep 1); wait_sdcard i } }"

definition run_and_remove_extendedcommand :: "int prog" where
  "run_and_remove_extendedcommand = do {
     _ \<leftarrow> system_call (''cp '' @ EXTENDEDCOMMAND_SCRIPT @ '' /tmp/'' @ basename EXTENDEDCOMMAND_SCRIPT);
     do_call (Fs (Remove EXTENDEDCOMMAND_SCRIPT));
     found \<leftarrow> wait_sdcard 20;
     do_call (Fs (Remove ''/mnt/sdcard/clockworkmod/.recoverycheckpoint''));
     whenM (\<not> found) (ui_print ''Timed out waiting for SD card... continuing anyways.'');
     run_script (''/tmp/'' @ basename EXTENDEDCOMMAND_SCRIPT) }"

definition steam_amend_main :: "('c, RSAPublicKey) venv \<Rightarrow> string \<Rightarrow> string list \<Rightarrow> int prog" where
  "steam_amend_main v api argv =
     (if length argv \<noteq> 2 then ret 0
      else do {
        r \<leftarrow> register_update_commands v api;
        whenM (r \<noteq> 0) (LOGE (''Can't install update commands'' @ [LF]));
        run_script (argv ! 1) })"

section \<open>Names are sorted\<close>

lemma cur_max_bound: "0 < m \<Longrightarrow> cur_max fs m < m"
  by (induction fs m rule: cur_max.induct) (auto simp: Let_def)

lemma cur_max_greatest: "j < m \<Longrightarrow> fs ! j \<le> fs ! cur_max fs m"
proof (induction fs m arbitrary: j rule: cur_max.induct)
  case (3 fs i)
  then show ?case
    by (cases "j = Suc i") (force simp: Let_def less_Suc_eq intro: order.trans less_imp_le)+
qed auto

lemma mset_swapped: "i < length fs \<Longrightarrow> j < length fs \<Longrightarrow> mset (fs[i := fs ! j, j := fs ! i]) = mset fs"
  by (rule mset_swap)

lemma length_sort_files [simp]: "length (sort_files m fs) = length fs"
  by (induction m fs rule: sort_files.induct) (auto simp: Let_def)

lemma mset_sort_files: "m \<le> length fs \<Longrightarrow> mset (sort_files m fs) = mset fs"
proof (induction m fs rule: sort_files.induct)
  case (2 m fs)
  have "cur_max fs (Suc m) < length fs" using cur_max_bound [of "Suc m" fs] 2 by simp
  with 2 mset_swapped [of "cur_max fs (Suc m)" fs m] show ?case by (simp add: Let_def)
qed simp

text \<open>The names from \<open>m\<close> on are in order, and none before is greater.\<close>

definition sorted_from :: "nat \<Rightarrow> string list \<Rightarrow> bool" where
  "sorted_from m fs \<longleftrightarrow> (\<forall>i j. i \<le> j \<longrightarrow> m \<le> j \<longrightarrow> j < length fs \<longrightarrow> fs ! i \<le> fs ! j)"

lemma sorted_from_step:
  assumes "sorted_from (Suc m) fs" and "m < length fs"
  defines "c \<equiv> cur_max fs (Suc m)"
  shows "sorted_from m (fs[c := fs ! m, m := fs ! c])"
  unfolding sorted_from_def
proof (intro allI impI)
  fix i j assume ij: "i \<le> j" "m \<le> j" "j < length (fs[c := fs ! m, m := fs ! c])"
  have c: "c \<le> m" using cur_max_bound [of "Suc m" fs] by (simp add: c_def)
  have top: "fs ! k \<le> fs ! c" if "k \<le> m" for k using cur_max_greatest [of k "Suc m" fs] that by (simp add: c_def)
  have rest: "fs ! k \<le> fs ! l" if "k \<le> l" "m < l" "l < length fs" for k l
    using assms(1) that by (simp add: sorted_from_def)
  show "fs[c := fs ! m, m := fs ! c] ! i \<le> fs[c := fs ! m, m := fs ! c] ! j"
  proof (cases "j = m")
    case True
    then show ?thesis using ij c assms(2) top by (cases "i = m") (auto simp: nth_list_update)
  next
    case False
    then have "m < j" using ij by simp
    then show ?thesis using ij c assms(2) rest [of _ j] False by (auto simp: nth_list_update)
  qed
qed

lemma sorted_from_sort: "m \<le> length fs \<Longrightarrow> sorted_from m fs \<Longrightarrow> sorted_from 0 (sort_files m fs)"
proof (induction m fs rule: sort_files.induct)
  case (2 m fs)
  then show ?case using sorted_from_step [of m fs] by (simp add: Let_def)
qed simp

lemma sort_files_sort: "sort_files (length fs) fs = sort fs"
proof (rule properties_for_sort [symmetric])
  show "mset (sort_files (length fs) fs) = mset fs" by (simp add: mset_sort_files)
  have "sorted_from 0 (sort_files (length fs) fs)" by (rule sorted_from_sort) (simp_all add: sorted_from_def)
  then show "sorted (sort_files (length fs) fs)" by (simp add: sorted_from_def sorted_iff_nth_mono)
qed

lemma filterM_wanted:
  "n \<in> set (result (filterM (wanted directory ext) ns) s) \<Longrightarrow>
   n \<in> set ns \<and> take 1 n \<noteq> ''.'' \<and> (\<forall>e. ext = Some e \<longrightarrow> ends_with n e)"
proof (induction ns arbitrary: s)
  case (Cons x xs)
  obtain b s' where b: "run_state (wanted directory ext x) s = (b, s')" by fastforce
  have "take 1 x \<noteq> ''.'' \<and> (\<forall>e. ext = Some e \<longrightarrow> ends_with x e)" if b
    using b that by (auto simp: wanted_def split: if_splits option.splits)
  then show ?case using Cons.IH [of s'] Cons.prems b by (auto simp: split_beta split: if_splits)
qed simp

lemma filterM_wanted_ext:
  "run_state (filterM (wanted directory (Some e)) ns) s = (filter (\<lambda>n. take 1 n \<noteq> ''.'' \<and> ends_with n e) ns, s)"
  by (induction ns) (simp_all add: wanted_def)


definition two_names :: world where
  "two_names = sample_store\<lparr>env := (\<lambda>h c. case c of
     Fs (ReadDir d) \<Rightarrow> Reply 0 [] [''b.zip'', ''.a.zip'', ''a.zip'', ''c.txt''] | _ \<Rightarrow> Reply 0 [] [])\<rparr>"


section \<open>The archive chosen\<close>

lemma sdcard_paths:
  "get_root_info_for_path b (''SDCARD:'' @ f) =
     Some (root ''SDCARD:'' (Some (Block SDCARD_BLOCK_NAME)) (Some ''sdcard'') (Some ''/mnt/sdcard'') (Some (Fsname ''vfat'')) None)"
  "has_two_sdcards b \<Longrightarrow> get_root_info_for_path b (''SDCARD2:'' @ f) =
     Some (root ''SDCARD2:'' (Some (Block SDCARD2_BLOCK_NAME)) (Some ''sdcard2'') (Some ''/mnt/external_sd'') (Some (Fsname ''vfat'')) None)"
  using root_info [of "root ''SDCARD:'' (Some (Block SDCARD_BLOCK_NAME)) (Some ''sdcard'') (Some ''/mnt/sdcard'') (Some (Fsname ''vfat'')) None" b f]
    root_info [of "root ''SDCARD2:'' (Some (Block SDCARD2_BLOCK_NAME)) (Some ''sdcard2'') (Some ''/mnt/external_sd'') (Some (Fsname ''vfat'')) None" b f]
  by (simp_all add: g_roots_def root_def)

text \<open>
  The archive that is installed. A name \<open>n\<close> chosen from the menu of the first SD card
  becomes a root path that is translated back to the file chosen. On the second card the
  directory lacks its slash: the name loses its first character, and the archive opened is
  never the one that was chosen.
\<close>

theorem chosen_zip_path:
  assumes "n \<noteq> []" and "hd n \<noteq> CHR ''/''" and "length n < 1000"
  shows "translate_root_path b (zip_root_path False (zip_directory False @ n)) PATH_MAX = Some (zip_directory False @ n)
    \<and> (has_two_sdcards b \<longrightarrow>
        translate_root_path b (zip_root_path True (zip_directory True @ n)) PATH_MAX =
          Some (''/mnt/external_sd/'' @ dropWhile (\<lambda>c. c = CHR ''/'') (tl n))
        \<and> ''/mnt/external_sd/'' @ dropWhile (\<lambda>c. c = CHR ''/'') (tl n) \<noteq> zip_directory True @ n)"
proof -
  have d: "dropWhile (\<lambda>c. c = CHR ''/'') n = n" using assms(2) by (cases n) auto
  have t: "length (dropWhile (\<lambda>c. c = CHR ''/'') (tl n)) < 1000"
    using length_dropWhile_le [of "\<lambda>c. c = CHR ''/''" "tl n"] assms(3) by simp
  have z: "zip_root_path False (zip_directory False @ n) = ''SDCARD:'' @ n"
    "zip_root_path True (zip_directory True @ n) = ''SDCARD2:'' @ tl n"
    using assms(1) by (simp_all add: zip_root_path_def zip_directory_def drop_Cons' split: list.split) (cases n; simp)
  have "translate_root_path b (''SDCARD:'' @ n) PATH_MAX = Some (zip_directory False @ n)"
    using sdcard_paths(1) [of b n] assms(3) d by (simp add: translate_root_path_def PATH_MAX_def root_def zip_directory_def)
  moreover have "translate_root_path b (''SDCARD2:'' @ tl n) PATH_MAX =
      Some (''/mnt/external_sd/'' @ dropWhile (\<lambda>c. c = CHR ''/'') (tl n))" if "has_two_sdcards b"
    using sdcard_paths(2) [OF that, of "tl n"] t by (simp add: translate_root_path_def PATH_MAX_def root_def)
  ultimately show ?thesis using z assms(1,2) by (cases n) (auto simp: zip_directory_def)
qed

definition two_sdcards :: world where
  "two_sdcards = sample_store\<lparr>build := (build sample_store)\<lparr>has_two_sdcards := True\<rparr>\<rparr>"

theorem chosen_zip_path_witness:
  "translate_root_path (build two_sdcards) (zip_root_path False ''/mnt/sdcard/a.zip'') PATH_MAX = Some ''/mnt/sdcard/a.zip''
   \<and> translate_root_path (build two_sdcards) (zip_root_path True ''/mnt/external_sda.zip'') PATH_MAX = Some ''/mnt/external_sd/.zip''"
  using chosen_zip_path [of "''a.zip''" "build two_sdcards"]
  by (simp add: zip_directory_def two_sdcards_def)

section \<open>Restoring restores nothing\<close>

lemma emits_filterM [emits_intros]: "(\<And>x. emits P (f x)) \<Longrightarrow> emits P (filterM f xs)"
  by (induction xs) (auto intro!: emits_intros)

lemma emits_gather_files [emits_intros]: "(\<And>c. fs_level c \<Longrightarrow> P c) \<Longrightarrow> emits P (gather_files d e)"
  unfolding gather_files_def wanted_def Let_def by (intro emits_intros; simp)

lemma emits_choose_file [emits_intros]: "(\<And>c. fs_level c \<Longrightarrow> P c) \<Longrightarrow> emits P (choose_file n d e h)"
proof (induction n arbitrary: d)
  case (Suc n)
  then show ?case unfolding choose_file.simps Let_def by (intro emits_intros Suc.IH; simp)
qed (auto intro: emits_intros)

lemma emits_choose_file_menu [emits_intros]: "(\<And>c. fs_level c \<Longrightarrow> P c) \<Longrightarrow> emits P (choose_file_menu d e h)"
  unfolding choose_file_menu_def by (intro emits_intros; simp)

lemma emits_confirm_selection [emits_intros]: "(\<And>c. fs_level c \<Longrightarrow> P c) \<Longrightarrow> emits P (confirm_selection t c)"
  unfolding confirm_selection_def Let_def by (intro emits_intros; simp)

text \<open>Without any of the partitions' flags there is only the end of a restore.\<close>

lemma emits_no_flags: "emits (\<lambda>c. \<not> restores c) (restore_steps b p 0)"
  by (simp add: restore_steps_def only_if_def has_def backup_flags restore_finish_def) (intro emits_intros; simp)

lemma emits_restore_nothing: "emits (\<lambda>c. \<not> restores c) (nandroid_restore_flags p (BACKUP_ALL AND BACKUP_NOFORMAT))"
proof -
  have f: "BACKUP_ALL AND BACKUP_NOFORMAT = 0" by (simp add: backup_flags)
  have "emits (\<lambda>c. \<not> restores c) (check_md5 p)"
    unfolding check_md5_def by (intro emits_intros; simp)
  moreover have "emits (\<lambda>c. \<not> restores c) (print_and_error m)" "emits (\<lambda>c. \<not> restores c) (ui_set_page i)" for m i
    by (intro emits_intros; simp)+
  ultimately show ?thesis
    unfolding f nandroid_restore_flags_def only_if_def
    by (intro emits_bind emits_if emits_ret emits_gets emits_upd emits_ui_simple emits_ensure_root_path_mounted emits_no_flags; simp)
qed

text \<open>
  The restore menu restores nothing. The flags it hands over are those that are both a
  partition's and \<open>BACKUP_NOFORMAT\<close>: none. Whatever backup is chosen and confirmed, no image is
  unpacked and no flash partition is opened for writing.
\<close>

theorem restore_menu_restores_nothing:
  "\<exists>t. trace (exec show_nandroid_restore_menu s) = trace s @ t \<and> list_all (\<lambda>c. \<not> restores c) t"
proof -
  have "emits (\<lambda>c. \<not> restores c) show_nandroid_restore_menu"
    unfolding show_nandroid_restore_menu_def by (intro emits_intros emits_restore_nothing; simp)
  from emitsD [OF this, of s] show ?thesis by blast
qed

end
