(* ===== verification/Menus.thy ===== *)
theory Menus
  imports Extended
begin

text \<open>
  The rest of \<open>extendedcommands.c\<close>: the menus with check boxes for backup and restore, the
  advanced menu, the \<open>fstab\<close> and the copying of logs. A check box is an element whose
  \<open>group_id\<close> is a flag and whose \<open>id\<close> is that flag while it is set. Both device descriptions
  define \<open>BOARD_HAS_SMALL_RECOVERY\<close>, so the advanced menu ends with the test of the password
  screen and the two cases after it are never chosen.
\<close>

section \<open>Menus of flags\<close>

definition toggle_flag :: "menuElement \<Rightarrow> int \<Rightarrow> int \<Rightarrow> int" where
  "toggle_flag me flag flags =
     (if me_group_id me = flag then if me_id me \<noteq> 0 then flags - flag else flags OR flag else flags)"

definition add_checkbox :: "int \<Rightarrow> int \<times> string \<times> string option \<Rightarrow> unit prog" where
  "add_checkbox flags box = (case box of (flag, t, help) \<Rightarrow>
     do { _ \<leftarrow> ui_add_menu (flags AND flag) flag MENU_TYPE_CHECKBOX (Some t) help; ret () })"

definition flags_menu :: "string \<Rightarrow> string \<Rightarrow> string \<Rightarrow> (int \<times> string \<times> string option) list \<Rightarrow> int \<Rightarrow> unit prog" where
  "flags_menu header action help boxes flags = do {
     ui_start_menu_ext;
     _ \<leftarrow> ui_add_menu 0 0 MENU_TYPE_GLOBAL_HEADER (Some (loc header [])) None;
     _ \<leftarrow> ui_add_menu 0 (-1) MENU_TYPE_ELEMENT (Some (loc action [])) (Some (loc help []));
     for_each boxes (add_checkbox flags) }"

text \<open>The rounds: the flags chosen (None: the user went back).\<close>

definition choose_flags ::
  "string \<Rightarrow> string \<Rightarrow> string \<Rightarrow> (int \<times> string \<times> string option) list \<Rightarrow> int list \<Rightarrow> int \<Rightarrow> int option prog" where
  "choose_flags header action help boxes toggles flags =
     key_loop None (\<lambda>(flags, chosen_item, me). do {
       flags_menu header action help boxes flags;
       (chosen_item, me) \<leftarrow> get_menu_selection_ext chosen_item me;
       ui_end_menu;
       if chosen_item = GO_BACK then ret (Inr None)
       else if me_group_id me = -1 then ret (Inr (Some flags))
       else ret (Inl (fold (toggle_flag me) toggles flags, chosen_item, me)) }) (flags, 1, zero_element)"

definition checkbox :: "int \<Rightarrow> string \<Rightarrow> int \<times> string \<times> string option" where
  "checkbox flag t = (flag, loc t [], None)"

definition default_flags :: "build_opts \<Rightarrow> int" where
  "default_flags b = (BACKUP_DATA OR BACKUP_CACHE OR BACKUP_SDEXT OR BACKUP_OTHERS) OR
     (if has_datadata b then BACKUP_DATADATA else 0)"

definition backup_boxes :: "build_opts \<Rightarrow> (int \<times> string \<times> string option) list" where
  "backup_boxes b = [checkbox BACKUP_BOOTABLES ''NANDROID_BACBOOT'', checkbox BACKUP_SYSTEM ''NANDROID_BACSYSTEM'',
       checkbox BACKUP_DATA ''NANDROID_BACDATA''] @
     (if has_datadata b then [checkbox BACKUP_DATADATA ''NANDROID_BACDATADATA''] else []) @
     [checkbox BACKUP_OTHERS ''NANDROID_BACMISC'', checkbox BACKUP_CACHE ''NANDROID_BACCACHE'',
      checkbox BACKUP_SDEXT ''NANDROID_BACSDEXT''] @
     (if has_phone_controller b then [checkbox BACKUP_EFS ''NANDROID_BACEFS''] else [])"

definition partition_flags :: "int list" where
  "partition_flags = [BACKUP_BOOTABLES, BACKUP_SYSTEM, BACKUP_DATA, BACKUP_DATADATA, BACKUP_OTHERS, BACKUP_CACHE, BACKUP_SDEXT]"

definition show_nandroid_advanced_backup_menu :: "string \<Rightarrow> unit prog" where
  "show_nandroid_advanced_backup_menu backup_path = do {
     b \<leftarrow> gets build;
     r \<leftarrow> choose_flags ''NANDROID_BADVANCED'' ''NANDROID_DOBACKUP'' ''NANDROID_DOBACKUP_HELP'' (backup_boxes b)
       (partition_flags @ [BACKUP_EFS]) (default_flags b);
     case r of
       None \<Rightarrow> ret ()
     | Some flags \<Rightarrow> do { _ \<leftarrow> nandroid_backup_flags backup_path flags; ret () } }"

definition restore_boxes :: "build_opts \<Rightarrow> (int \<times> string \<times> string option) list" where
  "restore_boxes b = [checkbox BACKUP_BOOTABLES ''NANDROID_RESBOOT'', checkbox BACKUP_SYSTEM ''NANDROID_RESSYSTEM'',
       checkbox BACKUP_DATA ''NANDROID_RESDATA''] @
     (if has_datadata b then [checkbox BACKUP_DATADATA ''NANDROID_RESDATADATA''] else []) @
     [checkbox BACKUP_OTHERS ''NANDROID_RESMISC'', checkbox BACKUP_CACHE ''NANDROID_RESCACHE'',
      checkbox BACKUP_SDEXT ''NANDROID_RESSDEXT'',
      (BACKUP_NOFORMAT, loc ''NANDROID_NOFORMAT'' [], Some (loc ''NANDROID_NOFORMAT_HELP'' []))]"

definition show_nandroid_advanced_restore_menu :: "unit prog" where
  "show_nandroid_advanced_restore_menu = do {
     m \<leftarrow> ensure_root_path_mounted ''SDCARD:'';
     if m \<noteq> 0 then LOGE (''Can't mount /mnt/sdcard'' @ [LF])
     else do {
       f \<leftarrow> choose_file_menu ''/mnt/sdcard/clockworkmod/backup/'' None [loc ''NANDROID_HEADER'' []];
       case f of
         None \<Rightarrow> ret ()
       | Some file \<Rightarrow> do {
           b \<leftarrow> gets build;
           r \<leftarrow> choose_flags ''NANDROID_ADVANCED'' ''NANDROID_DORESTORE'' ''NANDROID_DORESTORE_HELP'' (restore_boxes b)
             (partition_flags @ [BACKUP_NOFORMAT]) (default_flags b OR BACKUP_NOFORMAT);
           case r of
             None \<Rightarrow> ret ()
           | Some flags \<Rightarrow> do {
               yes \<leftarrow> confirm_selection (loc ''NANDROID_CONFIRM'' []) (loc ''NANDROID_YES'' []);
               if yes then do { _ \<leftarrow> nandroid_restore_flags file flags; ret () } else ret () }
         } } }"

text \<open>The path of a new backup is made as in \<open>nandroid_generate_timestamp_path\<close>.\<close>

definition show_nandroid_menu :: "unit prog" where
  "show_nandroid_menu = do {
     chosen_item \<leftarrow> get_menu_selection [loc ''NANDROID_MAIN_MENU_HEADER'' []]
       [loc ''NANDROID_MAIN_BACKUP'' [], loc ''NANDROID_MAIN_ABACKUP'' [], loc ''NANDROID_MAIN_RESTORE'' [],
        loc ''NANDROID_MAIN_ARESTORE'' []] False;
     if chosen_item = 0 \<or> chosen_item = 1 then do {
       backup_path \<leftarrow> nandroid_generate_timestamp_path;
       if chosen_item = 0 then do { _ \<leftarrow> nandroid_backup backup_path; ret () }
       else show_nandroid_advanced_backup_menu backup_path
     } else if chosen_item = 2 then show_nandroid_restore_menu
     else if chosen_item = 3 then show_nandroid_advanced_restore_menu
     else ret () }"

section \<open>The advanced menu\<close>

definition wipe_battery_stats :: "unit prog" where
  "wipe_battery_stats = do {
     _ \<leftarrow> ensure_root_path_mounted ''DATA:'';
     do_call (Fs (Remove ''/data/system/batterystats.bin''));
     _ \<leftarrow> ensure_root_path_unmounted ''DATA:'';
     ret () }"

definition handle_failure :: "int \<Rightarrow> unit prog" where
  "handle_failure r =
     (if r = 0 then ret ()
      else do {
        m \<leftarrow> ensure_root_path_mounted ''SDCARD:'';
        if m \<noteq> 0 then ret ()
        else do {
          do_call (Fs (Mkdir ''/mnt/sdcard/clockworkmod''));
          _ \<leftarrow> system_call ''cp /tmp/*.log /mnt/sdcard/clockworkmod/'';
          ui_print (''/tmp/*.log was copied to /mnt/sdcard/clockworkmod.'' @ [LF]) } })"

definition wipe_dalvik_cache :: "unit prog" where
  "wipe_dalvik_cache = do {
     m \<leftarrow> ensure_root_path_mounted ''DATA:'';
     if m \<noteq> 0 then ret ()
     else do {
       _ \<leftarrow> ensure_root_path_mounted ''SDEXT:'';
       _ \<leftarrow> ensure_root_path_mounted ''CACHE:'';
       yes \<leftarrow> confirm_selection (loc ''ADV_MENU_WIPE_CACHE_CONFIRM'' []) (loc ''ADV_MENU_WIPE_CACHE_YES'' []);
       whenM yes (do {
         _ \<leftarrow> system_call ''rm -r /data/dalvik-cache'';
         _ \<leftarrow> system_call ''rm -r /cache/dalvik-cache'';
         _ \<leftarrow> system_call ''rm -r /sd-ext/dalvik-cache'';
         ret () });
       _ \<leftarrow> ensure_root_path_unmounted ''DATA:'';
       ui_print (loc ''ADV_MENU_WIPE_CACHE_DONE'' []) } }"

definition key_test :: "unit prog" where
  "key_test = do {
     ui_print (''Outputting key codes.'' @ [LF]);
     ui_print (''Go back to end debugging.'' @ [LF]);
     ui_set_show_text True;
     key_loop () (\<lambda>_. do {
       key \<leftarrow> ui_wait_key;
       b \<leftarrow> gets build;
       ui_print (''Key: '' @ dec_int key @ [LF]);
       ret (if device_handle_key b key True = GO_BACK then Inr () else Inl ()) }) ();
     ui_set_show_text False }"

definition screen_test :: "unit prog" where
  "screen_test = do {
     ui_print (''Press any key to exit'' @ [LF]);
     key_loop () (\<lambda>_. do {
       key \<leftarrow> ui_wait_key;
       ret (if key \<noteq> BTN_WHEEL \<and> key \<noteq> BTN_GEAR_UP \<and> key \<noteq> BTN_GEAR_DOWN \<and> key \<noteq> BTN_MOUSE then Inr () else Inl ()) }) () }"

definition secret_test :: "unit prog" where
  "secret_test = do {
     ui_set_secret_screen True;
     ui_set_show_text True;
     ui_clear_num_screen;
     ui_print (loc ''SECRET_HOWTO_TEST'' []);
     set_console_cmd [];
     chosen_item \<leftarrow> key_loop GO_BACK (\<lambda>_. do {
       key \<leftarrow> ui_wait_key;
       b \<leftarrow> gets build;
       let action = device_handle_key b key True;
       ret (if action = SELECT_ITEM \<or> action = GO_BACK then Inr action else Inl ()) }) ();
     cmd \<leftarrow> gets console_cmd;
     whenM (chosen_item = SELECT_ITEM) (ui_print (''Entered: '' @ cmd @ [LF]));
     ui_set_secret_screen False;
     ui_set_show_text False }"

definition show_advanced_menu :: "unit prog" where
  "show_advanced_menu = key_loop () (\<lambda>_. do {
     chosen_item \<leftarrow> get_menu_selection [loc ''ADV_MENU_HEADER'' []]
       [loc ''ADV_MENU_WIPE_CACHE'' [], loc ''ADV_MENU_WIPE_BATTERY'' [], loc ''ADV_MENU_REPORT'' [],
        loc ''ADV_MENU_KEYTEST'' [], loc ''ADV_MENU_SCREENTEST'' [], loc ''ADV_MENU_SECRETTEST'' []] False;
     if chosen_item = GO_BACK then ret (Inr ())
     else do {
       (if chosen_item = 0 then wipe_dalvik_cache
        else if chosen_item = 1 then do {
          yes \<leftarrow> confirm_selection (loc ''ADV_MENU_WIPE_BATTERY_CONFIRM'' []) (loc ''ADV_MENU_WIPE_BATTERY_YES'' []);
          if yes then wipe_battery_stats else ret () }
        else if chosen_item = 2 then handle_failure 1
        else if chosen_item = 3 then key_test
        else if chosen_item = 4 then screen_test
        else if chosen_item = 5 then secret_test
        else ret ());
       ret (Inl ()) } }) ()"

section \<open>The table of filesystems\<close>

text \<open>
  The line of a root; the index of a flash partition is asked for (\<open>device_index\<close>). What is
  written reaches the file, which is emptied first, when it is closed.
\<close>

definition write_fstab_root :: "string \<Rightarrow> string prog" where
  "write_fstab_root root_path = do {
     b \<leftarrow> gets build;
     case get_root_info_for_path b root_path of
       None \<Rightarrow> ret []
     | Some info \<Rightarrow> do {
         mtd \<leftarrow> get_root_mtd_partition root_path;
         dev \<leftarrow> (case mtd of
             Some p \<Rightarrow> do { i \<leftarrow> call (Hook (''device_index '' @ p)); ret (''/dev/block/mtdblock'' @ dec_int i) }
           | None \<Rightarrow> ret (null_text (map_option device_text (r_device info))));
         let opts = (case r_filesystem_options info of None \<Rightarrow> ''rw'' | Some os \<Rightarrow> os);
         let ty = (if r_filesystem info = Some G_auto then ''auto'' else null_text (map_option filesystem_text (r_filesystem info)));
         ret (dev @ '' '' @ null_text (r_mount_point info) @ '' '' @ ty @ '' '' @ opts @ [LF]) } }"

fun fstab_text :: "string list \<Rightarrow> string prog" where
  "fstab_text [] = ret []"
| "fstab_text (r # rs) = do { l \<leftarrow> write_fstab_root r; ls \<leftarrow> fstab_text rs; ret (l @ ls) }"

definition fstab_roots :: "build_opts \<Rightarrow> string list" where
  "fstab_roots b = [''CACHE:'', ''DATA:''] @ (if has_datadata b then [''DATADATA:''] else []) @ [''SYSTEM:'', ''SDCARD:'', ''SDEXT:'']"

definition create_fstab :: "unit prog" where
  "create_fstab = do {
     _ \<leftarrow> system_call ''touch /etc/mtab'';
     f \<leftarrow> call (Fs (Creat ''/etc/fstab''));
     if f < 0 then ret ()
     else do {
       b \<leftarrow> gets build;
       t \<leftarrow> fstab_text (fstab_roots b);
       do_call (Fs (WriteFile ''/etc/fstab'' t)) } }"

end
