(* ===== verification/Oem.thy ===== *)
theory Oem
  imports Menus
begin

text \<open>
  \<open>oem.c\<close>: the afterburner (packages chosen from a menu and installed after a flash), and
  what follows the installation, the upgrade and the removal of the kernel. \<open>sh\<close> is
  \<open>__system\<close> here, the texts of \<open>strerror\<close> are left out, and the two look-ups in the
  arguments of one \<open>sprintf\<close> are made from left to right.
\<close>

definition reboot_into_recovery :: "int prog" where
  "reboot_into_recovery = do { do_call (Reboot ''recovery''); ret 0 }"

section \<open>The packages of an afterburner archive\<close>

record aftConfig =
  aft_id :: string
  aft_name :: "string option"
  aft_help :: "string option"
  aft_commands :: "string list"
  aft_selected :: bool

definition new_config :: "string \<Rightarrow> aftConfig" where
  "new_config i = \<lparr>aft_id = i, aft_name = None, aft_help = None, aft_commands = [], aft_selected = False\<rparr>"

text \<open>
  What \<open>fgets\<close> delivers, less the newline and the carriage return at its end. After a line that
  is nothing but a newline the byte before the array is looked at; were it a carriage return, it
  would be overwritten.
\<close>

definition strip_line :: "string \<Rightarrow> string prog" where
  "strip_line piece = (let c = cstr piece; c' = (if c \<noteq> [] \<and> last c = LF then butlast c else c) in
     if c' = [] then do {
       before \<leftarrow> call (Hook ''command[-1]'');
       whenM (before = 13) fault;
       ret []
     } else ret (if last c' = CR then butlast c' else c'))"

text \<open>
  One line; the last package comes first in the list. What precedes the first package belongs to
  \<open>initialConfig\<close>, which nobody looks at.
\<close>

definition update_head :: "('a \<Rightarrow> 'a) \<Rightarrow> 'a list \<Rightarrow> 'a list" where
  "update_head f xs = (case xs of [] \<Rightarrow> [] | x # ys \<Rightarrow> f x # ys)"

definition config_line :: "string \<Rightarrow> aftConfig list \<Rightarrow> aftConfig list" where
  "config_line line cs =
     (if prefix ''---[ID:'' line then new_config (drop 7 line) # cs
      else update_head (\<lambda>curr.
        if prefix ''---[NAME:'' line then curr\<lparr>aft_name := Some (drop 9 line)\<rparr>
        else if prefix ''---[HELP:'' line then curr\<lparr>aft_help := Some (drop 9 line)\<rparr>
        else if prefix ''---[SELECTED:1'' line then curr\<lparr>aft_selected := True\<rparr>
        else curr\<lparr>aft_commands := aft_commands curr @ [line]\<rparr>) cs)"

fun config_lines :: "string list \<Rightarrow> aftConfig list \<Rightarrow> aftConfig list prog" where
  "config_lines [] cs = ret (rev cs)"
| "config_lines (p # ps) cs =
     (if cstr p = [] then config_lines ps cs
      else do { line \<leftarrow> strip_line p; config_lines ps (config_line line cs) })"

text \<open>The entry arrives through a pipe, from a process of its own; nothing arrives when one of the two cannot be made.\<close>

definition read_config :: "string \<Rightarrow> aftConfig list prog" where
  "read_config arch = do {
     r \<leftarrow> sys (Mz (MzExtract arch ''afterburner.conf'' ''pipe''));
     config_lines (fgets_all 1025 (dat r)) [] }"

section \<open>The menu of packages\<close>

text \<open>
  The address of a package stands in its element of the menu. Addresses are different from each
  other, from 0 and from -1; the \<open>i\<close>-th package has \<open>i + 1\<close>.
\<close>

definition add_config :: "nat \<times> aftConfig \<Rightarrow> unit prog" where
  "add_config c = (case c of (i, c) \<Rightarrow> do {
     _ \<leftarrow> ui_add_menu (if aft_selected c then int i else 0) (int i) MENU_TYPE_CHECKBOX (aft_name c) (aft_help c);
     ret () })"

definition set_selected :: "menuElement \<Rightarrow> aftConfig list \<Rightarrow> aftConfig list" where
  "set_selected me cs =
     (if me_group_id me = 0 then cs
      else let i = nat (me_group_id me) - 1 in cs[i := (cs ! i)\<lparr>aft_selected := me_id me \<noteq> me_group_id me\<rparr>])"

text \<open>The packages as the user leaves them (None: the user went back).\<close>

definition choose_configs :: "aftConfig list \<Rightarrow> aftConfig list option prog" where
  "choose_configs cs = key_loop None (\<lambda>(cs, chosen_item). do {
     ui_start_menu_ext;
     _ \<leftarrow> ui_add_menu 0 0 MENU_TYPE_GLOBAL_HEADER (Some (loc ''OEM_AFTERBURNER_HEADER'' [])) None;
     _ \<leftarrow> ui_add_menu 0 (-1) MENU_TYPE_ELEMENT (Some (loc ''OEM_AFTERBURNER_DOINSTALL'' []))
       (Some (loc ''OEM_AFTERBURNER_DOINSTALL_HELP'' []));
     for_each (enumerate 1 cs) add_config;
     (chosen_item, me) \<leftarrow> get_menu_selection_ext chosen_item zero_element;
     if chosen_item = GO_BACK then do { ui_end_menu; ret (Inr None) }
     else if me_group_id me = -1 then do {
       yes \<leftarrow> confirm_selection (loc ''OEM_AFTERBURNER_CONFIRM'' []) (loc ''OEM_AFTERBURNER_YES'' []);
       ret (if yes then Inr (Some cs) else Inl (cs, chosen_item))
     } else ret (Inl (set_selected me cs, chosen_item)) }) (cs, 1)"

section \<open>Installing the packages chosen\<close>

text \<open>A key or a value that is too long for the list's elements is stored outside them.\<close>

definition store_conf :: "string \<Rightarrow> string \<Rightarrow> unit prog" where
  "store_conf key val = do {
     cs \<leftarrow> gets firstconf;
     whenM (cs \<noteq> [] \<and> (length key \<ge> KEY_MAX_LENGTH \<or> length val \<ge> VALUE_MAX_LENGTH)) fault;
     _ \<leftarrow> set_conf key (Some val);
     ret () }"

text \<open>
  One command of a package, with the directory set before. Warnings of unknown commands are left
  out. The archive is unpacked without flags and without a time stamp, which is the time 0 here.
\<close>

definition aft_command :: "('c, RSAPublicKey) venv \<Rightarrow> string \<Rightarrow> string \<Rightarrow> string \<Rightarrow> string \<Rightarrow> string prog" where
  "aft_command v api arch c path =
     (if prefix ''set_dir '' c then ret (drop 8 c)
      else if prefix ''extract '' c then do { do_call (Mz (MzExtractRecursive arch (drop 8 c) path False 0)); ret path }
      else if prefix ''ui_print '' c then do { ui_print (drop 9 c @ [LF]); ret path }
      else if prefix ''setconf '' c then (case split_at_char CHR ''='' (drop 8 c) of
          None \<Rightarrow> ret path
        | Some (key, val) \<Rightarrow> do { store_conf key val; ret path })
      else if prefix ''install_package '' c then do { _ \<leftarrow> install_package v api (drop 16 c); ret path }
      else if prefix ''run_program '' c then do {
        bb [''chmod'', ''755'', drop 12 c]; bb [''sh'', ''-c'', drop 12 c]; ret path }
      else if prefix ''mkdir '' c then do { bb [''mkdir'', drop 6 c]; ret path }
      else if prefix ''rm '' c then do { bb [''rm'', ''-rf'', drop 3 c]; ret path }
      else ret path)"

fun aft_commands_run :: "('c, RSAPublicKey) venv \<Rightarrow> string \<Rightarrow> string \<Rightarrow> string list \<Rightarrow> string \<Rightarrow> unit prog" where
  "aft_commands_run v api arch [] path = ret ()"
| "aft_commands_run v api arch (c # cs) path = do {
     path \<leftarrow> aft_command v api arch c path;
     aft_commands_run v api arch cs path }"

definition run_config :: "('c, RSAPublicKey) venv \<Rightarrow> string \<Rightarrow> string \<Rightarrow> aftConfig \<Rightarrow> unit prog" where
  "run_config v api arch c =
     whenM (aft_selected c) (do {
       ui_print (loc ''OEM_AFTERBURNER_INSTALLING'' [aft_id c]);
       aft_commands_run v api arch (aft_commands c) ''/'' })"

definition run_afterburner :: "('c, RSAPublicKey) venv \<Rightarrow> string \<Rightarrow> string \<Rightarrow> int prog" where
  "run_afterburner v api path = do {
     err \<leftarrow> call (Mz (MzOpen path));
     if err \<noteq> 0 then do { LOGE (loc ''OEM_AFTERBURNER_ERROR'' [path]); ret 0 }
     else do {
       e \<leftarrow> mz_find path ''afterburner.conf'';
       whenM e (do {
         cs \<leftarrow> read_config path;
         if cs = [] then ret ()
         else do {
           r \<leftarrow> choose_configs cs;
           case r of None \<Rightarrow> ret () | Some cs' \<Rightarrow> for_each cs' (run_config v api path) } });
       do_call (Mz MzClose);
       ret 1
     } }"

text \<open>The archive: by variant and version, by variant, or the general one; whether it was found.\<close>

definition find_afterburner :: "(string \<times> bool) prog" where
  "find_afterburner = do {
     variant \<leftarrow> get_conf_def ''steam.variant'' ''steamkrnl'';
     version \<leftarrow> get_conf_def ''steam.version'' ''0'';
     let path = ''/mnt/sdcard/steam/afterburner_'' @ variant @ ''_'' @ version @ ''.zip'';
     st \<leftarrow> call (Fs (Stat path));
     if st = 0 then ret (path, True)
     else do {
       variant \<leftarrow> get_conf_def ''steam.variant'' ''steamkrnl'';
       let path = ''/mnt/sdcard/steam/afterburner_'' @ variant @ ''.zip'';
       st \<leftarrow> call (Fs (Stat path));
       if st = 0 then ret (path, True)
       else do {
         let path = ''/mnt/sdcard/steam/afterburner.zip'';
         st \<leftarrow> call (Fs (Stat path));
         ret (path, st = 0) } } }"

text \<open>The second search, \<open>do_steam_afterburner(0)\<close>, opens the general archive even when there is none.\<close>

definition afterburner_again :: "('c, RSAPublicKey) venv \<Rightarrow> string \<Rightarrow> int prog" where
  "afterburner_again v api = do {
     m \<leftarrow> ensure_root_path_mounted ''SDCARD:'';
     if m \<noteq> 0 then ret 0
     else do { (path, found) \<leftarrow> find_afterburner; run_afterburner v api path } }"

definition do_steam_afterburner :: "('c, RSAPublicKey) venv \<Rightarrow> string \<Rightarrow> int \<Rightarrow> int prog" where
  "do_steam_afterburner v api mountopt =
     (if mountopt = 0 then afterburner_again v api
      else do {
        m \<leftarrow> ensure_root_path_mounted ''SDCARD:'';
        if m \<noteq> 0 then ret 0
        else do {
          (path, found) \<leftarrow> find_afterburner;
          if found then run_afterburner v api path
          else do {
            askuser \<leftarrow> (if mountopt = 2 then ret ''1'' else get_conf_def ''afterburner.askuser'' ''0'');
            if askuser = ''1'' then do {
              show_mount_usb_storage_menu (Some (loc ''OEM_AFTERBURNER_ASKUSER'' []));
              afterburner_again v api
            } else ret 0 } } })"

section \<open>Installation, upgrade, removal\<close>

definition copy_afterburner :: "string \<Rightarrow> unit prog" where
  "copy_afterburner name = bb [''cp'', ''/dbdata/afterburner/afterburner'' @ name @ ''.zip'', ''/mnt/sdcard/steam'']"

definition copy_afterburners :: "unit prog" where
  "copy_afterburners = do {
     st \<leftarrow> call (Fs (Stat ''/dbdata/afterburner''));
     whenM (st = 0) (do {
       bb [''mkdir'', ''/mnt/sdcard/steam''];
       variant \<leftarrow> get_conf_def ''steam.variant'' ''steamkrnl'';
       version \<leftarrow> get_conf_def ''steam.version'' ''0'';
       copy_afterburner (''_'' @ variant @ ''_'' @ version);
       variant \<leftarrow> get_conf_def ''steam.variant'' ''steamkrnl'';
       copy_afterburner (''_'' @ variant);
       copy_afterburner [] }) }"

definition do_steam_install :: "('c, RSAPublicKey) venv \<Rightarrow> string \<Rightarrow> int prog" where
  "do_steam_install v api = do {
     bb [''rm'', ''/system/etc/lagfix.conf''];
     bb [''rm'', ''/system/etc/lagfix.conf.old''];
     bb [''rm'', ''/system/etc/tweaks.conf''];
     m \<leftarrow> ensure_root_path_mounted ''SYSTEM:'';
     if m \<noteq> 0 then ret 0
     else do {
       datadata \<leftarrow> opt has_datadata;
       m \<leftarrow> (if datadata then ensure_root_path_mounted ''DATADATA:'' else ret 0);
       if m \<noteq> 0 then ret 0
       else do {
         m \<leftarrow> ensure_root_path_mounted ''SDCARD:'';
         if m \<noteq> 0 then ret 0
         else do {
           copy_afterburners;
           _ \<leftarrow> do_steam_afterburner v api 1;
           _ \<leftarrow> set_conf ''steam.installation'' None;
           reboot_into_recovery } } } }"

definition do_steam_upgrade :: "int prog" where
  "do_steam_upgrade = do { _ \<leftarrow> set_conf ''steam.upgrade'' None; ret 0 }"

definition LIBLIGHTS_DEST :: string where "LIBLIGHTS_DEST = ''/system/lib/hw/lights.s5pc110.so''"

definition do_steam_uninstall :: "int prog" where
  "do_steam_uninstall = do {
     d \<leftarrow> get_conf_def ''fs.data.type'' ''0'';
     db \<leftarrow> get_conf_def ''fs.dbdata.type'' ''0'';
     c \<leftarrow> get_conf_def ''fs.cache.type'' ''0'';
     sy \<leftarrow> get_conf_def ''fs.system.type'' ''0'';
     if \<not> (d = ''1'' \<and> db = ''1'' \<and> c = ''1'' \<and> sy = ''1'') then do {
       for_each [''fs.data.convertto'', ''fs.dbdata.convertto'', ''fs.cache.convertto'', ''fs.system.convertto'']
         (\<lambda>k. do { _ \<leftarrow> set_conf k (Some ''1''); ret () });
       _ \<leftarrow> reboot_into_recovery;
       ret 1
     } else do {
       st \<leftarrow> call (Fs (Stat (LIBLIGHTS_DEST @ ''.backup'')));
       whenM (st = 0) (do {
         bb [''rm'', LIBLIGHTS_DEST];
         bb [''mv'', LIBLIGHTS_DEST @ ''.backup'', LIBLIGHTS_DEST];
         bb [''rm'', ''/system/etc/bln.conf''] });
       bb [''rm'', ''/system/etc/steam.conf''];
       _ \<leftarrow> reboot_into_recovery;
       ret 0
     } }"

section \<open>Other recoveries\<close>

text \<open>Where the plugin of a recovery is: 1 on the system partition, 2 on the SD card, which counts more.\<close>

definition plugins :: "(int \<times> int) prog" where
  "plugins = do {
     s2 \<leftarrow> call (Fs (Stat ''/system/etc/steam/rec2e/sbin/recovery''));
     s3 \<leftarrow> call (Fs (Stat ''/system/etc/steam/rec3e/sbin/recovery''));
     let has_rec2e = (if s2 = 0 then 1 else 0);
     let has_rec3e = (if s3 = 0 then 1 else 0);
     allowsd \<leftarrow> get_conf_def ''modules.allowsd'' ''0'';
     if allowsd = ''1'' then do {
       m \<leftarrow> ensure_root_path_mounted ''SDCARD:'';
       if m = 0 then do {
         s2 \<leftarrow> call (Fs (Stat ''/mnt/sdcard/steam/rec2e/sbin/recovery''));
         s3 \<leftarrow> call (Fs (Stat ''/mnt/sdcard/steam/rec3e/sbin/recovery''));
         ret (if s2 = 0 then 2 else has_rec2e, if s3 = 0 then 2 else has_rec3e)
       } else ret (has_rec2e, has_rec3e)
     } else ret (has_rec2e, has_rec3e) }"

text \<open>The directory of the plugin: both choices ask where the first one is.\<close>

definition plugin_dir :: "int \<Rightarrow> string \<Rightarrow> string" where
  "plugin_dir has_rec2e plugin = (if has_rec2e = 1 then ''/system/etc/steam/'' else ''/mnt/sdcard/steam/'') @ plugin"

definition start_plugin :: "int \<Rightarrow> string \<Rightarrow> int prog" where
  "start_plugin has_rec2e plugin = do {
     ui_done;
     bb [''rm'', ''/sbin/recovery''];
     _ \<leftarrow> system_call (''cp -Rf '' @ plugin_dir has_rec2e plugin @ ''/* /'');
     bb [''chmod'', ''755'', ''/sbin/recovery''];
     do_call (Proc (Exec ''/sbin/recovery'' [''recovery'']));
     _ \<leftarrow> reboot_into_recovery;
     ui_init;
     ret 1 }"

definition plugin_menu :: "int \<Rightarrow> int \<Rightarrow> unit prog" where
  "plugin_menu has_rec2e has_rec3e = do {
     ui_start_menu_ext;
     _ \<leftarrow> ui_add_menu 0 0 MENU_TYPE_GLOBAL_HEADER (Some (loc ''OEM_RECOVERY_HEADER'' [])) None;
     whenM (has_rec2e \<noteq> 0) (do { _ \<leftarrow> ui_add_menu 1 1 MENU_TYPE_ELEMENT (Some (loc ''OEM_RECOVERY_2E'' []))
       (Some (loc ''OEM_RECOVERY_2E_HELP'' [])); ret () });
     whenM (has_rec3e \<noteq> 0) (do { _ \<leftarrow> ui_add_menu 2 1 MENU_TYPE_ELEMENT (Some (loc ''OEM_RECOVERY_3E'' []))
       (Some (loc ''OEM_RECOVERY_3E_HELP'' [])); ret () });
     _ \<leftarrow> ui_add_menu 3 1 MENU_TYPE_ELEMENT (Some (loc ''OEM_RECOVERY_STEAM'' [])) (Some (loc ''OEM_RECOVERY_STEAM_HELP'' []));
     ret () }"

definition do_steam_install_fromcache :: "int prog" where
  "do_steam_install_fromcache = do {
     m \<leftarrow> ensure_root_path_mounted ''SYSTEM:'';
     if m \<noteq> 0 then ret 0
     else do {
       (has_rec2e, has_rec3e) \<leftarrow> plugins;
       if has_rec2e = 0 \<and> has_rec3e = 0 then ret 0
       else do {
         plugin_menu has_rec2e has_rec3e;
         (chosen_item, me) \<leftarrow> get_menu_selection_ext 1 zero_element;
         ui_end_menu;
         if chosen_item = GO_BACK then ret 0
         else do {
           bb [''cp'', ''/sbin/fat.format'', ''/system/bin/fat.format''];
           if me_id me = 1 then start_plugin has_rec2e ''rec2e''
           else if me_id me = 2 then start_plugin has_rec2e ''rec3e''
           else ret 0 } } } }"

end
