(* ===== verification/Steamext.thy ===== *)
theory Steamext
  imports Oem
begin

text \<open>
  \<open>steamext.c\<close>: rooting the phone, the menus of tweaks and filesystems, the console, the
  backlight switch, the file manager and the menu that leads to them. The list
  \<open>steam_command_list\<close> is not in the repository and is a parameter. \<open>chdir\<close>, \<open>getcwd\<close>,
  \<open>realpath\<close> and \<open>readdir\<close> are calls outside. \<open>Tap\<close> is what the user does to the keyboard.
\<close>

section \<open>Rooting the phone\<close>

text \<open>\<open>n\<close> and \<open>tmp\<close> have 128 bytes; a longer name is stored outside them.\<close>

definition apply_ln :: "string \<Rightarrow> int prog" where
  "apply_ln name = do {
     let n = ''/system/xbin/'' @ name;
     whenM (length n \<ge> 128) fault;
     do_call (Fs (Unlink n));
     call (Fs (Symlink ''/system/xbin/busybox'' n)) }"

definition apply_rm :: "string \<Rightarrow> int prog" where
  "apply_rm name = do {
     let tmp = ''/system/bin/'' @ name;
     whenM (length tmp \<ge> 128) fault;
     busybox [''rm'', tmp] }"

definition some_commands :: "string list" where
  "some_commands = [''cat'', ''chmod'', ''chown'', ''dd'', ''ln'', ''ls'', ''mkdir'', ''mv'', ''rm'', ''rmdir'']"

definition more_commands :: "string list" where
  "more_commands = [''cmp'', ''date'', ''df'', ''dmesg'', ''id'', ''insmod'', ''kill'', ''lsmod'', ''mount'', ''printenv'',
     ''ps'', ''renice'', ''sleep'', ''sync'', ''top'', ''umount'']"

definition forget :: "'a prog \<Rightarrow> unit prog" where
  "forget m = do { _ \<leftarrow> m; ret () }"

text \<open>\<open>has_bb\<close> is \<open>STEAM_HAS_BUSYBOX\<close>.\<close>

definition apply_root_to_device :: "string list \<Rightarrow> bool \<Rightarrow> int \<Rightarrow> unit prog" where
  "apply_root_to_device steam_command_list has_bb mode = do {
     _ \<leftarrow> ensure_root_path_mounted ''SYSTEM:'';
     ui_print (loc ''APPROOT_COPYING'' []);
     ui_print (loc ''APPROOT_COPYING_SU'' []);
     for_each [[''rm'', ''/system/bin/su''], [''rm'', ''/system/xbin/su''], [''cp'', ''/res/misc/su'', ''/system/xbin/su''],
       [''chown'', ''0.0'', ''/system/xbin/su''], [''chmod'', ''4755'', ''/system/xbin/su'']] bb;
     ui_print (loc ''APPROOT_COPYING_APK'' []);
     for_each [[''rm'', ''/system/app/Superuser.apk''], [''rm'', ''/data/app/Superuser.apk''],
       [''cp'', ''/res/misc/Superuser.apk'', ''/system/app/Superuser.apk''],
       [''chown'', ''0.0'', ''/system/app/Superuser.apk''], [''chmod'', ''644'', ''/system/app/Superuser.apk'']] bb;
     ui_print (loc ''APPROOT_CRSYMLINK'' []);
     for_each steam_command_list (\<lambda>c. forget (apply_ln c));
     whenM (mode > 0) (do {
       ui_print (loc ''APPROOT_RMSOME'' []);
       for_each some_commands (\<lambda>c. forget (apply_rm c));
       whenM (mode > 1) (do {
         ui_print (loc ''APPROOT_RMMORE'' []);
         for_each more_commands (\<lambda>c. forget (apply_rm c)) }) });
     ui_print (loc ''APPROOT_COPYING_BB'' []);
     for_each [[''rm'', ''/system/xbin/busybox''], [''rm'', ''/system/bin/busybox''],
       [''cp'', if has_bb then ''/sbin/steam'' else ''/sbin/busybox'', ''/system/xbin/busybox''],
       [''chmod'', ''755'', ''/system/xbin/busybox'']] bb;
     ui_print (loc ''APPROOT_DONE'' []) }"

definition apply_root_menu :: "string list \<Rightarrow> bool \<Rightarrow> unit prog" where
  "apply_root_menu cmds has_bb = key_loop () (\<lambda>_. do {
     chosen_item \<leftarrow> get_menu_selection [loc ''APPROOT_HEADER'' []]
       [loc ''APPROOT_SIMPLE'' [], loc ''APPROOT_ADV'' [], loc ''APPROOT_EXT'' []] False;
     if chosen_item = GO_BACK then ret (Inr ())
     else if chosen_item = 0 \<or> chosen_item = 1 \<or> chosen_item = 2 then do {
       yes \<leftarrow> confirm_selection (loc ''APPROOT_CONFIRM_ROOT'' []) (loc ''APPROOT_CONFIRM_YES'' []);
       whenM yes (apply_root_to_device cmds has_bb chosen_item);
       ret (Inl ())
     } else ret (Inl ()) }) ()"

section \<open>The menu of tweaks\<close>

text \<open>A number of the configuration, and its default where it is missing or none.\<close>

definition conf_int :: "string \<Rightarrow> int \<Rightarrow> int prog" where
  "conf_int key def = do {
     v \<leftarrow> get_conf key;
     ret (case v of None \<Rightarrow> def | Some t \<Rightarrow> (case scan_int t of None \<Rightarrow> def | Some i \<Rightarrow> i)) }"

definition set_conf_text :: "string \<Rightarrow> string \<Rightarrow> unit prog" where
  "set_conf_text key val = forget (set_conf key (Some val))"

definition set_conf_int :: "string \<Rightarrow> int \<Rightarrow> unit prog" where
  "set_conf_int key i = set_conf_text key (dec_int i)"

record tweaks =
  adbboot :: int
  adbroot :: int
  bootlog :: int
  bootanim :: int
  iosched :: int
  kernelvm :: int
  kernelsched :: int
  misc_tweaks :: int
  sysrw :: int

definition read_tweaks :: "tweaks prog" where
  "read_tweaks = do {
     adbboot \<leftarrow> conf_int ''adb.boot'' 0;
     adbroot \<leftarrow> conf_int ''adb.root'' 0;
     rg \<leftarrow> get_conf_def ''preinit.recovery.graphics'' ''0'';
     pg \<leftarrow> get_conf_def ''preinit.graphics'' ''0'';
     bootanim \<leftarrow> conf_int ''init.bootanim'' 1;
     iosched \<leftarrow> conf_int ''tweaks.iosched'' 0;
     kernelvm \<leftarrow> conf_int ''tweaks.kernelvm'' 0;
     kernelsched \<leftarrow> conf_int ''tweaks.kernelsched'' 0;
     misc \<leftarrow> conf_int ''tweaks.misc'' 0;
     sysrw \<leftarrow> conf_int ''fs.system.ro'' 1;
     ret \<lparr>adbboot = adbboot, adbroot = adbroot, bootlog = (if pg = ''1'' then 2 else if rg = ''1'' then 1 else 0),
       bootanim = bootanim, iosched = iosched, kernelvm = kernelvm, kernelsched = kernelsched, misc_tweaks = misc,
       sysrw = sysrw\<rparr> }"

text \<open>The elements: \<open>id\<close>, \<open>group_id\<close>, type, and the name of the text, whose help is the text's with \<open>_HELP\<close>.\<close>

definition add_header :: "int \<Rightarrow> string \<Rightarrow> unit prog" where
  "add_header ty t = forget (ui_add_menu 0 0 ty (Some (loc t [])) None)"

definition add_item :: "int \<times> int \<times> int \<times> string \<Rightarrow> unit prog" where
  "add_item x = (case x of (i, g, ty, t) \<Rightarrow>
     forget (ui_add_menu i g ty (Some (loc t [])) (Some (loc (t @ ''_HELP'') []))))"

definition add_radios :: "int \<Rightarrow> (int \<times> string) list \<Rightarrow> unit prog" where
  "add_radios i xs = for_each xs (\<lambda>(g, t). add_item (i, g, MENU_TYPE_RADIOBOX, t))"

definition tweak_elements :: "tweaks \<Rightarrow> unit prog" where
  "tweak_elements t = do {
     ui_start_menu_ext;
     add_header MENU_TYPE_GLOBAL_HEADER ''MENU_TWEAKS_HEADER'';
     add_header MENU_TYPE_GROUP_HEADER ''MENU_TWEAKS_ADB'';
     add_radios (adbboot t + 1) [(1, ''MENU_TWEAKS_ADB_DEF''), (2, ''MENU_TWEAKS_ADB_REC''), (3, ''MENU_TWEAKS_ADB_ON'')];
     add_header MENU_TYPE_GROUP_HEADER ''MENU_TWEAKS_ADB_ROOT'';
     add_radios (adbroot t + 4) [(4, ''MENU_TWEAKS_ADB_ROOT_OFF''), (5, ''MENU_TWEAKS_ADB_ROOT_REC''),
       (6, ''MENU_TWEAKS_ADB_ROOT_ASK''), (7, ''MENU_TWEAKS_ADB_ROOT_ALWAYS'')];
     add_header MENU_TYPE_GROUP_HEADER ''MENU_TWEAKS_BOOTLOG'';
     add_radios (bootlog t + 8) [(8, ''MENU_TWEAKS_BOOTLOG_NO''), (9, ''MENU_TWEAKS_BOOTLOG_REC''), (10, ''MENU_TWEAKS_BOOTLOG_ALWAYS'')];
     add_header MENU_TYPE_GROUP_HEADER ''MENU_TWEAKS_BOOTANIM'';
     add_radios (bootanim t + 11) [(11, ''MENU_TWEAKS_BOOTANIM_LOG''), (12, ''MENU_TWEAKS_BOOTANIM_DEF''),
       (13, ''MENU_TWEAKS_BOOTANIM_ANDROID'')];
     add_header MENU_TYPE_GROUP_HEADER ''MENU_TWEAKS_TWEAKS'';
     for_each [(iosched t * 16, 16, MENU_TYPE_CHECKBOX, ''MENU_TWEAKS_IOSCHED''),
       (kernelvm t * 17, 17, MENU_TYPE_CHECKBOX, ''MENU_TWEAKS_KERNELVM''),
       (kernelsched t * 18, 18, MENU_TYPE_CHECKBOX, ''MENU_TWEAKS_KERNELSCHED''),
       (misc_tweaks t * 19, 19, MENU_TYPE_CHECKBOX, ''MENU_TWEAKS_MISC''),
       (sysrw t * 20, 20, MENU_TYPE_CHECKBOX, ''MENU_TWEAKS_SYS_RW'')] add_item }"

definition negated :: "int \<Rightarrow> int" where
  "negated i = (if i \<noteq> 0 then 0 else 1)"

text \<open>What the choice of an element of group \<open>g\<close> writes; the groups exclude each other.\<close>

definition tweak_action :: "tweaks \<Rightarrow> int \<Rightarrow> unit prog" where
  "tweak_action t g =
     (if 1 \<le> g \<and> g \<le> 3 then set_conf_int ''adb.boot'' (g - 1)
      else if 4 \<le> g \<and> g \<le> 7 then set_conf_int ''adb.root'' (g - 4)
      else if 8 \<le> g \<and> g \<le> 10 then do {
        set_conf_text ''preinit.recovery.graphics'' (if g = 8 then ''0'' else ''1'');
        set_conf_text ''preinit.graphics'' (if g = 10 then ''1'' else ''0'')
      } else if 11 \<le> g \<and> g \<le> 13 then do {
        set_conf_int ''init.bootanim'' (g - 11);
        set_conf_text ''earlyinit.graphics'' (if g = 11 then ''1'' else ''0'')
      } else if g = 16 then set_conf_int ''tweaks.iosched'' (negated (iosched t))
      else if g = 17 then set_conf_int ''tweaks.kernelvm'' (negated (kernelvm t))
      else if g = 18 then set_conf_int ''tweaks.kernelsched'' (negated (kernelsched t))
      else if g = 19 then set_conf_int ''tweaks.misc'' (negated (misc_tweaks t))
      else if g = 20 then set_conf_int ''fs.system.ro'' (negated (sysrw t))
      else ret ())"

definition tweak_menu :: "unit prog" where
  "tweak_menu = key_loop () (\<lambda>chosen_item. do {
     t \<leftarrow> read_tweaks;
     tweak_elements t;
     (chosen_item, me) \<leftarrow> get_menu_selection_ext chosen_item zero_element;
     if chosen_item = GO_BACK then do { ui_end_menu; ret (Inr ()) }
     else do { tweak_action t (me_group_id me); ui_end_menu; ret (Inl chosen_item) } }) 1"

section \<open>The menu of filesystems\<close>

definition partitions :: "string list" where "partitions = [''data'', ''dbdata'', ''cache'', ''system'']"

text \<open>
  \<open>sscanf\<close> answers the end of the text, which counts as true, for a blank value: then the variable
  keeps what it had.
\<close>

definition scan_conf :: "int \<Rightarrow> int \<Rightarrow> string option \<Rightarrow> int" where
  "scan_conf old def v = (case v of
     None \<Rightarrow> def
   | Some t \<Rightarrow> if skip_ws t = [] then old else (case scan_int t of None \<Rightarrow> def | Some i \<Rightarrow> i))"

text \<open>The types of the four partitions as they are and as they are to be (\<open>oldconf\<close>, \<open>newconf\<close>), given what the arrays held before.\<close>

fun read_types :: "string list \<Rightarrow> (int \<times> int) list \<Rightarrow> (int \<times> int) list prog" where
  "read_types (p # ps) ((old, new) # cs) = do {
     v \<leftarrow> get_conf (''fs.'' @ p @ ''.type'');
     let old' = scan_conf old 0 v;
     w \<leftarrow> get_conf (''fs.'' @ p @ ''.convertto'');
     rest \<leftarrow> read_types ps cs;
     ret ((old', scan_conf new old' w) # rest) }"
| "read_types _ _ = ret []"

record fs_support =
  ext2support :: bool
  ext4support :: bool
  jfssupport :: bool

definition add_schemes :: "fs_support \<Rightarrow> unit prog" where
  "add_schemes fss = do {
     let scheme = (\<lambda>(i, t). add_item (i, -1, MENU_TYPE_ELEMENT, t));
     scheme (0, ''MENU_SCHEME_DISABLED'');
     whenM (ext4support fss) (do {
       scheme (1, ''MENU_SCHEME_EXT4'');
       scheme (2, ''MENU_SCHEME_EXT4_NORFS'');
       whenM (ext2support fss) (scheme (3, ''MENU_SCHEME_EXT4_OVERKILL'')) });
     whenM (jfssupport fss) (do { scheme (4, ''MENU_SCHEME_JFS''); scheme (5, ''MENU_SCHEME_JFS_NORFS'') });
     whenM (ext4support fss) (scheme (6, ''MENU_SCHEME_EXT4_CRYPT'')) }"

definition add_type :: "int \<Rightarrow> int \<Rightarrow> int \<Rightarrow> int \<Rightarrow> string \<Rightarrow> unit prog" where
  "add_type i new flag ty t = add_item (i * 8192 + (new AND flag), i * 8192 + flag, ty, t)"

definition add_partition :: "fs_support \<Rightarrow> nat \<times> string \<times> int \<Rightarrow> unit prog" where
  "add_partition fss x = (case x of (k, p, new) \<Rightarrow> do {
     let i = int k;
     forget (ui_add_menu 0 0 MENU_TYPE_GROUP_HEADER (Some p) None);
     add_type i new TYPE_RFS MENU_TYPE_RADIOBOX ''MENU_FS_RFS'';
     whenM (ext2support fss) (add_type i new TYPE_EXT2 MENU_TYPE_RADIOBOX ''MENU_FS_EXT2'');
     whenM (ext4support fss) (add_type i new TYPE_EXT4 MENU_TYPE_RADIOBOX ''MENU_FS_EXT4'');
     whenM (jfssupport fss) (add_type i new TYPE_JFS MENU_TYPE_RADIOBOX ''MENU_FS_JFS'');
     edge \<leftarrow> (if p \<noteq> ''system'' then ret ''1'' else get_conf_def ''steam.edge.features'' ''0'');
     whenM (edge = ''1'') (do {
       add_type i new TYPE_LOOP MENU_TYPE_CHECKBOX ''MENU_FS_LOOP'';
       add_type i new TYPE_CRYPT MENU_TYPE_CHECKBOX ''MENU_FS_CRYPT'' }) })"

definition fs_elements :: "fs_support \<Rightarrow> int list \<Rightarrow> bool \<Rightarrow> bool \<Rightarrow> unit prog" where
  "fs_elements fss newconf noefs badrfs = do {
     ui_start_menu_ext;
     add_header MENU_TYPE_GLOBAL_HEADER ''MENU_FS_HEADER'';
     add_header MENU_TYPE_GROUP_HEADER ''MENU_SCHEME_HEADER'';
     add_schemes fss;
     add_header MENU_TYPE_GLOBAL_HEADER ''MENU_FS_ADVANCED'';
     for_each (enumerate 0 (zip partitions newconf)) (add_partition fss);
     add_header MENU_TYPE_GLOBAL_HEADER ''MENU_FS_MISC'';
     add_item (if noefs then -2 else 0, -2, MENU_TYPE_CHECKBOX, ''MENU_FS_NORFS'');
     add_item (if badrfs then -3 else 0, -3, MENU_TYPE_CHECKBOX, ''MENU_FS_BADRFS'');
     add_item (0, -4, MENU_TYPE_ELEMENT, ''MENU_FS_RESET'') }"

text \<open>A scheme: the types of cache, data and dbdata, that of system, and whether rfs is given up there.\<close>

definition set_scheme :: "string \<Rightarrow> string \<Rightarrow> string \<Rightarrow> unit prog" where
  "set_scheme ty system_type efs = do {
     for_each [''cache'', ''data'', ''dbdata''] (\<lambda>p. set_conf_text (''fs.'' @ p @ ''.convertto'') ty);
     set_conf_text ''fs.system.convertto'' system_type;
     set_conf_text ''fs.system.efs'' efs;
     forget (set_conf ''fs.system.rfs'' None) }"

definition choose_scheme :: "int \<Rightarrow> unit prog" where
  "choose_scheme i =
     (if i = 0 then set_scheme ''1'' ''1'' ''0''
      else if i = 1 then set_scheme ''4'' ''1'' ''0''
      else if i = 2 then set_scheme ''4'' ''4'' ''1''
      else if i = 3 then set_scheme ''260'' ''4'' ''1''
      else if i = 4 then set_scheme ''8'' ''1'' ''0''
      else if i = 5 then set_scheme ''8'' ''8'' ''1''
      else if i = 6 then set_scheme ''132'' ''4'' ''1''
      else ret ())"

text \<open>The type of a partition after its element \<open>val\<close> was chosen, which was on or not.\<close>

definition new_type :: "int \<Rightarrow> int \<Rightarrow> bool \<Rightarrow> int" where
  "new_type new val ison =
     (let fstype = (if val AND TYPE_FSTYPE_MASK \<noteq> 0 then val else new AND TYPE_FSTYPE_MASK);
          crypt = (if val AND TYPE_CRYPT \<noteq> 0 then \<not> ison else new AND TYPE_CRYPT \<noteq> 0);
          loop = (if val AND TYPE_LOOP \<noteq> 0 then \<not> ison else new AND TYPE_LOOP \<noteq> 0)
      in (fstype OR (if loop then TYPE_LOOP else 0)) OR (if crypt then TYPE_CRYPT else 0))"

definition fs_action :: "int list \<Rightarrow> menuElement \<Rightarrow> unit prog" where
  "fs_action newconf me = (let g = me_group_id me in
     if g = -1 then choose_scheme (me_id me)
     else if g = -2 then set_conf_text ''fs.system.efs'' (if me_id me \<noteq> 0 then ''0'' else ''1'')
     else if g = -3 then forget (set_conf ''fs.system.rfs'' (if me_id me \<noteq> 0 then None else Some ''bad''))
     else if g > 0 then
       (let num = nat (g div 8192) in
        set_conf_int (''fs.'' @ partitions ! num @ ''.convertto'') (new_type (newconf ! num) (g mod 8192) (g = me_id me)))
     else ret ())"

text \<open>The reset gives the array \<open>newconf\<close> the values of \<open>oldconf\<close>; the configuration is left as it is.\<close>

definition fs_reset :: "menuElement \<Rightarrow> (int \<times> int) list \<Rightarrow> (int \<times> int) list" where
  "fs_reset me cs = (if me_group_id me = -4 then map (\<lambda>(old, new). (old, old)) cs else cs)"

definition fs_round :: "fs_support \<Rightarrow> (int \<times> int) list \<times> int \<Rightarrow> (((int \<times> int) list \<times> int) + unit) prog" where
  "fs_round fss x = (case x of (cs, chosen_item) \<Rightarrow> do {
     cs \<leftarrow> read_types partitions cs;
     efs \<leftarrow> get_conf_def ''fs.system.efs'' ''0'';
     rfs \<leftarrow> get_conf_def ''fs.system.rfs'' ''ok'';
     fs_elements fss (map snd cs) (efs = ''1'') (rfs = ''bad'');
     (chosen_item, me) \<leftarrow> get_menu_selection_ext chosen_item zero_element;
     if chosen_item = GO_BACK then do { ui_end_menu; ret (Inr ()) }
     else do {
       fs_action (map snd cs) me;
       ui_end_menu;
       ret (Inl (fs_reset me cs, chosen_item)) } })"

text \<open>The arrays are uninitialised at first.\<close>

definition fsreformat_menu :: "unit prog" where
  "fsreformat_menu = do {
     e2 \<leftarrow> get_capability ''fs.support.ext2'';
     e4 \<leftarrow> get_capability ''fs.support.ext4'';
     jfs \<leftarrow> get_capability ''fs.support.jfs'';
     junk \<leftarrow> sys (Hook ''uninitialised arrays'');
     let cs = map (\<lambda>i. (atoi (concat (take 1 (drop (2 * i) (lst junk)))), atoi (concat (take 1 (drop (2 * i + 1) (lst junk)))))) [0..<4];
     key_loop () (fs_round \<lparr>ext2support = e2, ext4support = e4, jfssupport = jfs\<rparr>) (cs, 1) }"

section \<open>The backlight\<close>

definition BLN_CONF :: string where "BLN_CONF = ''/system/etc/bln.conf''"

text \<open>\<open>%u\<close> reads an unsigned number of 32 bits.\<close>

definition bln_menu :: "unit prog" where
  "bln_menu = key_loop () (\<lambda>_. do {
     f \<leftarrow> sys (Fs (ReadFile BLN_CONF));
     let bln_enabled = (if rc f < 0 then 0 else (case scan_int (dat f) of None \<Rightarrow> 0 | Some i \<Rightarrow> i mod 2 ^ 32));
     ui_start_menu_ext;
     add_header MENU_TYPE_GLOBAL_HEADER ''MENU_BLN_HEADERS'';
     forget (ui_add_menu (to_int32 bln_enabled) 1 MENU_TYPE_CHECKBOX (Some (loc ''MENU_BLN_ITEM'' [])) (Some (loc ''MENU_BLN_HELP'' [])));
     (chosen_item, me) \<leftarrow> get_menu_selection_ext 1 zero_element;
     if chosen_item = GO_BACK then do { ui_end_menu; ret (Inr ()) }
     else do {
       let bln_enabled = (if me_group_id me = 1 then negated bln_enabled else bln_enabled);
       w \<leftarrow> call (Fs (WriteFile BLN_CONF (dec_int bln_enabled @ [LF])));
       whenM (w < 0) (ui_print (loc ''MENU_BLN_NOCONFIG'' []));
       ui_end_menu;
       ret (Inl ()) } }) ()"

section \<open>The console\<close>

definition chdir :: "string \<Rightarrow> int prog" where
  "chdir p = call (Hook (''chdir '' @ p))"

definition getcwd :: "string prog" where
  "getcwd = do { r \<leftarrow> sys (Hook ''getcwd''); ret (dat r) }"

text \<open>
  Running what was typed. When nothing was, the byte before the array is compared with a
  newline and would be overwritten.
\<close>

definition strip_cmd :: "string \<Rightarrow> string prog" where
  "strip_cmd cmd =
     (if cmd = [] then do {
        before \<leftarrow> call (Hook ''console_cmd[-1]'');
        whenM (before = 10) fault;
        ret []
      } else ret (if last cmd = LF then butlast cmd else cmd))"

definition run_command :: "unit prog" where
  "run_command = do {
     cmd \<leftarrow> gets console_cmd;
     path \<leftarrow> getcwd;
     path \<leftarrow> (if length cmd > 3 \<and> prefix ''cd '' cmd then do {
         cmd \<leftarrow> strip_cmd cmd;
         e \<leftarrow> chdir (drop 3 cmd);
         whenM (e \<noteq> 0) (ui_print (loc ''CONSOLE_BADDIR'' []));
         path \<leftarrow> getcwd;
         ui_print (drop 3 cmd @ [LF]);
         ret path
       } else do {
         cmd \<leftarrow> strip_cmd cmd;
         ui_print (cmd @ [LF]);
         _ \<leftarrow> system_call cmd;
         ui_print [LF];
         ret path });
     ui_print (path @ '' # '');
     set_console_cmd [] }"

definition run_console :: "unit prog" where
  "run_console = do {
     set_console_cmd [];
     ui_set_console True;
     ui_print (loc ''CONSOLE_BACK'' []);
     ui_set_show_text True;
     key_loop () (\<lambda>_. do {
       key \<leftarrow> ui_wait_key;
       cmd \<leftarrow> gets console_cmd;
       visible \<leftarrow> gets show_text;
       b \<leftarrow> gets build;
       let action = (if key = BTN_MOUSE \<and> cmd \<noteq> [] \<and> last cmd = LF then SELECT_ITEM else device_handle_key b key visible);
       if action = GO_BACK then ret (Inr ())
       else if action = SELECT_ITEM then do { run_command; ret (Inl ()) }
       else ret (Inl ()) }) ();
     ui_set_show_text False;
     ui_set_console False;
     _ \<leftarrow> chdir ''/'';
     ret () }"

section \<open>The clipboard\<close>

text \<open>The paths in the clipboard, in the order they were put there. The last of several equal ones would be removed.\<close>

definition checkclipboard :: "string list \<Rightarrow> string \<Rightarrow> bool" where
  "checkclipboard clipboard name \<longleftrightarrow> name \<in> set clipboard"

definition addclipboard :: "string list \<Rightarrow> string \<Rightarrow> string list" where
  "addclipboard clipboard name = (if checkclipboard clipboard name then clipboard else clipboard @ [name])"

definition last_index :: "string list \<Rightarrow> string \<Rightarrow> nat option" where
  "last_index clipboard name = fold (\<lambda>i is. if clipboard ! i = name then Some i else is) [0..<length clipboard] None"

definition removeclipboard :: "string list \<Rightarrow> string \<Rightarrow> string list" where
  "removeclipboard clipboard name = (case last_index clipboard name of
     None \<Rightarrow> clipboard | Some i \<Rightarrow> take i clipboard @ drop (Suc i) clipboard)"

section \<open>The file manager\<close>

record manager =
  fm_path :: string
  fm_clipboard :: "string list"
  multichoice :: bool
  oldchoice :: int

text \<open>\<open>sprintf\<close> into an array of \<open>PATH_MAX\<close>.\<close>

definition path_text :: "string \<Rightarrow> string prog" where
  "path_text t = do { whenM (length t \<ge> PATH_MAX) fault; ret t }"

text \<open>Whether the path could be resolved, and what is in the array then.\<close>

definition realpath :: "string \<Rightarrow> (bool \<times> string) prog" where
  "realpath p = do { r \<leftarrow> sys (Hook (''realpath '' @ p)); ret (rc r \<ge> 0, dat r) }"

definition add_entry :: "manager \<Rightarrow> string \<Rightarrow> unit prog" where
  "add_entry m name =
     whenM (name \<noteq> ''..'' \<and> name \<noteq> ''.'') (do {
       npath \<leftarrow> path_text (fm_path m @ ''/'' @ name);
       (ok, xpath) \<leftarrow> realpath npath;
       whenM ok (do {
         st \<leftarrow> sys (Fs (Stat xpath));
         whenM (rc st = 0) (forget (ui_add_menu (if checkclipboard (fm_clipboard m) xpath then 2 else 3) 2
           (if multichoice m then MENU_TYPE_CHECKBOX else MENU_TYPE_ELEMENT)
           (Some (if is_dir st then name @ ''/'' else name)) None)) }) })"

definition clip_items :: "unit prog" where
  "clip_items = for_each [(1, ''FILEMANAGER_CLIP_MOVE''), (2, ''FILEMANAGER_CLIP_COPY''), (3, ''FILEMANAGER_CLIP_RM''),
     (4, ''FILEMANAGER_CLIP_CLEAR'')] (\<lambda>(i, t). forget (ui_add_menu i 5 MENU_TYPE_ELEMENT (Some (loc t [])) None))"

text \<open>A directory that cannot be opened is a null pointer given to \<open>readdir\<close>.\<close>

definition fm_elements :: "manager \<Rightarrow> unit prog" where
  "fm_elements m = do {
     ui_start_menu_ext;
     add_header MENU_TYPE_GLOBAL_HEADER ''FILEMANAGER_HEADER'';
     add_header MENU_TYPE_GROUP_HEADER ''FILEMANAGER_COMMANDS'';
     add_item (if multichoice m then 1 else 0, 1, MENU_TYPE_CHECKBOX, ''FILEMANAGER_CLIPBOARD_MODE'');
     add_item (1, 4, MENU_TYPE_ELEMENT, ''FILEMANAGER_CONSOLE'');
     add_item (2, 4, MENU_TYPE_ELEMENT, ''FILEMANAGER_PARTMAN'');
     add_item (3, 4, MENU_TYPE_ELEMENT, ''FILEMANAGER_SAVELOG'');
     whenM (fm_clipboard m \<noteq> []) clip_items;
     forget (ui_add_menu 0 0 MENU_TYPE_GROUP_HEADER (Some (fm_path m)) None);
     forget (ui_add_menu 0 2 MENU_TYPE_ELEMENT (Some ''..'') None);
     d \<leftarrow> sys (Fs (ReadDir (fm_path m)));
     whenM (rc d < 0) fault;
     for_each (lst d) (add_entry m);
     whenM (fm_clipboard m \<noteq> []) (do {
       add_header MENU_TYPE_GROUP_HEADER ''FILEMANAGER_CLIPBOARD'';
       for_each (fm_clipboard m) (\<lambda>c. forget (ui_add_menu 3 3 MENU_TYPE_CHECKBOX (Some c) None)) }) }"

definition save_logs :: "unit prog" where
  "save_logs = do {
     bb [''mkdir'', ''/mnt''];
     bb [''mkdir'', ''/mnt/sdcard''];
     _ \<leftarrow> ensure_root_path_mounted ''SDCARD:'';
     bb [''mkdir'', ''/mnt/sdcard/steam''];
     bb [''mkdir'', ''/mnt/sdcard/steam/logs''];
     t \<leftarrow> sys TimeOf;
     backup_path \<leftarrow> (if dat t = [] then do { tp \<leftarrow> call TimeOf; ret (''/mnt/sdcard/steam/logs/'' @ dec_int tp) }
       else ret (''/mnt/sdcard/steam/logs/'' @ dat t));
     bb [''mkdir'', backup_path];
     forget (system_call (''cp /tmp/*.log '' @ backup_path)) }"

definition clip_command :: "int \<Rightarrow> string \<Rightarrow> string \<Rightarrow> string" where
  "clip_command i path c =
     (if i = 1 then ''mv '' @ c @ '' '' @ path else if i = 2 then ''cp -R '' @ c @ '' '' @ path else ''rm -rf '' @ c)"

definition clip_action :: "int \<Rightarrow> manager \<Rightarrow> manager prog" where
  "clip_action i m =
     (if 1 \<le> i \<and> i \<le> 3 then do {
        for_each (fm_clipboard m) (\<lambda>c. do {
          ui_print (clip_command i (fm_path m) c @ [LF]);
          forget (system_call (clip_command i (fm_path m) c)) });
        ret (m\<lparr>fm_clipboard := []\<rparr>)
      } else if i = 4 then ret (m\<lparr>fm_clipboard := []\<rparr>)
      else ret m)"

text \<open>A file shown in pieces of 256 bytes, each of them a format; its head is seven pieces.\<close>

function show_pieces :: "bool \<Rightarrow> nat \<Rightarrow> string \<Rightarrow> unit prog" where
  "show_pieces head pieces d =
     (if d = [] then ret ()
      else do {
        ui_print_text (cstr (take 256 d));
        if head \<and> pieces + 1 > 6 \<or> length (take 256 d) \<noteq> 256 then ret ()
        else show_pieces head (pieces + 1) (drop 256 d) })"
  by pat_completeness auto
termination by (relation "measure (\<lambda>(_, _, d). length d)") auto

declare show_pieces.simps [simp del]

definition file_action :: "manager \<Rightarrow> string \<Rightarrow> string \<Rightarrow> manager prog" where
  "file_action m npath xpath = do {
     sel \<leftarrow> get_menu_selection [loc ''FILEMANAGER_FILECMD_HEADER'' []]
       [loc ''FILEMANAGER_FILECMD_CLIPADD'' [], loc ''FILEMANAGER_FILECMD_CAT'' [], loc ''FILEMANAGER_FILECMD_HEAD'' [],
        loc ''FILEMANAGER_FILECMD_RM'' []] False;
     if sel = GO_BACK then do { ui_print (loc ''ERROR_NOTOPEN'' []); ret m }
     else if sel = 0 then ret (m\<lparr>fm_clipboard := addclipboard (fm_clipboard m) xpath\<rparr>)
     else if sel = 3 then do {
       cmd \<leftarrow> path_text (''rm '' @ xpath);
       ui_print (cmd @ [LF]);
       _ \<leftarrow> system_call cmd;
       ret m
     } else if sel = 1 \<or> sel = 2 then do {
       f \<leftarrow> sys (Fs (ReadFile npath));
       whenM (rc f \<ge> 0) (do { show_pieces (sel = 2) 0 (dat f); ui_print [LF] });
       ret m
     } else ret m }"

definition open_entry :: "manager \<Rightarrow> string \<Rightarrow> manager prog" where
  "open_entry m name = do {
     npath \<leftarrow> path_text (fm_path m @ ''/'' @ name);
     ui_print_text npath;
     ui_print [LF];
     st \<leftarrow> sys (Fs (Stat npath));
     (_, xpath) \<leftarrow> realpath npath;
     m \<leftarrow> (if rc st \<noteq> 0 then do { ui_print (loc ''ERROR_UNKNOWN'' []); ret m }
       else if is_dir st then do {
         (ok, p) \<leftarrow> realpath npath;
         ret (m\<lparr>fm_path := (if ok then p else npath)\<rparr>)
       } else file_action m npath xpath);
     ui_print (loc ''FILEMANAGER_DIR'' [fm_path m]);
     ret m }"

text \<open>Choosing an entry in clipboard mode; the four elements for the clipboard come and go with its first path.\<close>

definition mark_entry :: "manager \<Rightarrow> menuElement \<Rightarrow> string \<Rightarrow> int \<Rightarrow> manager prog" where
  "mark_entry m me name chosen_item = do {
     npath \<leftarrow> path_text (fm_path m @ ''/'' @ name);
     (ok, xpath) \<leftarrow> realpath npath;
     ret (if \<not> ok then m\<lparr>oldchoice := chosen_item\<rparr>
       else if me_id me = 2 then
         (let c = removeclipboard (fm_clipboard m) xpath
          in m\<lparr>fm_clipboard := c, oldchoice := (if c = [] then chosen_item - 4 else chosen_item)\<rparr>)
       else
         (let c = addclipboard (fm_clipboard m) xpath
          in m\<lparr>fm_clipboard := c, oldchoice := (if length c = 1 then chosen_item + 4 else chosen_item)\<rparr>)) }"

definition command_item :: "int \<Rightarrow> manager \<Rightarrow> unit prog" where
  "command_item i m =
     (if i = 1 then do { _ \<leftarrow> chdir (fm_path m); ui_end_menu; run_console }
      else if i = 2 then do { ui_end_menu; show_partition_menu }
      else if i = 3 then do { ui_end_menu; save_logs }
      else ret ())"

text \<open>
  What is done with the element the menu has left behind. Whether the user chose it or went
  back is only looked at afterwards.
\<close>

definition fm_action :: "int \<Rightarrow> menuElement \<Rightarrow> manager \<Rightarrow> manager prog" where
  "fm_action chosen_item me m = (let g = me_group_id me; t = (case me_text me of None \<Rightarrow> [] | Some t \<Rightarrow> t) in
     if g = 1 then ret (m\<lparr>multichoice := \<not> multichoice m, oldchoice := chosen_item\<rparr>)
     else if g = 4 then do { command_item (me_id me) m; ret m }
     else if g = 5 then clip_action (me_id me) m
     else if g = 3 then ret (m\<lparr>fm_clipboard := removeclipboard (fm_clipboard m) t\<rparr>)
     else if g = 2 then
       if multichoice m \<and> me_id me \<noteq> 0 then mark_entry m me t chosen_item else open_entry m t
     else ret m)"

definition fm_round :: "manager \<Rightarrow> (manager + unit) prog" where
  "fm_round m = do {
     fm_elements m;
     (chosen_item, me) \<leftarrow> get_menu_selection_ext (oldchoice m) zero_element;
     m \<leftarrow> fm_action chosen_item me (m\<lparr>oldchoice := 0\<rparr>);
     ui_end_menu;
     ret (if chosen_item = GO_BACK then Inr () else Inl m) }"

definition file_manager :: "unit prog" where
  "file_manager = do {
     ui_print (loc ''FILEMANAGER_PRESSBACK'' []);
     key_loop () fm_round \<lparr>fm_path = ''/'', fm_clipboard = [], multichoice = False, oldchoice = 0\<rparr> }"

section \<open>The menu of the kernel\<close>

text \<open>What the build gives: the commands of busybox, \<open>STEAM_HAS_BUSYBOX\<close> and \<open>RECOVERY_VERSION\<close>.\<close>

record kit =
  steam_commands :: "string list"
  has_busybox :: bool
  recovery_version :: string

definition about :: "kit \<Rightarrow> unit prog" where
  "about k = do {
     for_each [replicate 8 LF, recovery_version k, [LF] @ '' by SztupY (mail@sztupy.hu)'' @ [LF, LF],
       ''Based on CWM by koush'' @ [LF, LF], ''Logo by ZAGE'' @ [LF, LF], ''Credits:'' @ [LF],
       ''  anzo,ChainFire,DocRambone,hardcore,'' @ [LF], ''  koush,nikademus,neldar,newmail,patience,'' @ [LF],
       ''  PFC,RyanZA,tariattila,XDA,ykk_fice,'' @ [LF], ''  ZAGE,z4ziggy'' @ [LF, LF]] ui_print;
     st \<leftarrow> call (Fs (Stat CONFIG_SYSTEM));
     if st \<noteq> 0 then ret ()
     else do {
       chosen_item \<leftarrow> get_menu_selection [loc ''STEAM_ABOUT_UNINSTALL'' []] [loc ''STEAM_ABOUT_UNINSTALL'' []] False;
       yes \<leftarrow> (if chosen_item = 0 then confirm_selection (loc ''STEAM_ABOUT_UNINSTALL_CONFIRM'' []) (loc ''STEAM_ABOUT_UNINSTALL_YES'' [])
         else ret False);
       whenM yes (do {
         set_conf_text ''steam.uninstallation'' ''1'';
         ui_print (loc ''STEAM_ABOUT_UNINSTALL_OK'' []) }) } }"

text \<open>A menu that needs a file, and the message when it is not there.\<close>

definition if_present :: "string \<Rightarrow> unit prog \<Rightarrow> string \<Rightarrow> unit prog" where
  "if_present f m t = do {
     st \<leftarrow> call (Fs (Stat f));
     if st = 0 then m else ui_print (loc t []) }"

definition show_advanced_lfs_menu :: "kit \<Rightarrow> unit prog" where
  "show_advanced_lfs_menu k = key_loop () (\<lambda>_. do {
     chosen_item \<leftarrow> get_menu_selection [loc ''STEAM_MENU_HEADER'' []]
       [loc ''STEAM_MENU_SU'' [], loc ''STEAM_MENU_BOOT'' [], loc ''STEAM_MENU_BLN'' [], loc ''STEAM_MENU_CWM'' [],
        loc ''STEAM_MENU_LAGFIX'' [], loc ''STEAM_MENU_FM'' [], loc ''STEAM_MENU_ABOUT'' []] False;
     if chosen_item = GO_BACK then ret (Inr ())
     else do {
       (if chosen_item = 0 then apply_root_menu (steam_commands k) (has_busybox k)
        else if chosen_item = 1 then if_present CONFIG_SYSTEM tweak_menu ''STEAM_NOT_AVAILABLE''
        else if chosen_item = 2 then if_present ''/sys/class/misc/backlightnotification/enabled'' bln_menu ''BLN_NOT_AVAILABLE''
        else if chosen_item = 3 then show_advanced_menu
        else if chosen_item = 4 then if_present CONFIG_SYSTEM fsreformat_menu ''STEAM_NOT_AVAILABLE''
        else if chosen_item = 5 then file_manager
        else if chosen_item = 6 then about k
        else ret ());
       ret (Inl ()) } }) ()"

section \<open>Properties\<close>

text \<open>The clipboard is a set in the order of its making.\<close>

lemma last_index_None: "last_index clipboard name = None \<longleftrightarrow> name \<notin> set clipboard"
proof (induction clipboard rule: rev_induct)
  case (snoc x xs)
  have "fold (\<lambda>i is. if (xs @ [x]) ! i = name then Some i else is) [0..<length xs] None = last_index xs name"
    unfolding last_index_def by (intro fold_cong) (auto simp: nth_append)
  then show ?case using snoc by (auto simp: last_index_def)
qed (simp add: last_index_def)

lemma last_index_Some: "last_index clipboard name = Some i \<Longrightarrow> i < length clipboard \<and> clipboard ! i = name"
proof (induction clipboard rule: rev_induct)
  case (snoc x xs)
  have "fold (\<lambda>i is. if (xs @ [x]) ! i = name then Some i else is) [0..<length xs] None = last_index xs name"
    unfolding last_index_def by (intro fold_cong) (auto simp: nth_append)
  with snoc show ?case by (auto simp: last_index_def nth_append split: if_splits)
qed (simp add: last_index_def)

lemma addclipboard_set:
  "set (addclipboard c name) = insert name (set c)" "distinct c \<Longrightarrow> distinct (addclipboard c name)"
  by (auto simp: addclipboard_def checkclipboard_def)

lemma removeclipboard_set:
  assumes "distinct c"
  shows "distinct (removeclipboard c name) \<and> set (removeclipboard c name) = set c - {name}"
proof (cases "last_index c name")
  case None
  then show ?thesis using assms last_index_None [of c name] by (auto simp: removeclipboard_def)
next
  case (Some i)
  from last_index_Some [OF this] have i: "i < length c" "c ! i = name" by auto
  then have c: "c = take i c @ name # drop (Suc i) c" using id_take_nth_drop by metis
  have "distinct (take i c @ name # drop (Suc i) c)" using assms c by simp
  moreover have "set c = set (take i c @ name # drop (Suc i) c)" using c by simp
  ultimately show ?thesis using Some by (auto simp: removeclipboard_def)
qed

lemma type_bits:
  "bit TYPE_LOOP n \<longleftrightarrow> n = 8" "bit TYPE_CRYPT n \<longleftrightarrow> n = 7" "bit TYPE_FSTYPE_MASK n \<longleftrightarrow> n < 7"
  using bit_exp_iff [of "8::nat" n, where ?'a = int] bit_exp_iff [of "7::nat" n, where ?'a = int]
    bit_mask_iff [of "7::nat" n, where ?'a = int]
  by (auto simp: TYPE_LOOP_def TYPE_CRYPT_def TYPE_FSTYPE_MASK_def mask_eq_exp_minus_1)

lemma flag_bits: "i AND TYPE_LOOP \<noteq> 0 \<longleftrightarrow> bit i 8" "i AND TYPE_CRYPT \<noteq> 0 \<longleftrightarrow> bit i 7"
  using and_exp_eq_0_iff_not_bit [of i 8] and_exp_eq_0_iff_not_bit [of i 7]
  by (simp_all add: TYPE_LOOP_def TYPE_CRYPT_def)

lemma flags_apart:
  "TYPE_LOOP AND TYPE_FSTYPE_MASK = 0" "TYPE_CRYPT AND TYPE_FSTYPE_MASK = 0" "TYPE_LOOP \<noteq> 0" "TYPE_CRYPT \<noteq> 0"
  by (simp_all add: TYPE_LOOP_def TYPE_CRYPT_def TYPE_FSTYPE_MASK_def)

lemma types_apart:
  assumes "ty \<in> {TYPE_RFS, TYPE_EXT2, TYPE_EXT4, TYPE_JFS}"
  shows "ty AND TYPE_FSTYPE_MASK \<noteq> 0" and "\<not> bit ty 7" and "\<not> bit ty 8"
  using assms by (auto simp: TYPE_RFS_def TYPE_EXT2_def TYPE_EXT4_def TYPE_JFS_def TYPE_FSTYPE_MASK_def bit_iff_odd)

text \<open>
  Choosing in the menu of filesystems. A type replaces the type and keeps the two flags; a
  flag is switched off if it was on and on if it was off, and keeps the type and the other flag.
\<close>

theorem new_type_correct:
  assumes "ty \<in> {TYPE_RFS, TYPE_EXT2, TYPE_EXT4, TYPE_JFS}"
  shows "new_type new ty ison = (ty OR (new AND TYPE_LOOP)) OR (new AND TYPE_CRYPT)
    \<and> new_type new TYPE_LOOP ison = ((new AND TYPE_FSTYPE_MASK) OR (if ison then 0 else TYPE_LOOP)) OR (new AND TYPE_CRYPT)
    \<and> new_type new TYPE_CRYPT ison = ((new AND TYPE_FSTYPE_MASK) OR (new AND TYPE_LOOP)) OR (if ison then 0 else TYPE_CRYPT)"
proof (intro conjI)
  show "new_type new ty ison = (ty OR (new AND TYPE_LOOP)) OR (new AND TYPE_CRYPT)"
    using types_apart [OF assms]
    by (intro bit_eqI) (auto simp: new_type_def flag_bits bit_or_iff bit_and_iff type_bits)
  show "new_type new TYPE_LOOP ison = ((new AND TYPE_FSTYPE_MASK) OR (if ison then 0 else TYPE_LOOP)) OR (new AND TYPE_CRYPT)"
    by (intro bit_eqI) (auto simp: new_type_def flags_apart flag_bits bit_or_iff bit_and_iff type_bits)
  show "new_type new TYPE_CRYPT ison = ((new AND TYPE_FSTYPE_MASK) OR (new AND TYPE_LOOP)) OR (if ison then 0 else TYPE_CRYPT)"
    by (intro bit_eqI) (auto simp: new_type_def flags_apart flag_bits bit_or_iff bit_and_iff type_bits)
qed

theorem new_type_correct_witness:
  "new_type 260 TYPE_JFS False = 264 \<and> new_type 260 TYPE_LOOP True = 4 \<and> new_type 260 TYPE_CRYPT False = 388"
  using new_type_correct [of TYPE_JFS 260 False] new_type_correct [of TYPE_JFS 260 True]
  by (simp add: TYPE_JFS_def TYPE_LOOP_def TYPE_CRYPT_def TYPE_FSTYPE_MASK_def)

lemma clip_commands_run:
  assumes "f = (\<lambda>c. do { ui_print (cmd c @ [LF]); forget (system_call (cmd c)) })"
  shows "\<not> stopped (exec (for_each cs f) s) \<Longrightarrow> c \<in> set cs \<Longrightarrow>
    Proc (System (cmd c)) \<in> set (trace (exec (for_each cs f) s))"
proof (induction cs arbitrary: s)
  case (Cons x cs)
  let ?s = "exec (f x) s"
  have e: "emits (\<lambda>_. True) (for_each cs f)" "emits (\<lambda>_. True) (ui_print (cmd x @ [LF]))"
    unfolding assms forget_def system_call_def by (intro emits_intros TrueI)+
  obtain u where u: "trace (exec (for_each cs f) ?s) = trace ?s @ u" using emitsD [OF e(1)] by blast
  have ns: "\<not> stopped (exec (for_each cs f) ?s)" using Cons.prems(1) by (simp add: split_beta)
  then have "\<not> stopped ?s" using emits_frozen [OF e(1), of ?s] by auto
  then have "Proc (System (cmd x)) \<in> set (trace ?s)"
    by (auto simp: assms forget_def system_call_def run_sys call_def split_beta)
  then show ?case using Cons.IH [OF ns] Cons.prems(2) u by (auto simp: split_beta)
qed simp

text \<open>
  Going back runs the command under the highlight. The file manager looks at the element the
  menu has left behind before it looks at whether the user went back: with the highlight on
  moving, copying or deleting the files of the clipboard, the key that leaves the file manager
  runs that command on every one of them.
\<close>

theorem back_runs_highlighted:
  assumes "run_state (get_menu_selection_ext (oldchoice m) zero_element) (exec (fm_elements m) s) = ((GO_BACK, me), s')"
    and "me_group_id me = 5" and "1 \<le> me_id me" and "me_id me \<le> 3" and "\<not> stopped (exec (fm_round m) s)"
  shows "result (fm_round m) s = Inr ()
    \<and> (\<forall>c \<in> set (fm_clipboard m). Proc (System (clip_command (me_id me) (fm_path m) c)) \<in> set (trace (exec (fm_round m) s)))"
proof -
  let ?f = "\<lambda>c. do { ui_print (clip_command (me_id me) (fm_path m) c @ [LF]);
     forget (system_call (clip_command (me_id me) (fm_path m) c)) }"
  have run: "exec (fm_round m) s = exec ui_end_menu (exec (for_each (fm_clipboard m) ?f) s')"
    and r: "result (fm_round m) s = Inr ()"
    using assms(1-4) by (simp_all add: fm_round_def fm_action_def clip_action_def split_beta Let_def)
  have t: "trace (exec (fm_round m) s) = trace (exec (for_each (fm_clipboard m) ?f) s')"
    by (simp add: run ui_end_menu_def run_upd)
  have "\<not> stopped (exec (for_each (fm_clipboard m) ?f) s')"
    using assms(5) unfolding run by (auto simp: ui_end_menu_def run_upd split: if_splits)
  then show ?thesis using clip_commands_run [OF refl, where cmd = "clip_command (me_id me) (fm_path m)"] r t by simp
qed

text \<open>Programs that add elements to the menu.\<close>

definition add_element :: "menuElement \<Rightarrow> world \<Rightarrow> world" where
  "add_element e s = s\<lparr>menu_list := Some ((case menu_list s of None \<Rightarrow> [] | Some l \<Rightarrow> l) @ [e]), menu_items := menu_items s + 1\<rparr>"

definition adds :: "menuElement list \<Rightarrow> unit prog \<Rightarrow> bool" where
  "adds es m \<longleftrightarrow> (\<forall>s. \<not> stopped s \<longrightarrow> run_state m s = ((), fold add_element es s))"

lemma stopped_add_elements [simp]: "stopped (fold add_element es s) = stopped s"
  by (induction es arbitrary: s) (simp_all add: add_element_def)

lemma adds_element:
  "adds [\<lparr>me_id = i, me_group_id = g, me_type = ty, me_text = t, me_help = h\<rparr>] (forget (ui_add_menu i g ty t h))"
  by (simp add: adds_def forget_def ui_add_menu_def ui_add_menu_ext_def run_upd add_element_def)

lemma adds_bind: "adds es m \<Longrightarrow> adds es' n \<Longrightarrow> adds (es @ es') (m \<bind> (\<lambda>_. n))"
  by (simp add: adds_def)

lemma adds_for_each: "(\<And>x. adds [f x] (g x)) \<Longrightarrow> adds (map f xs) (for_each xs g)"
proof (induction xs)
  case (Cons x xs)
  then show ?case using adds_bind [of "[f x]" "g x" "map f xs" "for_each xs g"] by simp
qed (simp add: adds_def)

lemma run_adds: "adds es m \<Longrightarrow> \<not> stopped s \<Longrightarrow> run_state (m \<bind> (\<lambda>_. n)) s = run_state n (fold add_element es s)"
  by (simp add: adds_def)

text \<open>One file in the clipboard, the highlight on deleting, and the key for going back.\<close>

definition going_back :: world where
  "going_back = sample_store\<lparr>keys := [Key 28]\<rparr>"

definition on_delete :: manager where
  "on_delete = \<lparr>fm_path = ''/'', fm_clipboard = [''/x''], multichoice = False, oldchoice = 8\<rparr>"

definition header_element :: "int \<Rightarrow> string \<Rightarrow> menuElement" where
  "header_element ty t = \<lparr>me_id = 0, me_group_id = 0, me_type = ty, me_text = Some (loc t []), me_help = None\<rparr>"

lemma adds_header: "adds [header_element ty t] (add_header ty t)"
  unfolding add_header_def header_element_def by (rule adds_element)

definition menu_item :: "int \<times> int \<times> int \<times> string \<Rightarrow> menuElement" where
  "menu_item x = (case x of (i, g, ty, t) \<Rightarrow>
     \<lparr>me_id = i, me_group_id = g, me_type = ty, me_text = Some (loc t []), me_help = Some (loc (t @ ''_HELP'') [])\<rparr>)"

lemma adds_item: "adds [menu_item x] (add_item x)"
  unfolding add_item_def menu_item_def by (cases x) (simp add: adds_element)

definition clip_element :: "int \<times> string \<Rightarrow> menuElement" where
  "clip_element x = (case x of (i, t) \<Rightarrow>
     \<lparr>me_id = i, me_group_id = 5, me_type = MENU_TYPE_ELEMENT, me_text = Some (loc t []), me_help = None\<rparr>)"

lemma adds_clip_items:
  "adds (map clip_element [(1, ''FILEMANAGER_CLIP_MOVE''), (2, ''FILEMANAGER_CLIP_COPY''), (3, ''FILEMANAGER_CLIP_RM''),
     (4, ''FILEMANAGER_CLIP_CLEAR'')]) clip_items"
  unfolding clip_items_def by (rule adds_for_each) (simp add: clip_element_def adds_element split: prod.split)

lemma add_element_simps [simp]:
  "menu_list (add_element e s) = Some ((case menu_list s of None \<Rightarrow> [] | Some l \<Rightarrow> l) @ [e])"
  "menu_items (add_element e s) = menu_items s + 1" "menu_sel (add_element e s) = menu_sel s" "keys (add_element e s) = keys s"
  "stopped (add_element e s) = stopped s" "env (add_element e s) = env s" "build (add_element e s) = build s"
  "trace (add_element e s) = trace s" "mainlog (add_element e s) = mainlog s"
  by (simp_all add: add_element_def)

lemma whenM_True: "whenM True m = m"
  by (simp add: whenM_def)

text \<open>The menu being built, on a phone whose calls succeed, with the key for going back to come.\<close>

definition holds_menu :: "menuElement list \<Rightarrow> world \<Rightarrow> bool" where
  "holds_menu l s \<longleftrightarrow> (case menu_list s of None \<Rightarrow> [] | Some l \<Rightarrow> l) = l \<and> menu_items s = int (length l) \<and> menu_sel s = 0
     \<and> keys s = [Key 28] \<and> \<not> stopped s \<and> env s = env sample_store \<and> build s = build sample_store
     \<and> mainlog s = mainlog sample_store"

lemma holds_menu_add: "holds_menu l s \<Longrightarrow> holds_menu (l @ [e]) (add_element e s)"
  by (simp add: holds_menu_def)

lemma holds_menu_fold: "holds_menu l s \<Longrightarrow> holds_menu (l @ es) (fold add_element es s)"
proof (induction es arbitrary: l s)
  case (Cons e es)
  then show ?case using holds_menu_add [of l s e] Cons.IH [of "l @ [e]" "add_element e s"] by simp
qed simp

lemma holds_menu_adds: "adds es m \<Longrightarrow> hoare (holds_menu l) m (\<lambda>_. holds_menu (l @ es))"
  using holds_menu_fold [of l _ es] by (auto simp: adds_def hoare_def holds_menu_def)

lemma holds_menu_start: "hoare (\<lambda>s. s = going_back) ui_start_menu_ext (\<lambda>_. holds_menu [])"
  by (simp add: hoare_def holds_menu_def ui_start_menu_ext_def run_upd going_back_def sample_store_def boot_state_def)

lemma holds_menu_dir:
  assumes "hoare (holds_menu l) n Q"
  shows "hoare (holds_menu l) (do { d \<leftarrow> sys c; whenM (rc d < 0) fault; for_each (lst d) f; n }) Q"
proof (rule hoareI)
  fix s
  assume s: "holds_menu l s"
  then have "\<not> stopped s" "env s (trace s) c = Reply 0 [] []"
    by (simp_all add: holds_menu_def sample_store_def boot_state_def)
  moreover have "holds_menu l (s\<lparr>trace := trace s @ [c]\<rparr>)" using s by (simp add: holds_menu_def)
  ultimately show "Q (result (do { d \<leftarrow> sys c; whenM (rc d < 0) fault; for_each (lst d) f; n }) s)
      (exec (do { d \<leftarrow> sys c; whenM (rc d < 0) fault; for_each (lst d) f; n }) s)"
    using hoareD [OF assms] by (simp add: run_sys whenM_def split_beta)
qed

definition deleting_menu :: "menuElement list" where
  "deleting_menu = [header_element MENU_TYPE_GLOBAL_HEADER ''FILEMANAGER_HEADER'',
     header_element MENU_TYPE_GROUP_HEADER ''FILEMANAGER_COMMANDS'',
     menu_item (0, 1, MENU_TYPE_CHECKBOX, ''FILEMANAGER_CLIPBOARD_MODE''),
     menu_item (1, 4, MENU_TYPE_ELEMENT, ''FILEMANAGER_CONSOLE''), menu_item (2, 4, MENU_TYPE_ELEMENT, ''FILEMANAGER_PARTMAN''),
     menu_item (3, 4, MENU_TYPE_ELEMENT, ''FILEMANAGER_SAVELOG''),
     clip_element (1, ''FILEMANAGER_CLIP_MOVE''), clip_element (2, ''FILEMANAGER_CLIP_COPY''),
     clip_element (3, ''FILEMANAGER_CLIP_RM''), clip_element (4, ''FILEMANAGER_CLIP_CLEAR''),
     \<lparr>me_id = 0, me_group_id = 0, me_type = MENU_TYPE_GROUP_HEADER, me_text = Some ''/'', me_help = None\<rparr>,
     \<lparr>me_id = 0, me_group_id = 2, me_type = MENU_TYPE_ELEMENT, me_text = Some ''..'', me_help = None\<rparr>,
     header_element MENU_TYPE_GROUP_HEADER ''FILEMANAGER_CLIPBOARD'',
     \<lparr>me_id = 3, me_group_id = 3, me_type = MENU_TYPE_CHECKBOX, me_text = Some ''/x'', me_help = None\<rparr>]"

lemma on_delete_menu: "hoare (\<lambda>s. s = going_back) (fm_elements on_delete) (\<lambda>_. holds_menu deleting_menu)"
  unfolding fm_elements_def on_delete_def
  apply (simp only: manager.simps list.distinct not_False_eq_True if_False whenM_True)
  apply (rule hoare_weaken [where P' = "\<lambda>s. s = going_back"])
    apply (rule holds_menu_dir hoare_bind holds_menu_start holds_menu_adds adds_header adds_item adds_clip_items
      adds_for_each adds_element)+
   apply assumption
  apply (simp add: deleting_menu_def)
  done

lemma back_selects:
  assumes "menu_list s = Some l" "menu_items s = int (length l)" "selectable l i" "menu_sel s \<le> i" "\<not> stopped s"
    and "keys s = [Key (KEY_DEVICE_BACK (build s))]"
  shows "\<exists>s'. run_state (get_menu_selection_ext i e) s = ((GO_BACK, l ! nat i), s') \<and> \<not> stopped s' \<and> env s' = env s
    \<and> mainlog s' = mainlog s"
proof -
  define s1 where "s1 = s\<lparr>allow_display_toggle := True, gShowBackButton := False, show_text := True, show_menu := True,
    menu_sel := i, menu_pos := menu_scroll (menu_items s) i\<rparr>"
  have i: "0 \<le> i" "i < int (length l)" "\<not> is_header (l ! nat i)" using assms(3) by (simp_all add: selectable_def)
  then have "settle (Suc (length l)) l (int (length l)) True i = Settled i" by (simp add: settle.simps wrap_sel_def)
  then have sel: "run_state (ui_menu_select i) (s\<lparr>allow_display_toggle := True, gShowBackButton := False\<rparr>) = (i, s1)"
    using assms by (simp add: ui_menu_select_def run_upd s1_def)
  define s2 where "s2 = s1\<lparr>keys := []\<rparr>"
  have k: "KEY_DEVICE_BACK b \<noteq> KEY_DEVICE_POWER b" "device_handle_key b (KEY_DEVICE_BACK b) True = GO_BACK" for b
    by (simp_all add: key_defs device_handle_key_def)
  have key: "run_state ui_wait_key s1 = (KEY_DEVICE_BACK (build s), s2)"
    using assms(5,6) k by (simp add: ui_wait_key_def key_loop_def run_next_input handle_input_def run_upd s1_def s2_def
      device_toggle_display_def)
  have f: "show_text s2" "build s2 = build s" "menu_sel s2 = i" "menu_list s2 = Some l" "\<not> stopped s2"
    "env s2 = env s" "mainlog s2 = mainlog s" "length (keys s1) = 1"
    using assms by (simp_all add: s2_def s1_def)
  have round: "run_state (menu_round_ext e) s1 = (Inr (GO_BACK, l ! nat i), s2)"
    using f i k by (simp add: menu_round_ext_def key ui_get_selected_ext_def action_defs)
  have "run_state (get_menu_selection_ext i e) s =
      ((GO_BACK, l ! nat i), s2\<lparr>allow_display_toggle := False, show_text := False\<rparr>)"
    using assms(5) f by (simp add: get_menu_selection_ext_def run_upd ui_set_showing_back_button_def sel key_loop_def round
      ui_set_show_text_def)
  then show ?thesis using f by simp
qed

theorem back_runs_highlighted_witness:
  "Proc (System ''rm -rf /x'') \<in> set (trace (exec (fm_round on_delete) going_back))"
proof -
  define s1 where "s1 = exec (fm_elements on_delete) going_back"
  have "holds_menu deleting_menu s1" using hoareD [OF on_delete_menu refl] by (simp add: s1_def)
  then have s1: "menu_list s1 = Some deleting_menu" "menu_items s1 = int (length deleting_menu)" "menu_sel s1 = 0"
    "keys s1 = [Key (KEY_DEVICE_BACK (build s1))]" "\<not> stopped s1" "env s1 = env sample_store" "mainlog s1 = mainlog sample_store"
    by (auto simp: holds_menu_def deleting_menu_def key_defs sample_store_def boot_state_def split: option.splits)
  let ?me = "clip_element (3, ''FILEMANAGER_CLIP_RM'')"
  have me: "deleting_menu ! nat 8 = ?me" "selectable deleting_menu 8" "me_group_id ?me = 5" "me_id ?me = 3"
    by (simp_all add: deleting_menu_def selectable_def clip_element_def is_header_def menu_types)
  obtain s2 where s2: "run_state (get_menu_selection_ext (oldchoice on_delete) zero_element) s1 = ((GO_BACK, ?me), s2)"
    "\<not> stopped s2" "env s2 = env sample_store" "mainlog s2 = mainlog sample_store"
    using back_selects [of s1 deleting_menu 8 zero_element] s1 me by (auto simp: on_delete_def)
  then have "\<not> stopped (log_main (''rm -rf /x'' @ [LF]) (s2\<lparr>trace := u\<rparr>))" for u
    by (simp add: log_main_def vui_print_to_def sample_store_def boot_state_def ui_clear_screen_def)
  moreover have m: "fm_clipboard on_delete = [''/x'']" "fm_path on_delete = ''/''" by (simp_all add: on_delete_def)
  moreover have "clip_command 3 ''/'' ''/x'' = ''rm -rf /x''" by (simp add: clip_command_def)
  ultimately have ns: "\<not> stopped (exec (fm_round on_delete) going_back)"
    using s2(1,2) me m by (simp add: fm_round_def split_beta s1_def [symmetric] fm_action_def clip_action_def Let_def run_simps
      forget_def system_call_def ui_end_menu_def)
  show ?thesis using back_runs_highlighted [OF s2(1) [unfolded s1_def]] ns me by (simp add: m clip_command_def)
qed

end
