(* ===== verification/Recovery.thy ===== *)
theory Recovery
  imports Steamext
begin

text \<open>
  \<open>recovery.c\<close>: the arguments of the recovery, from the command line, the bootloader's message
  or the command file; leaving the recovery; the main menu; and \<open>main\<close>. Warnings and what is
  written to the standard streams (the properties of the system, the arguments) are left out.
  The command line has at least the program's name.
\<close>

definition COMMAND_FILE :: string where "COMMAND_FILE = ''CACHE:recovery/command''"
definition INTENT_FILE :: string where "INTENT_FILE = ''CACHE:recovery/intent''"
definition LOG_FILE :: string where "LOG_FILE = ''CACHE:recovery/log''"
definition SDCARD_PACKAGE_FILE :: string where "SDCARD_PACKAGE_FILE = ''SDCARD:update.zip''"
definition MAX_ARG_LENGTH :: nat where "MAX_ARG_LENGTH = 4096"
definition MAX_ARGS :: nat where "MAX_ARGS = 100"

section \<open>Files by root\<close>

text \<open>The path to open; for writing its directory is made.\<close>

definition root_path_for :: "bool \<Rightarrow> string \<Rightarrow> string option prog" where
  "root_path_for writing root_path = do {
     m \<leftarrow> ensure_root_path_mounted root_path;
     if m \<noteq> 0 then do { LOGE (''Can't mount '' @ root_path @ [LF]); ret None }
     else do {
       b \<leftarrow> gets build;
       case translate_root_path b root_path PATH_MAX of
         None \<Rightarrow> do { LOGE (''Bad path '' @ root_path @ [LF]); ret None }
       | Some path \<Rightarrow> do {
           whenM writing (do_call (Fs (CreateHierarchy path)));
           ret (Some path) } } }"

text \<open>\<open>fopen_root_path(root_path, "r")\<close> and its reading: the bytes. The missing command file is no error.\<close>

definition read_root_path :: "string \<Rightarrow> string option prog" where
  "read_root_path root_path = do {
     p \<leftarrow> root_path_for False root_path;
     case p of
       None \<Rightarrow> ret None
     | Some path \<Rightarrow> do {
         r \<leftarrow> sys (Fs (ReadFile path));
         if rc r < 0 then do {
           whenM (root_path \<noteq> COMMAND_FILE) (LOGE (''Can't open '' @ path @ [LF]));
           ret None
         } else ret (Some (dat r)) } }"

text \<open>\<open>fopen_root_path(root_path, "w")\<close>: the path of the file, emptied.\<close>

definition create_root_path :: "string \<Rightarrow> string option prog" where
  "create_root_path root_path = do {
     p \<leftarrow> root_path_for True root_path;
     case p of
       None \<Rightarrow> ret None
     | Some path \<Rightarrow> do {
         f \<leftarrow> call (Fs (Creat path));
         if f < 0 then do { LOGE (''Can't open '' @ path @ [LF]); ret None } else ret (Some path) } }"

section \<open>The arguments\<close>

text \<open>The bootloader's message, or zeros.\<close>

definition boot_message :: "bootloader_message prog" where
  "boot_message = do {
     misc \<leftarrow> opt has_misc;
     m \<leftarrow> (if misc then get_bootloader_message else ret None);
     ret (case m of None \<Rightarrow> zero_message | Some b \<Rightarrow> b) }"

text \<open>The arguments in a message: its lines, at most \<open>MAX_ARGS\<close>, when the first one is \<open>recovery\<close>.\<close>

definition terminated :: "string \<Rightarrow> string" where
  "terminated r = cstr (take (length r - 1) r)"

definition message_args :: "bootloader_message \<Rightarrow> string list option" where
  "message_args boot = (let ts = strtok_all [LF] (terminated (recovery boot)) in
     if ts \<noteq> [] \<and> hd ts = ''recovery'' then Some (take MAX_ARGS ts) else None)"

text \<open>A message without arguments, as it is reported: \<open>strtok\<close> has cut it after its first line.\<close>

definition bad_message :: "bootloader_message \<Rightarrow> string option" where
  "bad_message boot = (let r = terminated (recovery boot); n = takeWhile (\<lambda>c. c = LF) r in
     if r = [] \<or> hd r = CHR 0xFF then None
     else Some (take 20 (n @ takeWhile (\<lambda>c. c \<noteq> LF) (drop (length n) r))))"

text \<open>
  What \<open>strtok\<close> leaves of the text after a number of calls: the newline after each token is a zero.
  One call is made on a message without arguments, \<open>MAX_ARGS\<close> at most on the others.
\<close>

fun strtok_cut :: "nat \<Rightarrow> string \<Rightarrow> string" where
  "strtok_cut 0 r = r"
| "strtok_cut (Suc n) r =
     (let lead = takeWhile (\<lambda>c. c = LF) r; rest = drop (length lead) r;
          w = takeWhile (\<lambda>c. c \<noteq> LF \<and> c \<noteq> NUL) rest
      in lead @ w @ (case drop (length w) rest of
           [] \<Rightarrow> []
         | x # t \<Rightarrow> if x = LF then NUL # strtok_cut n t else x # t))"

definition looked_at :: "bootloader_message \<Rightarrow> bootloader_message" where
  "looked_at boot = boot\<lparr>recovery :=
     strtok_cut (if message_args boot = None then 1 else MAX_ARGS) (butlast (recovery boot) @ [NUL])\<rparr>"

definition args_from_message :: "bootloader_message \<Rightarrow> string list \<Rightarrow> (bootloader_message \<times> string list) prog" where
  "args_from_message boot argv =
     (if length argv > 1 then ret (boot, argv)
      else do {
        st \<leftarrow> call (Fs (Stat ''/tmp/.ignorebootmessage''));
        if st = 0 then ret (boot, argv)
        else case message_args boot of
          Some args \<Rightarrow> ret (looked_at boot, args)
        | None \<Rightarrow> do {
            (case bad_message boot of
               None \<Rightarrow> ret ()
             | Some t \<Rightarrow> LOGE (''Bad boot message'' @ [LF] @ quoted t @ [LF]));
            ret (looked_at boot, argv) } })"

text \<open>The lines of the command file. A line of nothing but its end has no token: a null pointer is copied.\<close>

fun line_args :: "string list \<Rightarrow> string list option" where
  "line_args [] = Some []"
| "line_args (l # ls) = (case fst (strtok [CR, LF] (cstr l)) of
     None \<Rightarrow> None
   | Some a \<Rightarrow> map_option (\<lambda>as. a # as) (line_args ls))"

definition args_from_file :: "string list \<Rightarrow> (bool \<times> string list) prog" where
  "args_from_file argv =
     (if length argv > 1 then ret (False, argv)
      else do {
        f \<leftarrow> read_root_path COMMAND_FILE;
        case f of
          None \<Rightarrow> ret (False, argv)
        | Some t \<Rightarrow> (case line_args (take (MAX_ARGS - 1) (fgets_all MAX_ARG_LENGTH t)) of
            None \<Rightarrow> do { fault; ret (True, argv) }
          | Some args \<Rightarrow> ret (True, take 1 argv @ args)) })"

text \<open>The message that makes the bootloader start the recovery with these arguments again.\<close>

definition args_message :: "bootloader_message \<Rightarrow> string list \<Rightarrow> bootloader_message" where
  "args_message boot args = boot\<lparr>
     command := strlcpy (command boot) ''boot-recovery'' 32,
     recovery := fold (\<lambda>a r. strlcat (strlcat r a 1024) [LF] 1024) args
       (strlcpy (recovery boot) (''recovery'' @ [LF]) 1024)\<rparr>"

definition store_args :: "bootloader_message \<Rightarrow> string list \<Rightarrow> unit prog" where
  "store_args boot argv = do {
     misc \<leftarrow> opt has_misc;
     whenM misc (do { _ \<leftarrow> set_bootloader_message (args_message boot (drop 1 argv)); ret () }) }"

text \<open>
  \<open>get_args\<close>: whether the command file was used, and the arguments. What is behind the new texts
  in the message written back is what was there before.
\<close>

definition get_args :: "string list \<Rightarrow> (bool \<times> string list) prog" where
  "get_args argv = do {
     boot \<leftarrow> boot_message;
     (boot, args) \<leftarrow> args_from_message boot argv;
     (use_command, args) \<leftarrow> args_from_file args;
     store_args boot args;
     ret (use_command, args) }"

section \<open>Leaving the recovery\<close>

definition write_intent :: "string \<Rightarrow> unit prog" where
  "write_intent send_intent = do {
     f \<leftarrow> create_root_path INTENT_FILE;
     case f of
       None \<Rightarrow> LOGE (''Can't open '' @ INTENT_FILE @ [LF])
     | Some path \<Rightarrow> do_call (Fs (WriteFile path send_intent)) }"

text \<open>
  The log: what has come since the last time, line by line (\<open>fputs\<close> ends at a zero byte), into a
  file that is emptied first.
\<close>

definition copied_log :: "nat \<Rightarrow> string \<Rightarrow> string" where
  "copied_log offset t = concat (map cstr (fgets_all 4096 (drop offset t)))"

definition copy_log :: "unit prog" where
  "copy_log = do {
     f \<leftarrow> create_root_path LOG_FILE;
     case f of
       None \<Rightarrow> LOGE (''Can't open '' @ LOG_FILE @ [LF])
     | Some path \<Rightarrow> do {
         tmp \<leftarrow> gets TEMPORARY_LOG_FILE;
         r \<leftarrow> sys (Fs (ReadFile tmp));
         if rc r < 0 then LOGE (''Can't open '' @ tmp @ [LF])
         else do {
           offset \<leftarrow> gets tmplog_offset;
           upd (\<lambda>s. s\<lparr>tmplog_offset := max offset (length (dat r))\<rparr>);
           do_call (Fs (WriteFile path (copied_log offset (dat r))))
         } } }"

definition clear_message :: "unit prog" where
  "clear_message = do {
     misc \<leftarrow> opt has_misc;
     whenM misc (do { _ \<leftarrow> set_bootloader_message zero_message; ret () }) }"

definition remove_command_file :: "unit prog" where
  "remove_command_file = do {
     m \<leftarrow> ensure_root_path_mounted COMMAND_FILE;
     b \<leftarrow> gets build;
     if m \<noteq> 0 then ret ()
     else case translate_root_path b COMMAND_FILE PATH_MAX of
       None \<Rightarrow> ret ()
     | Some path \<Rightarrow> do_call (Fs (Unlink path)) }"

definition finish_recovery :: "string option \<Rightarrow> unit prog" where
  "finish_recovery send_intent = do {
     (case send_intent of None \<Rightarrow> ret () | Some i \<Rightarrow> write_intent i);
     copy_log;
     clear_message;
     remove_command_file;
     do_call Sync }"

section \<open>Erasing\<close>

definition erase_root :: "string \<Rightarrow> int prog" where
  "erase_root r = do {
     ui_set_background BACKGROUND_ICON_INSTALLING;
     ui_show_indeterminate_progress;
     ui_print (''Formatting '' @ r @ ''...'' @ [LF]);
     format_root_device r }"

definition device_wipe_data :: int where "device_wipe_data = 0"

definition erase_data :: "unit prog" where
  "erase_data = do {
     ui_print ([LF] @ ''-- Wiping data...'' @ [LF]);
     _ \<leftarrow> erase_root ''DATA:'';
     datadata \<leftarrow> opt has_datadata;
     whenM datadata (do { _ \<leftarrow> erase_root ''DATADATA:''; ret () });
     _ \<leftarrow> erase_root ''CACHE:'';
     _ \<leftarrow> erase_root ''SDEXT:'';
     _ \<leftarrow> erase_root ''SDCARD:/.android_secure'';
     ui_print (''Data wipe complete.'' @ [LF]) }"

definition wipe_data :: "bool \<Rightarrow> unit prog" where
  "wipe_data confirm =
     (if confirm then do {
        chosen_item \<leftarrow> get_menu_selection [''Confirm wipe of all user data?'', ''  THIS CAN NOT BE UNDONE.'', []]
          (replicate 7 '' No'' @ ['' Yes -- delete all user data''] @ replicate 3 '' No'') True;
        if chosen_item \<noteq> 7 then ret () else erase_data
      } else erase_data)"

section \<open>The main menu\<close>

text \<open>The menu of reboots; whether the phone's system is to be started.\<close>

definition reboot_menu :: "bool prog" where
  "reboot_menu = key_loop False (\<lambda>_. do {
     ci \<leftarrow> get_menu_selection [loc ''REBOOT_HEADER'' []]
       [loc ''REBOOT_NORMAL'' [], loc ''REBOOT_RECOVERY'' [], loc ''REBOOT_DOWNLOAD'' []] False;
     if ci = GO_BACK then ret (Inr False)
     else if ci = 0 then ret (Inr True)
     else if ci = 1 then do { do_call (Reboot ''recovery''); ret (Inl ()) }
     else if ci = 2 then do { do_call (Reboot ''download''); ret (Inl ()) }
     else ret (Inl ()) }) ()"

text \<open>Installing from the SD card; whether the menu is left.\<close>

definition apply_sdcard :: "('c, RSAPublicKey) venv \<Rightarrow> string \<Rightarrow> bool prog" where
  "apply_sdcard v api = do {
     yes \<leftarrow> confirm_selection (loc ''MENU_INSTALL_CONFIRM'' []) (loc ''MENU_INSTALL_YES'' []);
     if \<not> yes then ret False
     else do {
       ui_print ([LF] @ ''-- Install from sdcard...'' @ [LF]);
       misc \<leftarrow> opt has_misc;
       whenM misc set_sdcard_update_bootloader_message;
       st \<leftarrow> install_package v api SDCARD_PACKAGE_FILE;
       visible \<leftarrow> gets show_text;
       pending \<leftarrow> gets firmware_update_pending;
       if st \<noteq> INSTALL_SUCCESS then do {
         ui_set_background BACKGROUND_ICON_ERROR;
         ui_print (loc ''MENU_INSTALL_ABORT'' []);
         ret False
       } else if \<not> visible then ret True
       else do {
         ui_print (if misc \<and> pending then loc ''MENU_INSTALL_NEEDREBOOT'' [] else loc ''MENU_INSTALL_DONE'' []);
         ret False
       } } }"

definition MENU_ITEMS :: "string list" where
  "MENU_ITEMS = map (\<lambda>t. loc t []) [''MENU_REBOOT_RECOVERY'', ''MENU_APPLY_SDCARD'', ''MENU_WIPE_ALL'', ''MENU_WIPE_CACHE'',
     ''MENU_INSTALL_SDCARD'', ''MENU_BACKUP'', ''MENU_ADV_ULK'', ''MENU_AFTERBURNER'']"

text \<open>What follows the choice of an item; whether the menu is left.\<close>

definition main_item :: "('c, RSAPublicKey) venv \<Rightarrow> string \<Rightarrow> kit \<Rightarrow> int \<Rightarrow> bool prog" where
  "main_item v api k chosen_item =
     (if chosen_item = 0 then reboot_menu
      else if chosen_item = 1 then apply_sdcard v api
      else if chosen_item = 2 then do { wipe_data True; ret False }
      else if chosen_item = 3 then do {
        yes \<leftarrow> confirm_selection (loc ''MENU_WIPE_CACHE_CONFIRM'' []) (loc ''MENU_WIPE_CACHE_YES'' []);
        whenM yes (do {
          ui_print ([LF] @ ''-- Wiping cache...'' @ [LF]);
          _ \<leftarrow> erase_root ''CACHE:'';
          ui_print (loc ''MENU_WIPE_CACHE_DONE'' []) });
        ret False }
      else if chosen_item = 4 then do { show_install_update_menu v api; ret False }
      else if chosen_item = 5 then do { show_nandroid_menu; ret False }
      else if chosen_item = 6 then do { show_advanced_lfs_menu k; ret False }
      else if chosen_item = 7 then do {
        r \<leftarrow> do_steam_afterburner v api 2;
        whenM (r = 0) (ui_print (loc ''OEM_AFTERBURNER_NOTFOUND'' []));
        ret False }
      else ret False)"

definition prompt_and_wait :: "('c, RSAPublicKey) venv \<Rightarrow> string \<Rightarrow> kit \<Rightarrow> unit prog" where
  "prompt_and_wait v api k = key_loop () (\<lambda>_. do {
     finish_recovery None;
     ui_reset_progress;
     chosen_item \<leftarrow> get_menu_selection [recovery_version k, []] MENU_ITEMS False;
     leave \<leftarrow> main_item v api k (device_perform_action chosen_item);
     ret (if leave then Inr () else Inl ()) }) ()"

section \<open>The options\<close>

text \<open>
  \<open>getopt_long\<close> with the table \<open>OPTIONS\<close>: a name may be cut short while only one option begins
  with it, a required argument follows an equals sign or is the next word, and words that are
  no options are passed over. The short names \<open>s\<close>, \<open>u\<close>, \<open>w\<close> and \<open>c\<close> are what it answers; \<open>Bad\<close> is
  its question mark.
\<close>

datatype option_found = Send_intent string | Update_package string | Wipe_data | Wipe_cache | Bad

definition OPTIONS :: "string list" where
  "OPTIONS = [''send_intent'', ''update_package'', ''wipe_data'', ''wipe_cache'']"

definition match_option :: "string \<Rightarrow> string option" where
  "match_option n =
     (if n \<in> set OPTIONS then Some n
      else case filter (prefix n) OPTIONS of [x] \<Rightarrow> Some x | _ \<Rightarrow> None)"

definition option_arg :: "string \<Rightarrow> string \<Rightarrow> option_found" where
  "option_arg n a = (if n = ''send_intent'' then Send_intent a else Update_package a)"

fun getopt_long :: "string list \<Rightarrow> option_found list" where
  "getopt_long [] = []"
| "getopt_long (w # ws) =
     (if w = ''--'' then []
      else if prefix ''--'' w then
        (let body = drop 2 w; n = takeWhile (\<lambda>c. c \<noteq> CHR ''='') body; eq = CHR ''='' \<in> set body;
             a = drop (length n + 1) body in
         case match_option n of
           None \<Rightarrow> Bad # getopt_long ws
         | Some x \<Rightarrow>
             if x = ''wipe_data'' \<or> x = ''wipe_cache'' then
               (if eq then Bad else if x = ''wipe_data'' then Wipe_data else Wipe_cache) # getopt_long ws
             else if eq then option_arg x a # getopt_long ws
             else (case ws of [] \<Rightarrow> [Bad] | w' # ws' \<Rightarrow> option_arg x w' # getopt_long ws'))
      else if prefix ''-'' w \<and> w \<noteq> ''-'' then replicate (length w - 1) Bad @ getopt_long ws
      else getopt_long ws)"

record order =
  send_intent :: "string option"
  update_package :: "string option"
  ord_wipe_data :: bool
  ord_wipe_cache :: bool

fun take_option :: "option_found \<Rightarrow> order \<Rightarrow> order" where
  "take_option (Send_intent i) o1 = o1\<lparr>send_intent := Some i\<rparr>"
| "take_option (Update_package p) o1 = o1\<lparr>update_package := Some p\<rparr>"
| "take_option Wipe_data o1 = o1\<lparr>ord_wipe_data := True, ord_wipe_cache := True\<rparr>"
| "take_option Wipe_cache o1 = o1\<lparr>ord_wipe_cache := True\<rparr>"
| "take_option Bad o1 = o1"

definition order_of :: "option_found list \<Rightarrow> order" where
  "order_of os = fold take_option os \<lparr>send_intent = None, update_package = None, ord_wipe_data = False, ord_wipe_cache = False\<rparr>"

definition parse_options :: "string list \<Rightarrow> order prog" where
  "parse_options argv = do {
     let os = getopt_long (drop 1 argv);
     for_each os (\<lambda>x. whenM (x = Bad) (LOGE (''Invalid command argument'' @ [LF])));
     ret (order_of os) }"

section \<open>The main program\<close>

text \<open>The update: the result of wiping the data before it is lost.\<close>

definition install_update :: "('c, RSAPublicKey) venv \<Rightarrow> string \<Rightarrow> order \<Rightarrow> string \<Rightarrow> int prog" where
  "install_update v api o1 package = do {
     whenM (ord_wipe_data o1) (do { _ \<leftarrow> erase_root ''DATA:''; ret () });
     st \<leftarrow> install_package v api package;
     whenM (st \<noteq> INSTALL_SUCCESS) (ui_print (''Installation aborted.'' @ [LF]));
     ret st }"

definition wipe_order :: "order \<Rightarrow> int prog" where
  "wipe_order o1 = do {
     d \<leftarrow> erase_root ''DATA:'';
     c \<leftarrow> (if ord_wipe_cache o1 then erase_root ''CACHE:'' else ret 0);
     let st = (if device_wipe_data \<noteq> 0 \<or> d \<noteq> 0 \<or> c \<noteq> 0 then INSTALL_ERROR else INSTALL_SUCCESS);
     whenM (st \<noteq> INSTALL_SUCCESS) (ui_print (''Data wipe failed.'' @ [LF]));
     ret st }"

definition wipe_cache_order :: "int prog" where
  "wipe_cache_order = do {
     c \<leftarrow> erase_root ''CACHE:'';
     let st = (if c \<noteq> 0 then INSTALL_ERROR else INSTALL_SUCCESS);
     whenM (st \<noteq> INSTALL_SUCCESS) (ui_print (''Cache wipe failed.'' @ [LF]));
     ret st }"

definition user_recovery :: "int prog" where
  "user_recovery = do {
     upd (\<lambda>s. s\<lparr>signature_check_enabled := False, script_assert_enabled := False\<rparr>);
     ui_set_show_text True;
     e \<leftarrow> extendedcommand_file_exists;
     if e then do {
       r \<leftarrow> run_and_remove_extendedcommand;
       if r = 0 then do { ui_set_show_text False; ret INSTALL_SUCCESS }
       else do { handle_failure r; ret INSTALL_ERROR }
     } else ret INSTALL_ERROR }"

text \<open>Carrying the order out: whether the user started the recovery, and the status.\<close>

definition carry_out :: "('c, RSAPublicKey) venv \<Rightarrow> string \<Rightarrow> order \<Rightarrow> (bool \<times> int) prog" where
  "carry_out v api o1 = do {
     upd (\<lambda>s. s\<lparr>signature_check_enabled := False\<rparr>);
     case update_package o1 of
       Some p \<Rightarrow> do { st \<leftarrow> install_update v api o1 p; ret (False, st) }
     | None \<Rightarrow>
         if ord_wipe_data o1 then do { st \<leftarrow> wipe_order o1; ret (False, st) }
         else if ord_wipe_cache o1 then do { st \<leftarrow> wipe_cache_order; ret (False, st) }
         else do { st \<leftarrow> user_recovery; ret (True, st) } }"

definition leave_recovery :: "string option \<Rightarrow> int prog" where
  "leave_recovery intent = do {
     misc \<leftarrow> opt has_misc;
     whenM misc (do { _ \<leftarrow> maybe_install_firmware_update intent; ret () });
     finish_recovery intent;
     ui_print (''Rebooting...'' @ [LF]);
     do_call Sync;
     do_call (Reboot ''RB_AUTOBOOT'');
     ui_done;
     ret 0 }"

text \<open>The part of \<open>main\<close> after the configuration's orders.\<close>

definition main_orders :: "('c, RSAPublicKey) venv \<Rightarrow> string \<Rightarrow> kit \<Rightarrow> string list \<Rightarrow> int prog" where
  "main_orders v api k argv = do {
     o1 \<leftarrow> parse_options argv;
     r \<leftarrow> register_update_commands v api;
     whenM (r \<noteq> 0) (LOGE (''Can't install update commands'' @ [LF]));
     (user, st) \<leftarrow> carry_out v api o1;
     whenM (st \<noteq> INSTALL_SUCCESS \<and> \<not> user) (ui_set_background BACKGROUND_ICON_ERROR);
     visible \<leftarrow> gets show_text;
     whenM (st \<noteq> INSTALL_SUCCESS \<or> visible) (prompt_and_wait v api k);
     leave_recovery (send_intent o1) }"

text \<open>An order the configuration keeps under a key; whether the program ends with it.\<close>

definition conf_order :: "string \<Rightarrow> int prog \<Rightarrow> bool prog" where
  "conf_order key m = do {
     x \<leftarrow> get_conf_def key ''0'';
     if x = ''1'' then do { r \<leftarrow> m; ret (r \<noteq> 0) } else ret False }"

definition recovery_main :: "('c, RSAPublicKey) venv \<Rightarrow> string \<Rightarrow> kit \<Rightarrow> string list \<Rightarrow> int prog" where
  "recovery_main v api k argv = do {
     _ \<leftarrow> system_call ''/sbin/postrecoveryboot.sh'';
     do_call TimeOf;
     create_fstab;
     _ \<leftarrow> init_conf;
     ui_init;
     ui_print (recovery_version k @ [LF]);
     (use_command, args) \<leftarrow> get_args argv;
     d \<leftarrow> (if use_command then do { r \<leftarrow> do_steam_install_fromcache; ret (r \<noteq> 0) } else ret False);
     if d then ret 0
     else do {
       d \<leftarrow> conf_order ''steam.installation'' (do_steam_install v api);
       if d then ret 0
       else do {
         d \<leftarrow> conf_order ''steam.upgrade'' do_steam_upgrade;
         if d then ret 0
         else do {
           d \<leftarrow> conf_order ''steam.uninstallation'' do_steam_uninstall;
           if d then ret 0 else main_orders v api k args } } } }"

section \<open>The arguments survive a restart\<close>

lemma length_strtok_cut [simp]: "length (strtok_cut n r) = length r"
proof (induction n r rule: strtok_cut.induct)
  case (2 n r)
  define lead where "lead = takeWhile (\<lambda>c. c = LF) r"
  define rest where "rest = drop (length lead) r"
  define w where "w = takeWhile (\<lambda>c. c \<noteq> LF \<and> c \<noteq> NUL) rest"
  have ll: "length lead \<le> length r" "length rest = length r - length lead" "length w \<le> length rest"
    using length_takeWhile_le [of "\<lambda>c. c = LF" r] length_takeWhile_le [of "\<lambda>c. c \<noteq> LF \<and> c \<noteq> NUL" rest]
    by (simp_all add: rest_def lead_def w_def)
  have cut: "strtok_cut (Suc n) r = lead @ w @ (case drop (length w) rest of [] \<Rightarrow> []
      | x # t \<Rightarrow> if x = LF then NUL # strtok_cut n t else x # t)"
    by (simp add: lead_def rest_def w_def Let_def)
  show ?case
  proof (cases "drop (length w) rest")
    case Nil
    then have "length rest = length w" using ll by simp
    then show ?thesis using ll Nil by (simp add: cut del: strtok_cut.simps)
  next
    case (Cons x t)
    have "length (strtok_cut n t) = length t" if "x = LF"
      using 2 [OF lead_def rest_def w_def Cons] that by simp
    moreover have "length rest = length w + Suc (length t)"
      using arg_cong [OF Cons, of length] ll by simp
    ultimately show ?thesis using ll Cons by (simp add: cut del: strtok_cut.simps(2))
  qed
qed simp

lemma wf_looked_at: "wf_message boot \<Longrightarrow> wf_message (looked_at boot)"
  by (auto simp: wf_message_def looked_at_def)

definition args_text :: "string list \<Rightarrow> string" where
  "args_text as = concat (map (\<lambda>a. a @ [LF]) as)"

lemma cstr_take_all: "length (cstr s) \<le> n \<Longrightarrow> cstr (take n s) = cstr s"
  unfolding cstr_def
proof (induction s arbitrary: n)
  case (Cons c s)
  then show ?case by (cases n) auto
qed simp

lemma cstr_args_message:
  assumes "\<forall>a \<in> set as. no_nul a" and "length r = 1024" and "length (cstr r) + length (args_text as) < 1024"
  shows "length (fold (\<lambda>a r. strlcat (strlcat r a 1024) [LF] 1024) as r) = 1024
    \<and> cstr (fold (\<lambda>a r. strlcat (strlcat r a 1024) [LF] 1024) as r) = cstr r @ args_text as"
  using assms
proof (induction as arbitrary: r)
  case (Cons a as)
  let ?r = "strlcat (strlcat r a 1024) [LF] 1024"
  have a: "cstr (strlcat r a 1024) = cstr r @ a"
    using Cons.prems by (subst cstr_strlcat) (auto simp: args_text_def)
  have "cstr ?r = cstr r @ a @ [LF]"
    using Cons.prems a by (subst cstr_strlcat) (auto simp: args_text_def)
  with Cons.IH [of ?r] Cons.prems show ?case by (simp add: args_text_def)
qed (simp add: args_text_def)

text \<open>Arguments that a message can hold: words without newlines, and not too many of them.\<close>

definition args_ok :: "string list \<Rightarrow> bool" where
  "args_ok as \<longleftrightarrow> (\<forall>a \<in> set as. a \<noteq> [] \<and> no_nul a \<and> LF \<notin> set a) \<and> length as < MAX_ARGS \<and> 9 + length (args_text as) < 1024"

lemma wf_args_message: "wf_message boot \<Longrightarrow> wf_message (args_message boot as)"
proof -
  have "length (fold (\<lambda>a r. strlcat (strlcat r a 1024) [LF] 1024) as r) = 1024" if "length r = 1024" for r
    using that by (induction as arbitrary: r) simp_all
  then show "wf_message boot \<Longrightarrow> wf_message (args_message boot as)"
    by (simp add: wf_message_def args_message_def)
qed

lemma message_args_back:
  assumes "wf_message boot" and "args_ok as"
  shows "message_args (args_message boot as) = Some (''recovery'' # as)"
proof -
  define start where "start = strlcpy (recovery boot) (''recovery'' @ [LF]) 1024"
  let ?r = "fold (\<lambda>a r. strlcat (strlcat r a 1024) [LF] 1024) as start"
  have r0: "length start = 1024" "cstr start = ''recovery'' @ [LF]"
    using assms(1) by (simp_all add: start_def wf_message_def cstr_strlcpy cstr_id)
  have as: "\<forall>a \<in> set as. no_nul a" using assms(2) by (simp add: args_ok_def)
  have "length (cstr start) + length (args_text as) < 1024" using assms(2) r0(2) by (simp add: args_ok_def)
  from cstr_args_message [OF as r0(1) this]
  have r: "length ?r = 1024" "cstr ?r = args_text (''recovery'' # as)" by (simp_all add: r0(2) args_text_def)
  have len: "length (cstr ?r) < 1024"
    using assms(2) r(2) by (simp add: args_ok_def args_text_def)
  have "cstr (take 1023 ?r) = cstr ?r"
    using cstr_take_all [of ?r 1023] len r(1) by simp
  then have "terminated (recovery (args_message boot as)) = args_text (''recovery'' # as)"
    using r by (simp add: terminated_def args_message_def start_def)
  moreover have "strtok_all [LF] (args_text (''recovery'' # as)) = ''recovery'' # as"
    unfolding args_text_def using assms(2) by (intro strtok_all_lines) (auto simp: args_ok_def)
  ultimately show ?thesis using assms(2) by (simp add: message_args_def args_ok_def)
qed

text \<open>
  C23. The arguments survive a restart. The last step of \<open>get_args\<close> stores the arguments in the
  bootloader's message. If the phone restarts into the recovery at any time before that message
  changes, \<open>get_args\<close> finds the same arguments again, without the command file.
\<close>

theorem args_survive_restart:
  assumes "\<not> stopped s" and "holds_pages w init s" and "wf_message boot" and "args_ok as" and "as \<noteq> []"
    and "\<And>h. rc (env s h (Fs (Stat ''/tmp/.ignorebootmessage''))) \<noteq> 0"
  shows "result (get_args [program]) (exec (store_args boot (program # as)) s) = (False, ''recovery'' # as)"
proof -
  let ?m = "args_message boot as"
  note wf = wf_args_message [OF assms(3), of as] and size = holds_pages_size [OF assms(2)]
  obtain t where t: "run_state (set_bootloader_message ?m) s = (0, s\<lparr>trace := trace s @ t\<rparr>)"
    "flash_bytes init (trace s @ t) = with_message w ?m (flash_bytes init (trace s))"
    using run_set_message [OF assms(1,2) wf] by blast
  define s1 where "s1 = s\<lparr>trace := trace s @ t\<rparr>"
  have misc: "has_misc (build s)" using assms(2) by (simp add: holds_pages_def)
  have store: "exec (store_args boot (program # as)) s = s1"
    using t(1) misc by (simp add: store_args_def whenM_def s1_def)
  have p: "holds_pages w init s1"
    using assms(2) t(2) length_with_message [OF wf size] by (simp add: holds_pages_def s1_def)
  have m: "flash_message w init s1 = ?m"
    using t(2) with_message_back [OF wf] size by (simp add: flash_message_def s1_def)
  have bm: "run_state boot_message s1 = (?m, s1\<lparr>trace := trace s1 @ misc_read_calls w\<rparr>)"
    using run_get_message [OF _ p] assms(1) misc m by (simp add: boot_message_def s1_def)
  have "message_args ?m = Some (''recovery'' # as)" by (rule message_args_back [OF assms(3,4)])
  then show ?thesis
    using assms(1,5,6) store bm
    by (simp add: get_args_def args_from_message_def args_from_file_def run_simps s1_def split_beta)
qed

text \<open>The factory reset, on a phone whose flash has not been written yet.\<close>

definition fresh_phone :: world where
  "fresh_phone = sample_store\<lparr>env := (\<lambda>h c. if c = Fs (Stat ''/tmp/.ignorebootmessage'') then Reply (-1) [] []
     else misc_env 2048 (replicate 6144 CHR 0xFF) h c)\<rparr>"

lemma fresh_phone_misc: "\<not> stopped fresh_phone" "holds_pages 2048 (replicate 6144 CHR 0xFF) fresh_phone"
  by (simp_all add: fresh_phone_def sample_store_def boot_state_def holds_pages_def working_misc_def misc_env_def
      flash_bytes_def flash_state_def)

theorem args_survive_restart_witness:
  "result (get_args [''recovery'']) (exec (store_args zero_message [''recovery'', ''--wipe_data'']) fresh_phone) =
     (False, [''recovery'', ''--wipe_data''])"
  by (rule args_survive_restart [OF fresh_phone_misc wf_zero_message])
     (simp_all add: args_ok_def args_text_def MAX_ARGS_def fresh_phone_def)

section \<open>A factory reset can be restarted\<close>

lemma block_root_info:
  "get_root_info_for_path b ''DATA:'' =
     Some (root ''DATA:'' (Some (Block (DATA_BLOCK_NAME b))) (Some ''userdata'') (Some ''/data'') (Some G_auto) None)"
  "get_root_info_for_path b ''CACHE:'' =
     Some (root ''CACHE:'' (Some (Block (CACHE_BLOCK_NAME b))) (Some ''cache'') (Some ''/cache'') (Some G_auto) None)"
  using root_info [of "root ''DATA:'' (Some (Block (DATA_BLOCK_NAME b))) (Some ''userdata'') (Some ''/data'') (Some G_auto) None" b "[]"]
    root_info [of "root ''CACHE:'' (Some (Block (CACHE_BLOCK_NAME b))) (Some ''cache'') (Some ''/cache'') (Some G_auto) None" b "[]"]
  by (simp_all add: g_roots_def root_def)

text \<open>Data and cache are not on flash: erasing them is formatting a filesystem.\<close>

lemma emits_erase_block:
  assumes "r = ''DATA:'' \<or> r = ''CACHE:''"
  shows "emits mount_level (erase_root r)"
proof -
  have f: "emits mount_level (format_root_device r)"
    using assms unfolding format_root_device_def
    by (auto simp: block_root_info root_def intro!: emits_intros)
  show ?thesis unfolding erase_root_def by (intro emits_bind emits_ui_simple emits_print f) simp
qed

lemma emits_erase_root [emits_intros]:
  "(\<And>c. erase_level c \<Longrightarrow> P c) \<Longrightarrow> emits P (erase_root r)"
  unfolding erase_root_def by (intro emits_intros; simp)

lemma flash_step_mount: "mount_level c \<Longrightarrow> flash_step c st = st"
  by (cases "(c, st)" rule: flash_step.cases) auto

lemma flash_state_mount: "list_all mount_level t \<Longrightarrow> flash_state init (h @ t) = flash_state init h"
  by (induction t arbitrary: h) (auto simp: flash_state_def flash_step_mount)

lemma flash_bytes_mount: "list_all mount_level t \<Longrightarrow> flash_bytes init (h @ t) = flash_bytes init h"
  by (simp add: flash_bytes_def flash_state_mount)

lemma emits_wipe_orders:
  "emits mount_level (wipe_order o1)" "emits mount_level wipe_cache_order"
  unfolding wipe_order_def wipe_cache_order_def Let_def by (intro emits_intros emits_erase_block; simp)+

text \<open>
  C24. The order to wipe stays until the recovery is left. While the recovery carries out an
  order to wipe the data or the cache, at no moment does the flash hold anything but what it
  held before: the message with the order is there, wherever the execution is cut off.
\<close>

theorem wipe_keeps_message:
  assumes "update_package o1 = None" and "ord_wipe_data o1 \<or> ord_wipe_cache o1"
  shows "\<exists>t. trace (exec (carry_out v api o1) s) = trace s @ t
    \<and> (\<forall>n. flash_bytes init (trace s @ take n t) = flash_bytes init (trace s))"
proof -
  let ?s = "exec (upd (\<lambda>s. s\<lparr>signature_check_enabled := False\<rparr>)) s"
  let ?m = "if ord_wipe_data o1 then wipe_order o1 else wipe_cache_order"
  obtain t where t: "trace (exec ?m ?s) = trace ?s @ t" "list_all mount_level t"
    using emitsD [OF emits_if [OF emits_wipe_orders], of "ord_wipe_data o1" o1 ?s] by blast
  have "trace (exec (carry_out v api o1) s) = trace (exec ?m ?s)"
    using assms by (auto simp: carry_out_def split_beta)
  moreover have "trace ?s = trace s" by (simp add: run_upd)
  moreover have "list_all mount_level (take n t)" for n
    using t(2) by (auto simp: list_all_iff dest: in_set_takeD)
  ultimately show ?thesis using t(1) flash_bytes_mount by metis
qed

theorem wipe_keeps_message_witness:
  "\<exists>t. trace (exec (carry_out key_venv ''2'' (order_of (getopt_long [''--wipe_data'']))) fresh_phone) = trace fresh_phone @ t
    \<and> (\<forall>n. flash_bytes (replicate 6144 CHR 0xFF) (trace fresh_phone @ take n t) = flash_bytes (replicate 6144 CHR 0xFF) (trace fresh_phone))"
  by (rule wipe_keeps_message) (simp_all add: order_of_def match_option_def OPTIONS_def)

section \<open>Updates of the main system are not verified\<close>

text \<open>Two programs that do the same while the signature check is off.\<close>

definition same_unchecked :: "'a prog \<Rightarrow> 'a prog \<Rightarrow> bool" where
  "same_unchecked m m' \<longleftrightarrow> (\<forall>s. \<not> signature_check_enabled s \<longrightarrow> run_state m s = run_state m' s)"

lemma same_unchecked_refl: "same_unchecked m m"
  by (simp add: same_unchecked_def)

lemma same_unchecked_bind:
  "emits (\<lambda>_. True) m \<Longrightarrow> (\<And>x. same_unchecked (f x) (f' x)) \<Longrightarrow> same_unchecked (m \<bind> f) (m \<bind> f')"
  unfolding same_unchecked_def by (auto split: prod.splits) (metis emits_signature snd_conv)

lemma same_unchecked_first:
  "same_unchecked m m' \<Longrightarrow> same_unchecked (m \<bind> f) (m' \<bind> f)"
  by (simp add: same_unchecked_def)

lemma same_unchecked_if:
  "(b \<Longrightarrow> same_unchecked m n) \<Longrightarrow> (\<not> b \<Longrightarrow> same_unchecked m' n') \<Longrightarrow>
   same_unchecked (if b then m else m') (if b then n else n')"
  by simp

lemma same_unchecked_option:
  "same_unchecked m n \<Longrightarrow> (\<And>y. same_unchecked (f y) (g y)) \<Longrightarrow>
   same_unchecked (case x of None \<Rightarrow> m | Some y \<Rightarrow> f y) (case x of None \<Rightarrow> n | Some y \<Rightarrow> g y)"
  by (cases x) simp_all

lemma same_unchecked_check:
  "same_unchecked (f False) (f' False) \<Longrightarrow>
   same_unchecked (gets signature_check_enabled \<bind> f) (gets signature_check_enabled \<bind> f')"
  by (simp add: same_unchecked_def)

lemma install_unchecked: "same_unchecked (install_package v api p) (install_package v' api p)"
  unfolding install_package_def
  by (rule same_unchecked_bind [OF emits_ui_simple(1)], rule same_unchecked_bind [OF emits_print], simp,
      rule same_unchecked_bind [OF emits_ui_simple(2)], rule same_unchecked_bind [OF emits_ensure_root_path_mounted], simp,
      rule same_unchecked_if, rule same_unchecked_refl, rule same_unchecked_bind [OF emits_gets],
      rule same_unchecked_option, rule same_unchecked_refl, rule same_unchecked_bind [OF emits_print], simp,
      rule same_unchecked_check) (simp add: same_unchecked_refl)

text \<open>
  C25. No update of the main system is verified. \<open>main\<close> switches the signature check off before
  it carries out its orders, so what it does with \<open>--update_package\<close> (and with every other order)
  is the same whatever keys, digests and signatures there are.
\<close>

theorem update_never_verified:
  assumes "\<not> stopped s"
  shows "run_state (carry_out v api o1) s = run_state (carry_out v' api o1) s"
proof -
  have u: "same_unchecked (install_update v api o1 p) (install_update v' api o1 p)" for p
    unfolding install_update_def
    by (rule same_unchecked_bind, (intro emits_intros TrueI; fail)[1], rule same_unchecked_first [OF install_unchecked])
  have "run_state (install_update v api o1 p) (s\<lparr>signature_check_enabled := False\<rparr>) =
    run_state (install_update v' api o1 p) (s\<lparr>signature_check_enabled := False\<rparr>)" for p
    using u [of p] by (simp add: same_unchecked_def)
  then show ?thesis using assms by (simp add: carry_out_def run_upd split: option.split)
qed

text \<open>A package is installed whether all signatures are accepted or all are refused.\<close>

theorem update_never_verified_witness:
  "run_state (carry_out key_venv ''2'' (order_of (getopt_long [''--update_package=CACHE:a.zip'']))) fresh_phone =
   run_state (carry_out (key_venv\<lparr>RSA_verify := \<lambda>_ _ _. False\<rparr>) ''2''
     (order_of (getopt_long [''--update_package=CACHE:a.zip'']))) fresh_phone"
  by (rule update_never_verified) (rule fresh_phone_misc(1))

section \<open>Leaving the recovery clears the order\<close>

lemma emits_root_path_for [emits_intros]:
  "(\<And>c. mount_level c \<Longrightarrow> P c) \<Longrightarrow> emits P (root_path_for b r)"
  unfolding root_path_for_def by (intro emits_intros; simp)

lemma emits_create_root_path [emits_intros]:
  "(\<And>c. mount_level c \<Longrightarrow> P c) \<Longrightarrow> emits P (create_root_path r)"
  unfolding create_root_path_def by (intro emits_intros; simp)

lemma emits_leaving [emits_intros]:
  "(\<And>c. mount_level c \<Longrightarrow> P c) \<Longrightarrow> emits P (write_intent i)"
  "(\<And>c. mount_level c \<Longrightarrow> P c) \<Longrightarrow> emits P copy_log"
  "(\<And>c. mount_level c \<Longrightarrow> P c) \<Longrightarrow> emits P remove_command_file"
  unfolding write_intent_def copy_log_def remove_command_file_def by (intro emits_intros; simp)+

lemma holds_pages_emits:
  assumes "emits mount_level m" and "holds_pages w init s"
  shows "holds_pages w init (exec m s)" and "flash_message w init (exec m s) = flash_message w init s"
proof -
  obtain t where "trace (exec m s) = trace s @ t" "list_all mount_level t" using emitsD [OF assms(1)] by blast
  then have "flash_bytes init (trace (exec m s)) = flash_bytes init (trace s)" by (simp add: flash_bytes_mount)
  with assms emits_consts [OF assms(1), of s]
  show "holds_pages w init (exec m s)" "flash_message w init (exec m s) = flash_message w init s"
    by (simp_all add: holds_pages_def flash_message_def)
qed

lemma clear_message_clears:
  assumes "\<not> stopped s" and "holds_pages w init s"
  shows "holds_pages w init (exec clear_message s) \<and> flash_message w init (exec clear_message s) = zero_message"
proof -
  note size = holds_pages_size [OF assms(2)]
  obtain t where t: "run_state (set_bootloader_message zero_message) s = (0, s\<lparr>trace := trace s @ t\<rparr>)"
    "flash_bytes init (trace s @ t) = with_message w zero_message (flash_bytes init (trace s))"
    using run_set_message [OF assms wf_zero_message] by blast
  then show ?thesis
    using assms length_with_message [OF wf_zero_message size] with_message_back [OF wf_zero_message] size
    by (simp add: clear_message_def whenM_def holds_pages_def flash_message_def)
qed

lemma zero_message_args: "message_args zero_message = None"
  by (simp add: message_args_def terminated_def zero_message_def cstr_def)


lemma fresh_phone_simps:
  "\<not> stopped fresh_phone" "trace fresh_phone = []" "TEMPORARY_LOG_FILE fresh_phone = ''/tmp/recovery.log''"
  "tmplog_offset fresh_phone = 0" "build fresh_phone = build sample_store" "has_misc (build sample_store)"
  "env fresh_phone h (Fs (ReadFile f)) = Reply 0 [] []" "env fresh_phone h (Vol x) = Reply 0 [] []"
  "env fresh_phone h (Fs (CreateHierarchy f)) = Reply 0 [] []" "env fresh_phone h (Fs (Creat f)) = Reply 0 [] []"
  by (simp_all add: fresh_phone_def sample_store_def boot_state_def misc_env_def)

lemma cache_root_info:
  "get_root_info_for_path b (''CACHE:'' @ f) =
     Some (root ''CACHE:'' (Some (Block (CACHE_BLOCK_NAME b))) (Some ''cache'') (Some ''/cache'') (Some G_auto) None)"
  using root_info [of "root ''CACHE:'' (Some (Block (CACHE_BLOCK_NAME b))) (Some ''cache'') (Some ''/cache'') (Some G_auto) None" b f]
  by (simp add: g_roots_def root_def)

lemma cache_paths:
  "translate_root_path b COMMAND_FILE PATH_MAX = Some ''/cache/recovery/command''"
  "translate_root_path b LOG_FILE PATH_MAX = Some ''/cache/recovery/log''"
  using cache_root_info [of b "''recovery/command''"] cache_root_info [of b "''recovery/log''"]
  by (simp_all add: translate_root_path_def COMMAND_FILE_def LOG_FILE_def PATH_MAX_def root_def)

text \<open>Where the cache is mounted, mounting it is looking.\<close>

lemma cache_mounted:
  assumes "\<not> stopped s" and "\<And>h x. env s h (Vol x) = Reply 0 [] []"
  shows "run_state (ensure_root_path_mounted (''CACHE:'' @ f)) s =
    (0, s\<lparr>trace := trace s @ [Vol ScanVolumes, Vol (FindVolume ''/cache'')]\<rparr>)"
  using assms cache_root_info [of "build s" f]
  by (simp add: ensure_root_path_mounted_def internal_root_mounted_def root_def run_simps)

lemma cache_files_mounted:
  assumes "\<not> stopped s" and "\<And>h x. env s h (Vol x) = Reply 0 [] []"
  shows "run_state (ensure_root_path_mounted COMMAND_FILE) s =
      (0, s\<lparr>trace := trace s @ [Vol ScanVolumes, Vol (FindVolume ''/cache'')]\<rparr>)"
    and "run_state (ensure_root_path_mounted LOG_FILE) s =
      (0, s\<lparr>trace := trace s @ [Vol ScanVolumes, Vol (FindVolume ''/cache'')]\<rparr>)"
  using cache_mounted [OF assms, of "''recovery/command''"] cache_mounted [OF assms, of "''recovery/log''"]
  by (simp_all add: COMMAND_FILE_def LOG_FILE_def)


section \<open>A blank line in the command file\<close>

lemma strtok_None: "fst (strtok d t) = None \<longleftrightarrow> set t \<subseteq> set d"
  by (auto simp: strtok_def Let_def)

lemma line_args_None: "line_args ls = None \<longleftrightarrow> (\<exists>l \<in> set ls. set (cstr l) \<subseteq> {CR, LF})"
proof (induction ls)
  case (Cons l ls)
  then show ?case using strtok_None [of "[CR, LF]" "cstr l"] by (auto split: option.splits)
qed simp

text \<open>
  C28. A blank line ends the recovery. When the command file was read, the recovery follows a null
  pointer exactly if one of its first 99 lines is blank: \<open>strtok\<close> finds no token in it.
\<close>

theorem command_file_blank_line:
  assumes "run_state (read_root_path COMMAND_FILE) s = (Some t, s')" and "\<not> stopped s'" and "\<not> faulted s'"
  shows "faulted (exec (args_from_file [program]) s) \<longleftrightarrow>
    (\<exists>l \<in> set (take 99 (fgets_all 4096 t)). set (cstr l) \<subseteq> {CR, LF})"
  unfolding line_args_None [symmetric] using assms
  by (simp add: args_from_file_def MAX_ARGS_def MAX_ARG_LENGTH_def fault_def run_upd split: option.split)

definition blank_line_phone :: world where
  "blank_line_phone = sample_store\<lparr>env := (\<lambda>h c. case c of
     Fs (ReadFile f) \<Rightarrow> Reply 0 (''--wipe_data'' @ [LF, LF]) [] | _ \<Rightarrow> Reply 0 [] [])\<rparr>"

theorem command_file_blank_line_witness: "faulted (exec (args_from_file [''recovery'']) blank_line_phone)"
proof -
  have s: "\<not> stopped blank_line_phone" "\<not> faulted blank_line_phone" "env blank_line_phone h (Vol x) = Reply 0 [] []"
    "env blank_line_phone h (Fs (ReadFile f)) = Reply 0 (''--wipe_data'' @ [LF, LF]) []" for h x f
    by (simp_all add: blank_line_phone_def sample_store_def boot_state_def)
  have "run_state (read_root_path COMMAND_FILE) blank_line_phone = (Some (''--wipe_data'' @ [LF, LF]),
     blank_line_phone\<lparr>trace := trace blank_line_phone @ [Vol ScanVolumes, Vol (FindVolume ''/cache''),
       Fs (ReadFile ''/cache/recovery/command'')]\<rparr>)"
    using s by (simp add: read_root_path_def root_path_for_def cache_files_mounted cache_paths run_simps)
  from command_file_blank_line [OF this] s show ?thesis
    by (simp add: fgets_all_def cstr_def)
qed

end
