(* ===== verification/Init.thy ===== *)
theory Init
  imports Steamext
begin

text \<open>
  \<open>init.c\<close>: the kernel's first program, which mounts the partitions, converts their filesystems
  and starts the phone's own init, and the two programs run later in the start of the phone.
  What is printed to the standard streams goes to logs and is left out, as are the calls of
  \<open>freopen\<close>. The replies to \<open>Statfs\<close> list the free blocks, the size of a block, all blocks and
  the blocks free to the superuser. A program that is replaced by \<open>execve\<close> goes on where that
  call fails.
\<close>

section \<open>Symbolic links\<close>

text \<open>\<open>n\<close> has 50 bytes.\<close>

definition crsymlink :: "string \<Rightarrow> int prog" where
  "crsymlink name = do {
     let n = ''/sbin/'' @ name;
     whenM (length n \<ge> 50) fault;
     call (Fs (Symlink ''/sbin/steam'' n)) }"

definition is_lnk :: "reply \<Rightarrow> bool" where
  "is_lnk r \<longleftrightarrow> rc r = 0 \<and> dat r = ''link''"

definition rmsymlink :: "string \<Rightarrow> int prog" where
  "rmsymlink name = do {
     let n = ''/sbin/'' @ name;
     whenM (length n \<ge> 50) fault;
     st \<leftarrow> sys (Fs (Lstat n));
     if is_lnk st then call (Fs (Unlink n)) else ret (-1) }"

definition reboot_recovery :: "unit prog" where
  "reboot_recovery = do_call (Reboot ''recovery'')"

section \<open>Asking the configuration\<close>

text \<open>\<open>strcmp(get_conf_def(key,value,def),val)==0\<close>, and \<open>get_conf(key,value) && strcmp(value,val)==0\<close>.\<close>

definition conf_is :: "string \<Rightarrow> string \<Rightarrow> string \<Rightarrow> bool prog" where
  "conf_is key def val = do { v \<leftarrow> get_conf_def key def; ret (v = val) }"

definition conf_set_to :: "string \<Rightarrow> string \<Rightarrow> bool prog" where
  "conf_set_to key val = do { v \<leftarrow> get_conf key; ret (v = Some val) }"

text \<open>A file of the kernel that is given the value of a key; the key is asked for when the file could be opened.\<close>

definition write_tweak :: "string \<times> string \<times> string \<Rightarrow> unit prog" where
  "write_tweak x = (case x of (f, key, def) \<Rightarrow> do {
     fd \<leftarrow> call (Fs (Creat f));
     whenM (fd \<ge> 0) (do {
       v \<leftarrow> get_conf_def key def;
       do_call (Fs (WriteFile f (v @ [LF]))) }) })"

section \<open>After the start of the system\<close>

definition iosched_files :: "string \<Rightarrow> (string \<times> string \<times> string) list" where
  "iosched_files d = map (\<lambda>(f, key, def). (''/sys/block/'' @ d @ ''/queue/'' @ f, ''tweaks.iosched.'' @ key, def))
     [(''rotational'', ''rotational'', ''0''), (''iosched/low_latency'', ''low_latency'', ''1''),
      (''iosched/back_seek_penalty'', ''back_seek_penalty'', ''1''), (''iosched/back_seek_max'', ''back_seek_max'', ''1000000000''),
      (''iosched/slice_idle'', ''slice_idle'', ''3'')]"

definition tweak_iosched :: "unit prog" where
  "tweak_iosched = do {
     d \<leftarrow> sys (Fs (ReadDir ''/sys/block''));
     whenM (rc d \<ge> 0) (for_each (lst d) (\<lambda>n.
       whenM (\<exists>p \<in> {''stl'', ''mmc'', ''bml'', ''tfsr''}. prefix p n) (for_each (iosched_files n) write_tweak))) }"

definition vm_file :: "string \<Rightarrow> string \<Rightarrow> string \<Rightarrow> string \<times> string \<times> string" where
  "vm_file f key def = (''/proc/sys/vm/'' @ f, ''tweaks.'' @ key, def)"

text \<open>The two granularities have their keys exchanged.\<close>

definition vm_tweaks :: "(string \<times> (string \<times> string \<times> string) list) list" where
  "vm_tweaks =
     [(''tweaks.kernelvm'',
       [vm_file ''swappiness'' ''kernelvm.swappiness'' ''0'', vm_file ''dirty_ratio'' ''kernelvm.dirty_ratio'' ''20'',
        vm_file ''vfs_cache_pressure'' ''kernelvm.vfs_cache_pressure'' ''100'',
        vm_file ''min_free_kbytes'' ''kernelvm.min_free_kbytes'' ''2746'']),
      (''tweaks.kernelsched'',
       [vm_file ''sched_latency_ns'' ''kernelsched.sched_latency_ns'' ''20000000'',
        vm_file ''sched_wakeup_granularity_ns'' ''kernelsched.sched_min_granularity_ns'' ''1000000'',
        vm_file ''sched_min_granularity_ns'' ''kernelsched.sched_wakeup_granularity_ns'' ''2000000'']),
      (''tweaks.misc'',
       [vm_file ''dirty_writeback_centisecs'' ''misc.dirty_writeback_centisecs'' ''2000'',
        vm_file ''dirty_expire_centisecs'' ''misc.dirty_expire_centisecs'' ''1000''])]"

definition apply_tweaks :: "unit prog" where
  "apply_tweaks = do {
     io \<leftarrow> conf_is ''tweaks.iosched'' ''0'' ''1'';
     whenM io tweak_iosched;
     for_each vm_tweaks (\<lambda>(key, files). do {
       on \<leftarrow> conf_is key ''0'' ''1'';
       whenM on (for_each files write_tweak) }) }"

definition BLN_ENABLED :: string where "BLN_ENABLED = ''/sys/class/misc/backlightnotification/enabled''"
definition LIBLIGHTS_SRC :: string where "LIBLIGHTS_SRC = ''/res/misc/lights.s5pc110.so''"

definition set_backlight :: "unit prog" where
  "set_backlight = do {
     g \<leftarrow> busybox [''grep'', ''^1$'', BLN_CONF];
     fd \<leftarrow> call (Fs (Creat BLN_ENABLED));
     whenM (fd \<ge> 0) (do_call (Fs (WriteFile BLN_ENABLED ((if g = 0 then ''1'' else ''0'') @ [LF])))) }"

definition install_liblights :: "unit prog" where
  "install_liblights = do {
     g \<leftarrow> busybox [''grep'', ''backlightnotification'', LIBLIGHTS_DEST];
     whenM (g \<noteq> 0) (do {
       st \<leftarrow> call (Fs (Stat (LIBLIGHTS_DEST @ ''.backup'')));
       whenM (st \<noteq> 0) (bb [''cp'', LIBLIGHTS_DEST, LIBLIGHTS_DEST @ ''.backup'']);
       bb [''cp'', LIBLIGHTS_SRC, LIBLIGHTS_DEST];
       bb [''chmod'', ''644'', LIBLIGHTS_DEST] }) }"

text \<open>The scripts of \<open>/system/etc/init.d\<close> whose names begin with \<open>c\<close>, in the order of the directory.\<close>

definition run_initd :: "char \<Rightarrow> unit prog" where
  "run_initd c = do {
     do_call TimeOf;
     st \<leftarrow> sys (Fs (Stat ''/system/etc/init.d''));
     whenM (is_dir st) (do {
       d \<leftarrow> sys (Fs (ReadDir ''/system/etc/init.d''));
       whenM (rc d \<ge> 0) (for_each (lst d) (\<lambda>n. whenM (take 1 n = [c]) (do {
         path \<leftarrow> path_text (''/system/etc/init.d/'' @ n);
         do_call TimeOf;
         bb [''sh'', ''-c'', path];
         do_call TimeOf }))) });
     do_call TimeOf }"

definition start_animation :: "nat \<Rightarrow> unit prog" where
  "start_animation startanim =
     (if startanim = 1 then do {
        do_call (PropSet ''ctl.stop'' ''bootanim'');
        do_call (Proc (Exec ''/system/bin/playlogos1'' [''playlogos1'']))
      } else if startanim = 2 then do_call (PropSet ''ctl.start'' ''bootanim'')
      else do_call (PropSet ''ctl.stop'' ''bootanim''))"

definition remount_readonly :: "unit prog" where
  "remount_readonly = do {
     bb [''mount'', ''-o'', ''remount,ro'', ''/''];
     ro \<leftarrow> conf_is ''fs.system.ro'' ''1'' ''1'';
     whenM ro (do {
       noefs \<leftarrow> conf_is ''fs.system.efs'' ''0'' ''0'';
       whenM noefs (bb [''mount'', ''-o'', ''remount,ro'', ''/dev/block/stl9'', ''/system'']) }) }"

definition steam_postinit_main :: "string list \<Rightarrow> int prog" where
  "steam_postinit_main steam_command_list = do {
     _ \<leftarrow> init_conf;
     bb [''mount'', ''-o'', ''remount,rw'', ''/''];
     none \<leftarrow> conf_set_to ''init.bootanim'' ''0'';
     android \<leftarrow> conf_set_to ''init.bootanim'' ''2'';
     apply_tweaks;
     set_backlight;
     install_liblights;
     bb [''cp'', ''/sbin/fat.format'', ''/system/bin/fat.format''];
     run_initd (CHR ''S'');
     rm \<leftarrow> conf_is ''init.rmsymlinks'' ''1'' ''1'';
     whenM rm (for_each steam_command_list (\<lambda>c. forget (rmsymlink c)));
     remount_readonly;
     do_call (PropSet ''dev.defaultclassstarted'' ''1'');
     start_animation (if android then 2 else if none then 0 else 1);
     ret 0 }"

section \<open>Beside the start of the system\<close>

definition POSTINIT_LOG_FILE :: string where "POSTINIT_LOG_FILE = ''/tmp/post-init.log''"
definition INIT_LOG_FILE :: string where "INIT_LOG_FILE = ''/tmp/init.log''"
definition TEXTCONTAINER_STDOUT :: int where "TEXTCONTAINER_STDOUT = 1"
definition TEXTCONTAINER_LOGCAT :: int where "TEXTCONTAINER_LOGCAT = 3"

definition kill_animations :: "unit prog" where
  "kill_animations = for_each [''playlogos1'', ''bootanim'', ''bootanimation''] (\<lambda>p. bb [''killall'', ''-9'', p])"

definition screen_off :: "unit prog" where
  "screen_off = do { on \<leftarrow> gets ui_has_initialized; whenM on ui_done }"

definition boot_complete :: "bool \<Rightarrow> unit prog" where
  "boot_complete noscreen = do {
     ui_set_progress (9 / 10);
     whenM (\<not> noscreen) screen_off;
     do_call (Sleep 2);
     ui_set_progress 1;
     kill_animations;
     for_each [''steam.installation'', ''steam.upgrade'', ''steam.uninstallation''] (\<lambda>k. do {
       x \<leftarrow> conf_is k ''0'' ''1'';
       whenM x reboot_recovery }) }"

text \<open>
  The loop that looks at two properties of the system once in a second, until the second one says
  that the start is complete; that may never be, so the number of rounds is bounded by \<open>n\<close>.
\<close>

fun early_wait :: "nat \<Rightarrow> bool \<Rightarrow> bool \<Rightarrow> bool \<Rightarrow> unit prog" where
  "early_wait 0 donepinit noscreen shutdownscreen = stop"
| "early_wait (Suc n) donepinit noscreen shutdownscreen = do {
     do_call (Sleep 1);
     do_call (Hook ''usleep'');
     v \<leftarrow> sys (PropGet ''dev.defaultclassstarted'');
     ui_set_progress (2 / 10);
     let started = (dat v = ''1'');
     whenM (started \<and> \<not> donepinit) (do {
       whenM (\<not> noscreen \<and> shutdownscreen) screen_off;
       whenM (\<not> shutdownscreen) kill_animations });
     w \<leftarrow> sys (PropGet ''dev.bootcomplete'');
     if dat w = ''1'' then boot_complete noscreen
     else early_wait n (donepinit \<or> started) noscreen shutdownscreen }"

definition steam_earlyinit_main :: "nat \<Rightarrow> unit prog" where
  "steam_earlyinit_main n = do {
     upd (\<lambda>s. s\<lparr>TEMPORARY_LOG_FILE := POSTINIT_LOG_FILE\<rparr>);
     _ \<leftarrow> init_conf;
     graphics \<leftarrow> conf_is ''earlyinit.graphics'' ''0'' ''1'';
     log \<leftarrow> conf_is ''init.bootanim'' ''1'' ''0'';
     let noscreen = (\<not> graphics \<and> \<not> log);
     whenM (\<not> noscreen) (do {
       ui_init;
       ui_show_progress 1 15;
       _ \<leftarrow> ui_set_page TEXTCONTAINER_LOGCAT;
       ui_print (loc ''EARLY_LOGAPP'' []);
       ui_print (loc ''EARLY_USAGE'' []) });
     run_initd (CHR ''E'');
     early_wait n False noscreen (\<not> log) }"

section \<open>Converting the system partition\<close>

definition TYPE_RFS_BAD_DEFAULT_MOUNT :: string where "TYPE_RFS_BAD_DEFAULT_MOUNT = ''nodev,nosuid''"

text \<open>\<open>(f_blocks - f_bfree) * f_bsize / (1024*952)\<close>, in 64 bits.\<close>

definition used_mb :: "reply \<Rightarrow> int" where
  "used_mb r = (case map atoi (lst r) of
     bavail # bsize # blocks # bfree # _ \<Rightarrow> ((blocks - bfree) * bsize) mod 2 ^ 64 div (1024 * 952) | _ \<Rightarrow> 0)"

definition mount_sdcard :: "string \<Rightarrow> string \<Rightarrow> unit prog" where
  "mount_sdcard block mtp = bb [''mount'', ''-t'', ''vfat'', ''-o'', ''utf8'', block, mtp]"

text \<open>The libraries \<open>fat.format\<close> needs, on the empty \<open>/system\<close>, which is a directory now.\<close>

definition prepare_system :: "int \<Rightarrow> unit prog" where
  "prepare_system fromfstype = do {
     b \<leftarrow> gets build;
     for_each [''/mnt'', ''/mnt/sdcard'', ''/mnt/external_sd''] (\<lambda>d. bb [''mkdir'', d]);
     mount_sdcard SDCARD_BLOCK_NAME ''/mnt/sdcard'';
     mount_sdcard SDCARD2_BLOCK_NAME ''/mnt/external_sd'';
     bb [''mkdir'', ''/tmp/sys''];
     (if fromfstype = (TYPE_RFS OR TYPE_RFS_BAD) then
        bb [''mount'', ''-t'', ''rfs'', ''-o'', TYPE_RFS_BAD_DEFAULT_MOUNT, SYSTEM_BLOCK_NAME b, ''/tmp/sys'']
      else forget (check_and_mount fromfstype (SYSTEM_BLOCK_NAME b) ''loop4'' ''tmp/sys'' None));
     for_each [''/system/lib'', ''/system/bin'', ''/system/etc''] (\<lambda>d. bb [''mkdir'', d]);
     bb [''ln'', ''-s'', ''/system/etc'', ''/etc''];
     bb [''cp'', ''/res/misc/mke2fs.conf'', ''/system/etc''];
     for_each [''liblog'', ''libcutils'', ''libc'', ''libstdc++'', ''libm'', ''libdl'']
       (\<lambda>l. bb [''cp'', ''/tmp/sys/lib/'' @ l @ ''.so'', ''/system/lib'']);
     bb [''cp'', ''/tmp/sys/bin/linker'', ''/system/bin''];
     do_call (Hook ''setenv LD_LIBRARY_PATH=/system/lib'') }"

text \<open>
  What is done when the user has to help: the file manager where it is allowed, and nothing for
  ever where it is not. \<open>before\<close> is the last thing done then.
\<close>

definition help_or_halt :: "unit prog \<Rightarrow> unit prog" where
  "help_or_halt before = do {
     fm \<leftarrow> conf_set_to ''preinit.allowfm'' ''1'';
     if fm then do { ui_print (loc ''CONVERT_LOAD_FM'' []); file_manager }
     else do {
       ui_print (loc ''CONVERT_NO_FM'' []);
       ui_print (loc ''INIT_HALT'' []);
       before;
       stop } }"

text \<open>The loop that waits for room on the SD card: what was known of the room and of the need.\<close>

definition space_round :: "int \<times> int \<Rightarrow> (int \<times> int + unit) prog" where
  "space_round x = (case x of (sdcardfree, sysused) \<Rightarrow>
     if \<not> sdcardfree < sysused then ret (Inr ())
     else do {
       s \<leftarrow> sys (Fs (Statfs ''/mnt/sdcard''));
       (sdcardfree, sysused) \<leftarrow> (if rc s = 0 then do {
           t \<leftarrow> sys (Fs (Statfs ''/system''));
           ret (free_mb s, if rc t = 0 then used_mb t else sysused)
         } else ret (sdcardfree, sysused));
       if sdcardfree < sysused then do {
         ui_print (loc ''CONVERT_NO_SPACE'' []);
         ui_print (loc ''CONVERT_SPACE_NEEDS'' [dec_int sysused, dec_int sdcardfree]);
         help_or_halt (ret ());
         ret (Inl (sdcardfree, sysused))
       } else ret (Inr ()) })"

definition wait_for_space :: "unit prog" where
  "wait_for_space = key_loop () space_round (0, 2147483647)"

text \<open>Saving, formatting, mounting, unpacking. The result of the first and of the formatting change nothing.\<close>

definition rewrite_system :: "int \<Rightarrow> unit prog" where
  "rewrite_system tofstype = do {
     b \<leftarrow> gets build;
     bb [''rm'', ''-rf'', ''/mnt/sdcard/.syssave''];
     bb [''mkdir'', ''/mnt/sdcard/.syssave''];
     t \<leftarrow> busybox [''tar'', ''-cvpf'', ''/mnt/sdcard/.syssave/save.tar'', ''/tmp/sys''];
     whenM (t \<noteq> 0) (do {
       ui_print (loc ''CONVERT_BACKUP_FAILED'' []);
       ui_print (loc ''CONVERT_CONTINUE_ANYWAY'' []) });
     forget (unmount_filesystem ''/tmp/sys'');
     do_call Sync;
     forget (filesystem_format tofstype (SYSTEM_BLOCK_NAME b) ''tmp/sys'' None);
     do_call Sync;
     forget (check_and_mount tofstype (SYSTEM_BLOCK_NAME b) ''loop4'' ''tmp/sys'' None);
     t \<leftarrow> busybox [''tar'', ''-xvpf'', ''/mnt/sdcard/.syssave/save.tar''];
     whenM (t \<noteq> 0) (do {
       ui_print (loc ''CONVERT_RESTORE_FAILED'' []);
       help_or_halt (bb [''rm'', ''-rf'', ''/mnt/sdcard/.syssave'']) }) }"

definition convert_system :: "int \<Rightarrow> int \<Rightarrow> int prog" where
  "convert_system fromfstype tofstype = do {
     prepare_system fromfstype;
     wait_for_space;
     rewrite_system tofstype;
     bb [''mkdir'', ''/mnt/sdcard/steam''];
     bb [''rm'', ''-rf'', ''/mnt/sdcard/steam/sysconv''];
     bb [''mkdir'', ''/mnt/sdcard/steam/sysconv''];
     bb [''sh'', ''-c'', ''cp /tmp/*.log /mnt/sdcard/steam/sysconv''];
     bb [''rm'', ''-rf'', ''/mnt/sdcard/.syssave''];
     bb [''umount'', ''/mnt/external_sd''];
     bb [''umount'', ''/mnt/sdcard''];
     bb [''sed'', ''-i'', ''s/^fs.system.rfs=.*/#fs.system.rfs=ok/'', ''/tmp/sys/etc/steam.conf''];
     forget (unmount_filesystem ''/tmp/sys'');
     do_call (Sleep 5);
     reboot_recovery;
     ui_print (loc ''INIT_HALT'' []);
     stop;
     ret 0 }"

section \<open>Converting the other partitions\<close>

text \<open>A partition: its name, its block device, its loop device, the flag of its backup, its type and the new one.\<close>

record partition_change =
  pc_name :: string
  pc_block :: string
  pc_loop :: string
  pc_flag :: int
  pc_old :: int
  pc_new :: int

definition changes :: "partition_change \<Rightarrow> bool" where
  "changes p \<longleftrightarrow> pc_new p \<noteq> 0 \<and> pc_old p \<noteq> pc_new p"

definition conversion_flags :: "partition_change list \<Rightarrow> int" where
  "conversion_flags ps = fold (\<lambda>p flags. if changes p then flags OR pc_flag p else flags) ps 0"

text \<open>One partition; the password goes from one to the next.\<close>

definition convert_partition :: "partition_change \<Rightarrow> string option \<Rightarrow> string option prog" where
  "convert_partition p secret =
     (if changes p then do {
        forget (unmount_filesystem (''/'' @ pc_name p));
        (_, secret) \<leftarrow> filesystem_format (pc_new p) (pc_block p) (pc_name p) secret;
        (_, secret) \<leftarrow> check_and_mount (pc_new p) (pc_block p) (pc_loop p) (pc_name p) secret;
        set_conf_text (''fs.'' @ pc_name p @ ''.type'') (dec_int (pc_new p));
        ret secret
      } else ret secret)"

fun convert_partitions :: "partition_change list \<Rightarrow> string option \<Rightarrow> string option prog" where
  "convert_partitions [] secret = ret secret"
| "convert_partitions (p # ps) secret = do { secret \<leftarrow> convert_partition p secret; convert_partitions ps secret }"

definition partition_changes :: "build_opts \<Rightarrow> int \<times> int \<Rightarrow> int \<times> int \<Rightarrow> int \<times> int \<Rightarrow> partition_change list" where
  "partition_changes b cache data dbdata =
     [\<lparr>pc_name = ''cache'', pc_block = CACHE_BLOCK_NAME b, pc_loop = ''loop1'', pc_flag = BACKUP_CACHE,
        pc_old = fst cache, pc_new = snd cache\<rparr>,
      \<lparr>pc_name = ''data'', pc_block = DATA_BLOCK_NAME b, pc_loop = ''loop2'', pc_flag = BACKUP_DATA,
        pc_old = fst data, pc_new = snd data\<rparr>,
      \<lparr>pc_name = ''dbdata'', pc_block = DBDATA_BLOCK_NAME, pc_loop = ''loop3'', pc_flag = BACKUP_DATADATA,
        pc_old = fst dbdata, pc_new = snd dbdata\<rparr>]"

text \<open>What follows the backup, if one was made.\<close>

definition convert_and_restore :: "int \<Rightarrow> string \<Rightarrow> partition_change list \<Rightarrow> string option \<Rightarrow> unit prog" where
  "convert_and_restore chosen_item tmp ps secret = do {
     b \<leftarrow> gets build;
     bb [''mount''];
     _ \<leftarrow> convert_partitions (if has_datadata b then ps else take 2 ps) secret;
     bb [''mount''];
     whenM (chosen_item = 0 \<or> chosen_item = 2) (forget (nandroid_restore tmp False False True True False));
     whenM (chosen_item = 2) (bb [''rm'', ''-rf'', tmp]);
     forget (ui_set_page TEXTCONTAINER_STDOUT) }"

definition convert_backup :: "string \<Rightarrow> partition_change list \<Rightarrow> int prog" where
  "convert_backup tmp ps = do {
     bb [''mkdir'', ''/mnt''];
     bb [''mkdir'', ''/mnt/sdcard''];
     _ \<leftarrow> ui_set_page TEXTCONTAINER_MAIN;
     bb [''mount''];
     nandroid_backup_flags tmp (conversion_flags ps) }"

definition convert_items :: "string list" where
  "convert_items = [loc ''CONVERT_FS_FULLBACKUP'' [], loc ''CONVERT_FS_ONLYBACKUP'' [], loc ''CONVERT_FS_RMBACKUP'' [],
     loc ''CONVERT_FS_RMALL'' [], loc ''CONVERT_FS_CANCEL'' []]"

definition convert_chosen :: "int \<Rightarrow> partition_change list \<Rightarrow> string option \<Rightarrow> int prog" where
  "convert_chosen chosen_item ps secret =
     (if chosen_item \<ge> 0 \<and> chosen_item \<noteq> 4 then do {
        tmp \<leftarrow> nandroid_generate_timestamp_path;
        r \<leftarrow> (if chosen_item = 3 then ret 0 else convert_backup tmp ps);
        if r \<noteq> 0 then do { forget (ui_set_page TEXTCONTAINER_STDOUT); ret (-1) }
        else do { convert_and_restore chosen_item tmp ps secret; ret 0 }
      } else ret 0)"

definition convert_filesystems :: "int \<times> int \<Rightarrow> int \<times> int \<Rightarrow> int \<times> int \<Rightarrow> string option \<Rightarrow> int prog" where
  "convert_filesystems cache data dbdata secret = do {
     b \<leftarrow> gets build;
     chosen_item \<leftarrow> get_menu_selection [loc ''CONVERT_FS_HEADER'' []] convert_items False;
     convert_chosen chosen_item (partition_changes b cache data dbdata) secret }"

section \<open>Kernel modules\<close>

definition modules_from_sd :: "unit prog" where
  "modules_from_sd = do {
     bb [''mkdir'', ''/mnt''];
     bb [''mkdir'', ''/mnt/sdcard''];
     mount_sdcard SDCARD_BLOCK_NAME ''/mnt/sdcard'';
     for_each [''ext2/ext2.ko'', ''ext4/jbd2.ko'', ''ext4/ext4.ko'', ''jfs/jfs.ko'']
       (\<lambda>m. bb [''cp'', ''/mnt/sdcard/steam/'' @ m, ''/lib/modules'']);
     bb [''umount'', ''/mnt/sdcard''] }"

definition insmod :: "string \<Rightarrow> unit prog" where
  "insmod m = bb [''insmod'', ''/lib/modules/'' @ m @ ''.ko'']"

definition autoload_modules :: "int prog" where
  "autoload_modules = do {
     auto \<leftarrow> conf_is ''modules.autoload'' ''0'' ''1'';
     if \<not> auto then ret 0
     else do {
       sd \<leftarrow> conf_is ''modules.allowsd'' ''0'' ''1'';
       whenM sd modules_from_sd;
       e2 \<leftarrow> get_capability ''fs.support.ext2'';
       whenM (\<not> e2) (insmod ''ext2'');
       e4 \<leftarrow> get_capability ''fs.support.ext4'';
       whenM (\<not> e4) (do { insmod ''jbd2''; insmod ''ext4'' });
       jfs \<leftarrow> get_capability ''fs.support.jfs'';
       whenM (\<not> jfs) (insmod ''jfs'');
       ret 1 } }"

section \<open>The first program\<close>

definition insert_modules :: "unit prog" where
  "insert_modules = do {
     for_each [''pvrsrvkm'', ''s3c_lcd'', ''s3c_bc''] (\<lambda>m. bb [''insmod'', ''/modules/'' @ m @ ''.ko'']);
     for_each [''fsr'', ''fsr_stl'', ''rfs_glue'', ''rfs_fat'', ''j4fs'', ''param''] insmod }"

definition mknod :: "string \<Rightarrow> string \<times> int \<times> int \<Rightarrow> unit prog" where
  "mknod ty x = (case x of (n, major, minor) \<Rightarrow> bb [''mknod'', ''/dev/'' @ n, ty, dec_int major, dec_int minor])"

definition block_nodes :: "(string \<times> int \<times> int) list" where
  "block_nodes = [(''block/mmcblk0'', 179, 0), (''block/mmcblk0p1'', 179, 1), (''block/mmcblk0p2'', 179, 2),
     (''block/mmcblk1'', 179, 8), (''block/mmcblk1p1'', 179, 9)] @
     map (\<lambda>i. (''block/stl'' @ dec_int i, 138, i)) [1..12] @ map (\<lambda>i. (''block/loop'' @ dec_int i, 7, i)) [0..7]"

definition make_devices :: "unit prog" where
  "make_devices = do {
     for_each [''/dev'', ''/dev/block'', ''/dev/snd''] (\<lambda>d. bb [''mkdir'', d]);
     for_each [(''null'', 1, 3), (''zero'', 1, 5), (''random'', 1, 8), (''urandom'', 1, 9)] (mknod ''c'');
     for_each block_nodes (mknod ''b'');
     bb [''mkdir'', ''/dev/graphics''];
     for_each (map (\<lambda>i. (''graphics/fb'' @ dec_int i, 29, i)) [0..4]) (mknod ''c'');
     bb [''mkdir'', ''/dev/input''];
     for_each (map (\<lambda>i. (''input/event'' @ dec_int i, 13, 64 + i)) [0..4]) (mknod ''c'');
     for_each [(''input/mice'', 13, 63), (''input/mouse0'', 13, 32)] (mknod ''c'');
     bb [''mkdir'', ''/dev/mapper''] }"

definition mount_kernel :: "unit prog" where
  "mount_kernel = do {
     for_each [''/proc'', ''/sys'', ''/tmp''] (\<lambda>d. bb [''mkdir'', d]);
     bb [''mount'', ''-t'', ''proc'', ''proc'', ''/proc''];
     bb [''mount'', ''-t'', ''sysfs'', ''sys'', ''/sys''];
     bb [''mount'', ''-t'', ''tmpfs'', ''tmpfs'', ''/tmp''] }"

text \<open>The kernel's command line, as much as \<open>value\<close> holds of it.\<close>

definition read_bootmode :: "bool prog" where
  "read_bootmode = do {
     f \<leftarrow> sys (Fs (ReadFile ''/proc/cmdline''));
     ret (rc f \<ge> 0 \<and> strstr (cstr (take (VALUE_MAX_LENGTH - 1) (dat f))) ''bootmode=2'') }"

definition graphics_on :: "unit prog" where
  "graphics_on = do {
     ui_init;
     forget (ui_set_page TEXTCONTAINER_STDOUT);
     ui_show_progress 1 0 }"

text \<open>Before the system partition is mounted: whether the recovery is started, and whether there is a screen.\<close>

definition early_graphics :: "bool \<Rightarrow> bool prog" where
  "early_graphics isrecovery = do {
     g \<leftarrow> conf_set_to ''preinit.graphics'' ''1'';
     r \<leftarrow> (if isrecovery then conf_set_to ''preinit.recovery.graphics'' ''1'' else ret False);
     whenM (g \<or> r) graphics_on;
     ret (g \<or> r) }"

definition late_graphics :: "bool \<Rightarrow> bool \<Rightarrow> bool prog" where
  "late_graphics isrecovery usegraphics = do {
     g \<leftarrow> conf_is ''preinit.graphics'' ''0'' ''1'';
     r \<leftarrow> (if \<not> g \<and> isrecovery then conf_is ''preinit.recovery.graphics'' ''0'' ''1'' else ret False);
     whenM ((g \<or> r) \<and> \<not> usegraphics) (do { graphics_on; ui_set_progress (1 / 2) });
     ret (usegraphics \<or> g \<or> r) }"

text \<open>A menu that is shown until an item is chosen.\<close>

definition must_choose :: "string \<Rightarrow> string list \<Rightarrow> int prog" where
  "must_choose header items = key_loop 0 (\<lambda>_. do {
     c \<leftarrow> get_menu_selection [loc header []] (map (\<lambda>i. loc i []) items) False;
     ret (if c < 0 then Inl () else Inr c) }) ()"

text \<open>A program that may have to switch the screen on, and off again.\<close>

definition with_screen :: "bool \<Rightarrow> 'a prog \<Rightarrow> 'a prog" where
  "with_screen usegraphics m = do {
     whenM (\<not> usegraphics) ui_init;
     r \<leftarrow> m;
     whenM (\<not> usegraphics) ui_done;
     ret r }"

definition MAIN_BLOCK_NAME :: "build_opts \<Rightarrow> string" where
  "MAIN_BLOCK_NAME b = (if ns_on_sgs b then ''/dev/block/mmcblk0p2'' else SYSTEM_BLOCK_NAME b)"
definition MAIN_BLOCK_MTP :: "build_opts \<Rightarrow> string" where
  "MAIN_BLOCK_MTP b = (if ns_on_sgs b then ''/res/.fake'' else ''/system'')"
definition MAIN_BLOCK_LABEL :: "build_opts \<Rightarrow> string" where
  "MAIN_BLOCK_LABEL b = (if ns_on_sgs b then ''res/.fake'' else ''system'')"

text \<open>The type of the main partition, looked for once in a second, twenty times at most.\<close>

fun find_system :: "nat \<Rightarrow> int \<Rightarrow> int prog" where
  "find_system 0 system_type = ret system_type"
| "find_system (Suc n) system_type =
     (if system_type \<noteq> 0 then ret system_type
      else do {
        b \<leftarrow> gets build;
        system_type \<leftarrow> filesystem_check (MAIN_BLOCK_NAME b);
        do_call (Sleep 1);
        find_system n system_type })"

definition fix_bad_rfs :: "bool \<Rightarrow> unit prog" where
  "fix_bad_rfs usegraphics = with_screen usegraphics (do {
     whenM (\<not> usegraphics) (forget (ui_set_page TEXTCONTAINER_STDOUT));
     b \<leftarrow> gets build;
     c \<leftarrow> must_choose ''INIT_RFS_INCONSISTENT_FIX_HEADER''
       [''INIT_RFS_INCONSISTENT_FIX_TAR'', ''INIT_RFS_INCONSISTENT_FIX_NONE'', ''INIT_RFS_INCONSISTENT_FIX_NONE2''];
     let mount_main = (\<lambda>opts. bb [''mount'', ''-t'', ''rfs'', ''-o'', opts, MAIN_BLOCK_NAME b, MAIN_BLOCK_MTP b]);
     if c = 0 then forget (convert_system (TYPE_RFS OR TYPE_RFS_BAD) TYPE_RFS)
     else if c = 1 then mount_main TYPE_RFS_BAD_DEFAULT_MOUNT
     else if c = 2 then mount_main TYPE_RFS_DEFAULT_MOUNT
     else ret () })"

definition mount_system :: "bool \<Rightarrow> int prog" where
  "mount_system usegraphics = do {
     b \<leftarrow> gets build;
     system_type \<leftarrow> find_system 20 0;
     (if has system_type TYPE_RFS_BAD then fix_bad_rfs usegraphics
      else forget (check_and_mount system_type (MAIN_BLOCK_NAME b) ''loop4'' (MAIN_BLOCK_LABEL b) None));
     system_type \<leftarrow> (if MAIN_BLOCK_NAME b \<noteq> SYSTEM_BLOCK_NAME b then do {
         (t, _) \<leftarrow> mount_from_config_or_autodetect ''fs.system.type'' (SYSTEM_BLOCK_NAME b) ''loop4'' ''system'' None;
         ret t
       } else ret system_type);
     bb [''rm'', ''/system/bin/fat.format''];
     bb [''ln'', ''-s'', ''/system/etc/'', ''/etc''];
     bb [''cp'', ''/res/misc/mke2fs.conf'', ''/etc''];
     whenM usegraphics (ui_set_progress (4 / 10));
     ret system_type }"

definition prepare_phone :: "string list \<Rightarrow> bool \<Rightarrow> unit prog" where
  "prepare_phone steam_command_list usegraphics = do {
     for_each steam_command_list (\<lambda>c. forget (crsymlink c));
     whenM usegraphics (ui_set_progress (1 / 10));
     do_call (Hook ''setenv PATH=/sbin:/system/sbin:/system/bin:/system/xbin'');
     whenM usegraphics (ui_set_progress (2 / 10));
     _ \<leftarrow> autoload_modules;
     datadata \<leftarrow> opt has_datadata;
     bb [''mkdir'', ''/cache''];
     whenM datadata (bb [''mkdir'', ''/dbdata'']);
     bb [''mkdir'', ''/data''];
     bb [''mkdir'', ''/system''];
     whenM usegraphics (ui_set_progress (3 / 10)) }"

text \<open>A new configuration, which orders the installation.\<close>

definition new_configuration :: "unit prog" where
  "new_configuration = do {
     bb [''rm'', CONFIG_SYSTEM];
     bb [''cp'', CONFIG_SBIN, CONFIG_SYSTEM];
     bb [''touch'', CONFIG_SYSTEM];
     _ \<leftarrow> init_conf;
     set_conf_text ''steam.installation'' ''1'' }"

text \<open>A configuration made of the kernel's and the old one, which orders the upgrade.\<close>

definition merged_configuration :: "string \<times> string \<times> string \<Rightarrow> unit prog" where
  "merged_configuration old = (case old of (version, variant, varvers) \<Rightarrow> do {
     bb [''rm'', CONFIG_SYSTEM @ ''.old''];
     bb [''mv'', CONFIG_SYSTEM, CONFIG_SYSTEM @ ''.old''];
     bb [''sh'', ''-c'', ''/sbin/busybox cat '' @ CONFIG_SBIN @ '' '' @ CONFIG_SYSTEM @ ''.old > '' @ CONFIG_SYSTEM];
     bb [''touch'', CONFIG_SYSTEM];
     _ \<leftarrow> init_conf;
     set_conf_text ''steam.old.version'' version;
     set_conf_text ''steam.old.variant'' variant;
     set_conf_text ''steam.old.variant.version'' varvers;
     set_conf_text ''steam.upgrade'' ''1'' })"

text \<open>The value of a key in the phone's configuration, and whether it differs from the kernel's.\<close>

definition compare_key :: "string \<Rightarrow> (string \<times> bool) prog" where
  "compare_key key = do {
     v \<leftarrow> get_conf_ro_from CONFIG_SYSTEM key;
     w \<leftarrow> get_conf_ro key;
     let text = (\<lambda>x. case x of None \<Rightarrow> [] | Some t \<Rightarrow> t);
     ret (text v, text w \<noteq> text v) }"

definition check_version :: "bool \<Rightarrow> unit prog" where
  "check_version usegraphics = do {
     (version, d1) \<leftarrow> compare_key ''steam.version'';
     (variant, d2) \<leftarrow> compare_key ''steam.variant'';
     (varvers, d3) \<leftarrow> compare_key ''steam.variant.version'';
     if d1 \<or> d2 \<or> d3 then do {
       c \<leftarrow> with_screen usegraphics (do {
         whenM (\<not> usegraphics) (forget (ui_set_page TEXTCONTAINER_STDOUT));
         must_choose ''UPGRADE_STEAM_HEADER'' [''UPGRADE_STEAM_YES'', ''UPGRADE_STEAM_NO'', ''UPGRADE_STEAM_SKIP''] });
       if c = 0 then merged_configuration (version, variant, varvers)
       else if c = 1 then new_configuration
       else forget init_conf
     } else forget init_conf }"

definition check_installation :: "bool \<Rightarrow> unit prog" where
  "check_installation usegraphics = do {
     st \<leftarrow> sys (Fs (Stat CONFIG_SYSTEM));
     if rc st \<noteq> 0 \<or> st_size st < 10 then
       with_screen usegraphics (do {
         whenM (\<not> usegraphics) (forget (ui_set_page TEXTCONTAINER_STDOUT));
         c \<leftarrow> must_choose ''INSTALL_STEAM_HEADER'' [''INSTALL_STEAM_YES'', ''INSTALL_STEAM_NO''];
         if c = 0 then new_configuration else forget init_conf })
     else check_version usegraphics }"

text \<open>The order to convert the system partition is taken back before it is carried out.\<close>

definition convert_system_order :: "bool \<Rightarrow> int \<Rightarrow> unit prog" where
  "convert_system_order usegraphics system_type = do {
     v \<leftarrow> get_conf ''fs.system.convertto'';
     case v of
       None \<Rightarrow> ret ()
     | Some t \<Rightarrow> do {
         let newfs = (case scan_int t of None \<Rightarrow> 0 | Some i \<Rightarrow> i);
         forget (set_conf ''fs.system.convertto'' None);
         whenM (has newfs TYPE_FSTYPE_MASK \<and> system_type \<noteq> newfs) (with_screen usegraphics (do {
           yes \<leftarrow> confirm_selection (loc ''CONVERT_SYSTEM_SURE'' []) (loc ''CONVERT_SYSTEM_CONFIRM'' []);
           whenM yes (do {
             forget (unmount_filesystem ''/system'');
             forget (convert_system system_type newfs) }) })) } }"

definition mount_efs_rfs :: "unit prog" where
  "mount_efs_rfs = do {
     b \<leftarrow> gets build;
     bb [''mkdir'', ''/efs''];
     bb [''mount'', ''-t'', ''rfs'', ''-o'', TYPE_RFS_DEFAULT_MOUNT, EFS_BLOCK_NAME b, ''/efs''] }"

definition mount_efs :: "unit prog" where
  "mount_efs = do {
     hidden \<leftarrow> conf_is ''fs.system.efs'' ''0'' ''1'';
     if hidden then do {
       st \<leftarrow> call (Fs (Stat ''/system/efs''));
       whenM (st \<noteq> 0) (do {
         mount_efs_rfs;
         bb [''cp'', ''-R'', ''/efs'', ''/system''];
         bb [''umount'', ''/efs''];
         bb [''rmdir'', ''/efs''] });
       bb [''ln'', ''-s'', ''/system/efs'', ''/efs'']
     } else do {
       bb [''rm'', ''-rf'', ''/system/efs''];
       mount_efs_rfs } }"

text \<open>The types of cache, data and dbdata, and the password that was entered.\<close>

definition mount_others :: "(int \<times> int \<times> int \<times> string option) prog" where
  "mount_others = do {
     b \<leftarrow> gets build;
     ui_set_progress (6 / 10);
     (cache, secret) \<leftarrow> mount_from_config_or_autodetect ''fs.cache.type'' (CACHE_BLOCK_NAME b) ''loop1'' ''cache'' (Some []);
     ui_set_progress (7 / 10);
     (data, secret) \<leftarrow> mount_from_config_or_autodetect ''fs.data.type'' (DATA_BLOCK_NAME b) ''loop2'' ''data'' secret;
     ui_set_progress (8 / 10);
     (dbdata, secret) \<leftarrow> (if has_datadata b
       then mount_from_config_or_autodetect ''fs.dbdata.type'' DBDATA_BLOCK_NAME ''loop3'' ''dbdata'' secret
       else ret (0, secret));
     ui_set_progress (9 / 10);
     ret (cache, data, dbdata, secret) }"

text \<open>
  The new types that are left after those that are in use already have been dropped: that of
  dbdata is compared with the type of data.
\<close>

definition wanted_types :: "bool \<Rightarrow> int \<times> int \<times> int \<Rightarrow> int \<times> int \<times> int \<Rightarrow> int \<times> int \<times> int" where
  "wanted_types datadata now new = (case (now, new) of ((cache, data, dbdata), (newcache, newdata, newdbdata)) \<Rightarrow>
     (if newcache = cache then 0 else newcache, if newdata = data then 0 else newdata,
      if datadata \<and> newdbdata = data then 0 else newdbdata))"

definition convert_orders :: "bool \<Rightarrow> int \<times> int \<times> int \<Rightarrow> string option \<Rightarrow> unit prog" where
  "convert_orders usegraphics now secret = do {
     datadata \<leftarrow> opt has_datadata;
     newcache \<leftarrow> conf_int ''fs.cache.convertto'' 0;
     newdata \<leftarrow> conf_int ''fs.data.convertto'' 0;
     newdbdata \<leftarrow> (if datadata then conf_int ''fs.dbdata.convertto'' 0 else ret 0);
     forget (set_conf ''fs.cache.convertto'' None);
     forget (set_conf ''fs.data.convertto'' None);
     whenM datadata (forget (set_conf ''fs.dbdata.convertto'' None));
     case (now, wanted_types datadata now (newcache, newdata, newdbdata)) of
       ((cache, data, dbdata), (newcache, newdata, newdbdata)) \<Rightarrow>
         whenM (newcache \<noteq> 0 \<or> newdata \<noteq> 0 \<or> newdbdata \<noteq> 0) (with_screen usegraphics
           (forget (convert_filesystems (cache, newcache) (data, newdata) (dbdata, newdbdata) secret))) }"

definition set_prop :: "string \<Rightarrow> unit prog" where
  "set_prop p = bb [''sed'', ''-i'', ''s/'' @ p @ ''/'', ''default.prop'']"

definition set_adb :: "bool \<Rightarrow> unit prog" where
  "set_adb isrecovery = do {
     r \<leftarrow> get_conf_def ''adb.root'' ''0'';
     let always = (isrecovery \<and> r = ''1'' \<or> r = ''3'');
     whenM (always \<or> r = ''2'') (set_prop ''ro.debuggable=0/ro.debuggable=1'');
     whenM always (set_prop ''ro.secure=1/ro.secure=0'');
     d \<leftarrow> get_conf_def ''adb.boot'' ''0'';
     whenM (isrecovery \<and> d = ''1'' \<or> d = ''2'')
       (set_prop ''persist.service.adb.enable=0/persist.service.adb.enable=1'') }"

definition steam_init_main :: "string list \<Rightarrow> int prog" where
  "steam_init_main steam_command_list = do {
     mount_kernel;
     insert_modules;
     make_devices;
     upd (\<lambda>s. s\<lparr>TEMPORARY_LOG_FILE := INIT_LOG_FILE\<rparr>);
     isrecovery \<leftarrow> read_bootmode;
     usegraphics \<leftarrow> early_graphics isrecovery;
     prepare_phone steam_command_list usegraphics;
     system_type \<leftarrow> mount_system usegraphics;
     check_installation usegraphics;
     set_conf_int ''fs.system.type'' system_type;
     _ \<leftarrow> autoload_modules;
     usegraphics \<leftarrow> late_graphics isrecovery usegraphics;
     convert_system_order usegraphics system_type;
     mount_efs;
     (cache, data, dbdata, secret) \<leftarrow> mount_others;
     convert_orders usegraphics (cache, data, dbdata) secret;
     ui_set_progress 1;
     fix_init isrecovery;
     set_adb isrecovery;
     whenM usegraphics ui_done;
     do_call (Proc (Exec ''/init.original'' [''init'']));
     ui_init;
     ui_print (''This shouldn'' @ [CHR 0x27] @ ''t happen!'' @ [LF]);
     key_loop () (\<lambda>_. do { file_manager; ret (Inl ()) }) ();
     ret 1 }"

section \<open>Properties\<close>

lemma early_wait_enough:
  "\<not> stopped (exec (early_wait n d noscreen off) s) \<Longrightarrow> run_state (early_wait (n + k) d noscreen off) s = run_state (early_wait n d noscreen off) s"
proof (induction n arbitrary: d s)
  case 0
  then show ?case by (simp add: stop_def run_upd split: if_splits)
next
  case (Suc n)
  then show ?case by (auto simp: split_beta Let_def split: if_splits)
qed

lemma changes_flagged:
  assumes "ps = partition_changes b cache data dbdata" and "p \<in> set ps"
  shows "has (conversion_flags ps) (pc_flag p) \<longleftrightarrow> changes p"
proof -
  obtain c d e where ps: "ps = [c, d, e]" and f: "pc_flag c = 2" "pc_flag d = 4" "pc_flag e = BACKUP_DATADATA"
    using assms(1) by (simp add: partition_changes_def BACKUP_CACHE_def BACKUP_DATA_def)
  show ?thesis using assms(2) unfolding ps conversion_flags_def
    by (auto simp: f has_def BACKUP_DATADATA_def)
qed



end
