(* ===== verification/Screen.thy ===== *)
theory Screen
  imports Ui
begin

text \<open>
  The drawing of \<open>ui.c\<close>. minui, which paints, is not in the repository: its functions are the
  datatype \<open>gr\<close>, and a frame is the list of the calls it makes. Sizes of the screen and of
  the bitmaps are the record \<open>minui\<close>. What \<open>world\<close> leaves out of \<open>ui.c\<close>'s variables because
  only the threads use it is in \<open>ui_state\<close>, with the \<open>world\<close> beside it.
\<close>

section \<open>State\<close>

datatype surface = Icon int | Indeterminate nat | ProgressBarEmpty | ProgressBarFill | BackgroundSave

datatype align = Align_left | Align_center | Align_bottom

datatype gr =
    Gr_color int int int int | Gr_blend bool | Gr_fill int int int int
  | Gr_blit surface int int int int int int | Gr_save_surface surface
  | Gr_text int int string | Gr_text_align int int align align int string
  | Gr_line int int int int int | Gr_point int int int | Gr_crop int int int int | Gr_flip

record minui =
  fb_width :: int
  fb_height :: int
  surface_width :: "surface \<Rightarrow> int"
  surface_height :: "surface \<Rightarrow> int"
  loaded :: "surface \<Rightarrow> bool"

text \<open>\<open>struct mousePosStruct\<close>.\<close>

record mousePosStruct =
  pos_x :: int
  pos_y :: int
  pressure :: int
  pos_size :: int
  pos_num :: int
  path_length :: int

definition no_pos :: mousePosStruct where
  "no_pos = \<lparr>pos_x = 0, pos_y = 0, pressure = 0, pos_size = 0, pos_num = 0, path_length = 0\<rparr>"

text \<open>
  \<open>logs_read\<close> are the logs 1 to 3, which the log readers fill; log 0 is \<open>mainlog\<close>. The last three
  variables are local to \<open>input_thread\<close>.
\<close>

record ui_state =
  the_world :: world
  logs_read :: "textContainer list"
  activeLog :: nat
  gPagesIdentical :: bool
  gBackgroundSave :: bool
  anim_frame :: nat
  enable_mouse_test :: bool
  actPos :: mousePosStruct
  grabPos :: mousePosStruct
  oldMousePos :: "mousePosStruct list"
  mousePos :: "mousePosStruct list"
  menu_start_pos :: int
  menu_velocity :: rat
  key_queue :: "int list"
  key_pressed :: "int \<Rightarrow> int"
  rel_sum_x :: int
  rel_sum_y :: int
  fake_key :: bool

definition INT_MAX :: int where "INT_MAX = 2147483647"
definition MAX_MT_POINTS :: nat where "MAX_MT_POINTS = 10"
definition NUM_TEXTCONTAINERS :: nat where "NUM_TEXTCONTAINERS = 4"
definition CHAR_W :: int where "CHAR_W = 10"
definition CHAR_H :: int where "CHAR_H = 18"
definition PROGRESSBAR_INDETERMINATE_STATES :: nat where "PROGRESSBAR_INDETERMINATE_STATES = 6"

definition on_world :: "(world \<Rightarrow> world) \<Rightarrow> ui_state \<Rightarrow> ui_state" where
  "on_world f s = s\<lparr>the_world := f (the_world s)\<rparr>"

definition log_of :: "nat \<Rightarrow> ui_state \<Rightarrow> textContainer" where
  "log_of i s = (if i = 0 then mainlog (the_world s) else logs_read s ! (i - 1))"

text \<open>The static initializers, and what \<open>ui_init\<close> clears.\<close>

definition ui_boot :: "world \<Rightarrow> minui \<Rightarrow> ui_state" where
  "ui_boot w g = \<lparr>the_world = w, logs_read = replicate 3 (ui_clear_screen (nat (fb_width g)) (nat (fb_height g))),
     activeLog = 0, gPagesIdentical = False, gBackgroundSave = False, anim_frame = 0, enable_mouse_test = False,
     actPos = no_pos, grabPos = no_pos, oldMousePos = replicate MAX_MT_POINTS no_pos,
     mousePos = replicate MAX_MT_POINTS no_pos, menu_start_pos = 0, menu_velocity = 0,
     key_queue = [], key_pressed = (\<lambda>_. 0), rel_sum_x = 0, rel_sum_y = 0, fake_key = False\<rparr>"

text \<open>C's remainder.\<close>

definition crem :: "int \<Rightarrow> int \<Rightarrow> int" where
  "crem a b = a - b * cdiv a b"

section \<open>Background, progress, text\<close>

definition gBackgroundIcon :: "minui \<Rightarrow> int \<Rightarrow> surface option" where
  "gBackgroundIcon g icon =
     (if (icon = BACKGROUND_ICON_INSTALLING \<or> icon = BACKGROUND_ICON_ERROR) \<and> loaded g (Icon icon) then Some (Icon icon) else None)"

definition draw_background_locked :: "minui \<Rightarrow> surface option \<Rightarrow> ui_state \<Rightarrow> gr list \<times> ui_state" where
  "draw_background_locked g icon s =
     (let s = s\<lparr>gPagesIdentical := False\<rparr> in
      if gBackgroundSave s then
        ([Gr_color 255 255 255 255, Gr_blend False,
          Gr_blit BackgroundSave 0 0 (fb_width g) (fb_height g) 0 0, Gr_blend True], s)
      else
        ([Gr_color 0 0 0 255, Gr_fill 0 0 (fb_width g) (fb_height g)] @
         (case icon of None \<Rightarrow> []
          | Some ic \<Rightarrow> [Gr_blit ic 0 0 (surface_width g ic) (surface_height g ic)
              (cdiv (fb_width g - surface_width g ic) 2) (cdiv (fb_height g - surface_height g ic) 2)]) @
         [Gr_color 0 0 0 222, Gr_fill 0 0 (fb_width g) (fb_height g), Gr_save_surface BackgroundSave],
         s\<lparr>gBackgroundSave := True\<rparr>))"

definition draw_progress_locked :: "minui \<Rightarrow> ui_state \<Rightarrow> gr list \<times> ui_state" where
  "draw_progress_locked g s =
     (let w = the_world s in
      if gProgressBarType w = ProgressNone \<or> enable_console_screen w then ([], s)
      else
        (let width = surface_width g ProgressBarEmpty; height = surface_height g ProgressBarEmpty;
             dx = cdiv (fb_width g - width) 2; dy = fb_height g - 2 * height;
             erase = [Gr_color 0 0 0 255, Gr_fill dx dy width height]
         in if gProgressBarType w = ProgressNormal then
              (let progress = gProgressScopeStart w + gProgress w * gProgressScopeSize w;
                   pos = trunc (progress * of_int width)
               in (erase @ (if pos > 0 then [Gr_blit ProgressBarFill 0 0 pos height dx dy] else []) @
                   (if pos < width - 1 then [Gr_blit ProgressBarEmpty pos 0 (width - pos) height (dx + pos) dy] else []), s))
            else
              (erase @ [Gr_blit (Indeterminate (anim_frame s)) 0 0 width height dx dy],
               s\<lparr>anim_frame := (anim_frame s + 1) mod PROGRESSBAR_INDETERMINATE_STATES\<rparr>)))"

definition draw_text_line :: "ui_state \<Rightarrow> nat \<Rightarrow> string \<Rightarrow> gr list" where
  "draw_text_line s row t =
     (if t = [] then []
      else if enable_console_screen (the_world s) then [Gr_text 0 ((int row + 1 - 17) * CHAR_H - 1) t]
      else if gProgressBarType (the_world s) = ProgressNone then [Gr_text 0 ((int row + 1) * CHAR_H - 1) t]
      else [Gr_text 0 ((int row + 1 - 4) * CHAR_H - 1) t])"

text \<open>The rows of a log from \<open>from\<close> on; \<open>Text_Log.draw_logs\<close> are all of them, from the top down.\<close>

definition draw_rows :: "ui_state \<Rightarrow> nat \<Rightarrow> textContainer \<Rightarrow> gr list" where
  "draw_rows s from tc = concat (map (\<lambda>row. draw_text_line s row (draw_logs tc ! row)) [from ..< text_rows tc])"

section \<open>The menu\<close>

definition MENU_TEXT_COLOR :: gr where "MENU_TEXT_COLOR = Gr_color 7 133 74 255"
definition MENU_TEXT_COLOR_BACK :: gr where "MENU_TEXT_COLOR_BACK = Gr_color 7 133 74 128"
definition MENU_TEXT_COLOR_BACK_PRESS :: gr where "MENU_TEXT_COLOR_BACK_PRESS = Gr_color 7 133 74 196"
definition NORMAL_TEXT_COLOR :: gr where "NORMAL_TEXT_COLOR = Gr_color 200 200 200 255"
definition HEADER_TEXT_COLOR :: gr where "HEADER_TEXT_COLOR = NORMAL_TEXT_COLOR"
definition BLACK :: gr where "BLACK = Gr_color 0 0 0 255"

text \<open>The height of the menu on the screen.\<close>

definition shown_height :: "int \<Rightarrow> int" where
  "shown_height items =
     (if items * MENU_ELEMENT_HEIGHT > menu_max_height then menu_max_height else items * MENU_ELEMENT_HEIGHT)"

text \<open>The text of an element, which may be NULL; minui is taken to draw nothing then.\<close>

definition element_text :: "menuElement \<Rightarrow> string" where
  "element_text e = (case me_text e of None \<Rightarrow> [] | Some t \<Rightarrow> t)"

text \<open>The highlight behind an element.\<close>

definition draw_highlight :: "minui \<Rightarrow> ui_state \<Rightarrow> int \<Rightarrow> menuElement \<Rightarrow> gr list" where
  "draw_highlight g s y e =
     [if path_length (mousePos s ! 0) < 15 then MENU_TEXT_COLOR_BACK_PRESS else MENU_TEXT_COLOR_BACK] @
     (if me_help e \<noteq> None then
        (if pressure (grabPos s) \<noteq> 0 then
           (if pos_x (grabPos s) < fb_width g - 60 then [Gr_fill 0 y (fb_width g - 60) (y + MENU_ELEMENT_HEIGHT)]
            else [Gr_fill (fb_width g - 60) y (fb_width g) (y + MENU_ELEMENT_HEIGHT)])
         else [Gr_fill 0 y (fb_width g - 60) (y + MENU_ELEMENT_HEIGHT)])
      else [Gr_fill 0 y (fb_width g) (y + MENU_ELEMENT_HEIGHT)]) @
     [NORMAL_TEXT_COLOR]"

definition draw_box :: "int \<Rightarrow> menuElement \<Rightarrow> gr list" where
  "draw_box y e =
     (let mid = y + cdiv MENU_ELEMENT_HEIGHT 2 in
      if me_type e = MENU_TYPE_CHECKBOX then
        [Gr_fill 20 (mid - 10) 40 (mid + 10), BLACK, Gr_fill 22 (mid - 8) 38 (mid + 8)] @
        (if me_id e = me_group_id e then [Gr_color 255 255 255 255, Gr_fill 24 (mid - 6) 36 (mid + 6)] else [])
      else if me_type e = MENU_TYPE_RADIOBOX then
        [Gr_point 30 mid 20, BLACK, Gr_point 30 mid 18] @
        (if me_id e = me_group_id e then [Gr_color 255 255 255 255, Gr_point 30 mid 16] else [])
      else [])"

definition draw_element :: "minui \<Rightarrow> ui_state \<Rightarrow> int \<Rightarrow> int \<Rightarrow> menuElement \<Rightarrow> gr list" where
  "draw_element g s spos y e =
     (if spos = menu_sel (the_world s) \<and> \<not> is_header e then draw_highlight g s y e else []) @
     (if me_type e = MENU_TYPE_GLOBAL_HEADER then
        [HEADER_TEXT_COLOR, Gr_text_align (cdiv (fb_width g) 2) (y + cdiv MENU_ELEMENT_HEIGHT 2) Align_center Align_center 0 (element_text e)]
      else if me_type e = MENU_TYPE_GROUP_HEADER then
        [HEADER_TEXT_COLOR, Gr_text_align 20 (y + MENU_ELEMENT_HEIGHT - 10) Align_left Align_bottom 0 (element_text e)]
      else
        [if spos = menu_sel (the_world s) then HEADER_TEXT_COLOR else MENU_TEXT_COLOR,
         Gr_text_align 60 (y + cdiv MENU_ELEMENT_HEIGHT 2) Align_left Align_center 0 (element_text e)] @
        draw_box y e) @
     [MENU_TEXT_COLOR, Gr_fill 0 (y + MENU_ELEMENT_HEIGHT - 1) (fb_width g) (y + MENU_ELEMENT_HEIGHT)] @
     (if me_help e \<noteq> None then
        [NORMAL_TEXT_COLOR, Gr_text_align (fb_width g - 30) (y + cdiv MENU_ELEMENT_HEIGHT 2) Align_center Align_center 0 ''?'']
      else [])"

fun draw_elements :: "minui \<Rightarrow> ui_state \<Rightarrow> int \<Rightarrow> int \<Rightarrow> menuElement list \<Rightarrow> gr list" where
  "draw_elements g s spos y [] = []"
| "draw_elements g s spos y (e # es) =
     draw_element g s spos y e @ draw_elements g s (spos + 1) (y + MENU_ELEMENT_HEIGHT) es"

text \<open>The scrolling of a frame: with no finger on the screen the menu moves on, and is stopped at its ends.\<close>

definition lowest_pos :: "int \<Rightarrow> int" where
  "lowest_pos items = - (items * MENU_ELEMENT_HEIGHT) + shown_height items"

definition scroll_step :: "int \<Rightarrow> int \<times> rat \<Rightarrow> int \<times> rat" where
  "scroll_step items = (\<lambda>(pos, v).
     let (pos, v) = (if \<bar>trunc v\<bar> > 1 then (trunc (of_int pos + v), v / 4 * 3) else (pos, 0));
         (pos, v) = (if pos > 0 then (0, 0) else (pos, v))
     in if pos < lowest_pos items then (lowest_pos items, 0) else (pos, v))"

definition scroll_menu :: "ui_state \<Rightarrow> ui_state" where
  "scroll_menu s =
     (if pressure (grabPos s) \<noteq> 0 then s
      else
        (let (pos, v) = scroll_step (menu_items (the_world s)) (menu_pos (the_world s), menu_velocity s)
         in s\<lparr>menu_start_pos := INT_MAX, menu_velocity := v, the_world := (the_world s)\<lparr>menu_pos := pos\<rparr>\<rparr>))"

definition draw_menu :: "minui \<Rightarrow> ui_state \<Rightarrow> gr list \<times> ui_state" where
  "draw_menu g s =
     (if \<not> show_text (the_world s) then ([], s)
      else
        (let s = s\<lparr>activeLog := (if enable_console_screen (the_world s) then 1 else 0)\<rparr>;
             items = menu_items (the_world s);
             menu_height = (if show_menu (the_world s) then shown_height items else 0);
             rows = NORMAL_TEXT_COLOR # draw_rows s (nat (cdiv menu_height CHAR_H)) (log_of (activeLog s) s)
         in if show_menu (the_world s) then
              (let s = scroll_menu s;
                   (bg, s) = draw_background_locked g (gBackgroundIcon g (gCurrentIcon (the_world s))) s
               in (rows @ [MENU_TEXT_COLOR, Gr_fill 0 menu_height (fb_width g) (menu_height + 2),
                     Gr_crop 0 0 (fb_width g) menu_height] @ bg @
                   draw_elements g s 0 (menu_pos (the_world s))
                     (case menu_list (the_world s) of None \<Rightarrow> [] | Some l \<Rightarrow> l) @ [Gr_crop 0 0 0 0], s))
            else (rows, s)))"

section \<open>The other screens\<close>

definition digit :: "nat \<Rightarrow> string" where "digit n = [char_of (48 + n)]"

definition draw_log_page :: "minui \<Rightarrow> ui_state \<Rightarrow> gr list \<times> ui_state" where
  "draw_log_page g s =
     (if show_text (the_world s) then ([], s)
      else
        (let page = nat (current_page (the_world s));
             s = s\<lparr>activeLog := page\<rparr>;
             w = cdiv (fb_width g) (int NUM_TEXTCONTAINERS)
         in (NORMAL_TEXT_COLOR # draw_rows s 0 (log_of page s) @
             [MENU_TEXT_COLOR, Gr_fill 0 0 (fb_width g) 40, BLACK] @
             concat (map (\<lambda>row. if row \<noteq> page then [Gr_fill (int row * w + 1) 1 ((int row + 1) * w - 1) 39] else [])
               [0 ..< NUM_TEXTCONTAINERS]) @
             NORMAL_TEXT_COLOR # map (\<lambda>row. Gr_text (int row * w + cdiv w 2 - cdiv CHAR_W 2) 30 (digit row))
               [0 ..< NUM_TEXTCONTAINERS], s)))"

definition draw_mouse_text :: "ui_state \<Rightarrow> gr list" where
  "draw_mouse_text s =
     (if \<not> enable_mouse_test s then []
      else concat (map (\<lambda>i. let p = mousePos s ! i in
        if pressure p = 0 then [] else
          concat (map (\<lambda>i2. let p2 = mousePos s ! i2 in
            if pressure p2 \<noteq> 0 then [Gr_color 0 128 0 128, Gr_line (pos_x p) (pos_y p) (pos_x p2) (pos_y p2) 5] else [])
            [i + 1 ..< MAX_MT_POINTS]) @
          [Gr_color (128 + int (i mod 2) * 128) (128 + (if i mod 4 < 2 then 0 else 1) * 128)
             (128 + (if i mod 8 < 4 then 0 else 1) * 128) 255,
           Gr_point (pos_x p) (pos_y p) (pos_size p * 16), BLACK, Gr_point (pos_x p) (pos_y p) (pos_size p * 14),
           Gr_color 255 255 255 192,
           Gr_text (pos_x p - pos_size p * 8 - 16) (pos_y p - pos_size p * 8 - 16) (digit i)])
        [0 ..< MAX_MT_POINTS]))"

text \<open>The height of the first row of keys; each row is four characters high.\<close>

definition keys_top :: "minui \<Rightarrow> int" where "keys_top g = fb_height g - CHAR_H * 14"

definition key_width :: "minui \<Rightarrow> string \<Rightarrow> int" where "key_width g str = cdiv (fb_width g) (int (length str))"

definition draw_key :: "int \<Rightarrow> int \<Rightarrow> nat \<Rightarrow> char \<Rightarrow> gr" where
  "draw_key width height i2 c =
     (let mid = int i2 * width + cdiv width 2 in
      if c = CHR 0x01 then Gr_text (mid - CHAR_W * 2) height ''^^^''
      else if c = CHR 0x02 then Gr_text (mid - CHAR_W * 2) height ''<==''
      else if c = CHR 0x03 then Gr_text (mid - CHAR_W * 2) height ''123''
      else if c = LF then Gr_text (mid - CHAR_W * 3) height ''EEEEE''
      else if c = CHR '' '' then Gr_text (mid - CHAR_W * 3) height ''_____''
      else Gr_text mid height [c])"

definition draw_console :: "minui \<Rightarrow> ui_state \<Rightarrow> gr list" where
  "draw_console g s =
     (let w = the_world s in
      if \<not> enable_console_screen w then []
      else concat (map (\<lambda>i. let str = keyboard_line (keyboard_page w) ! i in
          map (\<lambda>i2. draw_key (key_width g str) (keys_top g + int i * (CHAR_H * 4)) i2 (str ! i2)) [0 ..< length str]) [0 ..< 4]) @
        [Gr_text 0 (keys_top g + 4 * (CHAR_H * 4) - CHAR_H * 18) (console_cmd w)])"

text \<open>The dots of the password screen: four columns and six rows, with the letters A to X.\<close>

definition dot_width :: "minui \<Rightarrow> int" where "dot_width g = cdiv (fb_width g) 4"
definition dot_height :: "minui \<Rightarrow> int" where "dot_height g = cdiv (fb_height g - 50) 6"

definition dot_x :: "minui \<Rightarrow> int \<Rightarrow> int" where "dot_x g a = a * dot_width g + cdiv (dot_width g) 2"
definition dot_y :: "minui \<Rightarrow> int \<Rightarrow> int" where "dot_y g a = a * dot_height g + cdiv (dot_height g) 2"

definition letter_col :: "char \<Rightarrow> int" where "letter_col c = crem (of_char c - 65) 4"
definition letter_row :: "char \<Rightarrow> int" where "letter_row c = cdiv (of_char c - 65) 4"

definition dot_letter :: "nat \<Rightarrow> nat \<Rightarrow> char" where "dot_letter x y = char_of (65 + y * 4 + x)"

definition draw_secret :: "minui \<Rightarrow> ui_state \<Rightarrow> gr list" where
  "draw_secret g s =
     (let w = the_world s; c = after_last CHR ''_'' (console_cmd w); len = length c in
      if \<not> enable_secret_screen w then []
      else
        concat (map (\<lambda>x. [Gr_color 0 255 0 192,
            Gr_line (dot_x g (letter_col (c ! x))) (dot_y g (letter_row (c ! x)))
              (dot_x g (letter_col (c ! (x + 1)))) (dot_y g (letter_row (c ! (x + 1)))) 20]) [0 ..< len - 1]) @
        (if len > 0 \<and> pressure (grabPos s) \<noteq> 0 then
           [Gr_color 0 255 0 128,
            Gr_line (dot_x g (letter_col (c ! (len - 1)))) (dot_y g (letter_row (c ! (len - 1))))
              (pos_x (mousePos s ! 0)) (pos_y (mousePos s ! 0)) 20] else []) @
        concat (map (\<lambda>x. concat (map (\<lambda>y.
            [if dot_letter x y \<in> set c then Gr_color 0 255 0 255 else Gr_color 0 0 255 255,
             Gr_point (dot_x g (int x)) (dot_y g (int y)) 70, BLACK,
             Gr_point (dot_x g (int x)) (dot_y g (int y)) 50, Gr_color 255 255 255 255,
             Gr_text_align (dot_x g (int x)) (dot_y g (int y)) Align_center Align_center 0 [dot_letter x y]]) [0 ..< 6])) [0 ..< 4]) @
        map (\<lambda>x. Gr_text (int x * CHAR_W) CHAR_H ''*'') [0 ..< length (console_cmd w)])"

section \<open>Frames\<close>

definition draw_screen_locked :: "minui \<Rightarrow> ui_state \<Rightarrow> gr list \<times> ui_state" where
  "draw_screen_locked g s =
     (if \<not> ui_has_initialized (the_world s) then ([], s)
      else
        (let (bg, s) = draw_background_locked g (gBackgroundIcon g (gCurrentIcon (the_world s))) s;
             (progress, s) = draw_progress_locked g s;
             (menu, s) = draw_menu g s;
             (page, s) = draw_log_page g s
         in (bg @ progress @ menu @ page @ draw_mouse_text s @ draw_console g s @ draw_secret g s, s)))"

definition update_screen_locked :: "minui \<Rightarrow> ui_state \<Rightarrow> gr list \<times> ui_state" where
  "update_screen_locked g s =
     (if \<not> ui_has_initialized (the_world s) then ([], s)
      else let (calls, s) = draw_screen_locked g s in (calls @ [Gr_flip], s))"

text \<open>One round of \<open>ui_thread\<close>: the clock's progress, then a frame.\<close>

definition ui_thread_round :: "minui \<Rightarrow> ui_state \<Rightarrow> gr list \<times> ui_state" where
  "ui_thread_round g s = update_screen_locked g (on_world (exec ui_thread_tick) s)"

primrec frames :: "nat \<Rightarrow> minui \<Rightarrow> ui_state \<Rightarrow> ui_state" where
  "frames 0 g s = s"
| "frames (Suc n) g s = frames n g (snd (ui_thread_round g s))"

section \<open>Scrolling\<close>

definition menu_shown :: "ui_state \<Rightarrow> bool" where
  "menu_shown s \<longleftrightarrow> ui_has_initialized (the_world s) \<and> show_text (the_world s) \<and> show_menu (the_world s)"

lemma tick_frame [simp]:
  "menu_pos (exec ui_thread_tick w) = menu_pos w" "menu_items (exec ui_thread_tick w) = menu_items w"
  "show_text (exec ui_thread_tick w) = show_text w" "show_menu (exec ui_thread_tick w) = show_menu w"
  "ui_has_initialized (exec ui_thread_tick w) = ui_has_initialized w" "menu_list (exec ui_thread_tick w) = menu_list w"
  "menu_sel (exec ui_thread_tick w) = menu_sel w" "stopped (exec ui_thread_tick w) = stopped w"
  "console_cmd (exec ui_thread_tick w) = console_cmd w" "current_page (exec ui_thread_tick w) = current_page w"
  "keyboard_page (exec ui_thread_tick w) = keyboard_page w" "menu_sel_mouse_valid (exec ui_thread_tick w) = menu_sel_mouse_valid w"
  "enable_console_screen (exec ui_thread_tick w) = enable_console_screen w"
  "enable_secret_screen (exec ui_thread_tick w) = enable_secret_screen w"
  by (simp_all add: ui_thread_tick_def run_simps Let_def)

lemma draw_background_frame [simp]:
  "snd (draw_background_locked g ic s) = s\<lparr>gPagesIdentical := False, gBackgroundSave := True\<rparr>"
  by (cases s) (simp add: draw_background_locked_def Let_def)

lemma draw_progress_frame:
  "\<exists>n. snd (draw_progress_locked g s) = s\<lparr>anim_frame := n\<rparr>"
proof -
  have eq: "s = s\<lparr>anim_frame := anim_frame s\<rparr>" by simp
  have "snd (draw_progress_locked g s) = s \<or>
      snd (draw_progress_locked g s) = s\<lparr>anim_frame := (anim_frame s + 1) mod PROGRESSBAR_INDETERMINATE_STATES\<rparr>"
    by (simp add: draw_progress_locked_def Let_def)
  then show ?thesis using eq by metis
qed

text \<open>A frame with the menu on the screen scrolls it, and leaves the pointer alone.\<close>

definition menu_drawn :: "minui \<Rightarrow> ui_state \<Rightarrow> ui_state" where
  "menu_drawn g s = scroll_menu (on_world (exec ui_thread_tick) s)"

lemma ui_thread_round_shown:
  assumes "menu_shown s"
  obtains n l where "snd (ui_thread_round g s) =
    (menu_drawn g s)\<lparr>gPagesIdentical := False, gBackgroundSave := True, anim_frame := n, activeLog := l\<rparr>"
proof -
  let ?s = "on_world (exec ui_thread_tick) s"
  have shown: "ui_has_initialized (the_world ?s)" "show_text (the_world ?s)" "show_menu (the_world ?s)"
    using assms by (simp_all add: menu_shown_def on_world_def)
  define b where "b = snd (draw_background_locked g (gBackgroundIcon g (gCurrentIcon (the_world ?s))) ?s)"
  obtain n where n: "snd (draw_progress_locked g b) = b\<lparr>anim_frame := n\<rparr>" using draw_progress_frame by blast
  define p where "p = b\<lparr>anim_frame := n\<rparr>"
  define l where "l = (if enable_console_screen (the_world p) then 1 else 0 :: nat)"
  have b: "b = ?s\<lparr>gPagesIdentical := False, gBackgroundSave := True\<rparr>" by (simp add: b_def)
  have m: "snd (draw_menu g p) = (scroll_menu (p\<lparr>activeLog := l\<rparr>))\<lparr>gPagesIdentical := False, gBackgroundSave := True\<rparr>"
    using shown by (simp add: draw_menu_def Let_def l_def split_beta p_def b)
  have c: "scroll_menu (p\<lparr>activeLog := l\<rparr>) =
      (scroll_menu ?s)\<lparr>gPagesIdentical := False, gBackgroundSave := True, anim_frame := n, activeLog := l\<rparr>"
    by (simp add: scroll_menu_def p_def b Let_def split_beta)
  have t: "show_text (the_world (snd (draw_menu g p)))"
    using shown unfolding m c by (simp add: scroll_menu_def Let_def split_beta)
  have n': "snd (draw_progress_locked g (?s\<lparr>gPagesIdentical := False, gBackgroundSave := True\<rparr>)) = p"
    using n b by (simp add: p_def)
  have "snd (ui_thread_round g s) = snd (draw_menu g p)"
    using shown t by (simp add: ui_thread_round_def update_screen_locked_def draw_screen_locked_def split_beta Let_def
        draw_log_page_def n')
  with m c show ?thesis by (intro that [of l n]) (simp add: menu_drawn_def)
qed

lemma trunc_le_1: "\<bar>trunc v\<bar> > 1 \<longleftrightarrow> 2 \<le> \<bar>v\<bar>"
proof (cases "v < 0")
  case True
  then have "\<lceil>v\<rceil> \<le> 0" by simp
  with True have "\<bar>trunc v\<bar> > 1 \<longleftrightarrow> \<lceil>v\<rceil> \<le> -2" by (simp add: trunc_def) linarith
  also have "\<dots> \<longleftrightarrow> v \<le> -2" by (simp add: ceiling_le_iff)
  finally show ?thesis using True by linarith
next
  case False
  then have "0 \<le> \<lfloor>v\<rfloor>" by simp
  with False have "\<bar>trunc v\<bar> > 1 \<longleftrightarrow> 2 \<le> \<lfloor>v\<rfloor>" by (simp add: trunc_def)
  also have "\<dots> \<longleftrightarrow> 2 \<le> v" by (simp add: le_floor_iff)
  finally show ?thesis using False by linarith
qed

lemma shown_height_le: "0 \<le> items \<Longrightarrow> 0 \<le> shown_height items \<and> shown_height items \<le> items * MENU_ELEMENT_HEIGHT"
  by (simp add: shown_height_def MENU_ELEMENT_HEIGHT_def menu_max_height_def)

lemma scroll_step_speed:
  "\<bar>snd (scroll_step items (p, v))\<bar> \<le> 3 / 4 * \<bar>v\<bar>"
  "\<bar>v\<bar> < 2 \<Longrightarrow> snd (scroll_step items (p, v)) = 0"
  by (simp_all add: scroll_step_def Let_def trunc_le_1 abs_mult split: prod.splits)

lemma scroll_step_range:
  "0 \<le> items \<Longrightarrow> lowest_pos items \<le> fst (scroll_step items (p, v)) \<and> fst (scroll_step items (p, v)) \<le> 0"
  using shown_height_le [of items] by (auto simp: scroll_step_def Let_def lowest_pos_def split: prod.splits)

lemma scroll_step_rest: "lowest_pos items \<le> p \<Longrightarrow> p \<le> 0 \<Longrightarrow> scroll_step items (p, 0) = (p, 0)"
  by (simp add: scroll_step_def trunc_def)

text \<open>Frames with the menu shown and no finger on the screen only repeat \<open>scroll_step\<close>.\<close>

lemma frames_scroll:
  assumes "menu_shown s" and "pressure (grabPos s) = 0"
  shows "menu_shown (frames n g s) \<and> pressure (grabPos (frames n g s)) = 0
    \<and> menu_items (the_world (frames n g s)) = menu_items (the_world s)
    \<and> (menu_pos (the_world (frames n g s)), menu_velocity (frames n g s)) =
        (scroll_step (menu_items (the_world s)) ^^ n) (menu_pos (the_world s), menu_velocity s)"
  using assms
proof (induction n arbitrary: s)
  case (Suc n)
  obtain a l where r: "snd (ui_thread_round g s) =
      (menu_drawn g s)\<lparr>gPagesIdentical := False, gBackgroundSave := True, anim_frame := a, activeLog := l\<rparr>"
    using ui_thread_round_shown [OF Suc.prems(1)] by metis
  let ?s = "snd (ui_thread_round g s)"
  have "menu_shown ?s" "pressure (grabPos ?s) = 0" "menu_items (the_world ?s) = menu_items (the_world s)"
    "(menu_pos (the_world ?s), menu_velocity ?s) =
       scroll_step (menu_items (the_world s)) (menu_pos (the_world s), menu_velocity s)"
    unfolding r using Suc.prems
    by (simp_all add: menu_drawn_def scroll_menu_def on_world_def menu_shown_def Let_def split_beta)
  with Suc.IH [of ?s] show ?case by (simp add: funpow_swap1)
qed simp

lemma scroll_steps_speed: "\<bar>snd ((scroll_step items ^^ n) pv)\<bar> \<le> (3 / 4) ^ n * \<bar>snd pv\<bar>"
proof (induction n)
  case (Suc n)
  obtain p v where pv: "(scroll_step items ^^ n) pv = (p, v)" by fastforce
  have "\<bar>snd (scroll_step items (p, v))\<bar> \<le> 3 / 4 * \<bar>v\<bar>" by (rule scroll_step_speed)
  also have "\<dots> \<le> 3 / 4 * ((3 / 4) ^ n * \<bar>snd pv\<bar>)" using Suc pv by (intro mult_left_mono) simp_all
  finally show ?case by (simp add: pv algebra_simps)
qed simp

lemma scroll_steps_rest:
  assumes "0 \<le> items" and "(3 / 4) ^ n * \<bar>snd pv\<bar> < 2"
  shows "(scroll_step items ^^ (Suc n + m)) pv = (scroll_step items ^^ Suc n) pv
    \<and> snd ((scroll_step items ^^ Suc n) pv) = 0
    \<and> lowest_pos items \<le> fst ((scroll_step items ^^ Suc n) pv) \<and> fst ((scroll_step items ^^ Suc n) pv) \<le> 0"
proof -
  obtain p v where pv: "(scroll_step items ^^ n) pv = (p, v)" by fastforce
  have "\<bar>v\<bar> < 2" using scroll_steps_speed [of n items pv] assms(2) pv by simp
  then obtain q where q: "scroll_step items (p, v) = (q, 0)" using scroll_step_speed(2) by (metis prod.collapse)
  have r: "lowest_pos items \<le> q" "q \<le> 0" using scroll_step_range [OF assms(1), of p v] q by simp_all
  have stay: "(scroll_step items ^^ m) (q, 0) = (q, 0)"
    by (induction m) (simp_all add: scroll_step_rest [OF r])
  have n: "(scroll_step items ^^ Suc n) pv = (q, 0)" by (simp add: pv q)
  have "(scroll_step items ^^ (m + Suc n)) pv = (q, 0)" unfolding funpow_add comp_apply n by (rule stay)
  with n show ?thesis using r by (simp add: add.commute)
qed

lemma rest_exists: "\<exists>n. (3 / 4) ^ n * \<bar>v\<bar> < (2 :: rat)"
proof -
  have "0 < 2 / (\<bar>of_rat v\<bar> + 1 :: real)" by (intro divide_pos_pos add_nonneg_pos) simp_all
  from real_arch_pow_inv [OF this, of "3 / 4"] obtain n where n: "(3 / 4 :: real) ^ n < 2 / (\<bar>of_rat v\<bar> + 1)" by auto
  then have "(3 / 4 :: real) ^ n * (\<bar>of_rat v\<bar> + 1) < 2" by (subst (asm) pos_less_divide_eq) (simp_all add: add_nonneg_pos)
  moreover have "(3 / 4 :: real) ^ n * \<bar>of_rat v\<bar> \<le> (3 / 4 :: real) ^ n * (\<bar>of_rat v\<bar> + 1)" by simp
  ultimately have "(3 / 4 :: real) ^ n * \<bar>of_rat v\<bar> < 2" by linarith
  moreover have "(of_rat ((3 / 4) ^ n * \<bar>v\<bar>) :: real) = (3 / 4) ^ n * \<bar>of_rat v\<bar>"
    by (simp add: of_rat_mult of_rat_power of_rat_divide)
  ultimately have "(of_rat ((3 / 4) ^ n * \<bar>v\<bar>) :: real) < of_rat 2" by simp
  then have "(3 / 4) ^ n * \<bar>v\<bar> < 2" unfolding of_rat_less .
  then show ?thesis by blast
qed

section \<open>Where things are drawn\<close>

text \<open>The elements of the menu follow each other down the screen.\<close>

lemma draw_elements_nth:
  "i < length l \<Longrightarrow> \<exists>before after. draw_elements g s spos y l =
     before @ draw_element g s (spos + int i) (y + int i * MENU_ELEMENT_HEIGHT) (l ! i) @ after"
proof (induction l arbitrary: i spos y)
  case (Cons e es)
  show ?case
  proof (cases i)
    case 0
    then show ?thesis by (rule_tac exI [of _ "[]"], rule_tac exI [of _ "draw_elements g s (spos + 1) (y + MENU_ELEMENT_HEIGHT) es"]) simp
  next
    case (Suc j)
    then obtain b a where ba: "draw_elements g s (spos + 1) (y + MENU_ELEMENT_HEIGHT) es =
        b @ draw_element g s (spos + 1 + int j) (y + MENU_ELEMENT_HEIGHT + int j * MENU_ELEMENT_HEIGHT) (es ! j) @ a"
      using Cons.IH [of j "spos + 1" "y + MENU_ELEMENT_HEIGHT"] Cons.prems by auto
    have eq: "spos + 1 + int j = spos + int i" "y + MENU_ELEMENT_HEIGHT + int j * MENU_ELEMENT_HEIGHT = y + int i * MENU_ELEMENT_HEIGHT"
      "es ! j = (e # es) ! i" using Suc by (simp_all add: algebra_simps)
    have "draw_elements g s spos y (e # es) = (draw_element g s spos y e @ b) @
        draw_element g s (spos + int i) (y + int i * MENU_ELEMENT_HEIGHT) ((e # es) ! i) @ a"
      unfolding draw_elements.simps ba eq by simp
    then show ?thesis by blast
  qed
qed simp

text \<open>A bitmap is copied from within its columns.\<close>

fun blit_within :: "minui \<Rightarrow> gr \<Rightarrow> bool" where
  "blit_within g (Gr_blit sf sx sy w h dx dy) \<longleftrightarrow> 0 \<le> sx \<and> 0 \<le> w \<and> sx + w \<le> surface_width g sf"
| "blit_within g _ \<longleftrightarrow> True"

lemma trunc_nonneg: "0 \<le> r \<Longrightarrow> trunc r = \<lfloor>r\<rfloor>"
  by (simp add: trunc_def)

section \<open>Properties\<close>

text \<open>
  C39. Scrolling comes to rest. When the finger has left the screen, the menu, however fast it was
  let go, stands still after so many frames that three quarters to their number
  times the speed is below two pixels, and one more: from then on every frame shows
  it at the same place, which is between its two ends. There is always such a number.
\<close>

theorem scroll_comes_to_rest:
  assumes "menu_shown s" and "pressure (grabPos s) = 0" and "0 \<le> menu_items (the_world s)"
  shows "(\<exists>n. (3 / 4) ^ n * \<bar>menu_velocity s\<bar> < 2)
    \<and> (\<forall>n m. (3 / 4) ^ n * \<bar>menu_velocity s\<bar> < 2 \<longrightarrow>
        menu_velocity (frames (Suc n + m) g s) = 0
        \<and> menu_pos (the_world (frames (Suc n + m) g s)) = menu_pos (the_world (frames (Suc n) g s))
        \<and> lowest_pos (menu_items (the_world s)) \<le> menu_pos (the_world (frames (Suc n) g s))
        \<and> menu_pos (the_world (frames (Suc n) g s)) \<le> 0)"
proof -
  let ?f = "scroll_step (menu_items (the_world s))" and ?pv = "(menu_pos (the_world s), menu_velocity s)"
  have k: "menu_pos (the_world (frames k g s)) = fst ((?f ^^ k) ?pv)" "menu_velocity (frames k g s) = snd ((?f ^^ k) ?pv)" for k
    using frames_scroll [OF assms(1,2), of k g] by (metis fst_conv, metis snd_conv)
  have "snd ((?f ^^ (Suc n + m)) ?pv) = 0 \<and> fst ((?f ^^ (Suc n + m)) ?pv) = fst ((?f ^^ Suc n) ?pv)
      \<and> lowest_pos (menu_items (the_world s)) \<le> fst ((?f ^^ Suc n) ?pv) \<and> fst ((?f ^^ Suc n) ?pv) \<le> 0"
    if "(3 / 4) ^ n * \<bar>menu_velocity s\<bar> < 2" for n m
    using scroll_steps_rest [OF assms(3), of n ?pv m] that by simp
  then show ?thesis using rest_exists unfolding k by blast
qed

text \<open>A screen of 480 by 800 pixels, with a menu of a header and two items.\<close>

definition sample_minui :: minui where
  "sample_minui = \<lparr>fb_width = 480, fb_height = 800, surface_width = (\<lambda>_. 200), surface_height = (\<lambda>_. 20), loaded = (\<lambda>_. True)\<rparr>"

definition sample_ui :: ui_state where
  "sample_ui = ui_boot (two_items\<lparr>ui_has_initialized := True, show_text := True\<rparr>) sample_minui"

lemma sample_ui_shown:
  "menu_shown sample_ui" "grabPos sample_ui = no_pos" "menu_items (the_world sample_ui) = 3"
  "menu_list (the_world sample_ui) = Some (old_menu [''Reboot?''] [''No'', ''Yes''])" "menu_pos (the_world sample_ui) = 0"
  "\<not> stopped (the_world sample_ui)" "mousePos sample_ui = replicate 10 no_pos"
  using two_items_menu
  by (simp_all add: sample_ui_def ui_boot_def menu_shown_def two_items_def ui_start_menu_def run_upd sample_store_def boot_state_def
      MAX_MT_POINTS_def)

theorem scroll_comes_to_rest_witness:
  "menu_velocity (frames 16 sample_minui (sample_ui\<lparr>menu_velocity := -100\<rparr>)) = 0"
proof -
  let ?s = "sample_ui\<lparr>menu_velocity := -100\<rparr>"
  have s: "menu_shown ?s" "pressure (grabPos ?s) = 0" "0 \<le> menu_items (the_world ?s)"
    using sample_ui_shown by (simp_all add: menu_shown_def no_pos_def)
  have "(3 / 4) ^ 14 * \<bar>menu_velocity ?s\<bar> < 2" by (simp add: power_numeral_reduce)
  with scroll_comes_to_rest [OF s, of sample_minui] have "menu_velocity (frames (Suc 14 + 1) sample_minui ?s) = 0" by blast
  then show ?thesis by simp
qed

text \<open>
  The progress bar. Its two bitmaps are copied from within their columns exactly when what is shown is
  less than a column more than the whole bar. That holds while the portions of the
  operations add up to at most 1; nothing in the program sees to that.
\<close>

theorem progress_within_bar:
  assumes "gProgressBarType (the_world s) = ProgressNormal" and "\<not> enable_console_screen (the_world s)"
    and "0 \<le> gProgressScopeStart (the_world s)" and "0 \<le> gProgressScopeSize (the_world s)" and "0 \<le> gProgress (the_world s)"
    and "surface_width g ProgressBarFill = w" and "surface_width g ProgressBarEmpty = w" and "0 < w"
  defines "shown \<equiv> gProgressScopeStart (the_world s) + gProgress (the_world s) * gProgressScopeSize (the_world s)"
  shows "(list_all (blit_within g) (fst (draw_progress_locked g s)) \<longleftrightarrow> shown * of_int w < of_int w + 1)
    \<and> (gProgressScopeStart (the_world s) + gProgressScopeSize (the_world s) \<le> 1 \<and> gProgress (the_world s) \<le> 1
        \<longrightarrow> list_all (blit_within g) (fst (draw_progress_locked g s)))"
proof -
  have nn: "0 \<le> shown" using assms(3-5) by (simp add: shown_def)
  then have pos: "trunc (shown * of_int w) = \<lfloor>shown * of_int w\<rfloor>" "0 \<le> \<lfloor>shown * of_int w\<rfloor>"
    using assms(8) by (simp_all add: trunc_nonneg)
  define p where "p = \<lfloor>shown * of_int w\<rfloor>"
  have "trunc (shown * of_int w) = p" "0 \<le> p" using pos by (simp_all add: p_def)
  then have "list_all (blit_within g) (fst (draw_progress_locked g s)) \<longleftrightarrow> \<lfloor>shown * of_int w\<rfloor> \<le> w"
    unfolding p_def [symmetric] using assms(1,2,6-8) by (simp add: draw_progress_locked_def Let_def shown_def [symmetric])
  also have "\<dots> \<longleftrightarrow> shown * of_int w < of_int w + 1" by (simp add: floor_le_iff)
  finally have iff: "list_all (blit_within g) (fst (draw_progress_locked g s)) \<longleftrightarrow> shown * of_int w < of_int w + 1" .
  moreover have "shown * of_int w < of_int w + 1"
    if "gProgressScopeStart (the_world s) + gProgressScopeSize (the_world s) \<le> 1" "gProgress (the_world s) \<le> 1"
  proof -
    have "gProgress (the_world s) * gProgressScopeSize (the_world s) \<le> gProgressScopeSize (the_world s)"
      using mult_right_mono [OF that(2) assms(4)] by simp
    then have "shown \<le> 1" using that(1) by (simp add: shown_def)
    then have "shown * of_int w \<le> of_int w" using mult_right_mono [of shown 1 "of_int w"] assms(8) by simp
    then show ?thesis by linarith
  qed
  ultimately show ?thesis by blast
qed

text \<open>Two operations of three quarters each: the second one, half done, is at 9/8 of the bar.\<close>

definition overfull_ui :: ui_state where
  "overfull_ui = ui_boot (sample_store\<lparr>gProgressBarType := ProgressNormal, gProgressScopeStart := 3 / 4, gProgressScopeSize := 3 / 4,
     gProgress := 1 / 2\<rparr>) sample_minui"

theorem progress_within_bar_witness:
  "\<not> list_all (blit_within sample_minui) (fst (draw_progress_locked sample_minui overfull_ui))"
  using progress_within_bar [of overfull_ui sample_minui 200]
  by (simp add: overfull_ui_def ui_boot_def sample_minui_def sample_store_def boot_state_def)

end
