(* ===== verification/Touch.thy ===== *)
theory Touch
  imports Screen
begin

text \<open>
  Raw input (\<open>ui.c\<close>): \<open>input_thread\<close>, which decodes the events of the touch screen, the
  trackball and the keys one by one, and \<open>ui_handle_mouse_input\<close>, which acts on a touch. The
  events of \<open>linux/input.h\<close> are a record; \<open>KEY_MAX\<close>, which differs between kernels, is a
  parameter. What comes out, the changes of the \<open>world\<close> and the keys of the queue, is what
  \<open>Ui\<close> calls \<open>input_event\<close>.
\<close>

section \<open>Events\<close>

record raw_event =
  ev_type :: int
  ev_code :: int
  ev_value :: int

definition EV_SYN :: int where "EV_SYN = 0"
definition EV_KEY :: int where "EV_KEY = 1"
definition EV_REL :: int where "EV_REL = 2"
definition EV_ABS :: int where "EV_ABS = 3"
definition SYN_MT_REPORT :: int where "SYN_MT_REPORT = 2"
definition ABS_MT_TOUCH_MAJOR :: int where "ABS_MT_TOUCH_MAJOR = 48"
definition ABS_MT_WIDTH_MAJOR :: int where "ABS_MT_WIDTH_MAJOR = 50"
definition ABS_MT_POSITION_X :: int where "ABS_MT_POSITION_X = 53"
definition ABS_MT_POSITION_Y :: int where "ABS_MT_POSITION_Y = 54"
definition ABS_MT_TRACKING_ID :: int where "ABS_MT_TRACKING_ID = 57"
definition REL_X :: int where "REL_X = 0"
definition REL_Y :: int where "REL_Y = 1"
definition KEY_UP :: int where "KEY_UP = 103"
definition KEY_LEFT :: int where "KEY_LEFT = 105"
definition KEY_RIGHT :: int where "KEY_RIGHT = 106"
definition KEY_DOWN :: int where "KEY_DOWN = 108"

lemmas ev_types = EV_SYN_def EV_KEY_def EV_REL_def EV_ABS_def
lemmas ev_codes = SYN_MT_REPORT_def ABS_MT_TOUCH_MAJOR_def ABS_MT_WIDTH_MAJOR_def ABS_MT_POSITION_X_def
  ABS_MT_POSITION_Y_def ABS_MT_TRACKING_ID_def REL_X_def REL_Y_def KEY_UP_def KEY_LEFT_def KEY_RIGHT_def KEY_DOWN_def

text \<open>The scales of the two devices.\<close>

definition MT_X :: "build_opts \<Rightarrow> int \<Rightarrow> int" where "MT_X b x = (if ns_on_sgs b then cdiv (x * 480) 1024 else x)"
definition MT_Y :: "build_opts \<Rightarrow> int \<Rightarrow> int" where "MT_Y b y = (if ns_on_sgs b then cdiv (y * 800) 1024 else y)"

section \<open>Acting on a touch\<close>

text \<open>The menu: a finger that comes down chooses an element, one that stays down scrolls.\<close>

definition grab_menu :: "ui_state \<Rightarrow> ui_state" where
  "grab_menu s =
     (if pressure (grabPos s) = 0 then s
      else if pos_y (grabPos s) < menu_max_height then
        (if menu_start_pos s = INT_MAX then
           on_world (exec (touch_menu (pos_y (grabPos s)))) (s\<lparr>menu_start_pos := menu_pos (the_world s)\<rparr>)
         else
           (let old_pos = menu_pos (the_world s);
                new_pos = menu_start_pos s - (pos_y (grabPos s) - pos_y (mousePos s ! 0))
            in s\<lparr>the_world := (the_world s)\<lparr>menu_pos := new_pos\<rparr>, menu_velocity := of_int (new_pos - old_pos) * (8 / 5)\<rparr>))
      else on_world (exec (upd (\<lambda>w. w\<lparr>menu_sel_mouse_valid := False\<rparr>))) s)"

text \<open>A click on the right edge of an element with a help text prints it; the click is then hidden.\<close>

definition show_help :: "minui \<Rightarrow> int \<Rightarrow> ui_state \<Rightarrow> int \<times> ui_state" where
  "show_help g code s =
     (if code = BTN_MOUSE \<and> pos_x (mousePos s ! 0) > fb_width g - 60 then
        (let ((_, el), w) = run_state ui_get_selected_ext (the_world s); s = s\<lparr>the_world := w\<rparr>
         in case me_help el of None \<Rightarrow> (code, s)
            | Some help \<Rightarrow> (BTN_GEAR_UP, on_world (exec (ui_print ([LF] @ help @ [LF]))) s))
      else (code, s))"

text \<open>The dots of the password screen that the finger is on, column by column.\<close>

definition near_dot :: "minui \<Rightarrow> int \<Rightarrow> int \<Rightarrow> nat \<times> nat \<Rightarrow> bool" where
  "near_dot g px py = (\<lambda>(x, y). \<bar>px - dot_x g (int x)\<bar> < 30 \<and> \<bar>py - dot_y g (int y)\<bar> < 30)"

definition dots :: "(nat \<times> nat) list" where
  "dots = List.product [0 ..< 4] [0 ..< 6]"

definition draw_password :: "minui \<Rightarrow> int \<Rightarrow> ui_state \<Rightarrow> ui_state" where
  "draw_password g code s =
     (if \<not> enable_secret_screen (the_world s) then s
      else if pressure (grabPos s) \<noteq> 0 then
        on_world (exec (for_each dots (\<lambda>d.
          whenM (near_dot g (pos_x (mousePos s ! 0)) (pos_y (mousePos s ! 0)) d)
            (upd (\<lambda>w. w\<lparr>console_cmd := secret_touch (dot_letter (fst d) (snd d)) (console_cmd w)\<rparr>))))) s
      else if code = BTN_GEAR_UP \<or> code = BTN_MOUSE then
        on_world (exec (upd (\<lambda>w. w\<lparr>console_cmd := secret_up (console_cmd w)\<rparr>))) s
      else s)"

text \<open>The keys of the console under the finger, row by row; a row's keys are looked up when the row is reached.\<close>

definition on_key :: "minui \<Rightarrow> int \<Rightarrow> int \<Rightarrow> nat \<Rightarrow> string \<Rightarrow> nat \<Rightarrow> bool" where
  "on_key g px py row str i2 \<longleftrightarrow>
     px > int i2 * key_width g str \<and> px < (int i2 + 1) * key_width g str
     \<and> py > keys_top g + int row * (CHAR_H * 4) - CHAR_H * 2 \<and> py < keys_top g + int row * (CHAR_H * 4) + CHAR_H * 2"

definition tap_row :: "minui \<Rightarrow> int \<Rightarrow> int \<Rightarrow> nat \<Rightarrow> unit prog" where
  "tap_row g px py row = do {
     str \<leftarrow> gets (\<lambda>w. keyboard_line (keyboard_page w) ! row);
     for_each [0 ..< length str] (\<lambda>i2. whenM (on_key g px py row str i2) (upd (console_key (str ! i2)))) }"

definition tap_console :: "minui \<Rightarrow> int \<Rightarrow> ui_state \<Rightarrow> ui_state" where
  "tap_console g code s =
     (if enable_console_screen (the_world s) \<and> code = BTN_MOUSE then
        on_world (exec (for_each [0 ..< 4] (tap_row g (pos_x (mousePos s ! 0)) (pos_y (mousePos s ! 0))))) s
      else s)"

text \<open>The tabs of the log screen. A screen less than four pixels wide divides by zero.\<close>

definition tap_page :: "minui \<Rightarrow> int \<Rightarrow> ui_state \<Rightarrow> int \<times> ui_state" where
  "tap_page g code s =
     (if \<not> show_text (the_world s) \<and> code = BTN_MOUSE then
        (BTN_GEAR_UP,
         if pos_y (mousePos s ! 0) < 50 then
           (if cdiv (fb_width g) (int NUM_TEXTCONTAINERS) = 0 then on_world (exec fault) s
            else
              (let page = cdiv (pos_x (mousePos s ! 0)) (cdiv (fb_width g) (int NUM_TEXTCONTAINERS));
                   page = (if page \<ge> int NUM_TEXTCONTAINERS then int NUM_TEXTCONTAINERS - 1 else page);
                   page = (if page < 0 then 0 else page)
               in (on_world (exec (upd (\<lambda>w. w\<lparr>current_page := page\<rparr>))) s)\<lparr>activeLog := nat page\<rparr>))
         else s)
      else (code, s))"

text \<open>The code of the event afterwards, and the state.\<close>

definition ui_handle_mouse_input :: "minui \<Rightarrow> int \<Rightarrow> ui_state \<Rightarrow> int \<times> ui_state" where
  "ui_handle_mouse_input g code s =
     (let (code, s) = (if show_menu (the_world s) \<and> show_text (the_world s) then show_help g code (grab_menu s) else (code, s));
          s = draw_password g code s;
          s = tap_console g code s
      in tap_page g code s)"

section \<open>The input thread\<close>

text \<open>The end of a finger's record: what kind of key it is taken for, and the new positions.\<close>

definition report_code :: "ui_state \<Rightarrow> int" where
  "report_code s =
     (let a = actPos s; m = mousePos s ! nat (pos_num a) in
      if (pressure m \<noteq> 0) \<noteq> (pressure a \<noteq> 0) \<and> pressure a = 0 then
        (if pos_num a = 0 \<and> path_length (mousePos s ! 0) < 15 then BTN_MOUSE else BTN_GEAR_UP)
      else BTN_WHEEL)"

definition report_grab :: "ui_state \<Rightarrow> mousePosStruct" where
  "report_grab s =
     (let a = actPos s; m = mousePos s ! nat (pos_num a) in
      if (pressure m \<noteq> 0) \<noteq> (pressure a \<noteq> 0) \<and> pos_num a = 0 then (if pressure a = 0 then no_pos else a)
      else grabPos s)"

definition report_length :: "ui_state \<Rightarrow> int" where
  "report_length s =
     (let a = actPos s; m = mousePos s ! nat (pos_num a) in
      if pressure a \<noteq> 0 \<and> pressure m \<noteq> 0
      then path_length m + \<bar>pos_x m - pos_x a\<bar> + \<bar>pos_y m - pos_y a\<bar> else 0)"

definition report_moves :: "ui_state \<Rightarrow> ui_state" where
  "report_moves s =
     (let n = nat (pos_num (actPos s)); a = (actPos s)\<lparr>path_length := report_length s\<rparr>
      in s\<lparr>grabPos := report_grab s, fake_key := True, actPos := a,
           oldMousePos := (oldMousePos s)[n := mousePos s ! n], mousePos := (mousePos s)[n := a]\<rparr>)"

definition mt_report :: "minui \<Rightarrow> ui_state \<Rightarrow> (int \<times> int) option \<times> ui_state" where
  "mt_report g s =
     (if 0 \<le> pos_num (actPos s) \<and> pos_num (actPos s) < int MAX_MT_POINTS then
        (let val = pos_num (actPos s) + 1;
             (code, s') = ui_handle_mouse_input g (report_code s) (report_moves s)
         in (Some (code, val), s'\<lparr>actPos := no_pos\<rparr>))
      else (None, s\<lparr>actPos := no_pos\<rparr>))"

definition abs_event :: "raw_event \<Rightarrow> ui_state \<Rightarrow> ui_state" where
  "abs_event ev s =
     (let a = actPos s; v = ev_value ev; b = build (the_world s) in
      if ev_code ev = ABS_MT_POSITION_X then s\<lparr>actPos := a\<lparr>pos_x := MT_X b v\<rparr>\<rparr>
      else if ev_code ev = ABS_MT_POSITION_Y then s\<lparr>actPos := a\<lparr>pos_y := MT_Y b v\<rparr>\<rparr>
      else if ev_code ev = ABS_MT_TOUCH_MAJOR then s\<lparr>actPos := a\<lparr>pressure := v\<rparr>\<rparr>
      else if ev_code ev = ABS_MT_WIDTH_MAJOR then
        s\<lparr>actPos := a\<lparr>pos_num := (if pos_num a = 0 then v div 256 else pos_num a), pos_size := v mod 256\<rparr>\<rparr>
      else if ev_code ev = ABS_MT_TRACKING_ID then s\<lparr>actPos := a\<lparr>pos_num := v\<rparr>\<rparr>
      else s)"

text \<open>The trackball: more than three steps in a direction are a press of an arrow key.\<close>

definition trackball :: "int \<Rightarrow> int \<Rightarrow> int \<Rightarrow> int \<Rightarrow> int \<times> int option" where
  "trackball acc val up down =
     (let acc = acc + val in
      if acc > 3 then (0, Some up) else if acc < -3 then (0, Some down) else (acc, None))"

definition rel_event :: "raw_event \<Rightarrow> ui_state \<Rightarrow> (int \<times> int) option \<times> ui_state" where
  "rel_event ev s =
     (if ev_code ev = REL_Y then
        (let (acc, k) = trackball (rel_sum_y s) (ev_value ev) KEY_DOWN KEY_UP;
             s = s\<lparr>rel_sum_y := acc, fake_key := (k \<noteq> None \<or> fake_key s)\<rparr>
         in (map_option (\<lambda>k. (k, 1)) k, s))
      else if ev_code ev = REL_X then
        (let (acc, k) = trackball (rel_sum_x s) (ev_value ev) KEY_RIGHT KEY_LEFT;
             s = s\<lparr>rel_sum_x := acc, fake_key := (k \<noteq> None \<or> fake_key s)\<rparr>
         in (map_option (\<lambda>k. (k, 1)) k, s))
      else (None, s))"

text \<open>
  One event in the inner loop: the key it amounts to, if it is one that ends the loop. A
  trackball event that became \<open>KEY_DOWN\<close> or \<open>KEY_UP\<close> has a code other than \<open>REL_X\<close>.
\<close>

definition decode :: "minui \<Rightarrow> int \<Rightarrow> raw_event \<Rightarrow> ui_state \<Rightarrow> (int \<times> int) option \<times> ui_state" where
  "decode g KEY_MAX ev s =
     (let (k, s) =
       (if ev_type ev = EV_SYN then (if ev_code ev = SYN_MT_REPORT then mt_report g s else (None, s))
        else if ev_type ev = EV_ABS then (None, abs_event ev s)
        else if ev_type ev = EV_REL then rel_event ev s
        else (if ev_type ev = EV_KEY then Some (ev_code ev, ev_value ev) else None, s\<lparr>rel_sum_x := 0, rel_sum_y := 0\<rparr>))
      in case k of None \<Rightarrow> (None, s) | Some (code, val) \<Rightarrow> (if code > KEY_MAX then None else Some (code, val), s))"

text \<open>The end of a round: the table of pressed keys, the queue, and the key that shows and hides the menu.\<close>

definition deliver :: "int \<Rightarrow> int \<Rightarrow> ui_state \<Rightarrow> ui_state" where
  "deliver code val s =
     (let s = (if fake_key s then s else s\<lparr>key_pressed := (key_pressed s)(code := val)\<rparr>);
          s = s\<lparr>fake_key := False, key_queue := queue_key code val (key_queue s)\<rparr>
      in if val > 0 \<and> device_toggle_display (build (the_world s)) (allow_display_toggle (the_world s)) code then
           (let s = on_world (exec (upd (\<lambda>w. w\<lparr>show_text := \<not> show_text w\<rparr>))) s
            in if show_text (the_world s) then s\<lparr>activeLog := 0\<rparr> else s)
         else s)"

definition input_step :: "minui \<Rightarrow> int \<Rightarrow> raw_event \<Rightarrow> ui_state \<Rightarrow> ui_state" where
  "input_step g KEY_MAX ev s =
     (let (k, s) = decode g KEY_MAX ev s in case k of None \<Rightarrow> s | Some (code, val) \<Rightarrow> deliver code val s)"

text \<open>The threads take turns: an event, or a frame of \<open>ui_thread\<close>.\<close>

datatype ui_turn = Raw raw_event | Frame

definition turn :: "minui \<Rightarrow> int \<Rightarrow> ui_turn \<Rightarrow> ui_state \<Rightarrow> ui_state" where
  "turn g KEY_MAX t s = (case t of Raw ev \<Rightarrow> input_step g KEY_MAX ev s | Frame \<Rightarrow> snd (ui_thread_round g s))"

definition run_turns :: "minui \<Rightarrow> int \<Rightarrow> ui_turn list \<Rightarrow> ui_state \<Rightarrow> ui_state" where
  "run_turns g KEY_MAX ts s = fold (turn g KEY_MAX) ts s"

text \<open>Raw events as turns, and what the screen sends when a finger comes down and when it is lifted.\<close>

definition raw :: "int \<Rightarrow> int \<Rightarrow> int \<Rightarrow> ui_turn" where
  "raw t c v = Raw \<lparr>ev_type = t, ev_code = c, ev_value = v\<rparr>"

definition finger_down :: "int \<Rightarrow> int \<Rightarrow> ui_turn list" where
  "finger_down x y = [raw EV_ABS ABS_MT_POSITION_X x, raw EV_ABS ABS_MT_POSITION_Y y,
     raw EV_ABS ABS_MT_TOUCH_MAJOR 40, raw EV_SYN SYN_MT_REPORT 0]"

definition finger_up :: "int \<Rightarrow> int \<Rightarrow> ui_turn list" where
  "finger_up x y = [raw EV_ABS ABS_MT_POSITION_X x, raw EV_ABS ABS_MT_POSITION_Y y,
     raw EV_ABS ABS_MT_TOUCH_MAJOR 0, raw EV_SYN SYN_MT_REPORT 0]"

section \<open>Pixels and keys\<close>

text \<open>A loop whose body acts on one element only.\<close>

lemma for_each_none: "(\<And>x. x \<in> set xs \<Longrightarrow> \<not> P x) \<Longrightarrow> run_state (for_each xs (\<lambda>x. whenM (P x) (f x))) w = ((), w)"
  by (induction xs arbitrary: w) (simp_all add: whenM_def)

lemma for_each_only:
  "distinct xs \<Longrightarrow> a \<in> set xs \<Longrightarrow> P a \<Longrightarrow> (\<And>x. x \<in> set xs \<Longrightarrow> P x \<Longrightarrow> x = a) \<Longrightarrow>
   exec (for_each xs (\<lambda>x. whenM (P x) (f x))) w = exec (f a) w"
proof (induction xs arbitrary: w)
  case (Cons x xs)
  show ?case
  proof (cases "x = a")
    case True
    obtain w' where w': "run_state (f a) w = ((), w')" by (metis old.unit.exhaust surj_pair)
    have "\<not> P y" if "y \<in> set xs" for y
      using that True Cons.prems(1) Cons.prems(4) [of y] by (metis distinct.simps(2) list.set_intros(2))
    then have "run_state (for_each xs (\<lambda>x. whenM (P x) (f x))) w' = ((), w')" by (rule for_each_none)
    moreover have "run_state (whenM (P a) (f a)) w = ((), w')" using Cons.prems(3) w' by (simp add: whenM_def)
    ultimately show ?thesis by (simp only: True for_each.simps exec_bind snd_conv w')
  next
    case False
    then have "\<not> P x" using Cons.prems(4) [of x] by auto
    moreover have "exec (for_each xs (\<lambda>x. whenM (P x) (f x))) w = exec (f a) w"
      using False Cons.prems by (intro Cons.IH) auto
    ultimately show ?thesis by (simp add: whenM_def)
  qed
qed simp

lemma on_key_row: "on_key g px py r str i \<Longrightarrow> on_key g px py r' str' i' \<Longrightarrow> r = r'"
  by (simp add: on_key_def CHAR_H_def)

lemma on_key_col:
  assumes "on_key g px py r str i" and "on_key g px py r' str i'"
  shows "i = i'"
proof -
  let ?k = "key_width g str"
  have a: "int i * ?k < px" "px < (int i + 1) * ?k" "int i' * ?k < px" "px < (int i' + 1) * ?k"
    using assms by (simp_all add: on_key_def)
  have pos: "0 < ?k" using a(1,2) by (simp add: distrib_right)
  have "int i * ?k < (int i' + 1) * ?k" "int i' * ?k < (int i + 1) * ?k" using a by linarith+
  then have "int i < int i' + 1" "int i' < int i + 1" using pos by (simp_all only: mult_less_cancel_right_pos)
  then show ?thesis by linarith
qed

lemma tap_row_none:
  assumes "\<forall>i < length (keyboard_line (keyboard_page w) ! r). \<not> on_key g px py r (keyboard_line (keyboard_page w) ! r) i"
  shows "run_state (tap_row g px py r) w = ((), w)"
proof -
  let ?str = "keyboard_line (keyboard_page w) ! r"
  have "run_state (for_each [0..<length ?str] (\<lambda>i2. whenM (on_key g px py r ?str i2) (upd (console_key (?str ! i2))))) w = ((), w)"
    using assms by (intro for_each_none) simp
  then show ?thesis by (simp add: tap_row_def)
qed

lemma tap_row_other:
  "on_key g px py r str i \<Longrightarrow> r' \<noteq> r \<Longrightarrow> run_state (tap_row g px py r') w = ((), w)"
  using on_key_row by (intro tap_row_none) blast

lemma tap_row_hit:
  assumes "on_key g px py r (keyboard_line (keyboard_page w) ! r) i" and "i < length (keyboard_line (keyboard_page w) ! r)"
  shows "exec (tap_row g px py r) w = exec (upd (console_key (keyboard_line (keyboard_page w) ! r ! i))) w"
proof -
  let ?str = "keyboard_line (keyboard_page w) ! r"
  have "exec (for_each [0..<length ?str] (\<lambda>i2. whenM (on_key g px py r ?str i2) (upd (console_key (?str ! i2))))) w
      = exec (upd (console_key (?str ! i))) w"
    using assms by (intro for_each_only) (auto dest: on_key_col)
  then show ?thesis by (simp add: tap_row_def)
qed

lemma tap_rows:
  assumes "on_key g px py r (keyboard_line (keyboard_page w) ! r) i" and "i < length (keyboard_line (keyboard_page w) ! r)"
  shows "distinct rs \<Longrightarrow> exec (for_each rs (tap_row g px py)) w =
    (if r \<in> set rs then exec (upd (console_key (keyboard_line (keyboard_page w) ! r ! i))) w else w)"
proof (induction rs)
  case (Cons q rs)
  obtain w' where w': "run_state (tap_row g px py r) w = ((), w')" by (metis old.unit.exhaust surj_pair)
  have rest: "r \<notin> set qs \<Longrightarrow> run_state (for_each qs (tap_row g px py)) v = ((), v)" for qs v
    by (induction qs) (simp_all add: tap_row_other [OF assms(1)])
  show ?case
  proof (cases "q = r")
    case True
    then show ?thesis using Cons.prems w' rest [of rs w'] tap_row_hit [OF assms] by simp
  next
    case False
    then show ?thesis using Cons tap_row_other [OF assms(1) False] by simp
  qed
qed simp

lemma near_dot_only:
  assumes "near_dot g px py d" and "near_dot g px py d'" and "60 \<le> dot_width g" and "60 \<le> dot_height g"
  shows "d = d'"
proof -
  have close: "a = b" if "\<bar>p - (int a * k + c)\<bar> < 30" "\<bar>p - (int b * k + c)\<bar> < 30" "60 \<le> k" for p k c :: int and a b :: nat
  proof (rule ccontr)
    assume "a \<noteq> b"
    then have "1 \<le> \<bar>int a - int b\<bar>" by linarith
    then have "k \<le> \<bar>(int a - int b) * k\<bar>" using that(3) by (simp add: abs_mult)
    moreover have "\<bar>(int a - int b) * k\<bar> < 60" using that(1,2) by (simp add: left_diff_distrib)
    ultimately show False using that(3) by linarith
  qed
  then show ?thesis using assms by (auto simp: near_dot_def dot_x_def dot_y_def split: prod.splits)
qed

section \<open>What every turn keeps\<close>

text \<open>The shared variables: the menu is well-formed with the highlight on something that can be chosen, pages and text are in range.\<close>

definition winv :: "menuElement list \<Rightarrow> world \<Rightarrow> bool" where
  "winv l w \<longleftrightarrow> menu_up l w \<and> 0 \<le> current_page w \<and> current_page w < 4 \<and> keyboard_page w < 4 \<and> length (console_cmd w) < 256"

lemma keeps_winv_upd:
  "(\<And>w. menu_ok l w \<Longrightarrow> menu_ok l (f w)) \<Longrightarrow>
   (\<And>w. winv l w \<Longrightarrow> 0 \<le> current_page (f w) \<and> current_page (f w) < 4 \<and> keyboard_page (f w) < 4 \<and> length (console_cmd (f w)) < 256) \<Longrightarrow>
   keeps (winv l) (upd f)"
  by (rule keeps_upd) (auto simp: winv_def menu_up_def)

lemma ui_menu_select_frame [simp]:
  "current_page (exec (ui_menu_select n) w) = current_page w" "keyboard_page (exec (ui_menu_select n) w) = keyboard_page w"
  "console_cmd (exec (ui_menu_select n) w) = console_cmd w"
  by (simp_all add: ui_menu_select_def run_upd stop_def fault_def split: settled.splits)

lemma touch_menu_frame [simp]:
  "current_page (exec (touch_menu y) w) = current_page w" "keyboard_page (exec (touch_menu y) w) = keyboard_page w"
  "console_cmd (exec (touch_menu y) w) = console_cmd w"
  by (simp_all add: touch_menu_def whenM_def run_upd Let_def split_beta)

lemma keeps_winv_touch: "keeps (winv l) (touch_menu y)"
  by (simp add: keeps_def winv_def menu_up_touch)

lemma keeps_winv_fault: "keeps (winv l) fault"
  by (simp add: keeps_def fault_def run_upd winv_def menu_up_def)

lemma keeps_winv_selected: "keeps (winv l) ui_get_selected_ext"
  unfolding ui_get_selected_ext_def by (intro wp keeps_winv_fault)

lemma log_main_ui_frame [simp]:
  "menu_list (log_main m w) = menu_list w" "menu_items (log_main m w) = menu_items w" "menu_sel (log_main m w) = menu_sel w"
  "current_page (log_main m w) = current_page w" "keyboard_page (log_main m w) = keyboard_page w"
  "console_cmd (log_main m w) = console_cmd w"
  by (simp_all add: log_main_def split: option.splits)

lemma keeps_winv_print: "keeps (winv l) (ui_print t)"
  unfolding ui_print_def
  by (intro wp keeps_sys keeps_winv_upd) (auto simp: menu_ok_def winv_def menu_up_def)

lemma keeps_winv_console_key: "keeps (winv l) (upd (console_key c))"
  by (rule keeps_winv_upd) (auto simp: menu_ok_def winv_def console_key_def Let_def)

lemma keeps_winv_tap_row: "keeps (winv l) (tap_row g px py r)"
  unfolding tap_row_def by (intro wp keeps_winv_console_key)

lemma keeps_winv_cmd:
  "(\<And>t. length t < 256 \<Longrightarrow> length (f t) < 256) \<Longrightarrow> keeps (winv l) (upd (\<lambda>w. w\<lparr>console_cmd := f (console_cmd w)\<rparr>))"
  by (rule keeps_winv_upd) (auto simp: menu_ok_def winv_def)

lemma winv_tick: "winv l w \<Longrightarrow> winv l (exec ui_thread_tick w)"
  by (simp add: winv_def menu_up_def menu_ok_def)

text \<open>The pointer: how far the finger is from where it came down is at most the length of its path.\<close>

definition far :: "mousePosStruct \<Rightarrow> mousePosStruct \<Rightarrow> int" where
  "far p q = \<bar>pos_x p - pos_x q\<bar> + \<bar>pos_y p - pos_y q\<bar>"

definition pinv :: "ui_state \<Rightarrow> bool" where
  "pinv s \<longleftrightarrow> length (mousePos s) = MAX_MT_POINTS \<and> length (oldMousePos s) = MAX_MT_POINTS
     \<and> length (key_queue s) \<le> QUEUE_MAX
     \<and> (pressure (mousePos s ! 0) \<noteq> 0 \<longleftrightarrow> pressure (grabPos s) \<noteq> 0)
     \<and> (pressure (mousePos s ! 0) \<noteq> 0 \<longrightarrow> far (mousePos s ! 0) (grabPos s) \<le> path_length (mousePos s ! 0))"

definition ui_inv :: "menuElement list \<Rightarrow> ui_state \<Rightarrow> bool" where
  "ui_inv l s \<longleftrightarrow> winv l (the_world s) \<and> pinv s"

text \<open>Two states that differ in nothing of these but the shared variables.\<close>

definition same_pointer :: "ui_state \<Rightarrow> ui_state \<Rightarrow> bool" where
  "same_pointer s s' \<longleftrightarrow> mousePos s' = mousePos s \<and> oldMousePos s' = oldMousePos s \<and> grabPos s' = grabPos s
     \<and> key_queue s' = key_queue s"

lemma same_pointer_refl [simp]: "same_pointer s s"
  by (simp add: same_pointer_def)

lemma same_pointer_trans: "same_pointer s t \<Longrightarrow> same_pointer t u \<Longrightarrow> same_pointer s u"
  by (simp add: same_pointer_def)

lemma pinv_same: "same_pointer s s' \<Longrightarrow> pinv s' = pinv s"
  by (simp add: same_pointer_def pinv_def)

definition keeps_ui :: "menuElement list \<Rightarrow> ui_state \<Rightarrow> ui_state \<Rightarrow> bool" where
  "keeps_ui l s s' \<longleftrightarrow> same_pointer s s' \<and> (winv l (the_world s) \<longrightarrow> winv l (the_world s'))"

lemma keeps_ui_refl: "keeps_ui l s s"
  by (simp add: keeps_ui_def)

lemma keeps_ui_trans: "keeps_ui l s t \<Longrightarrow> keeps_ui l t u \<Longrightarrow> keeps_ui l s u"
  by (auto simp: keeps_ui_def intro: same_pointer_trans)

lemma keeps_ui_inv: "keeps_ui l s s' \<Longrightarrow> ui_inv l s \<Longrightarrow> ui_inv l s'"
  using pinv_same [of s s'] by (simp add: keeps_ui_def ui_inv_def)

lemma keeps_ui_world: "keeps (winv l) m \<Longrightarrow> keeps_ui l s (on_world (exec m) s)"
  by (simp add: keeps_ui_def same_pointer_def on_world_def keeps_def)

lemma keeps_ui_menu_pos:
  "same_pointer s s' \<Longrightarrow> the_world s' = (the_world s)\<lparr>menu_pos := p\<rparr> \<Longrightarrow> keeps_ui l s s'"
  by (simp add: keeps_ui_def winv_def menu_up_def menu_ok_def)

subsection \<open>Frames\<close>

lemma keeps_ui_scroll: "keeps_ui l s (scroll_menu s)"
proof (cases "pressure (grabPos s) = 0")
  case True
  then show ?thesis
    by (intro keeps_ui_menu_pos [of _ _ "fst (scroll_step (menu_items (the_world s)) (menu_pos (the_world s), menu_velocity s))"])
       (simp_all add: scroll_menu_def same_pointer_def split_beta)
qed (simp add: scroll_menu_def keeps_ui_refl)

lemma keeps_ui_screen:
  "keeps_ui l s (s\<lparr>gPagesIdentical := b, gBackgroundSave := c\<rparr>)" "keeps_ui l s (s\<lparr>anim_frame := n\<rparr>)"
  "keeps_ui l s (s\<lparr>activeLog := k\<rparr>)"
  by (simp_all add: keeps_ui_def same_pointer_def)

lemma keeps_ui_background: "keeps_ui l s (snd (draw_background_locked g ic s))"
  by (simp add: keeps_ui_screen)

lemma keeps_ui_progress: "keeps_ui l s (snd (draw_progress_locked g s))"
  using draw_progress_frame [of g s] keeps_ui_screen(2) by metis

lemma keeps_ui_menu: "keeps_ui l s (snd (draw_menu g s))"
proof (cases "show_text (the_world s) \<and> show_menu (the_world s)")
  case True
  let ?s = "s\<lparr>activeLog := (if enable_console_screen (the_world s) then 1 else 0)\<rparr>"
  have "keeps_ui l ?s (scroll_menu ?s)" by (rule keeps_ui_scroll)
  moreover have "keeps_ui l s ?s" by (rule keeps_ui_screen)
  moreover have "snd (draw_menu g s) = (scroll_menu ?s)\<lparr>gPagesIdentical := False, gBackgroundSave := True\<rparr>"
    using True by (simp add: draw_menu_def Let_def split_beta)
  ultimately show ?thesis using keeps_ui_screen(1) keeps_ui_trans by metis
next
  case False
  then have "snd (draw_menu g s) = s \<or> snd (draw_menu g s) = s\<lparr>activeLog := (if enable_console_screen (the_world s) then 1 else 0)\<rparr>"
    by (auto simp: draw_menu_def Let_def)
  then show ?thesis using keeps_ui_refl keeps_ui_screen(3) by metis
qed

lemma keeps_ui_page: "keeps_ui l s (snd (draw_log_page g s))"
  by (simp add: draw_log_page_def Let_def keeps_ui_refl keeps_ui_screen)

lemma keeps_ui_frame: "keeps_ui l s (snd (ui_thread_round g s))"
proof -
  have 0: "keeps_ui l s (on_world (exec ui_thread_tick) s)"
    by (rule keeps_ui_world) (simp add: keeps_def winv_tick)
  let ?s = "on_world (exec ui_thread_tick) s"
  let ?b = "snd (draw_background_locked g (gBackgroundIcon g (gCurrentIcon (the_world ?s))) ?s)"
  let ?p = "snd (draw_progress_locked g ?b)" let ?m = "snd (draw_menu g ?p)"
  have "keeps_ui l ?s (snd (draw_log_page g ?m))"
    using keeps_ui_background keeps_ui_progress keeps_ui_menu keeps_ui_page keeps_ui_trans by metis
  moreover have "snd (ui_thread_round g s) = ?s \<or> snd (ui_thread_round g s) = snd (draw_log_page g ?m)"
    by (simp add: ui_thread_round_def update_screen_locked_def draw_screen_locked_def split_beta Let_def)
  ultimately show ?thesis using 0 keeps_ui_trans by metis
qed

subsection \<open>Events\<close>

lemma keeps_ui_grab: "keeps_ui l s (grab_menu s)"
proof -
  have "keeps_ui l s (on_world (exec (touch_menu y)) (s\<lparr>menu_start_pos := p\<rparr>))" for y p
    using keeps_winv_touch [of l y] by (simp add: keeps_ui_def same_pointer_def on_world_def keeps_def)
  moreover have "keeps_ui l s (on_world (exec (upd (\<lambda>w. w\<lparr>menu_sel_mouse_valid := False\<rparr>))) s)"
    by (intro keeps_ui_world keeps_winv_upd) (simp_all add: menu_ok_def winv_def)
  moreover have "keeps_ui l s (s\<lparr>the_world := (the_world s)\<lparr>menu_pos := p\<rparr>, menu_velocity := v\<rparr>)" for p v
    by (intro keeps_ui_menu_pos [of _ _ p]) (simp_all add: same_pointer_def)
  ultimately show ?thesis by (simp add: grab_menu_def Let_def keeps_ui_refl)
qed

lemma keeps_ui_help: "keeps_ui l s (snd (show_help g code s))"
proof -
  obtain i el w where r: "run_state ui_get_selected_ext (the_world s) = ((i, el), w)" by (metis surj_pair)
  have "keeps_ui l s (s\<lparr>the_world := w\<rparr>)"
    using keeps_ui_world [OF keeps_winv_selected, of l s] r by (simp add: on_world_def)
  moreover have "keeps_ui l (s\<lparr>the_world := w\<rparr>) (on_world (exec (ui_print t)) (s\<lparr>the_world := w\<rparr>))" for t
    by (rule keeps_ui_world [OF keeps_winv_print])
  ultimately show ?thesis
    by (auto simp: show_help_def r Let_def keeps_ui_refl split: option.split intro: keeps_ui_trans)
qed

lemma keeps_ui_password: "keeps_ui l s (draw_password g code s)"
  unfolding draw_password_def
  by (auto intro!: keeps_ui_refl keeps_ui_world keeps_for_each keeps_when keeps_winv_cmd secret_touch_bound secret_up_bound)

lemma keeps_ui_console: "keeps_ui l s (tap_console g code s)"
  unfolding tap_console_def by (auto intro!: keeps_ui_refl keeps_ui_world keeps_for_each keeps_winv_tap_row)

lemma keeps_ui_tap_page: "keeps_ui l s (snd (tap_page g code s))"
proof -
  have fault: "keeps_ui l s (on_world (exec fault) s)" by (rule keeps_ui_world [OF keeps_winv_fault])
  have page: "keeps_ui l s ((on_world (exec (upd (\<lambda>w. w\<lparr>current_page := p\<rparr>))) s)\<lparr>activeLog := k\<rparr>)" if "0 \<le> p" "p < 4" for p k
  proof -
    have "keeps (winv l) (upd (\<lambda>w. w\<lparr>current_page := p\<rparr>))"
      using that by (intro keeps_winv_upd) (simp_all add: menu_ok_def winv_def)
    then show ?thesis using keeps_ui_trans [OF keeps_ui_world keeps_ui_screen(3)] by blast
  qed
  show ?thesis by (auto simp: tap_page_def Let_def NUM_TEXTCONTAINERS_def keeps_ui_refl intro: fault page)
qed

lemma keeps_ui_mouse_input: "keeps_ui l s (snd (ui_handle_mouse_input g code s))"
proof -
  define h where "h = (if show_menu (the_world s) \<and> show_text (the_world s) then show_help g code (grab_menu s) else (code, s))"
  have "keeps_ui l s (snd h)"
    unfolding h_def using keeps_ui_trans [OF keeps_ui_grab keeps_ui_help] by (simp add: keeps_ui_refl)
  moreover have "snd (ui_handle_mouse_input g code s) = snd (tap_page g (fst h) (tap_console g (fst h) (draw_password g (fst h) (snd h))))"
    by (simp add: ui_handle_mouse_input_def h_def [symmetric] split_beta Let_def)
  ultimately show ?thesis
    using keeps_ui_password keeps_ui_console keeps_ui_tap_page keeps_ui_trans by metis
qed

text \<open>The end of a finger's record keeps the distance below the length of the path.\<close>

lemma pinv_report:
  assumes "pinv s" and n: "0 \<le> pos_num (actPos s)" "pos_num (actPos s) < int MAX_MT_POINTS"
  shows "pinv (report_moves s)"
proof (cases "pos_num (actPos s) = 0")
  case True
  have len: "0 < length (mousePos s)" using assms(1) by (simp add: pinv_def MAX_MT_POINTS_def)
  let ?m = "mousePos s ! 0" and ?a = "actPos s"
  have tri: "far p r \<le> far p q + far q r" for p q r by (simp add: far_def)
  have sym: "far p q = far q p" for p q by (simp add: far_def abs_minus_commute)
  have new: "mousePos (report_moves s) ! 0 = ?a\<lparr>path_length := report_length s\<rparr>"
    using True len by (simp add: report_moves_def Let_def)
  have grab: "grabPos (report_moves s) = report_grab s" by (simp add: report_moves_def Let_def)
  have "pressure ?a \<noteq> 0 \<longleftrightarrow> pressure (report_grab s) \<noteq> 0"
    using assms(1) True by (auto simp: report_grab_def Let_def pinv_def no_pos_def)
  moreover have "far (?a\<lparr>path_length := report_length s\<rparr>) (report_grab s) \<le> report_length s" if "pressure ?a \<noteq> 0"
  proof (cases "pressure ?m = 0")
    case True
    then show ?thesis using that \<open>pos_num (actPos s) = 0\<close> by (simp add: report_grab_def report_length_def far_def Let_def)
  next
    case False
    then have "far ?m (grabPos s) \<le> path_length ?m" using assms(1) by (simp add: pinv_def)
    moreover have "far (?a\<lparr>path_length := k\<rparr>) (grabPos s) \<le> far ?m ?a + far ?m (grabPos s)" for k
      using tri [of ?a "grabPos s" ?m] sym [of ?m ?a] by (simp add: far_def)
    moreover have "report_grab s = grabPos s" "report_length s = path_length ?m + far ?m ?a"
      using that False \<open>pos_num (actPos s) = 0\<close> by (simp_all add: report_grab_def report_length_def far_def Let_def)
    ultimately show ?thesis by (metis add.commute add_left_mono order_trans)
  qed
  ultimately show ?thesis using assms(1) unfolding pinv_def new grab by (simp add: report_moves_def Let_def)
next
  case False
  have "mousePos (report_moves s) ! 0 = mousePos s ! 0" "grabPos (report_moves s) = grabPos s"
    using False n by (simp_all add: report_moves_def report_grab_def Let_def nth_list_update)
  with assms(1) show ?thesis by (simp add: pinv_def) (simp add: report_moves_def Let_def)
qed

lemma ui_inv_report: "ui_inv l s \<Longrightarrow> ui_inv l (snd (mt_report g s))"
proof (cases "0 \<le> pos_num (actPos s) \<and> pos_num (actPos s) < int MAX_MT_POINTS")
  case True
  assume inv: "ui_inv l s"
  have "ui_inv l (report_moves s)" using inv pinv_report [of s] True by (simp add: ui_inv_def report_moves_def Let_def)
  then have "ui_inv l (snd (ui_handle_mouse_input g (report_code s) (report_moves s)))"
    by (rule keeps_ui_inv [OF keeps_ui_mouse_input])
  then show ?thesis using True by (simp add: mt_report_def split_beta Let_def ui_inv_def pinv_def)
next
  case False
  assume "ui_inv l s"
  with False show ?thesis by (auto simp: mt_report_def ui_inv_def pinv_def)
qed

lemma ui_inv_same: "ui_inv l s \<Longrightarrow> same_pointer s s' \<Longrightarrow> the_world s' = the_world s \<Longrightarrow> ui_inv l s'"
  using pinv_same [of s s'] by (simp add: ui_inv_def)

lemma ui_inv_decode: "ui_inv l s \<Longrightarrow> ui_inv l (snd (decode g KM ev s))"
proof -
  assume inv: "ui_inv l s"
  have "ui_inv l (snd (mt_report g s))" by (rule ui_inv_report [OF inv])
  moreover have "ui_inv l (abs_event ev s)"
    by (rule ui_inv_same [OF inv]) (simp_all add: abs_event_def Let_def same_pointer_def)
  moreover have "ui_inv l (snd (rel_event ev s))"
    by (rule ui_inv_same [OF inv]) (simp_all add: rel_event_def Let_def same_pointer_def split_beta)
  moreover have "ui_inv l (s\<lparr>rel_sum_x := 0, rel_sum_y := 0\<rparr>)"
    by (rule ui_inv_same [OF inv]) (simp_all add: same_pointer_def)
  ultimately show ?thesis using inv by (simp add: decode_def split_beta Let_def split: option.split)
qed

lemma queue_key_bound: "length q \<le> QUEUE_MAX \<Longrightarrow> length (queue_key code val q) \<le> QUEUE_MAX"
  by (auto simp: queue_key_def)

lemma ui_inv_deliver: "ui_inv l s \<Longrightarrow> ui_inv l (deliver code val s)"
proof -
  assume inv: "ui_inv l s"
  define t where "t = (if fake_key s then s else s\<lparr>key_pressed := (key_pressed s)(code := val)\<rparr>)
     \<lparr>fake_key := False, key_queue := queue_key code val (key_queue s)\<rparr>"
  have t: "ui_inv l t" using inv by (simp add: t_def ui_inv_def pinv_def queue_key_bound)
  have "keeps (winv l) (upd (\<lambda>w. w\<lparr>show_text := \<not> show_text w\<rparr>))"
    by (intro keeps_winv_upd) (simp_all add: menu_ok_def winv_def)
  from keeps_ui_inv [OF keeps_ui_world [OF this] t]
  have u: "ui_inv l (on_world (exec (upd (\<lambda>w. w\<lparr>show_text := \<not> show_text w\<rparr>))) t)" .
  have v: "ui_inv l (u\<lparr>activeLog := 0\<rparr>)" if "ui_inv l u" for u using that by (simp add: ui_inv_def pinv_def)
  have "deliver code val s = t \<or> deliver code val s = on_world (exec (upd (\<lambda>w. w\<lparr>show_text := \<not> show_text w\<rparr>))) t
      \<or> deliver code val s = (on_world (exec (upd (\<lambda>w. w\<lparr>show_text := \<not> show_text w\<rparr>))) t)\<lparr>activeLog := 0\<rparr>"
    by (simp add: deliver_def t_def Let_def)
  then show ?thesis using t u v [OF u] by (elim disjE) (simp_all only:)
qed

lemma ui_inv_turn: "ui_inv l s \<Longrightarrow> ui_inv l (turn g KM e s)"
proof (cases e)
  case (Raw ev)
  assume inv: "ui_inv l s"
  then have "ui_inv l (input_step g KM ev s)"
    using ui_inv_decode [OF inv, of g KM ev] ui_inv_deliver
    by (auto simp: input_step_def split: prod.splits option.splits)
  then show ?thesis using Raw by (simp add: turn_def)
next
  case Frame
  assume "ui_inv l s"
  then show ?thesis using Frame keeps_ui_inv [OF keeps_ui_frame] by (simp add: turn_def)
qed

lemma ui_inv_turns: "ui_inv l s \<Longrightarrow> ui_inv l (run_turns g KM ts s)"
  by (induction ts arbitrary: s) (simp_all add: run_turns_def ui_inv_turn)

section \<open>A tap\<close>

text \<open>A frame with the menu on the screen draws all its elements from the place it has scrolled to.\<close>

lemma frame_draws:
  assumes "menu_shown s" and "menu_list (the_world s) = Some l"
  shows "\<exists>before u after. fst (ui_thread_round g s) =
    before @ draw_elements g u 0 (menu_pos (the_world (snd (ui_thread_round g s)))) l @ after"
proof -
  let ?s = "on_world (exec ui_thread_tick) s"
  have shown: "ui_has_initialized (the_world ?s)" "show_text (the_world ?s)" "show_menu (the_world ?s)"
    "menu_list (the_world ?s) = Some l"
    using assms by (simp_all add: menu_shown_def on_world_def)
  let ?b = "?s\<lparr>gPagesIdentical := False, gBackgroundSave := True\<rparr>"
  obtain n where n: "snd (draw_progress_locked g ?b) = ?b\<lparr>anim_frame := n\<rparr>" using draw_progress_frame by blast
  define p where "p = ?b\<lparr>anim_frame := n\<rparr>"
  define q where "q = scroll_menu (p\<lparr>activeLog := (if enable_console_screen (the_world p) then 1 else 0)\<rparr>)"
  have q: "show_text (the_world q)" "menu_list (the_world q) = Some l"
    using shown by (simp_all add: q_def p_def scroll_menu_def Let_def split_beta)
  have m: "draw_menu g p = (fst (draw_menu g p), q\<lparr>gPagesIdentical := False, gBackgroundSave := True\<rparr>)"
    using shown by (simp add: draw_menu_def Let_def split_beta p_def q_def)
  have "\<exists>before u after. fst (draw_menu g p) = before @ draw_elements g u 0 (menu_pos (the_world q)) l @ after"
  proof -
    have "fst (draw_menu g p) = (NORMAL_TEXT_COLOR # draw_rows (p\<lparr>activeLog := (if enable_console_screen (the_world p) then 1 else 0)\<rparr>)
          (nat (cdiv (shown_height (menu_items (the_world p))) CHAR_H))
          (log_of (if enable_console_screen (the_world p) then 1 else 0) (p\<lparr>activeLog := (if enable_console_screen (the_world p) then 1 else 0)\<rparr>))
        @ [MENU_TEXT_COLOR, Gr_fill 0 (shown_height (menu_items (the_world p))) (fb_width g) (shown_height (menu_items (the_world p)) + 2),
           Gr_crop 0 0 (fb_width g) (shown_height (menu_items (the_world p)))]
        @ fst (draw_background_locked g (gBackgroundIcon g (gCurrentIcon (the_world q))) q))
        @ draw_elements g (q\<lparr>gPagesIdentical := False, gBackgroundSave := True\<rparr>) 0 (menu_pos (the_world q)) l @ [Gr_crop 0 0 0 0]"
      using shown q(2) by (simp add: draw_menu_def Let_def split_beta p_def q_def)
    then show ?thesis by blast
  qed
  then obtain a u b where ab: "fst (draw_menu g p) = a @ draw_elements g u 0 (menu_pos (the_world q)) l @ b" by blast
  let ?q = "q\<lparr>gPagesIdentical := False, gBackgroundSave := True\<rparr>"
  let ?bg = "draw_background_locked g (gBackgroundIcon g (gCurrentIcon (the_world ?s))) ?s"
  have n2: "snd (draw_progress_locked g ?b) = p" using n by (simp add: p_def)
  have m2: "snd (draw_menu g p) = ?q" using m by (metis snd_conv)
  have page: "draw_log_page g ?q = ([], ?q)" using q by (simp add: draw_log_page_def)
  have "draw_screen_locked g ?s = ((fst ?bg @ fst (draw_progress_locked g ?b)) @ fst (draw_menu g p) @
      (draw_mouse_text ?q @ draw_console g ?q @ draw_secret g ?q), ?q)"
    using shown(1) by (simp add: draw_screen_locked_def split_beta Let_def n2 m2 page)
  then have "ui_thread_round g s = ((fst ?bg @ fst (draw_progress_locked g ?b)) @ fst (draw_menu g p) @
      (draw_mouse_text ?q @ draw_console g ?q @ draw_secret g ?q) @ [Gr_flip], ?q)"
    unfolding ui_thread_round_def update_screen_locked_def using shown(1) by simp
  then have pos: "menu_pos (the_world (snd (ui_thread_round g s))) = menu_pos (the_world q)"
    and calls: "\<exists>x y. fst (ui_thread_round g s) = x @ fst (draw_menu g p) @ y"
    by (simp, metis fst_conv)
  then show ?thesis unfolding pos using ab by (metis append.assoc)
qed

lemma touch_menu_chooses:
  assumes "\<not> stopped w" "show_menu w" "show_text w" "menu_list w = Some l" "menu_items w = int (length l)"
    and "menu_pos w \<le> 0" "0 \<le> y" "y < menu_max_height" and "selectable l i" "i = (y - menu_pos w) div MENU_ELEMENT_HEIGHT"
  shows "exec (touch_menu y) w = w\<lparr>show_text := True, show_menu := True, menu_sel := i, menu_pos := menu_pos w, menu_sel_mouse_valid := True\<rparr>"
proof -
  have pos: "0 < int (length l)" using assms(9) by (auto simp: selectable_def)
  have i: "0 \<le> i" "i < int (length l)" "\<not> is_header (l ! nat i)" using assms(9) by (simp_all add: selectable_def)
  have n: "cdiv (- menu_pos w + y) MENU_ELEMENT_HEIGHT = i"
    using assms(6,7,10) by (simp add: cdiv_def MENU_ELEMENT_HEIGHT_def)
  have "settle (Suc (length l)) l (int (length l)) d i = Settled i" for d
    using settle_round [OF refl pos, of i "length l" d] i by simp
  then have "run_state (ui_menu_select i) w =
      (i, w\<lparr>show_text := True, show_menu := True, menu_sel := i, menu_pos := menu_scroll (int (length l)) i\<rparr>)"
    using assms(1,4,5) by (simp add: ui_menu_select_def run_upd)
  then show ?thesis using assms(1-5,8) i n by (simp add: touch_menu_def whenM_def run_upd Let_def)
qed

lemma input_step_abs [simp]:
  "turn g K (raw EV_ABS ABS_MT_POSITION_X v) s = s\<lparr>actPos := (actPos s)\<lparr>pos_x := MT_X (build (the_world s)) v\<rparr>\<rparr>"
  "turn g K (raw EV_ABS ABS_MT_POSITION_Y v) s = s\<lparr>actPos := (actPos s)\<lparr>pos_y := MT_Y (build (the_world s)) v\<rparr>\<rparr>"
  "turn g K (raw EV_ABS ABS_MT_TOUCH_MAJOR v) s = s\<lparr>actPos := (actPos s)\<lparr>pressure := v\<rparr>\<rparr>"
  by (simp_all add: turn_def raw_def input_step_def decode_def abs_event_def ev_types ev_codes Let_def)

text \<open>The two kinds of key a touch is turned into neither show nor hide the menu.\<close>

lemma touch_codes: "\<not> device_toggle_display b a BTN_WHEEL" "\<not> device_toggle_display b a BTN_MOUSE"
  by (simp_all add: device_toggle_display_def key_defs BTN_WHEEL_def)

lemma turn_report:
  assumes "mt_report g s = (Some (code, 1), s')" and "code = BTN_WHEEL \<or> code = BTN_MOUSE" and "336 \<le> K" and "fake_key s'"
  shows "turn g K (raw EV_SYN SYN_MT_REPORT 0) s = s'\<lparr>fake_key := False, key_queue := queue_key code 1 (key_queue s')\<rparr>"
proof -
  have "\<not> device_toggle_display (build (the_world s')) (allow_display_toggle (the_world s')) code" "\<not> code > K"
    using assms(2,3) touch_codes by (auto simp: BTN_WHEEL_def BTN_MOUSE_def)
  then have "decode g K \<lparr>ev_type = EV_SYN, ev_code = SYN_MT_REPORT, ev_value = 0\<rparr> s = (Some (code, 1), s')"
    and d: "deliver code 1 s' = s'\<lparr>fake_key := False, key_queue := queue_key code 1 (key_queue s')\<rparr>"
    using assms(1,4) by (simp_all add: decode_def deliver_def)
  then show ?thesis by (simp add: turn_def raw_def input_step_def)
qed

text \<open>The first finger comes down on an element, and is lifted again.\<close>

lemma down_report:
  assumes "length (mousePos s) = MAX_MT_POINTS" "actPos s = a" "pos_num a = 0" "pressure a \<noteq> 0" "path_length a = 0"
    "pressure (mousePos s ! 0) = 0" "menu_start_pos s = INT_MAX" "pos_y a < menu_max_height"
    and w: "\<not> enable_console_screen (the_world s)" "\<not> enable_secret_screen (the_world s)" "show_menu (the_world s)" "show_text (the_world s)"
    and t: "exec (touch_menu (pos_y a)) (the_world s) = (the_world s)\<lparr>show_text := True, show_menu := True, menu_sel := i,
      menu_pos := menu_pos (the_world s), menu_sel_mouse_valid := True\<rparr>"
  shows "mt_report g s = (Some (BTN_WHEEL, 1), s\<lparr>the_world := (the_world s)\<lparr>show_text := True, show_menu := True, menu_sel := i,
      menu_pos := menu_pos (the_world s), menu_sel_mouse_valid := True\<rparr>,
      menu_start_pos := menu_pos (the_world s), grabPos := a, fake_key := True, actPos := no_pos,
      oldMousePos := (oldMousePos s)[0 := mousePos s ! 0], mousePos := (mousePos s)[0 := a]\<rparr>)"
proof -
  have a: "a\<lparr>path_length := 0\<rparr> = a" using assms(5) by (cases a) simp
  have r': "report_code s = BTN_WHEEL" "report_moves s = s\<lparr>grabPos := a, fake_key := True, actPos := a\<lparr>path_length := 0\<rparr>,
      oldMousePos := (oldMousePos s)[0 := mousePos s ! 0], mousePos := (mousePos s)[0 := a\<lparr>path_length := 0\<rparr>]\<rparr>"
    using assms(2-6) by (simp_all add: report_code_def report_moves_def report_grab_def report_length_def Let_def)
  note r = r' [unfolded a]
  let ?s = "s\<lparr>grabPos := a, fake_key := True, actPos := a,
      oldMousePos := (oldMousePos s)[0 := mousePos s ! 0], mousePos := (mousePos s)[0 := a]\<rparr>"
  have "ui_handle_mouse_input g BTN_WHEEL ?s = (BTN_WHEEL, ?s\<lparr>the_world := (the_world s)\<lparr>show_text := True, show_menu := True, menu_sel := i,
      menu_pos := menu_pos (the_world s), menu_sel_mouse_valid := True\<rparr>, menu_start_pos := menu_pos (the_world s)\<rparr>)"
    using assms(4,7,8) w t
    by (simp add: ui_handle_mouse_input_def grab_menu_def show_help_def draw_password_def tap_console_def tap_page_def on_world_def
        BTN_WHEEL_def BTN_MOUSE_def)
  then show ?thesis using assms(2,3) by (simp add: mt_report_def r MAX_MT_POINTS_def)
qed

lemma up_report:
  assumes "length (mousePos s) = MAX_MT_POINTS" "actPos s = a" "pos_num a = 0" "pressure a = 0"
    "pressure (mousePos s ! 0) \<noteq> 0" "path_length (mousePos s ! 0) < 15" "pos_x a \<le> fb_width g - 60"
    and w: "\<not> enable_console_screen (the_world s)" "\<not> enable_secret_screen (the_world s)" "show_menu (the_world s)" "show_text (the_world s)"
  shows "mt_report g s = (Some (BTN_MOUSE, 1), s\<lparr>grabPos := no_pos, fake_key := True, actPos := no_pos,
      oldMousePos := (oldMousePos s)[0 := mousePos s ! 0], mousePos := (mousePos s)[0 := a\<lparr>path_length := 0\<rparr>]\<rparr>)"
proof -
  let ?a = "a\<lparr>path_length := 0\<rparr>"
  have r: "report_code s = BTN_MOUSE" "report_moves s = s\<lparr>grabPos := no_pos, fake_key := True, actPos := ?a,
      oldMousePos := (oldMousePos s)[0 := mousePos s ! 0], mousePos := (mousePos s)[0 := ?a]\<rparr>"
    using assms(2-6) by (simp_all add: report_code_def report_moves_def report_grab_def report_length_def Let_def)
  have "0 < length (mousePos s)" using assms(1) by (simp add: MAX_MT_POINTS_def)
  then have "ui_handle_mouse_input g BTN_MOUSE (report_moves s) = (BTN_MOUSE, report_moves s)"
    using assms(7) w
    by (simp add: r ui_handle_mouse_input_def grab_menu_def show_help_def draw_password_def tap_console_def tap_page_def no_pos_def)
  then show ?thesis using assms(2,3) by (simp add: mt_report_def r MAX_MT_POINTS_def)
qed

lemma run_turns_append: "run_turns g K (xs @ ys) s = run_turns g K ys (run_turns g K xs s)"
  by (simp add: run_turns_def)

lemma run_turns_Cons: "run_turns g K (x # xs) s = run_turns g K xs (turn g K x s)"
  by (simp add: run_turns_def)

text \<open>The finger of a tap that comes down at a pixel of the screen.\<close>

definition finger_at :: "int \<Rightarrow> int \<Rightarrow> int \<Rightarrow> mousePosStruct" where
  "finger_at px py p = \<lparr>pos_x = px, pos_y = py, pressure = p, pos_size = 0, pos_num = 0, path_length = 0\<rparr>"

lemma tap_runs:
  assumes len: "length (mousePos s) = MAX_MT_POINTS" and act: "actPos s = no_pos" and up: "pressure (mousePos s ! 0) = 0"
    and start: "menu_start_pos s = INT_MAX"
    and w: "\<not> enable_console_screen (the_world s)" "\<not> enable_secret_screen (the_world s)" "show_menu (the_world s)" "show_text (the_world s)"
    and px: "px = MT_X (build (the_world s)) x" "px \<le> fb_width g - 60" and py: "py = MT_Y (build (the_world s)) y" "py < menu_max_height"
    and K: "336 \<le> K"
    and t: "exec (touch_menu py) (the_world s) = (the_world s)\<lparr>show_text := True, show_menu := True, menu_sel := i,
      menu_pos := menu_pos (the_world s), menu_sel_mouse_valid := True\<rparr>"
  shows "the_world (run_turns g K (finger_down x y @ finger_up x y) s) = (the_world s)\<lparr>show_text := True, show_menu := True, menu_sel := i,
      menu_pos := menu_pos (the_world s), menu_sel_mouse_valid := True\<rparr>
    \<and> key_queue (run_turns g K (finger_down x y @ finger_up x y) s) = queue_key BTN_MOUSE 1 (queue_key BTN_WHEEL 1 (key_queue s))
    \<and> fst (decode g K \<lparr>ev_type = EV_SYN, ev_code = SYN_MT_REPORT, ev_value = 0\<rparr>
        (run_turns g K (finger_down x y @ butlast (finger_up x y)) s)) = Some (BTN_MOUSE, 1)"
proof -
  let ?w = "(the_world s)\<lparr>show_text := True, show_menu := True, menu_sel := i,
      menu_pos := menu_pos (the_world s), menu_sel_mouse_valid := True\<rparr>"
  define s1 where "s1 = s\<lparr>actPos := finger_at px py 40\<rparr>"
  define s2 where "s2 = s1\<lparr>the_world := ?w, menu_start_pos := menu_pos (the_world s), grabPos := finger_at px py 40, fake_key := True,
      actPos := no_pos, oldMousePos := (oldMousePos s1)[0 := mousePos s1 ! 0], mousePos := (mousePos s1)[0 := finger_at px py 40]\<rparr>"
  define s3 where "s3 = s2\<lparr>fake_key := False, key_queue := queue_key BTN_WHEEL 1 (key_queue s2)\<rparr>"
  define s4 where "s4 = s3\<lparr>actPos := finger_at px py 0\<rparr>"
  define s5 where "s5 = s4\<lparr>grabPos := no_pos, fake_key := True, actPos := no_pos, oldMousePos := (oldMousePos s4)[0 := mousePos s4 ! 0],
      mousePos := (mousePos s4)[0 := (finger_at px py 0)\<lparr>path_length := 0\<rparr>]\<rparr>"
  have "mt_report g s1 = (Some (BTN_WHEEL, 1), s2)"
    unfolding s2_def using len up start w t py(2)
    by (subst down_report [where a = "finger_at px py 40" and i = i]) (simp_all add: s1_def finger_at_def)
  then have down: "turn g K (raw EV_SYN SYN_MT_REPORT 0) s1 = s3"
    unfolding s3_def by (rule turn_report) (simp_all add: K s2_def)
  have "run_turns g K (finger_down x y) s = turn g K (raw EV_SYN SYN_MT_REPORT 0) s1"
    using act px(1) py(1) by (simp add: finger_down_def run_turns_def s1_def no_pos_def finger_at_def)
  then have a: "run_turns g K (finger_down x y) s = s3" using down by simp
  have m4: "mousePos s4 ! 0 = finger_at px py 40" "length (mousePos s4) = MAX_MT_POINTS"
    using len by (simp_all add: s4_def s3_def s2_def s1_def MAX_MT_POINTS_def)
  have w4: "the_world s4 = ?w" by (simp add: s4_def s3_def s2_def)
  have m: "mt_report g s4 = (Some (BTN_MOUSE, 1), s5)"
    unfolding s5_def by (rule up_report) (use m4 w4 w px(2) in \<open>simp_all add: s4_def finger_at_def\<close>)
  from m have up4: "turn g K (raw EV_SYN SYN_MT_REPORT 0) s4 = s5\<lparr>fake_key := False, key_queue := queue_key BTN_MOUSE 1 (key_queue s5)\<rparr>"
    by (rule turn_report) (simp_all add: K s5_def)
  have "build ?w = build (the_world s)" by simp
  then have "run_turns g K (finger_up x y) s3 = turn g K (raw EV_SYN SYN_MT_REPORT 0) s4"
    using px(1) py(1) by (simp add: finger_up_def run_turns_def s4_def s3_def s2_def no_pos_def finger_at_def)
  moreover have "run_turns g K (butlast (finger_up x y)) s3 = s4"
    using px(1) py(1) by (simp add: finger_up_def run_turns_def s4_def s3_def s2_def no_pos_def finger_at_def)
  moreover have "fst (decode g K \<lparr>ev_type = EV_SYN, ev_code = SYN_MT_REPORT, ev_value = 0\<rparr> s4) = Some (BTN_MOUSE, 1)"
    using m K by (simp add: decode_def BTN_MOUSE_def)
  ultimately show ?thesis using a up4 by (simp add: run_turns_append s5_def s4_def s3_def s2_def s1_def)
qed

text \<open>What the main thread makes of the key of a click.\<close>

lemma menu_round_click:
  assumes "\<not> stopped w" "show_text w" "menu_sel_mouse_valid w"
  shows "result (menu_round mo) (w\<lparr>keys := [Key BTN_MOUSE]\<rparr>) = chosen (menu_sel w - 1)"
proof -
  have "\<not> device_toggle_display b a BTN_MOUSE" for b a by (rule touch_codes)
  then have "run_state ui_wait_key (w\<lparr>keys := [Key BTN_MOUSE]\<rparr>) = (BTN_MOUSE, w\<lparr>keys := []\<rparr>)"
    using assms(1) by (simp add: ui_wait_key_def key_loop_def run_next_input handle_input_def run_upd)
  moreover have "device_handle_key b BTN_MOUSE True = SELECT_ITEM_MOUSE" for b
    by (simp add: device_handle_key_def key_defs)
  ultimately show ?thesis using assms
    by (simp add: menu_round_def Let_def ui_valid_mouse_select_def action_defs)
qed

section \<open>Properties\<close>



text \<open>The state after \<open>ui_init\<close> with a menu on the screen.\<close>

lemma sample_ui_inv: "ui_inv (old_menu [''Reboot?''] [''No'', ''Yes'']) sample_ui"
proof -
  have "menu_sel two_items = 1" "current_page two_items = 0" "keyboard_page two_items = 0" "console_cmd two_items = []"
    by (simp_all add: two_items_def ui_start_menu_def run_upd sample_store_def boot_state_def)
  with two_items_menu show ?thesis
    by (simp add: ui_inv_def winv_def pinv_def sample_ui_def ui_boot_def menu_up_def menu_ok_def MAX_MT_POINTS_def QUEUE_MAX_def no_pos_def)
qed




lemma sample_ui_free:
  "actPos sample_ui = no_pos" "\<not> enable_console_screen (the_world sample_ui)" "\<not> enable_secret_screen (the_world sample_ui)"
  "key_queue sample_ui = []" "\<not> ns_on_sgs (build (the_world sample_ui))"
  by (simp_all add: sample_ui_def ui_boot_def two_items_def ui_start_menu_def run_upd sample_store_def boot_state_def)

text \<open>The sample screen after a frame, with the finger put on the first item and about to be lifted.\<close>

definition rested_ui :: ui_state where
  "rested_ui = sample_ui\<lparr>menu_start_pos := INT_MAX\<rparr>"

lemma rested_ui_inv: "ui_inv (old_menu [''Reboot?''] [''No'', ''Yes'']) rested_ui"
  using sample_ui_inv by (simp add: rested_ui_def ui_inv_def pinv_def)

lemma rested_click:
  "fst (decode sample_minui 511 \<lparr>ev_type = EV_SYN, ev_code = SYN_MT_REPORT, ev_value = 0\<rparr>
     (run_turns sample_minui 511 (finger_down 100 100 @ butlast (finger_up 100 100)) rested_ui)) = Some (BTN_MOUSE, 1)"
proof -
  let ?l = "old_menu [''Reboot?''] [''No'', ''Yes'']"
  note f = sample_ui_shown sample_ui_free
  have sel: "selectable ?l 1" and len: "length ?l = 3" by (rule two_items_menu)+
  have t: "exec (touch_menu 100) (the_world rested_ui) = (the_world rested_ui)\<lparr>show_text := True, show_menu := True, menu_sel := 1,
      menu_pos := menu_pos (the_world rested_ui), menu_sel_mouse_valid := True\<rparr>"
    by (rule touch_menu_chooses [of _ ?l]) (use f sel len in \<open>simp_all add: rested_ui_def menu_shown_def menu_max_height_def MENU_ELEMENT_HEIGHT_def\<close>)
  have "actPos rested_ui = no_pos" "length (mousePos rested_ui) = MAX_MT_POINTS" "pressure (mousePos rested_ui ! 0) = 0"
    "menu_start_pos rested_ui = INT_MAX" "\<not> enable_console_screen (the_world rested_ui)" "\<not> enable_secret_screen (the_world rested_ui)"
    "show_menu (the_world rested_ui)" "show_text (the_world rested_ui)" "100 = MT_X (build (the_world rested_ui)) 100"
    "100 = MT_Y (build (the_world rested_ui)) 100" "(100::int) \<le> fb_width sample_minui - 60" "100 < menu_max_height" "336 \<le> (511::int)"
    using f by (simp_all add: rested_ui_def menu_shown_def MAX_MT_POINTS_def no_pos_def MT_X_def MT_Y_def menu_max_height_def)
      (simp add: sample_minui_def)
  from tap_runs [OF this(2,1,3-9,11,10,12,13) t] show ?thesis by blast
qed


text \<open>
  C33. A tap chooses what is drawn under it. The menu is on the screen and no finger. After
  any frame, a finger that comes down at a pixel of the menu and is lifted there: if an
  element that can be chosen is drawn at this height, the frame has drawn it in the box of 72 rows
  around the pixel, the highlight is on it afterwards, the click is the last key of the queue, and the main
  thread, which takes it from there, answers with this element.
\<close>

theorem tap_chooses_drawn:
  assumes inv: "ui_inv l s" and shown: "menu_shown s" and run: "\<not> stopped (the_world s)"
    and free: "actPos s = no_pos" "pressure (grabPos s) = 0" "\<not> enable_console_screen (the_world s)"
      "\<not> enable_secret_screen (the_world s)" "length (key_queue s) + 2 \<le> QUEUE_MAX"
    and pixel: "px = MT_X (build (the_world s)) x" "px \<le> fb_width g - 60" "py = MT_Y (build (the_world s)) y"
      "0 \<le> py" "py < menu_max_height" and K: "336 \<le> KEY_MAX"
    and i: "i = (py - menu_pos (the_world (snd (ui_thread_round g s)))) div MENU_ELEMENT_HEIGHT" "selectable l i"
  defines "top_of \<equiv> menu_pos (the_world (snd (ui_thread_round g s))) + i * MENU_ELEMENT_HEIGHT"
    and "after \<equiv> run_turns g KEY_MAX (Frame # finger_down x y @ finger_up x y) s"
  shows "(\<exists>a u b. fst (ui_thread_round g s) = a @ draw_element g u i top_of (l ! nat i) @ b)
    \<and> top_of \<le> py \<and> py < top_of + MENU_ELEMENT_HEIGHT
    \<and> menu_sel (the_world after) = i \<and> last (key_queue after) = BTN_MOUSE
    \<and> result (menu_round mo) ((the_world after)\<lparr>keys := [Key BTN_MOUSE]\<rparr>) = chosen (i - 1)"
proof -
  let ?s = "snd (ui_thread_round g s)"
  have menu: "menu_list (the_world s) = Some l" "menu_items (the_world s) = int (length l)"
    using inv run by (auto simp: ui_inv_def winv_def menu_up_def menu_ok_def)
  have i': "0 \<le> i" "i < int (length l)" using i(2) by (simp_all add: selectable_def)
  obtain n lg where r: "?s = (menu_drawn g s)\<lparr>gPagesIdentical := False, gBackgroundSave := True, anim_frame := n, activeLog := lg\<rparr>"
    using ui_thread_round_shown [OF shown] by metis
  have pos: "menu_pos (the_world ?s) \<le> 0"
    using r free(2) scroll_step_range [of "menu_items (the_world s)" "menu_pos (the_world s)" "menu_velocity s"] menu(2)
    by (simp add: menu_drawn_def scroll_menu_def on_world_def split_beta)
  obtain pp where pp: "the_world ?s = (exec ui_thread_tick (the_world s))\<lparr>menu_pos := pp\<rparr>"
    unfolding r using free(2) by (simp add: menu_drawn_def scroll_menu_def on_world_def split_beta)
  have s: "mousePos ?s = mousePos s"
    "actPos ?s = no_pos" "menu_start_pos ?s = INT_MAX" "key_queue ?s = key_queue s"
    unfolding r using free(1,2) by (simp_all add: menu_drawn_def scroll_menu_def on_world_def split_beta)
  have tick: "build (exec ui_thread_tick w) = build w" for w
    by (simp add: ui_thread_tick_def run_simps Let_def)
  have p: "pressure (mousePos ?s ! 0) = 0" "length (mousePos ?s) = MAX_MT_POINTS"
    using inv free(2) by (simp_all add: s ui_inv_def pinv_def)
  have W: "\<not> stopped (the_world ?s)" "show_menu (the_world ?s)" "show_text (the_world ?s)" "menu_list (the_world ?s) = Some l"
    "menu_items (the_world ?s) = int (length l)" "\<not> enable_console_screen (the_world ?s)" "\<not> enable_secret_screen (the_world ?s)"
    "build (the_world ?s) = build (the_world s)"
    using run shown menu free(3,4) by (simp_all add: pp menu_shown_def tick)
  have t: "exec (touch_menu py) (the_world ?s) = (the_world ?s)\<lparr>show_text := True, show_menu := True, menu_sel := i,
      menu_pos := menu_pos (the_world ?s), menu_sel_mouse_valid := True\<rparr>"
    using touch_menu_chooses [OF W(1-5) pos pixel(4,5) i(2) i(1)] .
  have after: "after = run_turns g KEY_MAX (finger_down x y @ finger_up x y) ?s"
    by (simp add: after_def run_turns_Cons turn_def)
  have tap: "the_world after = (the_world ?s)\<lparr>show_text := True, show_menu := True, menu_sel := i,
      menu_pos := menu_pos (the_world ?s), menu_sel_mouse_valid := True\<rparr>"
    "key_queue after = queue_key BTN_MOUSE 1 (queue_key BTN_WHEEL 1 (key_queue s))"
    using tap_runs [OF p(2) s(2) p(1) s(3) W(6,7,2,3) _ pixel(2) _ pixel(5) K t] pixel(1,3) W(8) s(4) unfolding after by simp_all
  have "last (key_queue after) = BTN_MOUSE"
    using free(5) by (auto simp: tap(2) queue_key_def BTN_MOUSE_def BTN_WHEEL_def)
  moreover have "\<exists>a u b. fst (ui_thread_round g s) = a @ draw_element g u i top_of (l ! nat i) @ b"
  proof -
    obtain a u b where f: "fst (ui_thread_round g s) = a @ draw_elements g u 0 (menu_pos (the_world ?s)) l @ b"
      using frame_draws [OF shown menu(1)] by blast
    obtain a' b' where e: "draw_elements g u 0 (menu_pos (the_world ?s)) l = a' @ draw_element g u i top_of (l ! nat i) @ b'"
      using draw_elements_nth [of "nat i" l g u 0 "menu_pos (the_world ?s)"] i' by (auto simp: top_of_def nat_less_iff)
    show ?thesis unfolding f e by (metis append.assoc)
  qed
  moreover have "top_of \<le> py" "py < top_of + MENU_ELEMENT_HEIGHT"
    unfolding top_of_def i(1) MENU_ELEMENT_HEIGHT_def by linarith+
  moreover have "result (menu_round mo) ((the_world after)\<lparr>keys := [Key BTN_MOUSE]\<rparr>) = chosen (menu_sel (the_world after) - 1)"
    by (rule menu_round_click) (simp_all add: tap(1) W(1))
  ultimately show ?thesis by (simp add: tap(1))
qed

text \<open>The first item of the sample menu is drawn at the height 100.\<close>

lemma sample_frame:
  "menu_pos (the_world (snd (ui_thread_round sample_minui sample_ui))) = 0"
  using frames_scroll [of sample_ui 1 sample_minui] sample_ui_shown
  by (simp add: no_pos_def sample_ui_def ui_boot_def scroll_step_rest lowest_pos_def shown_height_def MENU_ELEMENT_HEIGHT_def menu_max_height_def)

theorem tap_chooses_drawn_witness:
  "result (menu_round True) ((the_world (run_turns sample_minui 511 (Frame # finger_down 100 100 @ finger_up 100 100) sample_ui))
     \<lparr>keys := [Key BTN_MOUSE]\<rparr>) = Inr 0"
proof -
  have "selectable (old_menu [''Reboot?''] [''No'', ''Yes'']) 1" by (rule two_items_menu)
  with tap_chooses_drawn [OF sample_ui_inv sample_ui_shown(1), of 100 100 sample_minui 100 100 511 1 True] sample_ui_shown sample_ui_free sample_frame
  show ?thesis
    by (simp add: no_pos_def QUEUE_MAX_def MT_X_def MT_Y_def menu_max_height_def MENU_ELEMENT_HEIGHT_def chosen_def)
      (simp add: sample_minui_def)
qed

end
