(* ===== verification/Process.thy ===== *)
theory Process
  imports Prelude
begin

text \<open>
  \<open>system.c\<close>: how the recovery starts other programs. A process' descriptors are a table
  that maps numbers to what they are open on. The kernel is the record \<open>kernel\<close>: how many
  descriptors a process may have, which \<open>pipe\<close> calls fail although there is room, what
  \<open>fork\<close> and \<open>vfork\<close> answer, and what every single \<open>waitpid\<close> answers. Elsewhere in the
  development a program started this way is one call of \<open>proc_call\<close>.
\<close>

section \<open>Descriptors\<close>

text \<open>\<open>Reads p\<close> and \<open>Writes p\<close> are the ends of the \<open>p\<close>th pipe; \<open>File n\<close> is anything else.\<close>

datatype fd_end = Reads nat | Writes nat | File nat

type_synonym fds = "nat \<Rightarrow> fd_end option"

text \<open>\<open>waitpid\<close>: interrupted by a signal, failed, or the status of the child.\<close>

datatype wait_reply = Interrupted | Wait_failed | Status nat

record kernel =
  nofile :: nat
  pipe_fails :: "nat \<Rightarrow> bool"
  fork_pid :: int
  waits :: "nat \<Rightarrow> wait_reply"

definition fd_close :: "int \<Rightarrow> fds \<Rightarrow> fds" where
  "fd_close fd t = (if fd < 0 then t else t(nat fd := None))"

text \<open>\<open>dup2\<close> of a descriptor that is not open changes nothing.\<close>

definition dup2 :: "int \<Rightarrow> nat \<Rightarrow> fds \<Rightarrow> fds" where
  "dup2 fd fd' t = (if fd < 0 \<or> t (nat fd) = None then t else t(fd' := t (nat fd)))"

text \<open>The lowest free descriptor below the limit.\<close>

definition lowest_free :: "nat \<Rightarrow> fds \<Rightarrow> nat option" where
  "lowest_free n t = find (\<lambda>k. t k = None) [0..<n]"

text \<open>\<open>pipe\<close>: pipe number \<open>p\<close> on the two lowest free descriptors.\<close>

definition make_pipe :: "kernel \<Rightarrow> nat \<Rightarrow> fds \<Rightarrow> (nat \<times> nat \<times> fds) option" where
  "make_pipe k p t =
     (if pipe_fails k p then None else do {
        r \<leftarrow> lowest_free (nofile k) t;
        w \<leftarrow> lowest_free (nofile k) (t(r \<mapsto> Reads p));
        Some (r, w, t(r \<mapsto> Reads p, w \<mapsto> Writes p)) })"

section \<open>popen3\<close>

text \<open>
  The three pointers: \<open>None\<close> is NULL, \<open>Some fd\<close> the value pointed to. A negative one asks
  for a descriptor, another one is given to the child.
\<close>

record fd_ptrs =
  p_stdin :: "int option"
  p_stdout :: "int option"
  p_stderr :: "int option"

text \<open>The answer, what the pointers point to afterwards, the caller's table and the child's when \<open>func\<close> is called.\<close>

record popened =
  pid :: int
  ptrs :: fd_ptrs
  parent :: fds
  child :: "fds option"

definition POPEN_JOINSTDERR :: bool where "POPEN_JOINSTDERR = True"

text \<open>The child: \<open>take_given\<close> puts a given descriptor in the place of the pipe's end.\<close>

definition take_given :: "int option \<Rightarrow> nat \<Rightarrow> fds \<Rightarrow> fds" where
  "take_given ptr e t = (case ptr of None \<Rightarrow> t
     | Some fd \<Rightarrow> fd_close fd (if fd \<ge> 0 then dup2 fd e t else t))"

definition move_to :: "nat \<Rightarrow> nat \<Rightarrow> fds \<Rightarrow> fds" where
  "move_to e std t = (if e \<noteq> std then fd_close (int e) (dup2 (int e) std t) else t)"

definition child_fds :: "fd_ptrs \<Rightarrow> nat \<times> nat \<Rightarrow> nat \<times> nat \<Rightarrow> nat \<times> nat \<Rightarrow> fds \<Rightarrow> fds" where
  "child_fds q stdin_pipe stdout_pipe stderr_pipe t =
     (let t = fd_close (int (snd stdin_pipe)) t;
          t = fd_close (int (fst stdout_pipe)) t;
          t = fd_close (int (fst stderr_pipe)) t;
          t = take_given (p_stdin q) (fst stdin_pipe) t;
          t = take_given (p_stdout q) (snd stdout_pipe) t;
          t = take_given (p_stderr q) (snd stderr_pipe) t;
          t = move_to (fst stdin_pipe) 0 t;
          t = move_to (snd stdout_pipe) 1 t
      in move_to (snd stderr_pipe) 2 t)"

text \<open>The caller keeps its end \<open>e\<close> when it has a pointer for it.\<close>

definition keep_end :: "int option \<Rightarrow> nat \<Rightarrow> fds \<Rightarrow> fds" where
  "keep_end ptr e t = (case ptr of None \<Rightarrow> fd_close (int e) t | Some fd \<Rightarrow> if fd \<ge> 0 then dup2 fd e t else t)"

definition parent_fds :: "fd_ptrs \<Rightarrow> nat \<times> nat \<Rightarrow> nat \<times> nat \<Rightarrow> nat \<times> nat \<Rightarrow> fds \<Rightarrow> fds" where
  "parent_fds q stdin_pipe stdout_pipe stderr_pipe t =
     (let t = fd_close (int (fst stdin_pipe)) t;
          t = fd_close (int (snd stdout_pipe)) t;
          t = fd_close (int (snd stderr_pipe)) t;
          t = keep_end (p_stdin q) (snd stdin_pipe) t;
          t = keep_end (p_stdout q) (fst stdout_pipe) t
      in keep_end (p_stderr q) (fst stderr_pipe) t)"

definition close_pipe :: "nat \<times> nat \<Rightarrow> fds \<Rightarrow> fds" where
  "close_pipe pp t = fd_close (int (snd pp)) (fd_close (int (fst pp)) t)"

definition failed :: "fd_ptrs \<Rightarrow> fds \<Rightarrow> popened" where
  "failed q t = \<lparr>pid = -1, ptrs = q, parent = t, child = None\<rparr>"

definition popen3func :: "kernel \<Rightarrow> fd_ptrs \<Rightarrow> bool \<Rightarrow> fds \<Rightarrow> popened" where
  "popen3func k q joinstderr t0 =
     (if joinstderr \<and> p_stderr q \<noteq> None then failed q t0
      else case make_pipe k 0 t0 of None \<Rightarrow> failed q t0
      | Some (i0, i1, t1) \<Rightarrow>
        (case make_pipe k 1 t1 of None \<Rightarrow> failed q (close_pipe (i0, i1) t1)
         | Some (o0, o1, t2) \<Rightarrow>
           (case make_pipe k 2 t2 of None \<Rightarrow> failed q (close_pipe (o0, o1) (close_pipe (i0, i1) t2))
            | Some (e0, e1, t3) \<Rightarrow>
              (let t = (if joinstderr then dup2 (int o1) e1 (dup2 (int o0) e0 t3) else t3)
               in if fork_pid k = -1
                  then failed q (close_pipe (e0, e1) (close_pipe (o0, o1) (close_pipe (i0, i1) t)))
                  else \<lparr>pid = fork_pid k,
                        ptrs = \<lparr>p_stdin = map_option (\<lambda>_. int i1) (p_stdin q),
                                p_stdout = map_option (\<lambda>_. int o0) (p_stdout q),
                                p_stderr = map_option (\<lambda>_. int e0) (p_stderr q)\<rparr>,
                        parent = parent_fds q (i0, i1) (o0, o1) (e0, e1) t,
                        child = Some (child_fds q (i0, i1) (o0, o1) (e0, e1) t)\<rparr>))))"

section \<open>Waiting for the child\<close>

text \<open>
  The status of a child: \<open>WIFEXITED\<close> looks at the lower seven bits, \<open>WEXITSTATUS\<close> at the
  byte above them.
\<close>

definition WIFEXITED :: "nat \<Rightarrow> bool" where "WIFEXITED st \<longleftrightarrow> st mod 128 = 0"
definition WEXITSTATUS :: "nat \<Rightarrow> nat" where "WEXITSTATUS st = st div 256 mod 256"

definition wait_value :: "wait_reply \<Rightarrow> int" where
  "wait_value r = (case r of Status st \<Rightarrow> int (if WIFEXITED st then WEXITSTATUS st else st) | _ \<Rightarrow> -1)"

text \<open>\<open>do p = waitpid(...); while (p == -1 && errno == EINTR)\<close>: \<open>None\<close> when it never ends.\<close>

partial_function (option) wait_loop :: "(nat \<Rightarrow> wait_reply) \<Rightarrow> nat \<Rightarrow> int option" where
  [code]: "wait_loop w n = (if w n = Interrupted then wait_loop w (n + 1) else Some (wait_value (w n)))"

definition close_ptr :: "int option \<Rightarrow> fds \<Rightarrow> fds" where
  "close_ptr ptr t = (case ptr of None \<Rightarrow> t | Some fd \<Rightarrow> fd_close fd t)"

text \<open>The table afterwards, the signals sent, and the answer.\<close>

definition pclose3 :: "kernel \<Rightarrow> int \<Rightarrow> fd_ptrs \<Rightarrow> int \<Rightarrow> fds \<Rightarrow> fds \<times> (int \<times> int) list \<times> int option" where
  "pclose3 k p q signal t =
     (close_ptr (p_stderr q) (close_ptr (p_stdout q) (close_ptr (p_stdin q) t)),
      (if signal \<noteq> 0 then [(p, signal)] else []),
      wait_loop (waits k) 0)"

section \<open>system\<close>

text \<open>The signals of the process: whether \<open>SIGCHLD\<close> is blocked, and the handlers of \<open>SIGINT\<close> and \<open>SIGQUIT\<close>.\<close>

datatype handler = SIG_DFL | SIG_IGN | Handler nat

record signals =
  blocked :: "nat set"
  on_int :: handler
  on_quit :: handler

definition SIGCHLD :: nat where "SIGCHLD = 17"

text \<open>What the parent and the child do, in order.\<close>

datatype sys_step = Vfork | Execve string "string list" | Wait signals | Run_child signals

definition BSHELL :: "bool \<Rightarrow> string" where
  "BSHELL has_busybox = (if has_busybox then ''/sbin/steam'' else ''/sbin/busybox'')"

text \<open>
  \<open>__system\<close>: the answer, the signals afterwards, and the steps. \<open>Run_child\<close> holds the
  signals with which the child calls \<open>execve\<close>; \<open>Wait\<close> those with which the parent waits.
\<close>

definition libc_system :: "kernel \<Rightarrow> bool \<Rightarrow> string option \<Rightarrow> signals \<Rightarrow> int \<times> signals \<times> sys_step list" where
  "libc_system k has_busybox command s =
     (case command of None \<Rightarrow> (1, s, [])
      | Some cmd \<Rightarrow>
        (let omask = blocked s; s1 = s\<lparr>blocked := insert SIGCHLD (blocked s)\<rparr> in
         if fork_pid k = -1 then (-1, s1\<lparr>blocked := omask\<rparr>, [Vfork])
         else
           (let c = s1\<lparr>blocked := omask\<rparr>;
                intsave = on_int s1; s2 = s1\<lparr>on_int := SIG_IGN\<rparr>;
                quitsave = on_quit s2; s3 = s2\<lparr>on_quit := SIG_IGN\<rparr>;
                r = waits k 0;
                s4 = s3\<lparr>blocked := omask\<rparr>;
                s5 = s4\<lparr>on_int := intsave\<rparr>;
                s6 = s5\<lparr>on_quit := quitsave\<rparr>
            in (wait_value r, s6,
                [Vfork, Run_child c, Execve (BSHELL has_busybox) [''sh'', ''-c'', cmd], Wait s3]))))"

section \<open>Three pipes\<close>

lemma lowest_freeD: "lowest_free n t = Some k \<Longrightarrow> t k = None \<and> k < n \<and> (\<forall>j < k. t j \<noteq> None)"
proof -
  assume "lowest_free n t = Some k"
  then obtain i where i: "i < length [0..<n]" "t ([0..<n] ! i) = None" "k = [0..<n] ! i" "\<forall>j<i. t ([0..<n] ! j) \<noteq> None"
    unfolding lowest_free_def find_Some_iff by blast
  moreover have "[0..<n] ! j = j" if "j < n" for j using that by simp
  ultimately show ?thesis by simp
qed

lemma make_pipeD:
  assumes "make_pipe k p t = Some (r, w, t')"
  shows "r < w \<and> t r = None \<and> t w = None \<and> t' = t(r \<mapsto> Reads p, w \<mapsto> Writes p)
    \<and> (\<forall>j < w. t j \<noteq> None \<or> j = r)"
proof -
  have r: "lowest_free (nofile k) t = Some r" and w: "lowest_free (nofile k) (t(r \<mapsto> Reads p)) = Some w"
    and t': "t' = t(r \<mapsto> Reads p, w \<mapsto> Writes p)"
    using assms by (auto simp: make_pipe_def split: if_splits bind_splits)
  note r' = lowest_freeD [OF r] and w' = lowest_freeD [OF w]
  have ne: "w \<noteq> r" "t w = None" using w' by (auto split: if_splits)
  have "r < w" using r' w' ne by (metis linorder_neqE_nat)
  with r' w' ne t' show ?thesis by (auto split: if_splits)
qed

text \<open>What is known of three pipes made one after the other.\<close>

definition pipes_ok :: "fds \<Rightarrow> nat \<times> nat \<Rightarrow> nat \<times> nat \<Rightarrow> nat \<times> nat \<Rightarrow> bool" where
  "pipes_ok t pi po pe \<longleftrightarrow>
     fst pi < snd pi \<and> snd pi < fst po \<and> fst po < snd po \<and> snd po < fst pe \<and> fst pe < snd pe
     \<and> (\<forall>d \<in> {fst pi, snd pi, fst po, snd po, fst pe, snd pe}. t d = None)
     \<and> (t 0 = None \<longrightarrow> fst pi = 0)"

definition piped :: "fds \<Rightarrow> nat \<times> nat \<Rightarrow> nat \<times> nat \<Rightarrow> nat \<times> nat \<Rightarrow> fds" where
  "piped t pi po pe = t(fst pi \<mapsto> Reads 0, snd pi \<mapsto> Writes 0, fst po \<mapsto> Reads 1, snd po \<mapsto> Writes 1,
     fst pe \<mapsto> Reads 2, snd pe \<mapsto> Writes 2)"

lemma three_pipes:
  assumes "make_pipe k 0 t = Some (i0, i1, t1)" "make_pipe k 1 t1 = Some (o0, o1, t2)"
    "make_pipe k 2 t2 = Some (e0, e1, t3)"
  shows "pipes_ok t (i0, i1) (o0, o1) (e0, e1) \<and> t3 = piped t (i0, i1) (o0, o1) (e0, e1)"
proof -
  note i = make_pipeD [OF assms(1)] and o' = make_pipeD [OF assms(2)] and e = make_pipeD [OF assms(3)]
  have "i1 < o0" using i o' by (metis fun_upd_apply linorder_neqE_nat option.distinct(1))
  moreover have "o1 < e0" using o' e by (metis fun_upd_apply linorder_neqE_nat option.distinct(1))
  moreover have "t d = None" if "d \<in> {i0, i1, o0, o1, e0, e1}" for d
    using that i o' e by (auto split: if_splits)
  moreover have "t 0 = None \<longrightarrow> i0 = 0" using i by (metis gr0I not_less0 neq0_conv)
  ultimately show ?thesis using i o' e by (auto simp: pipes_ok_def piped_def)
qed

text \<open>The ways \<open>popen3func\<close> can end.\<close>

lemma popen3func_cases:
  obtains (fail) "popen3func k q j t = failed q t"
  | (ok) i0 i1 o0 o1 e0 e1 t' where "pipes_ok t (i0, i1) (o0, o1) (e0, e1)"
      "t' = (if j then dup2 (int o1) e1 (dup2 (int o0) e0 (piped t (i0, i1) (o0, o1) (e0, e1)))
             else piped t (i0, i1) (o0, o1) (e0, e1))"
      "fork_pid k \<noteq> -1" "j \<Longrightarrow> p_stderr q = None"
      "popen3func k q j t = \<lparr>pid = fork_pid k,
         ptrs = \<lparr>p_stdin = map_option (\<lambda>_. int i1) (p_stdin q), p_stdout = map_option (\<lambda>_. int o0) (p_stdout q),
                 p_stderr = map_option (\<lambda>_. int e0) (p_stderr q)\<rparr>,
         parent = parent_fds q (i0, i1) (o0, o1) (e0, e1) t',
         child = Some (child_fds q (i0, i1) (o0, o1) (e0, e1) t')\<rparr>"
proof (cases "j \<and> p_stderr q \<noteq> None")
  case True
  then show ?thesis using fail by (simp add: popen3func_def)
next
  case join: False
  show ?thesis
  proof (cases "make_pipe k 0 t")
    case None
    with join show ?thesis using fail by (simp add: popen3func_def)
  next
    case (Some x)
    then obtain i0 i1 t1 where i: "make_pipe k 0 t = Some (i0, i1, t1)" by (cases x) auto
    note iD = make_pipeD [OF i]
    show ?thesis
    proof (cases "make_pipe k 1 t1")
      case None
      have "close_pipe (i0, i1) t1 = t" using iD by (auto simp: close_pipe_def fd_close_def fun_eq_iff)
      with None i join show ?thesis using fail by (simp add: popen3func_def)
    next
      case (Some y)
      then obtain o0 o1 t2 where o': "make_pipe k 1 t1 = Some (o0, o1, t2)" by (cases y) auto
      note oD = make_pipeD [OF o']
      show ?thesis
      proof (cases "make_pipe k 2 t2")
        case None
        have "close_pipe (o0, o1) (close_pipe (i0, i1) t2) = t"
          using iD oD by (auto simp: close_pipe_def fd_close_def fun_eq_iff split: if_splits)
        with None i o' join show ?thesis using fail by (simp add: popen3func_def)
      next
        case (Some z)
        then obtain e0 e1 t3 where e: "make_pipe k 2 t2 = Some (e0, e1, t3)" by (cases z) auto
        note P = three_pipes [OF i o' e]
        let ?t = "if j then dup2 (int o1) e1 (dup2 (int o0) e0 t3) else t3"
        have closed: "close_pipe (e0, e1) (close_pipe (o0, o1) (close_pipe (i0, i1) ?t)) = t"
          using P by (auto simp: pipes_ok_def piped_def close_pipe_def fd_close_def dup2_def fun_eq_iff)
        show ?thesis
        proof (cases "fork_pid k = -1")
          case True
          with closed i o' e join show ?thesis using fail by (simp add: popen3func_def Let_def)
        next
          case False
          with P i o' e join show ?thesis
            by (intro ok [of i0 i1 o0 o1 e0 e1 ?t]) (auto simp: popen3func_def Let_def)
        qed
      qed
    qed
  qed
qed

text \<open>Pointers that are NULL or ask for a descriptor.\<close>

definition asks :: "int option \<Rightarrow> bool" where
  "asks ptr \<longleftrightarrow> (case ptr of None \<Rightarrow> True | Some fd \<Rightarrow> fd < 0)"

definition asks_all :: "fd_ptrs \<Rightarrow> bool" where
  "asks_all q \<longleftrightarrow> asks (p_stdin q) \<and> asks (p_stdout q) \<and> asks (p_stderr q)"

lemma keep_end_asks: "asks ptr \<Longrightarrow> keep_end ptr e t = (if ptr = None then t(e := None) else t)"
  by (auto simp: asks_def keep_end_def fd_close_def split: option.splits)

lemma take_given_asks: "asks ptr \<Longrightarrow> take_given ptr e t = t"
  by (auto simp: asks_def take_given_def fd_close_def split: option.splits)

lemma parent_fds_asks:
  assumes "asks_all q" and "pipes_ok t pi po pe"
    and "t' = (if j then dup2 (int (snd po)) (snd pe) (dup2 (int (fst po)) (fst pe) (piped t pi po pe)) else piped t pi po pe)"
    and "j \<Longrightarrow> p_stderr q = None"
  shows "parent_fds q pi po pe t' = t(snd pi := (if p_stdin q = None then None else Some (Writes 0)),
      fst po := (if p_stdout q = None then None else Some (Reads 1)),
      fst pe := (if p_stderr q = None then None else Some (Reads 2)))"
proof -
  obtain i0 i1 o0 o1 e0 e1 where [simp]: "pi = (i0, i1)" "po = (o0, o1)" "pe = (e0, e1)" by (cases pi, cases po, cases pe) auto
  have P: "i0 < i1" "i1 < o0" "o0 < o1" "o1 < e0" "e0 < e1" "t i0 = None" "t i1 = None" "t o0 = None" "t o1 = None"
    "t e0 = None" "t e1 = None" using assms(2) by (simp_all add: pipes_ok_def)
  have D: "i0 \<noteq> i1" "i0 \<noteq> o0" "i0 \<noteq> o1" "i0 \<noteq> e0" "i0 \<noteq> e1" "i1 \<noteq> o0" "i1 \<noteq> o1" "i1 \<noteq> e0" "i1 \<noteq> e1"
    "o0 \<noteq> o1" "o0 \<noteq> e0" "o0 \<noteq> e1" "o1 \<noteq> e0" "o1 \<noteq> e1" "e0 \<noteq> e1" using P(1-5) by linarith+
  note N = D D [symmetric] P(6-)
  define V where "V = t'(i0 := None, o1 := None, e1 := None)"
  have V: "V x = (if x = i1 then Some (Writes 0) else if x = o0 then Some (Reads 1)
      else if x = e0 then (if j then Some (Reads 1) else Some (Reads 2)) else t x)" for x
    by (simp add: V_def assms(3) piped_def dup2_def N)
  have q: "parent_fds q pi po pe t' = keep_end (p_stderr q) e0 (keep_end (p_stdout q) o0 (keep_end (p_stdin q) i1 V))"
    by (simp add: parent_fds_def Let_def fd_close_def V_def)
  have "keep_end (p_stderr q) e0 (keep_end (p_stdout q) o0 (keep_end (p_stdin q) i1 V)) x = (t(snd pi := (if p_stdin q = None then None else Some (Writes 0)),
      fst po := (if p_stdout q = None then None else Some (Reads 1)),
      fst pe := (if p_stderr q = None then None else Some (Reads 2)))) x" for x
    using assms(1,4) by (simp add: asks_all_def keep_end_asks V N)
  then show ?thesis unfolding q by blast
qed

text \<open>The descriptor a pointer gives to the child.\<close>

definition given :: "int option \<Rightarrow> nat option" where
  "given ptr = (case ptr of None \<Rightarrow> None | Some fd \<Rightarrow> if fd \<ge> 0 then Some (nat fd) else None)"

lemma take_given_at:
  assumes "\<And>d. given ptr = Some d \<Longrightarrow> t d \<noteq> None \<and> d \<noteq> e"
  shows "take_given ptr e t x = (if x = e then (case given ptr of None \<Rightarrow> t e | Some d \<Rightarrow> t d)
    else if given ptr = Some x then None else t x)"
  using assms by (auto simp: take_given_def given_def fd_close_def dup2_def split: option.splits)

lemma move_to_at: "t e \<noteq> None \<Longrightarrow> move_to e std t x = (if x = std then t e else if x = e then None else t x)"
  by (auto simp: move_to_def fd_close_def dup2_def)

text \<open>The descriptors given are open and different from each other.\<close>

definition gives_open :: "fd_ptrs \<Rightarrow> fds \<Rightarrow> bool" where
  "gives_open q t \<longleftrightarrow> list_all (\<lambda>d. t d \<noteq> None) (List.map_filter given [p_stdin q, p_stdout q, p_stderr q])
     \<and> distinct (List.map_filter given [p_stdin q, p_stdout q, p_stderr q])"

text \<open>The child's standard stream: the descriptor given for it, or else the end of a pipe.\<close>

definition stream :: "fds \<Rightarrow> int option \<Rightarrow> fd_end \<Rightarrow> fd_end option" where
  "stream t ptr e = (case given ptr of None \<Rightarrow> Some e | Some d \<Rightarrow> t d)"

lemma child_fds_at:
  assumes ok: "pipes_ok t pi po pe" and g: "gives_open q t"
    and t': "t' = (if j then dup2 (int (snd po)) (snd pe) (dup2 (int (fst po)) (fst pe) (piped t pi po pe)) else piped t pi po pe)"
    and j: "j \<Longrightarrow> p_stderr q = None"
  shows "child_fds q pi po pe t' n =
    (if n = 0 then stream t (p_stdin q) (Reads 0)
     else if n = 1 then stream t (p_stdout q) (Writes 1)
     else if n = 2 then stream t (p_stderr q) (if j then Writes 1 else Writes 2)
     else if Some n \<in> {given (p_stdin q), given (p_stdout q), given (p_stderr q)} then None else t n)"
proof -
  obtain i0 i1 o0 o1 e0 e1 where [simp]: "pi = (i0, i1)" "po = (o0, o1)" "pe = (e0, e1)" by (cases pi, cases po, cases pe) auto
  have P: "i0 < i1" "i1 < o0" "o0 < o1" "o1 < e0" "e0 < e1" "t i0 = None" "t i1 = None" "t o0 = None" "t o1 = None"
    "t e0 = None" "t e1 = None" using ok by (simp_all add: pipes_ok_def)
  have D: "i0 \<noteq> i1" "i0 \<noteq> o0" "i0 \<noteq> o1" "i0 \<noteq> e0" "i0 \<noteq> e1" "i1 \<noteq> o0" "i1 \<noteq> o1" "i1 \<noteq> e0" "i1 \<noteq> e1"
    "o0 \<noteq> o1" "o0 \<noteq> e0" "o0 \<noteq> e1" "o1 \<noteq> e0" "o1 \<noteq> e1" "e0 \<noteq> e1" using P(1-5) by linarith+
  have L: "o1 \<noteq> 0" "o1 \<noteq> Suc 0" "o1 \<noteq> 2" "e1 \<noteq> 0" "e1 \<noteq> Suc 0" "e1 \<noteq> 2" using P(1-5) by linarith+
  note N = D D [symmetric] P(6-) L L [symmetric]
  let ?gi = "given (p_stdin q)" and ?go = "given (p_stdout q)" and ?ge = "given (p_stderr q)"
  have G: "t d \<noteq> None" if "?gi = Some d \<or> ?go = Some d \<or> ?ge = Some d" for d
    using that g by (auto simp: gives_open_def List.map_filter_simps split: option.splits)
  have GD: "?gi = Some d \<Longrightarrow> ?go \<noteq> Some d \<and> ?ge \<noteq> Some d" "?go = Some d \<Longrightarrow> ?ge \<noteq> Some d" for d
    using g by (auto simp: gives_open_def List.map_filter_simps split: option.splits)
  have GN: "?gi \<noteq> Some p" "?go \<noteq> Some p" "?ge \<noteq> Some p" if "t p = None" for p
    using G [of p] that by auto
  note GP = GN [OF P(6)] GN [OF P(7)] GN [OF P(8)] GN [OF P(9)] GN [OF P(10)] GN [OF P(11)]
  define w where "w = (if j then Writes 1 else Writes 2)"
  define A where "A = t'(i1 := None, o0 := None, e0 := None)"
  have A: "A x = (if x = i0 then Some (Reads 0) else if x = o1 then Some (Writes 1) else if x = e1 then Some w else t x)" for x
    by (simp add: A_def t' w_def piped_def dup2_def N)
  define B1 where "B1 = take_given (p_stdin q) i0 A"
  have B1: "B1 x = (if x = i0 then stream t (p_stdin q) (Reads 0) else if ?gi = Some x then None else A x)" for x
    unfolding B1_def using GP by (subst take_given_at) (auto simp: A stream_def G split: option.splits)
  define B2 where "B2 = take_given (p_stdout q) o1 B1"
  have B1d: "?go = Some d \<or> ?ge = Some d \<Longrightarrow> B1 d = t d" for d
    using GD GP by (auto simp: B1 A)
  have B2: "B2 x = (if x = o1 then stream t (p_stdout q) (Writes 1) else if ?go = Some x then None else B1 x)" for x
  proof -
    have "B1 o1 = Some (Writes 1)" using GP by (simp add: B1 A N)
    then show ?thesis
      unfolding B2_def using GP B1d G by (subst take_given_at) (auto simp: stream_def split: option.splits)
  qed
  define B3 where "B3 = take_given (p_stderr q) e1 B2"
  have B2d: "?ge = Some d \<Longrightarrow> B2 d = t d" for d
    using GD GP B1d by (auto simp: B2)
  have B3: "B3 x = (if x = e1 then stream t (p_stderr q) w else if ?ge = Some x then None else B2 x)" for x
  proof -
    have "B2 e1 = Some w" using GP by (simp add: B2 B1 A N)
    then show ?thesis
      unfolding B3_def using GP B2d G by (subst take_given_at) (auto simp: stream_def split: option.splits)
  qed
  have S: "stream t (p_stdin q) v \<noteq> None" "stream t (p_stdout q) v \<noteq> None" "stream t (p_stderr q) v \<noteq> None" for v
    using G by (auto simp: stream_def split: option.splits)
  define C1 where "C1 = move_to i0 0 B3"
  have B3i: "B3 i0 = stream t (p_stdin q) (Reads 0)" using GP by (auto simp: B3 B2 B1 N)
  have C1: "C1 x = (if x = 0 then stream t (p_stdin q) (Reads 0) else if x = i0 then None else B3 x)" for x
    unfolding C1_def using S B3i by (subst move_to_at) simp_all
  define C2 where "C2 = move_to o1 1 C1"
  have C1o: "C1 o1 = stream t (p_stdout q) (Writes 1)" using GP by (auto simp: C1 B3 B2 N)
  have C2: "C2 x = (if x = 1 then stream t (p_stdout q) (Writes 1) else if x = o1 then None else C1 x)" for x
    unfolding C2_def using S C1o by (subst move_to_at) simp_all
  have C2e: "C2 e1 = stream t (p_stderr q) w" by (simp add: C2 C1 B3 N)
  have "child_fds q pi po pe t' n = move_to e1 2 C2 n"
    by (simp add: child_fds_def Let_def fd_close_def A_def B1_def B2_def B3_def C1_def C2_def)
  also have "\<dots> = (if n = 2 then stream t (p_stderr q) w else if n = e1 then None else C2 n)"
    using S C2e by (subst move_to_at) simp_all
  finally show ?thesis
    using P(6-) L by (auto simp: C2 C1 B3 B2 B1 A w_def)
qed

section \<open>Properties\<close>

text \<open>What the caller of \<open>popen3\<close> is left with when the child runs.\<close>

lemma popen3_parent:
  assumes "asks_all q" and "child (popen3func k q j t) \<noteq> None"
  obtains i1 o0 e0 where "distinct [i1, o0, e0]" "t i1 = None" "t o0 = None" "t e0 = None"
    "parent (popen3func k q j t) = t(i1 := (if p_stdin q = None then None else Some (Writes 0)),
       o0 := (if p_stdout q = None then None else Some (Reads 1)), e0 := (if p_stderr q = None then None else Some (Reads 2)))"
    "ptrs (popen3func k q j t) = \<lparr>p_stdin = map_option (\<lambda>_. int i1) (p_stdin q), p_stdout = map_option (\<lambda>_. int o0) (p_stdout q),
       p_stderr = map_option (\<lambda>_. int e0) (p_stderr q)\<rparr>"
    "pid (popen3func k q j t) \<noteq> -1"
proof (rule popen3func_cases [of k q j t])
  assume "popen3func k q j t = failed q t"
  then show ?thesis using assms(2) by (simp add: failed_def)
next
  fix i0 i1 o0 o1 e0 e1 t'
  assume ok: "pipes_ok t (i0, i1) (o0, o1) (e0, e1)"
    and t': "t' = (if j then dup2 (int o1) e1 (dup2 (int o0) e0 (piped t (i0, i1) (o0, o1) (e0, e1)))
             else piped t (i0, i1) (o0, o1) (e0, e1))"
    and k: "fork_pid k \<noteq> -1" and j: "j \<Longrightarrow> p_stderr q = None"
    and r: "popen3func k q j t = \<lparr>pid = fork_pid k,
         ptrs = \<lparr>p_stdin = map_option (\<lambda>_. int i1) (p_stdin q), p_stdout = map_option (\<lambda>_. int o0) (p_stdout q),
                 p_stderr = map_option (\<lambda>_. int e0) (p_stderr q)\<rparr>,
         parent = parent_fds q (i0, i1) (o0, o1) (e0, e1) t',
         child = Some (child_fds q (i0, i1) (o0, o1) (e0, e1) t')\<rparr>"
  have "t' = (if j then dup2 (int (snd (o0, o1))) (snd (e0, e1)) (dup2 (int (fst (o0, o1))) (fst (e0, e1))
      (piped t (i0, i1) (o0, o1) (e0, e1))) else piped t (i0, i1) (o0, o1) (e0, e1))" using t' by simp
  from parent_fds_asks [OF assms(1) ok this j] show ?thesis
    using ok k r by (intro that [of i1 o0 e0]) (auto simp: pipes_ok_def)
qed

lemma close_ptr_fresh: "t d = None \<Longrightarrow> close_ptr (map_option (\<lambda>_. int d) ptr) (t(d := (if ptr = None then None else v))) = t"
  by (cases ptr) (auto simp: close_ptr_def fd_close_def)

text \<open>
  C34. No descriptor is lost. For a caller whose pointers are NULL or ask for a descriptor,
  whichever \<open>pipe\<close> or \<open>fork\<close> fails: when \<open>popen3\<close> fails the caller's table of descriptors is what it was, and
  otherwise \<open>pclose3\<close>, called with the pointers as \<open>popen3\<close> left them, brings it back
  exactly; in between the pointers hold the caller's ends of the right pipes.
\<close>

theorem popen3_pclose3_restores:
  assumes "asks_all q"
  shows "if child (popen3func k q j t) = None
    then popen3func k q j t = \<lparr>pid = -1, ptrs = q, parent = t, child = None\<rparr>
    else pid (popen3func k q j t) \<noteq> -1
      \<and> fst (pclose3 k' (pid (popen3func k q j t)) (ptrs (popen3func k q j t)) sig (parent (popen3func k q j t))) = t
      \<and> map_option (\<lambda>d. parent (popen3func k q j t) (nat d)) (p_stdin (ptrs (popen3func k q j t)))
          = map_option (\<lambda>_. Some (Writes 0)) (p_stdin q)
      \<and> map_option (\<lambda>d. parent (popen3func k q j t) (nat d)) (p_stdout (ptrs (popen3func k q j t)))
          = map_option (\<lambda>_. Some (Reads 1)) (p_stdout q)
      \<and> map_option (\<lambda>d. parent (popen3func k q j t) (nat d)) (p_stderr (ptrs (popen3func k q j t)))
          = map_option (\<lambda>_. Some (Reads 2)) (p_stderr q)"
proof (cases "child (popen3func k q j t) = None")
  case True
  then have "popen3func k q j t = failed q t" by (rule_tac popen3func_cases [of k q j t]) auto
  with True show ?thesis by (simp add: failed_def)
next
  case False
  from assms this obtain i1 o0 e0 where d: "distinct [i1, o0, e0]" "t i1 = None" "t o0 = None" "t e0 = None"
    and p: "parent (popen3func k q j t) = t(i1 := (if p_stdin q = None then None else Some (Writes 0)),
       o0 := (if p_stdout q = None then None else Some (Reads 1)), e0 := (if p_stderr q = None then None else Some (Reads 2)))"
    and r: "ptrs (popen3func k q j t) = \<lparr>p_stdin = map_option (\<lambda>_. int i1) (p_stdin q), p_stdout = map_option (\<lambda>_. int o0) (p_stdout q),
       p_stderr = map_option (\<lambda>_. int e0) (p_stderr q)\<rparr>" and pid: "pid (popen3func k q j t) \<noteq> -1"
    by (rule popen3_parent)
  have "fst (pclose3 k' pp (ptrs (popen3func k q j t)) sig (parent (popen3func k q j t))) = t" for pp
    unfolding p r using d
    by (cases "p_stdin q"; cases "p_stdout q"; cases "p_stderr q")
       (simp_all add: pclose3_def close_ptr_def fd_close_def fun_eq_iff)
  with False pid p r d show ?thesis by (auto simp: map_option_case split: option.splits)
qed

definition sample_kernel :: kernel where
  "sample_kernel = \<lparr>nofile = 16, pipe_fails = (\<lambda>_. False), fork_pid = 42,
     waits = (\<lambda>n. if n < 2 then Interrupted else Status 256)\<rparr>"

definition std_fds :: fds where
  "std_fds = [0 \<mapsto> File 0, 1 \<mapsto> File 1, 2 \<mapsto> File 2]"

definition want_in_out :: fd_ptrs where
  "want_in_out = \<lparr>p_stdin = Some (-1), p_stdout = Some (-1), p_stderr = None\<rparr>"

lemma upto_16: "[0..<16] = [0, 1, 2, 3, 4, 5, 6, 7, 8, 9, 10, 11, 12, 13, 14, 15]"
  by code_simp

lemma sample_pipes:
  "make_pipe sample_kernel 0 std_fds = Some (3, 4, std_fds(3 \<mapsto> Reads 0, 4 \<mapsto> Writes 0))"
  "make_pipe sample_kernel 1 (std_fds(3 \<mapsto> Reads 0, 4 \<mapsto> Writes 0)) =
     Some (5, 6, std_fds(3 \<mapsto> Reads 0, 4 \<mapsto> Writes 0, 5 \<mapsto> Reads 1, 6 \<mapsto> Writes 1))"
  "make_pipe sample_kernel 2 (std_fds(3 \<mapsto> Reads 0, 4 \<mapsto> Writes 0, 5 \<mapsto> Reads 1, 6 \<mapsto> Writes 1)) =
     Some (7, 8, piped std_fds (3, 4) (5, 6) (7, 8))"
  by (simp_all add: make_pipe_def lowest_free_def sample_kernel_def std_fds_def piped_def upto_16)

lemma sample_popen3:
  "popen3func sample_kernel want_in_out True std_fds =
     \<lparr>pid = 42, ptrs = \<lparr>p_stdin = Some 4, p_stdout = Some 5, p_stderr = None\<rparr>,
      parent = parent_fds want_in_out (3, 4) (5, 6) (7, 8)
        (dup2 6 8 (dup2 5 7 (piped std_fds (3, 4) (5, 6) (7, 8)))),
      child = Some (child_fds want_in_out (3, 4) (5, 6) (7, 8)
        (dup2 6 8 (dup2 5 7 (piped std_fds (3, 4) (5, 6) (7, 8)))))\<rparr>"
  unfolding popen3func_def sample_pipes option.case prod.case
  by (simp add: sample_kernel_def want_in_out_def Let_def)

theorem popen3_pclose3_restores_witness:
  "fst (pclose3 sample_kernel 42 \<lparr>p_stdin = Some 4, p_stdout = Some 5, p_stderr = None\<rparr> 0
     (parent (popen3func sample_kernel want_in_out True std_fds))) = std_fds"
  using popen3_pclose3_restores [of want_in_out sample_kernel True std_fds sample_kernel 0]
  by (simp add: sample_popen3) (simp add: asks_all_def asks_def want_in_out_def)

text \<open>
  C35. The child's standard streams. When the child is about to run its function, each of
  its three standard streams is the descriptor the caller gave for it, or else its end of the right pipe;
  with \<open>POPEN_JOINSTDERR\<close> the errors go to the pipe of the output. No other end of a pipe
  is open in the child, and of the caller's other descriptors exactly those given are closed.
\<close>

theorem popen3_child_wired:
  assumes "child (popen3func k q j t) = Some c" and "gives_open q t"
  shows "c 0 = stream t (p_stdin q) (Reads 0) \<and> c 1 = stream t (p_stdout q) (Writes 1)
    \<and> c 2 = stream t (p_stderr q) (if j then Writes 1 else Writes 2)
    \<and> (\<forall>n. c (n + 3) = (if Some (n + 3) \<in> {given (p_stdin q), given (p_stdout q), given (p_stderr q)} then None else t (n + 3)))"
proof (rule popen3func_cases [of k q j t])
  assume "popen3func k q j t = failed q t"
  then show ?thesis using assms(1) by (simp add: failed_def)
next
  fix i0 i1 o0 o1 e0 e1 t'
  assume ok: "pipes_ok t (i0, i1) (o0, o1) (e0, e1)"
    and t': "t' = (if j then dup2 (int o1) e1 (dup2 (int o0) e0 (piped t (i0, i1) (o0, o1) (e0, e1)))
             else piped t (i0, i1) (o0, o1) (e0, e1))"
    and j: "j \<Longrightarrow> p_stderr q = None"
    and r: "popen3func k q j t = \<lparr>pid = fork_pid k,
         ptrs = \<lparr>p_stdin = map_option (\<lambda>_. int i1) (p_stdin q), p_stdout = map_option (\<lambda>_. int o0) (p_stdout q),
                 p_stderr = map_option (\<lambda>_. int e0) (p_stderr q)\<rparr>,
         parent = parent_fds q (i0, i1) (o0, o1) (e0, e1) t',
         child = Some (child_fds q (i0, i1) (o0, o1) (e0, e1) t')\<rparr>"
  have "t' = (if j then dup2 (int (snd (o0, o1))) (snd (e0, e1)) (dup2 (int (fst (o0, o1))) (fst (e0, e1))
      (piped t (i0, i1) (o0, o1) (e0, e1))) else piped t (i0, i1) (o0, o1) (e0, e1))" using t' by simp
  from child_fds_at [OF ok assms(2) this j] r assms(1) show ?thesis by simp
qed

theorem popen3_child_wired_witness:
  "the (child (popen3func sample_kernel want_in_out True std_fds)) 2 = Some (Writes 1)"
  using popen3_child_wired [of sample_kernel want_in_out True std_fds]
  by (simp add: sample_popen3) (simp add: gives_open_def stream_def given_def want_in_out_def List.map_filter_simps)

lemma wait_loop_reply:
  assumes "w (n + m) \<noteq> Interrupted" and "\<forall>i < m. w (n + i) = Interrupted"
  shows "wait_loop w n = Some (wait_value (w (n + m)))"
  using assms
proof (induction m arbitrary: n)
  case 0
  then show ?case by (simp add: wait_loop.simps [of w n])
next
  case (Suc m)
  have "w n = Interrupted" using Suc.prems(2) by auto
  moreover have "wait_loop w (n + 1) = Some (wait_value (w (n + 1 + m)))"
    using Suc.prems by (intro Suc.IH) (auto dest: spec [of _ "Suc _"])
  ultimately show ?case by (simp add: wait_loop.simps [of w n])
qed

lemma wait_loop_Some: "wait_loop w n = Some v \<Longrightarrow> \<exists>m. w (n + m) \<noteq> Interrupted"
proof (erule wait_loop.raw_induct [where P = "\<lambda>w n v. \<exists>m. w (n + m) \<noteq> Interrupted", rotated])
  fix f :: "(nat \<Rightarrow> wait_reply) \<Rightarrow> nat \<Rightarrow> int option" and w n v
  assume IH: "\<And>w n v. f w n = Some v \<Longrightarrow> \<exists>m. w (n + m) \<noteq> Interrupted"
    and r: "(if w n = Interrupted then f w (n + 1) else Some (wait_value (w n))) = Some v"
  show "\<exists>m. w (n + m) \<noteq> Interrupted"
  proof (cases "w n = Interrupted")
    case True
    then obtain m where "w (n + 1 + m) \<noteq> Interrupted" using IH [of w "n + 1" v] r by auto
    then show ?thesis by (metis add.assoc)
  next
    case False
    then show ?thesis by (metis add_0_right)
  qed
qed

text \<open>The status of a child that exits with a code, or is killed by a signal (128 more with a core file).\<close>

definition exited :: "nat \<Rightarrow> wait_reply" where "exited code = Status (256 * code)"
definition killed :: "nat \<Rightarrow> bool \<Rightarrow> wait_reply" where "killed sig core = Status (sig + (if core then 128 else 0))"

text \<open>
  C36. \<open>pclose3\<close> returns when the child has been waited for: exactly when \<open>waitpid\<close> is not interrupted for
  ever, with the first answer that is no interruption. That answer is an exit code
  unchanged, never 0 for a child killed by a signal, and -1 for an error.
\<close>

theorem pclose3_answer:
  "(snd (snd (pclose3 k p q sig t)) = None \<longleftrightarrow> (\<forall>n. waits k n = Interrupted))
    \<and> (waits k n \<noteq> Interrupted \<and> (\<forall>m < n. waits k m = Interrupted) \<longrightarrow>
        snd (snd (pclose3 k p q sig t)) = Some (wait_value (waits k n)))
    \<and> wait_value Wait_failed = -1
    \<and> (c < 256 \<longrightarrow> wait_value (exited c) = int c)
    \<and> (0 < s \<and> s < 127 \<longrightarrow> wait_value (killed s core) \<noteq> 0)"
proof -
  have a: "snd (snd (pclose3 k p q sig t)) = wait_loop (waits k) 0" by (simp add: pclose3_def)
  have first: "wait_loop (waits k) 0 = Some (wait_value (waits k n))"
    if "waits k n \<noteq> Interrupted" "\<forall>m < n. waits k m = Interrupted" for n
    using wait_loop_reply [of "waits k" 0 n] that by simp
  have none: "wait_loop (waits k) 0 = None \<longleftrightarrow> (\<forall>n. waits k n = Interrupted)"
  proof
    assume none: "wait_loop (waits k) 0 = None"
    show "\<forall>n. waits k n = Interrupted"
    proof (rule ccontr)
      assume "\<not> (\<forall>n. waits k n = Interrupted)"
      then have "\<exists>n. waits k n \<noteq> Interrupted" by blast
      then have l: "waits k (LEAST n. waits k n \<noteq> Interrupted) \<noteq> Interrupted" by (rule LeastI_ex)
      have "\<forall>m < (LEAST n. waits k n \<noteq> Interrupted). waits k m = Interrupted" using not_less_Least by blast
      from first [OF l this] none show False by (simp only: option.distinct)
    qed
  next
    assume "\<forall>n. waits k n = Interrupted"
    then show "wait_loop (waits k) 0 = None" using wait_loop_Some [of "waits k" 0] by (metis not_Some_eq)
  qed
  have "wait_value (exited c) = int c" if "c < 256" for c
    using that by (simp add: exited_def wait_value_def WIFEXITED_def WEXITSTATUS_def)
  moreover have "wait_value (killed s core) \<noteq> 0" if "0 < s" "s < 127"
    using that by (cases core) (simp_all add: killed_def wait_value_def WIFEXITED_def)
  moreover have "wait_value Wait_failed = -1" by (simp add: wait_value_def)
  ultimately show ?thesis using none first unfolding a by blast
qed

theorem pclose3_answer_witness:
  "snd (snd (pclose3 sample_kernel 42 want_in_out 0 std_fds)) = Some 1"
  using pclose3_answer [of sample_kernel 42 want_in_out 0 std_fds 2 1 9 False]
  by (simp add: sample_kernel_def wait_value_def WIFEXITED_def WEXITSTATUS_def)

text \<open>
  C37. \<open>__system\<close> leaves the signals alone. Whatever \<open>vfork\<close> and \<open>waitpid\<close> answer, the mask and the two handlers are
  what they were before, the child executes the shell with the caller's signals, and
  the parent waits with \<open>SIGCHLD\<close> blocked and both keyboard signals ignored.
\<close>

theorem system_restores_signals:
  "fst (snd (libc_system k bb command s)) = s
    \<and> list_all (\<lambda>e. case e of Run_child c \<Rightarrow> c = s
        | Wait w \<Rightarrow> SIGCHLD \<in> blocked w \<and> blocked s \<subseteq> blocked w \<and> on_int w = SIG_IGN \<and> on_quit w = SIG_IGN
        | Vfork \<Rightarrow> command \<noteq> None
        | Execve path args \<Rightarrow> path = BSHELL bb \<and> args = [''sh'', ''-c'', the command])
       (snd (snd (libc_system k bb command s)))"
  by (cases command) (auto simp: libc_system_def Let_def)

end
