(* ===== verification/Log_Reader.thy ===== *)
theory Log_Reader
  imports Process Ui
begin

text \<open>
  \<open>log_reader\<close> of \<open>ui.c\<close>, the thread behind each of the logs 1 to 3: it follows a file, opening it
  again when it has been replaced, or reads from a program started with \<open>popen3\<close>, and
  prints what is printable into its log. The descriptors of the process are the table
  of \<open>Process\<close>. What the kernel does during a round of its loop is the record
  \<open>round_env\<close>; waiting is left out.
\<close>

section \<open>The thread\<close>

text \<open>\<open>poll\<close> and \<open>read\<close>: nothing to read, an error or a hang-up; or the bytes read, none at the end of the file.\<close>

datatype poll_reply = Nothing | Bytes string

record round_env =
  same_file :: bool
  can_open :: bool
  the_kernel :: kernel
  replies :: "poll_reply list"

text \<open>The log is \<open>None\<close> after a store outside its rows.\<close>

record reader =
  rd_fd :: int
  rd_pid :: int
  rd_fds :: fds
  rd_log :: "textContainer option"

definition SIGKILL :: int where "SIGKILL = 9"

definition open_log :: "round_env \<Rightarrow> nat \<Rightarrow> fds \<Rightarrow> int \<times> fds" where
  "open_log e n t =
     (if \<not> can_open e then (-1, t)
      else case lowest_free (nofile (the_kernel e)) t of None \<Rightarrow> (-1, t) | Some d \<Rightarrow> (int d, t(d \<mapsto> File n)))"

text \<open>The inner loop: it ends when nothing more comes. At most 256 bytes are read at a time.\<close>

fun read_all :: "poll_reply list \<Rightarrow> textContainer \<Rightarrow> textContainer option" where
  "read_all [] tc = Some tc"
| "read_all (Nothing # rs) tc = Some tc"
| "read_all (Bytes b # rs) tc =
     (let buf = take 256 b in
      if buf = [] then Some tc
      else do { tc \<leftarrow> vui_print_to (filter_log (length buf) (buf @ [NUL])) tc; read_all rs tc })"

definition follow_file :: "round_env \<Rightarrow> nat \<Rightarrow> reader \<Rightarrow> reader" where
  "follow_file e n s =
     (if rd_fd s < 0 \<or> \<not> same_file e then
        (let t = (if rd_fd s \<ge> 0 then fd_close (rd_fd s) (rd_fds s) else rd_fds s);
             (fd, t) = open_log e n t
         in s\<lparr>rd_fd := fd, rd_fds := t\<rparr>)
      else s)"

definition want_out :: fd_ptrs where
  "want_out = \<lparr>p_stdin = None, p_stdout = Some (-1), p_stderr = None\<rparr>"

definition start_program :: "round_env \<Rightarrow> reader \<Rightarrow> reader" where
  "start_program e s =
     (if rd_pid s < 0 then
        (let r = popen3func (the_kernel e) want_out POPEN_JOINSTDERR (rd_fds s)
         in s\<lparr>rd_pid := pid r, rd_fds := parent r,
              rd_fd := (if pid r = -1 then -1 else case p_stdout (ptrs r) of None \<Rightarrow> -1 | Some fd \<Rightarrow> fd)\<rparr>)
      else s)"

definition reader_round :: "bool \<Rightarrow> nat \<Rightarrow> round_env \<Rightarrow> reader \<Rightarrow> reader" where
  "reader_round is_popened n e s =
     (let s = (if is_popened then start_program e s else follow_file e n s)
      in if rd_fd s \<ge> 0 then s\<lparr>rd_log := Option.bind (rd_log s) (read_all (replies e))\<rparr> else s)"

definition reader_end :: "bool \<Rightarrow> kernel \<Rightarrow> reader \<Rightarrow> reader" where
  "reader_end is_popened k s =
     (if rd_fd s \<ge> 0 then
        (if is_popened then
           s\<lparr>rd_fds := fst (pclose3 k (rd_pid s) \<lparr>p_stdin = None, p_stdout = Some (rd_fd s), p_stderr = None\<rparr> SIGKILL (rd_fds s))\<rparr>
         else s\<lparr>rd_fds := fd_close (rd_fd s) (rd_fds s)\<rparr>)
      else s)"

text \<open>The rounds until \<open>pt_logreaders_active\<close> is cleared, and the end.\<close>

definition log_reader :: "bool \<Rightarrow> nat \<Rightarrow> round_env list \<Rightarrow> kernel \<Rightarrow> fds \<Rightarrow> textContainer \<Rightarrow> reader" where
  "log_reader is_popened n es k t tc =
     reader_end is_popened k (fold (reader_round is_popened n) es \<lparr>rd_fd = -1, rd_pid = -1, rd_fds = t, rd_log = Some tc\<rparr>)"

section \<open>What is read\<close>

fun bytes_of :: "poll_reply list \<Rightarrow> string" where
  "bytes_of [] = []"
| "bytes_of (Nothing # rs) = []"
| "bytes_of (Bytes b # rs) = (if b = [] then [] else take 256 b @ bytes_of rs)"

fun bytes_read :: "bool \<Rightarrow> nat \<Rightarrow> round_env list \<Rightarrow> reader \<Rightarrow> string" where
  "bytes_read p n [] s = []"
| "bytes_read p n (e # es) s =
     (if rd_fd (reader_round p n e s) \<ge> 0 then bytes_of (replies e) else []) @ bytes_read p n es (reader_round p n e s)"

lemma no_nul_printable: "no_nul (filter printable s)"
  by (auto simp: no_nul_def printable_def)

lemma break_lines_append: "break_lines c (a @ b) st = break_lines c b (break_lines c a st)"
  by (simp add: break_lines_def)

text \<open>The log after some bytes: it shows exactly the printable ones.\<close>

definition shows_bytes :: "textContainer \<Rightarrow> string list \<times> string \<Rightarrow> string \<Rightarrow> textContainer option \<Rightarrow> bool" where
  "shows_bytes tc st b r \<longleftrightarrow> (\<exists>tc'. r = Some tc' \<and> displays tc' (break_lines (text_cols tc) (filter printable b) st)
     \<and> holds (text_of tc' ! text_row tc') (snd (break_lines (text_cols tc) (filter printable b) st))
     \<and> text_rows tc' = text_rows tc \<and> text_cols tc' = text_cols tc)"

lemma read_all_shows:
  "displays tc st \<Longrightarrow> holds (text_of tc ! text_row tc) (snd st) \<Longrightarrow> shows_bytes tc st (bytes_of rs) (read_all rs tc)"
proof (induction rs arbitrary: tc st rule: bytes_of.induct)
  case (3 b rs)
  show ?case
  proof (cases "b = []")
    case False
    let ?b = "take 256 b"
    let ?p = "filter printable ?b"
    have "take (length ?b) (?b @ [NUL]) = ?b" by (metis append_eq_conv_conj)
    then have "filter_log (length ?b) (?b @ [NUL]) = ?p" by (subst filter_log_eq) simp_all
    moreover have "take 512 (cstr ?p) = ?p"
      using length_filter_le [of printable ?b] by (simp add: no_nul_printable)
    ultimately obtain t where t: "vui_print_to (filter_log (length ?b) (?b @ [NUL])) tc = Some t"
      "displays t (break_lines (text_cols tc) ?p st)" "holds (text_of t ! text_row t) (snd (break_lines (text_cols tc) ?p st))"
      "text_rows t = text_rows tc" "text_cols t = text_cols tc"
      using vui_print_to_displays [OF "3.prems"(1), of ?p] by auto
    from "3.IH" [OF False t(2,3)] show ?thesis
      using False t(1,4,5) by (auto simp: shows_bytes_def break_lines_append)
  qed (use 3 in \<open>simp add: shows_bytes_def break_lines_def\<close>)
qed (simp_all add: shows_bytes_def break_lines_def)

lemma read_all_after:
  assumes "shows_bytes tc st a r"
  shows "shows_bytes tc st (a @ bytes_of rs) (Option.bind r (read_all rs))"
proof -
  let ?st = "break_lines (text_cols tc) (filter printable a) st"
  obtain t where t: "r = Some t" "displays t ?st" "holds (text_of t ! text_row t) (snd ?st)" "text_rows t = text_rows tc"
    "text_cols t = text_cols tc" using assms by (auto simp: shows_bytes_def)
  from read_all_shows [OF t(2,3), of rs] show ?thesis using t(1,4,5) by (auto simp: shows_bytes_def break_lines_append)
qed

section \<open>Descriptors\<close>

text \<open>
  The thread has at most one descriptor of its own. \<open>forks k\<close>: \<open>fork\<close> answers -1 or the number of a
  process.
\<close>

definition forks :: "kernel \<Rightarrow> bool" where "forks k \<longleftrightarrow> fork_pid k = -1 \<or> 0 < fork_pid k"

definition one_fd :: "bool \<Rightarrow> fds \<Rightarrow> reader \<Rightarrow> bool" where
  "one_fd p t s \<longleftrightarrow>
     (if rd_fd s < 0 then rd_fds s = t else t (nat (rd_fd s)) = None \<and> (\<exists>x. rd_fds s = t(nat (rd_fd s) \<mapsto> x)))
     \<and> (p \<longrightarrow> (if rd_pid s < 0 then rd_fd s < 0 else 0 \<le> rd_fd s))"

lemma one_fd_closed: "one_fd p t s \<Longrightarrow> 0 \<le> rd_fd s \<Longrightarrow> fd_close (rd_fd s) (rd_fds s) = t"
  by (auto simp: one_fd_def fd_close_def)

lemma one_fd_log [simp]: "one_fd p t (s\<lparr>rd_log := r\<rparr>) = one_fd p t s"
  by (simp add: one_fd_def)

lemma one_fd_open: "open_log e n t = (fd, t') \<Longrightarrow> one_fd False t (s\<lparr>rd_fd := fd, rd_fds := t'\<rparr>)"
  using lowest_freeD [of "nofile (the_kernel e)" t]
  by (auto simp: open_log_def one_fd_def split: if_splits option.splits)

lemma one_fd_follow: "one_fd False t s \<Longrightarrow> one_fd False t (follow_file e n s)"
proof -
  assume inv: "one_fd False t s"
  show ?thesis
  proof (cases "rd_fd s < 0 \<or> \<not> same_file e")
    case True
    have t: "(if rd_fd s \<ge> 0 then fd_close (rd_fd s) (rd_fds s) else rd_fds s) = t"
      using inv one_fd_closed [OF inv] by (auto simp: one_fd_def)
    obtain fd t' where o: "open_log e n t = (fd, t')" by fastforce
    have "follow_file e n s = s\<lparr>rd_fd := fd, rd_fds := t'\<rparr>" using True by (simp add: follow_file_def t o)
    then show ?thesis using one_fd_open [OF o] by simp
  next
    case False
    then have "follow_file e n s = s" by (auto simp: follow_file_def)
    with inv show ?thesis by simp
  qed
qed

lemma one_fd_start:
  assumes "one_fd True t s" and "forks (the_kernel e)"
  shows "one_fd True t (start_program e s)"
proof (cases "rd_pid s < 0")
  case True
  let ?r = "popen3func (the_kernel e) want_out POPEN_JOINSTDERR t"
  have "rd_fds s = t" using assms(1) True by (auto simp: one_fd_def split: if_splits)
  then have s': "start_program e s = s\<lparr>rd_pid := pid ?r, rd_fds := parent ?r,
      rd_fd := (if pid ?r = -1 then -1 else case p_stdout (ptrs ?r) of None \<Rightarrow> -1 | Some fd \<Rightarrow> fd)\<rparr>"
    using True by (simp add: start_program_def Let_def)
  have asks: "asks_all want_out" by (simp add: asks_all_def asks_def want_out_def)
  show ?thesis
  proof (cases "child ?r = None")
    case True
    then have "?r = failed want_out t" by (rule_tac popen3func_cases [of "the_kernel e" want_out POPEN_JOINSTDERR t]) auto
    then show ?thesis unfolding s' by (simp add: one_fd_def failed_def)
  next
    case False
    obtain i1 o0 e0 where o: "t i1 = None" "t o0 = None" "t e0 = None" "distinct [i1, o0, e0]"
      "parent ?r = t(i1 := None, o0 := Some (Reads 1), e0 := None)" "p_stdout (ptrs ?r) = Some (int o0)" "pid ?r \<noteq> -1"
      by (rule popen3_parent [OF asks False]) (auto simp: want_out_def)
    have "parent ?r = t(o0 \<mapsto> Reads 1)" using o by (auto simp: fun_eq_iff)
    moreover have "0 < pid ?r"
      using assms(2) o(7) by (rule_tac popen3func_cases [of "the_kernel e" want_out POPEN_JOINSTDERR t]) (auto simp: failed_def forks_def)
    ultimately show ?thesis unfolding s' using o(2,6) by (auto simp: one_fd_def)
  qed
next
  case False
  with assms(1) show ?thesis by (simp add: start_program_def)
qed

lemma one_fd_round:
  assumes "one_fd p t s" and "forks (the_kernel e)"
  shows "one_fd p t (reader_round p n e s)"
proof -
  have "one_fd p t (if p then start_program e s else follow_file e n s)"
    using assms one_fd_start one_fd_follow by (cases p) auto
  then show ?thesis by (simp add: reader_round_def Let_def)
qed

lemma rd_log_round: "rd_log (reader_round p n e s) =
    (if 0 \<le> rd_fd (reader_round p n e s) then Option.bind (rd_log s) (read_all (replies e)) else rd_log s)"
  by (simp add: reader_round_def follow_file_def start_program_def Let_def split: prod.splits)

text \<open>All the rounds.\<close>

lemma reader_rounds:
  assumes "\<forall>e \<in> set es. forks (the_kernel e)" and "one_fd p t s" and "shows_bytes tc st b (rd_log s)"
  shows "one_fd p t (fold (reader_round p n) es s)
    \<and> shows_bytes tc st (b @ bytes_read p n es s) (rd_log (fold (reader_round p n) es s))"
  using assms
proof (induction es arbitrary: s b)
  case (Cons e es)
  let ?s = "reader_round p n e s"
  have o: "one_fd p t ?s" using Cons.prems by (simp add: one_fd_round)
  have "shows_bytes tc st (b @ (if rd_fd ?s \<ge> 0 then bytes_of (replies e) else [])) (rd_log ?s)"
    using Cons.prems(3) read_all_after [OF Cons.prems(3), of "replies e"] by (simp add: rd_log_round [of p n e s])
  from Cons.IH [OF _ o this] show ?case using Cons.prems(1) by (cases "rd_fd ?s \<ge> 0") simp_all
qed simp

section \<open>Properties\<close>

text \<open>
  C38. A log reader. Whether it follows a file or a program, whatever the kernel answers and however
  long it runs: the thread never has more than one descriptor, it gives back what it took, so that
  the process has the same ones open at its end, and its log shows exactly the
  printable bytes of what it has read, broken into the lines of the screen.
\<close>

theorem log_reader_correct:
  fixes h w n :: nat and t :: fds
  assumes "\<forall>e \<in> set es. forks (the_kernel e)" and "36 \<le> h" and "10 \<le> w"
  defines "tc \<equiv> ui_clear_screen w h"
    and "start \<equiv> \<lparr>rd_fd = -1, rd_pid = -1, rd_fds = t, rd_log = Some (ui_clear_screen w h)\<rparr>"
  shows "rd_fds (log_reader p n es k t tc) = t
    \<and> one_fd p t (fold (reader_round p n) es start)
    \<and> (\<exists>tc'. rd_log (log_reader p n es k t tc) = Some tc'
        \<and> displays tc' (break_lines (text_cols tc) (filter printable (bytes_read p n es start)) (blank_lines (text_rows tc), [])))"
proof -
  have d: "displays tc (blank_lines (text_rows tc), [])" unfolding tc_def using assms(2,3) by (rule clear_displays)
  have "holds (text_of tc ! text_row tc) []"
    by (simp add: tc_def ui_clear_screen_def holds_def MAX_ROWS_def MAX_COLS_def)
  with d have "shows_bytes tc (blank_lines (text_rows tc), []) [] (rd_log start)"
    by (simp add: shows_bytes_def start_def tc_def break_lines_def)
  moreover have "one_fd p t start" by (simp add: one_fd_def start_def)
  ultimately have r: "one_fd p t (fold (reader_round p n) es start)"
    "shows_bytes tc (blank_lines (text_rows tc), []) (bytes_read p n es start) (rd_log (fold (reader_round p n) es start))"
    using reader_rounds [OF assms(1), of p t start tc "(blank_lines (text_rows tc), [])" "[]" n] by simp_all
  have "rd_fds (reader_end p k (fold (reader_round p n) es start)) = t"
    using r(1) one_fd_closed [OF r(1)]
    by (cases p; cases "0 \<le> rd_fd (fold (reader_round p n) es start)")
      (simp_all add: reader_end_def pclose3_def close_ptr_def one_fd_def)
  moreover have "rd_log (reader_end p k s) = rd_log s" for s by (simp add: reader_end_def)
  moreover have "log_reader p n es k t tc = reader_end p k (fold (reader_round p n) es start)"
    by (simp add: log_reader_def start_def tc_def)
  ultimately show ?thesis using r by (auto simp: shows_bytes_def)
qed

theorem log_reader_correct_witness:
  "rd_fds (log_reader True 1 [\<lparr>same_file = False, can_open = False, the_kernel = sample_kernel, replies = [Bytes ''ok'']\<rparr>]
     sample_kernel std_fds (ui_clear_screen 480 800)) = std_fds"
  using log_reader_correct [of "[\<lparr>same_file = False, can_open = False, the_kernel = sample_kernel, replies = [Bytes ''ok'']\<rparr>]" 800 480 True 1
      sample_kernel std_fds]
  by (simp add: forks_def sample_kernel_def)

end
