(* ===== verification/Tools.thy ===== *)
theory Tools
  imports Ui
begin

text \<open>
  The small programs beside the recovery: \<open>reboot.c\<close>, \<open>setprop.c\<close>, \<open>truncate.c\<close> and
  \<open>graphsh.c\<close>. Each is given its arguments without the program's name; the result is its
  exit code. What goes to the standard streams is left out.
\<close>

section \<open>reboot\<close>

text \<open>
  \<open>getopt(argc, argv, "npf")\<close> called until it has no more: the options in their order, whether an
  unknown one ended the loop, and \<open>optind\<close>. Options end at \<open>--\<close> and at the first word
  that is none.
\<close>

definition known :: "char \<Rightarrow> bool" where "known c \<longleftrightarrow> c \<in> set ''npf''"

fun getopt_npf :: "string list \<Rightarrow> nat \<Rightarrow> char list \<times> bool \<times> nat" where
  "getopt_npf [] optind = ([], False, optind)"
| "getopt_npf (w # ws) optind =
     (if w = ''--'' then ([], False, optind + 1)
      else if length w \<ge> 2 \<and> hd w = CHR ''-'' then
        (if list_all known (tl w) then
           (let (opts, bad, n) = getopt_npf ws (optind + 1) in (tl w @ opts, bad, n))
         else (takeWhile known (tl w), True, optind))
      else ([], False, optind))"

definition EXIT_FAILURE :: int where "EXIT_FAILURE = 1"

definition steam_reboot_main :: "string list \<Rightarrow> int prog" where
  "steam_reboot_main args =
     (let (opts, bad, optind) = getopt_npf args 1; argc = length args + 1;
          nosync = CHR ''n'' \<in> set opts; poweroff = CHR ''p'' \<in> set opts; force = CHR ''f'' \<in> set opts
      in if bad then ret EXIT_FAILURE
         else if argc > optind + 1 then ret EXIT_FAILURE
         else do {
           whenM (\<not> nosync) (do_call Sync);
           r \<leftarrow> (if force \<or> argc > optind then
                   (if poweroff then call (Reboot ''LINUX_REBOOT_CMD_POWER_OFF'')
                    else if argc > optind then call (Reboot (args ! (optind - 1)))
                    else call (Reboot ''RB_AUTOBOOT''))
                 else if poweroff then do { do_call (PropSet ''ctl.start'' ''poweroff''); ret 0 }
                 else do { do_call (PropSet ''ctl.start'' ''reboot''); ret 0 });
           if r < 0 then ret EXIT_FAILURE else ret 0 })"

section \<open>setprop, truncate\<close>

definition steam_setprop_main :: "string list \<Rightarrow> int prog" where
  "steam_setprop_main args =
     (if length args \<noteq> 2 then ret 1
      else do {
        r \<leftarrow> call (PropSet (args ! 0) (args ! 1));
        if r \<noteq> 0 then ret 1 else ret 0 })"

text \<open>\<open>atoi\<close> of a null pointer is a fault.\<close>

definition steam_truncate_main :: "string list \<Rightarrow> int prog" where
  "steam_truncate_main args =
     (if length args \<ge> 1 then
        (if length args < 2 then do { fault; ret 0 }
         else do { do_call (Fs (Truncate (args ! 0) (atoi (args ! 1)))); ret 0 })
      else ret (-1))"

section \<open>graphsh, graphchoice\<close>

definition gr_exit_ev_exit :: "unit prog" where
  "gr_exit_ev_exit = do { do_call (Hook ''gr_exit''); do_call (Hook ''ev_exit'') }"

text \<open>
  \<open>popen\<close> runs the command with a shell; its output, which is the reply's byte string, is read in
  pieces of at most 249 bytes, each printed up to its first NUL.
\<close>

definition steam_graphsh_main :: "string \<Rightarrow> string list \<Rightarrow> int prog" where
  "steam_graphsh_main version args =
     (case args of [] \<Rightarrow> ret (-1)
      | command # _ \<Rightarrow> do {
          ui_init;
          ui_print (version @ '' - script runner'' @ [LF]);
          ui_set_show_text True;
          r \<leftarrow> sys (Proc (RunPiped ''sh'' [''-c'', command]));
          if rc r < 0 then do {
            ui_print (''Could not open process'' @ [LF]);
            do_call (Sleep 1);
            gr_exit_ev_exit;
            ret (-1)
          } else do {
            for_each (fgets_all 250 (dat r)) (\<lambda>buff. ui_print (cstr buff));
            gr_exit_ev_exit;
            ret 0
          } })"

definition steam_graphchoice_main :: "string \<Rightarrow> string list \<Rightarrow> int prog" where
  "steam_graphchoice_main version args =
     (case args of [] \<Rightarrow> ret (-1)
      | question # options \<Rightarrow> do {
          ui_init;
          ui_print (version @ '' - choice app'' @ [LF]);
          ui_set_show_text True;
          ui_reset_progress;
          chosen_item \<leftarrow> key_loop GO_BACK (\<lambda>_. do {
            c \<leftarrow> get_menu_selection [question, []] options False;
            ret (if c = GO_BACK then Inl () else Inr c) }) ();
          gr_exit_ev_exit;
          ret chosen_item })"

section \<open>Properties\<close>

subsection \<open>reboot\<close>

text \<open>Grouping the options differently changes neither their set nor what follows them.\<close>

lemma getopt_group:
  assumes "w \<noteq> []" "w' \<noteq> []" "list_all known (w @ w')"
  shows "fst (getopt_npf ((CHR ''-'' # w) # (CHR ''-'' # w') # ws) n) = fst (getopt_npf ((CHR ''-'' # w @ w') # ws) m)
    \<and> fst (snd (getopt_npf ((CHR ''-'' # w) # (CHR ''-'' # w') # ws) n)) = fst (snd (getopt_npf ((CHR ''-'' # w @ w') # ws) m))"
proof -
  have dash: "\<not> known CHR ''-''" by (simp add: known_def)
  have opt: "(CHR ''-'' # v) \<noteq> ''--''" "length (CHR ''-'' # v) \<ge> 2" if "v \<noteq> []" "list_all known v" for v
    using that dash by (cases v; auto)+
  have ind: "fst (getopt_npf ws i) = fst (getopt_npf ws j) \<and> fst (snd (getopt_npf ws i)) = fst (snd (getopt_npf ws j))" for i j
  proof (induction ws arbitrary: i j)
    case (Cons v ws)
    then show ?case using Cons.IH [of "i + 1" "j + 1"] by (simp add: split_beta)
  qed simp
  show ?thesis using opt [of w] opt [of w'] opt [of "w @ w'"] assms ind [of "n + 1 + 1" "m + 1"] by (simp add: split_beta)
qed

text \<open>A reboot flushes the disks first, unless it is told not to.\<close>

lemma reboot_syncs:
  assumes "\<not> stopped s" and "trace (exec (steam_reboot_main args) s) = trace s @ t" and "CHR ''n'' \<notin> set (fst (getopt_npf args 1))"
  shows "t = [] \<or> (\<exists>c. t = [Sync, c])"
  using assms by (auto simp: steam_reboot_main_def run_simps Let_def split_beta split: if_splits)

subsection \<open>graphsh\<close>

lemma concat_fgets_acc: "concat (fgets_acc n room acc s) = rev acc @ s"
  by (induction n room acc s rule: fgets_acc.induct) auto

text \<open>The pieces are all of the output, in order.\<close>

lemma concat_fgets_all: "concat (fgets_all n s) = s"
  by (simp add: fgets_all_def concat_fgets_acc)

subsection \<open>graphchoice\<close>

text \<open>A menu without items has only its headers, so its highlight finds no place.\<close>

lemma menu_no_items: "hoare (\<lambda>_. True) (get_menu_selection (h # hs) [] mo) (\<lambda>_ s. stopped s)"
proof (rule hoareI)
  fix s :: world
  have frozen: "stopped (exec m u)" if "stopped u" "emits (\<lambda>_. True) m" for m :: "int prog" and u
    using emits_frozen [OF that(2,1)] that(1) by simp
  have e: "emits (\<lambda>_. True) (get_menu_selection (h # hs) [] mo)" by (intro emits_intros)
  show "stopped (exec (get_menu_selection (h # hs) [] mo) s)"
  proof (cases "stopped s")
    case True
    then show ?thesis using frozen e by blast
  next
    case False
    let ?l = "old_menu (h # hs) []"
    define t where "t = s\<lparr>allow_display_toggle := True, gShowBackButton := False, menu_list := Some ?l,
      menu_items := 1, show_menu := True, menu_sel := 1, menu_pos := 0\<rparr>"
    have l: "length ?l = 1" "\<forall>e \<in> set ?l. is_header e" by (simp_all add: old_menu_def is_header_def)
    have "settle k ?l 1 d 1 = Never" for k d using settle_headers [of 1 ?l 1 k d] l by simp
    then have st: "stopped (exec (ui_menu_select 1) t)"
      using False by (simp add: ui_menu_select_def run_upd t_def stop_def)
    obtain r u where u: "run_state (ui_menu_select 1) t = (r, u)" by fastforce
    define rest where "rest = (do { chosen_item \<leftarrow> key_loop GO_BACK (\<lambda>_. menu_round mo) ();
       ui_end_menu; upd (\<lambda>s. s\<lparr>allow_display_toggle := False\<rparr>); ui_set_show_text False; ret chosen_item })"
    have "emits (\<lambda>_. True) rest"
      unfolding rest_def menu_round_def ui_valid_mouse_select_def Let_def by (intro emits_intros) simp_all
    moreover have "exec (get_menu_selection (h # hs) [] mo) s = exec rest u"
      using False u by (simp add: get_menu_selection_def ui_set_showing_back_button_def ui_start_menu_def run_upd t_def Let_def rest_def)
    ultimately show ?thesis using frozen st u by simp
  qed
qed

lemma hoare_gr_exit: "hoare (\<lambda>s. stopped s \<or> Q) gr_exit_ev_exit (\<lambda>_ s. stopped s \<or> Q)"
  by (auto simp: hoare_def gr_exit_ev_exit_def run_simps)

text \<open>
  \<open>graphchoice\<close>. With at least one option, whatever the user does, the program either keeps
  waiting or exits with the position of one of the options, never with the key that leaves a
  menu. Without options it never returns: its menu is a header only.
\<close>

theorem graphchoice_answer:
  "if options \<noteq> []
   then stopped (exec (steam_graphchoice_main version (question # options)) s)
     \<or> (0 \<le> result (steam_graphchoice_main version (question # options)) s
         \<and> result (steam_graphchoice_main version (question # options)) s < int (length options))
   else stopped (exec (steam_graphchoice_main version [question]) s)"
proof -
  let ?Q = "\<lambda>c. options \<noteq> [] \<and> 0 \<le> c \<and> c < int (length options)"
  let ?body = "do { c \<leftarrow> get_menu_selection [question, []] options False; ret (if c = GO_BACK then Inl () else Inr c) }"
  have menu: "hoare (\<lambda>_. True) (get_menu_selection [question, []] options False)
      (\<lambda>c s. stopped s \<or> c = GO_BACK \<and> options \<noteq> [] \<or> ?Q c)"
  proof (cases "options = []")
    case True
    then show ?thesis using menu_no_items [of question "[[]]" False] by (auto simp: hoare_def)
  next
    case False
    then show ?thesis using hoare_menu [of "[question, []]" options "\<lambda>_. True" False] by (auto simp: hoare_def)
  qed
  have body: "hoare (\<lambda>_. True) ?body (\<lambda>r s. stopped s \<or> (case r of Inl _ \<Rightarrow> True | Inr y \<Rightarrow> ?Q y))"
    by (rule hoare_bind [OF menu]) (rule hoare_ret, auto)
  have "hoare (\<lambda>_. True) (key_loop GO_BACK (\<lambda>_. ?body) ()) (\<lambda>c s. stopped s \<or> ?Q c)"
    by (rule hoare_key_loop [of "\<lambda>_ _. True", OF body])
  then have loop: "hoare (\<lambda>_. True) (do { c \<leftarrow> key_loop GO_BACK (\<lambda>_. ?body) (); gr_exit_ev_exit; ret c }) (\<lambda>c s. stopped s \<or> ?Q c)"
    by (rule hoare_bind) (rule hoare_bind [OF hoare_gr_exit], rule hoare_ret)
  have any: "hoare P m (\<lambda>_ _. True)" for P and m :: "'a prog" by (simp add: hoare_def)
  have "hoare (\<lambda>_. True) (steam_graphchoice_main version (question # options)) (\<lambda>c s. stopped s \<or> ?Q c)"
    unfolding steam_graphchoice_main_def list.case
    by (intro hoare_bind [OF any] loop)
  from hoareD [OF this, of s] show ?thesis by auto
qed

end
