(* ===== verification/Texts.thy ===== *)
theory Texts
  imports Prelude
begin

text \<open>
  The texts of the program, \<open>locale/en_US.h\<close> and \<open>locale/hu_HU.h\<close>: one of the two files is
  chosen by \<open>locale.h\<close> when the program is built. Each file is the list of its definitions, name and
  text, in the order of the file, cut in three. The other theories name a text by its macro
  (\<open>World.loc\<close>), so that what they show holds for both languages; this one shows that the
  texts of the two languages can take each other's place.
\<close>

section \<open>The texts\<close>

text \<open>The byte between an element of a menu and its help.\<close>

abbreviation HELP :: char where "HELP \<equiv> CHR 0x01"

definition en_US_1 :: "(string \<times> string) list" where
  "en_US_1 =
    [(''MENU_REBOOT_RECOVERY'', ''Reboot system now...''),
     (''MENU_APPLY_SDCARD'', ''Apply sdcard:update.zip'' @ [HELP] @ ''Apply the update that can be found on the internal SD card.''),
     (''MENU_APPLY_EXTSDCARD'', ''Apply external_sd:update.zip'' @ [HELP] @ ''Apply the update that can be found on the external SD card.''),
     (''MENU_WIPE_ALL'', ''Wipe data/factory reset'' @ [HELP] @ ''Format /data, /dbdata and /cache partitions to get the system back to factory state.''),
     (''MENU_WIPE_CACHE'', ''Wipe cache partition'' @ [HELP] @ ''Format the /cache partition. This contains information for the  recovery process and some temporary files.''),
     (''MENU_INSTALL_SDCARD'', ''Install zip from sdcard...''),
     (''MENU_BACKUP'', ''Backup and restore...''),
     (''MENU_ADV_ULK'', ''Steam Features...''),
     (''MENU_AFTERBURNER'', ''Afterburner''),
     (''REBOOT_HEADER'', ''Reboot menu''),
     (''REBOOT_NORMAL'', ''Reboot normally'' @ [HELP] @ ''Reboots normally, into Android''),
     (''REBOOT_RECOVERY'', ''Reboot into recovery'' @ [HELP] @ ''Reboots into recovery mode''),
     (''REBOOT_DOWNLOAD'', ''Reboot into download'' @ [HELP] @ ''Reboots into download mode for flashing via Odin''),
     (''MOUNTS_USBMASS_HEADER'', ''USB Mass Storage device\<newline>Leaving this menu unmount\<newline>your SD card from your PC.''),
     (''MOUNTS_USBMASS_EXIT'', ''Unmount''),
     (''MENU_BLN_HEADERS'', ''BacklightNotification Menu''),
     (''MENU_BLN_ITEM'', ''BackLightNotification''),
     (''MENU_BLN_HELP'', ''This option will switch BackLightNotification on or off. When BLN is tuned on the backlights on the capacitive buttons will turn on in case of events (like a new email).''),
     (''MENU_BLN_NOCONFIG'', ''Could not create config file\<newline>''),
     (''FILEMANAGER_PRESSBACK'', ''Press back to exit file manager.\<newline>''),
     (''FILEMANAGER_HEADER'', ''File manager''),
     (''FILEMANAGER_COMMANDS'', ''Commands''),
     (''FILEMANAGER_CLIPBOARD_MODE'', ''Clipboard mode''),
     (''FILEMANAGER_CLIPBOARD_MODE_HELP'', ''In clipboard mode you can select multiple elements, which will be saved to the clipboard. You can then use some commands with the contents of the clipboard, like copying or deleting them. Exiting clipboard mode won't clear the clipboard so you can select multiple elements in various directories''),
     (''FILEMANAGER_CONSOLE'', ''Run console''),
     (''FILEMANAGER_CONSOLE_HELP'', ''Starts a very minimal on-screen console session, where you can enter commands''),
     (''FILEMANAGER_PARTMAN'', ''Run partition manager''),
     (''FILEMANAGER_PARTMAN_HELP'', ''Starts the partition manager, where you can mount/unmount devices, and enable the USB mass storage mode, for the sdcard''),
     (''FILEMANAGER_SAVELOG'', ''Save log files to sdcard''),
     (''FILEMANAGER_SAVELOG_HELP'', ''Saves all the log files to the sdcard for furhter analysis''),
     (''FILEMANAGER_CLIP_MOVE'', ''Move from clipboard''),
     (''FILEMANAGER_CLIP_COPY'', ''Paste from clipboard''),
     (''FILEMANAGER_CLIP_RM'', ''Delete files in clipboard''),
     (''FILEMANAGER_CLIP_CLEAR'', ''Clear clipboard''),
     (''FILEMANAGER_CLIPBOARD'', ''Clipboard''),
     (''FILEMANAGER_FILECMD_HEADER'', ''File commands''),
     (''FILEMANAGER_FILECMD_CLIPADD'', ''Add to clipboard''),
     (''FILEMANAGER_FILECMD_CAT'', ''Cat file''),
     (''FILEMANAGER_FILECMD_HEAD'', ''Show head of file''),
     (''FILEMANAGER_FILECMD_RM'', ''Delete file''),
     (''FILEMANAGER_DIR'', ''Dir: %s\<newline>''),
     (''CONSOLE_BACK'', ''Press back key to exit console\<newline>''),
     (''CONSOLE_BADDIR'', ''Could not switch directory\<newline>''),
     (''APPROOT_HEADER'', ''Install superuser''),
     (''APPROOT_SIMPLE'', ''Simple: install busybox+su'' @ [HELP] @ ''This option will install busybox and superuser binaries, but will not remove old toolbox commands, so they will always take precedence''),
     (''APPROOT_ADV'', ''Adv: also rm some toolbox cmds'' @ [HELP] @ ''This option will install busybox and superuser binaries, and will remove some toolbox commands: cat, chmod, chown, dd, ln, ls, mkdir, mv, rm, rmdir''),
     (''APPROOT_EXT'', ''Ext: also rm most toolbox cmds'' @ [HELP] @ ''This option will install busybox and superuser binaries, and will remove most toolbox commands: cat, chmod, chown, dd, ln, ls, mkdir, mv, rm, rmdir, cmp, date, df, dmesg, id, insmod, kill, lsmod, mount, printenv, ps, renice, sleep, sync, top, umount''),
     (''APPROOT_COPYING'', ''Copying Superuser and Busybox files to /system/xbin\<newline>''),
     (''APPROOT_COPYING_SU'', ''Copying su binary\<newline>''),
     (''APPROOT_COPYING_APK'', ''Copying Superuser.apk\<newline>''),
     (''APPROOT_COPYING_BB'', ''Copying Busybox\<newline>''),
     (''APPROOT_CRSYMLINK'', ''Creating busybox symlinks\<newline>''),
     (''APPROOT_CONFIRM_ROOT'', ''Confirm rooting!''),
     (''APPROOT_CONFIRM_YES'', ''Yes - install root binaries''),
     (''APPROOT_RMSOME'', ''Removing some toolbox links\<newline>''),
     (''APPROOT_RMMORE'', ''Removing more toolbox links\<newline>''),
     (''APPROOT_DONE'', ''Done!\<newline>''),
     (''MENU_TWEAKS_HEADER'', ''Boot options''),
     (''MENU_TWEAKS_ADB'', ''ADB startup settings''),
     (''MENU_TWEAKS_ADB_DEF'', ''Default settings''),
     (''MENU_TWEAKS_ADB_DEF_HELP'', ''Only enable ADB if asked by the user in android config''),
     (''MENU_TWEAKS_ADB_REC'', ''Always enable ADB in recovery''),
     (''MENU_TWEAKS_ADB_REC_HELP'', ''Always enable ADB when running in recovery mode''),
     (''MENU_TWEAKS_ADB_ON'', ''Always enable ADB''),
     (''MENU_TWEAKS_ADB_ON_HELP'', ''ADB will always be enabled''),
     (''MENU_TWEAKS_ADB_ROOT'', ''ADB security settings''),
     (''MENU_TWEAKS_ADB_ROOT_OFF'', ''Don't allow ADB to be run as root''),
     (''MENU_TWEAKS_ADB_ROOT_OFF_HELP'', ''Disallow ADB to be run as root. This is the default configuration''),
     (''MENU_TWEAKS_ADB_ROOT_REC'', ''Run ADB as root during recovery''),
     (''MENU_TWEAKS_ADB_ROOT_REC_HELP'', ''ADB will be run as root during recovery mode''),
     (''MENU_TWEAKS_ADB_ROOT_ASK'', ''Allow ADB to be switched to root''),
     (''MENU_TWEAKS_ADB_ROOT_ASK_HELP'', ''ADB will not be run as root, but you can switch to it using the 'adb root' command''),
     (''MENU_TWEAKS_ADB_ROOT_ALWAYS'', ''Always run ADB as root''),
     (''MENU_TWEAKS_ADB_ROOT_ALWAYS_HELP'', ''Always starts ADB as root''),
     (''MENU_TWEAKS_BOOTLOG'', ''Boot logging settings''),
     (''MENU_TWEAKS_BOOTLOG_NO'', ''Don't display logs at boot''),
     (''MENU_TWEAKS_BOOTLOG_NO_HELP'', ''Will not display logs at boot, unless nescessary''),
     (''MENU_TWEAKS_BOOTLOG_REC'', ''Only display in recovery mode''),
     (''MENU_TWEAKS_BOOTLOG_REC_HELP'', ''Will only display logs in recovery mode''),
     (''MENU_TWEAKS_BOOTLOG_ALWAYS'', ''Always display logs''),
     (''MENU_TWEAKS_BOOTLOG_ALWAYS_HELP'', ''Will always display logs during startup''),
     (''MENU_TWEAKS_BOOTANIM'', ''Boot animation settings''),
     (''MENU_TWEAKS_BOOTANIM_LOG'', ''Log display''),
     (''MENU_TWEAKS_BOOTANIM_LOG_HELP'', ''Will display the logs during bootanimation stage''),
     (''MENU_TWEAKS_BOOTANIM_DEF'', ''Samsung's boot animation''),
     (''MENU_TWEAKS_BOOTANIM_DEF_HELP'', ''Will display the default Samsung boot animation''),
     (''MENU_TWEAKS_BOOTANIM_ANDROID'', ''Android boot animation''),
     (''MENU_TWEAKS_BOOTANIM_ANDROID_HELP'', ''Will display the Android boot animation. It has to be installed on the ROM for this option to work''),
     (''MENU_TWEAKS_TWEAKS'', ''Startup Tweaks''),
     (''MENU_TWEAKS_IOSCHED'', ''IO scheduler''),
     (''MENU_TWEAKS_IOSCHED_HELP'', ''Tweaked settings of the disk io scheduler more for flash memory. Defaults are optimized for spinning harddisks. Lowered the idle wait, re-enable the low latency mode of cfq, removed the penalty for back-seeks and explicitly tell the kernel the storage is not a spinning disk.''),
     (''MENU_TWEAKS_KERNELVM'', ''Kernel VM management''),
     (''MENU_TWEAKS_KERNELVM_HELP'', ''Set tendency of kernel to swap to minimum, since we don't use swap anyway.\<newline>Lower the amount of unwritten write cache to reduce lags when a huge write is required.\<newline>Increase tendency of kernel to keep block-cache to help with slower RFS filesystem.\<newline>Increase minimum free memory, in theory this should make the kernel less likely to suddenly run out of memory.''),
     (''MENU_TWEAKS_KERNELSCHED'', ''Kernel scheduler''),
     (''MENU_TWEAKS_KERNELSCHED_HELP'', ''Make the task scheduler more 'fair' when multiple tasks are running. This has a huge effect on UI and App responsiveness. These values (less aggressive settings) are 20%% of the Linux defaults, and about half of the Android defaults.''),
     (''MENU_TWEAKS_MISC'', ''Misc tweaks''),
     (''MENU_TWEAKS_MISC_HELP'', ''Manually set the starting dalvik heap size.''),
     (''MENU_TWEAKS_SYS_RW'', ''Mount /system read-only''),
     (''MENU_TWEAKS_SYS_RW_HELP'', ''If this option is set /system will be remounted read-only during normal operation''),
     (''MENU_FS_HEADER'', ''Filesystem changer\<newline>Filesystem will be changed on next boot'')]"

definition en_US_2 :: "(string \<times> string) list" where
  "en_US_2 =
    [(''MENU_SCHEME_HEADER'', ''Filesystem schemes''),
     (''MENU_SCHEME_DISABLED'', ''Disable lagfix\<newline>(d,db,c,s:rfs)''),
     (''MENU_SCHEME_DISABLED_HELP'', ''This will reformat all partitions to rfs. This option is probably only useful if you like slowness.''),
     (''MENU_SCHEME_EXT4'', ''Ext4 base\<newline>(recommended)\<newline>(d,db,c:ext4;s:rfs)''),
     (''MENU_SCHEME_EXT4_HELP'', ''This will reformat /data,/dbdata and /cache to ext4. This is one of the most stable options.''),
     (''MENU_SCHEME_EXT4_NORFS'', ''Ext4 NO-RFS\<newline>(d,db,c,s:ext4;noefs)''),
     (''MENU_SCHEME_EXT4_NORFS_HELP'', ''This will reformat all partitions, including /system to ext4.''),
     (''MENU_SCHEME_EXT4_OVERKILL'', ''Ext4 Overkill\<newline>(d,db,c:ext4+l;s:ext4;noefs)''),
     (''MENU_SCHEME_EXT4_OVERKILL_HELP'', ''This will reformat all partitions (including /system) to ext4, and puts a loop device on them (except for /system)''),
     (''MENU_SCHEME_JFS'', ''JFS base\<newline>(d,db,c:jfs;s:rfs)''),
     (''MENU_SCHEME_JFS_HELP'', ''This will format /data, /dbdata and /cache to JFS''),
     (''MENU_SCHEME_JFS_NORFS'', ''JFS NO-RFS\<newline>(d,db,c,s:jfs;noefs)''),
     (''MENU_SCHEME_JFS_NORFS_HELP'', ''This will format all partitions to JFS, including /system''),
     (''MENU_SCHEME_EXT4_CRYPT'', ''Encrypted ext4\<newline>(d,db,c:ext4+crypt;s:ext4;noefs)''),
     (''MENU_SCHEME_EXT4_CRYPT_HELP'', ''This will format all partitions to ext4 (including /system), and will encrypt them''),
     (''MENU_FS_ADVANCED'', ''Advanced options''),
     (''MENU_FS_EXT2'', ''ext2''),
     (''MENU_FS_EXT2_HELP'', ''The strandard ext filesystem, without journaling support. Very fast, but lacks extended features.''),
     (''MENU_FS_EXT4'', ''ext4''),
     (''MENU_FS_EXT4_HELP'', ''The fourth installment of the ext filesystem series, this has added journal and extents support. This is the most stable FS for the SGS. Journailng can be enabled/disabled at the ext4 tools later on.''),
     (''MENU_FS_JFS'', ''jfs''),
     (''MENU_FS_JFS_HELP'', ''The Journaling file system, one of the earliest journaling file systems for linux. Although it has some nice features it is still not as stable as ext4''),
     (''MENU_FS_RFS'', ''rfs''),
     (''MENU_FS_RFS_HELP'', ''The original filesystem for SGS, whith it's own flaws.''),
     (''MENU_FS_LOOP'', ''Use a loop device''),
     (''MENU_FS_LOOP_HELP'', ''This option will create a loop device on the partition, which will increase quadrant scores, but decrease stability''),
     (''MENU_FS_CRYPT'', ''Encrypt partition''),
     (''MENU_FS_CRYPT_HELP'', ''This option will encrypt the device. To decrypt one has to provide a password for it at every boot. All partitions will use the same password. At the moment you can only change password by disabling encryption on all partitions, then re-enabling them''),
     (''MENU_FS_MISC'', ''Misc settings''),
     (''MENU_FS_NORFS'', ''Use fake /efs partition''),
     (''MENU_FS_NORFS_HELP'', ''With this option /efs will be copyed to your system partition, and will not be mounted at start. Use this option, to get a completely RFS-free config''),
     (''MENU_FS_BADRFS'', ''Reformat /system\<newline>from check to check=no''),
     (''MENU_FS_BADRFS_HELP'', ''Enable this option, if you think you have your /system in an inconsitent state. If this option is set, on the next reboot, Steam will try to fix /system''),
     (''MENU_FS_RESET'', ''Undo settings''),
     (''MENU_FS_RESET_HELP'', ''This button will reset all your settings to the current filesystem config.''),
     (''ADV_MENU_HEADER'', ''Advanced and Debugging Menu''),
     (''ADV_MENU_WIPE_CACHE'', ''Wipe Dalvik Cache''),
     (''ADV_MENU_WIPE_BATTERY'', ''Wipe Battery Stats''),
     (''ADV_MENU_REPORT'', ''Report Error''),
     (''ADV_MENU_KEYTEST'', ''Key Test''),
     (''ADV_MENU_SCREENTEST'', ''Screen Test''),
     (''ADV_MENU_SECRETTEST'', ''Secret Input Screen Test''),
     (''ADV_MENU_PARTITION'', ''Partition SD Card''),
     (''ADV_MENU_FIXPERM'', ''Fix Permissions''),
     (''MENU_WIPE_CACHE_CONFIRM'', ''Confirm wipe?''),
     (''MENU_WIPE_CACHE_YES'', ''Yes - Wipe Cache''),
     (''MENU_WIPE_CACHE_DONE'', ''Cache wipe complete.\<newline>''),
     (''MENU_INSTALL_CONFIRM'', ''Confirm install?''),
     (''MENU_INSTALL_YES'', ''Yes - Install /sdcard/update.zip''),
     (''MENU_INSTALL_ABORT'', ''Installation aborted.\<newline>''),
     (''MENU_INSTALL_NEEDREBOOT'', ''Reboot via menu to complete\<newline>installation.\<newline>''),
     (''MENU_INSTALL_DONE'', ''Installation completed.\<newline>''),
     (''ADV_MENU_WIPE_CACHE_CONFIRM'', ''Confirm wipe?''),
     (''ADV_MENU_WIPE_CACHE_YES'', ''Yes - Wipe Dalvik Cache''),
     (''ADV_MENU_WIPE_CACHE_DONE'', ''Dalvik Cache wiped.\<newline>''),
     (''ADV_MENU_WIPE_BATTERY_CONFIRM'', ''Confirm wipe?''),
     (''ADV_MENU_WIPE_BATTERY_YES'', ''Yes - Wipe Battery Stats''),
     (''STEAM_MENU_HEADER'', ''Steam Kernel Menu''),
     (''STEAM_MENU_SU'', ''Install Superuser'' @ [HELP] @ ''Installs root on the device''),
     (''STEAM_MENU_BOOT'', ''Boot options'' @ [HELP] @ ''Boot options, like log output selection or tweaks''),
     (''STEAM_MENU_BLN'', ''BLN Options'' @ [HELP] @ ''Turns BLN on or off''),
     (''STEAM_MENU_CWM'', ''Advanced and Debugging Menu'' @ [HELP] @ ''Advanced and debugging options (Old advanced menu of CWM)''),
     (''STEAM_MENU_LAGFIX'', ''Filesystem management\<newline>(lagfix menu)'' @ [HELP] @ ''Filesystem conversion and lagfixing options''),
     (''STEAM_MENU_FM'', ''File manager'' @ [HELP] @ ''Start the file manager to check and modify the filesystem.''),
     (''STEAM_MENU_ABOUT'', ''About''),
     (''STEAM_ABOUT_UNINSTALL'', ''Uninstall Steam''),
     (''STEAM_ABOUT_UNINSTALL_CONFIRM'', ''Do you really want to\<newline>uninstall Steam Kernel?''),
     (''STEAM_ABOUT_UNINSTALL_YES'', ''Yes - I don't need this software''),
     (''STEAM_ABOUT_UNINSTALL_OK'', ''Uninstall initialized, please reboot your device to proceed. The device might reboot multiple times''),
     (''BLN_NOT_AVAILABLE'', ''BackLightNotification 2.2 kernel support is needed for these options to work!\<newline>''),
     (''STEAM_NOT_AVAILABLE'', ''Steam based kernel is needed for these options to work!\<newline>''),
     (''ERROR_NOTOPEN'', ''Could not open file\<newline>''),
     (''ERROR_UNKNOWN'', ''Error\<newline>''),
     (''UPDATE_APPLY_SDCARD'', ''Apply sdcard:update.zip''),
     (''UPDATE_CHOOSE_ZIP'', ''Choose zip from sdcard''),
     (''UPDATE_SIG_CHECK'', ''Toggle signature verification''),
     (''UPDATE_ASSERTS'', ''Toggle script asserts''),
     (''UPDATE_APPLY_SDCARD2'', ''Apply external_sd:update.zip''),
     (''UPDATE_CHOOSE_ZIP2'', ''Choose zip from external_sd''),
     (''NANDROID_MAIN_MENU_HEADER'', ''Nandroid Backup''),
     (''NANDROID_MAIN_BACKUP'', ''Backup'' @ [HELP] @ ''This will back up all of your partitions''),
     (''NANDROID_MAIN_ABACKUP'', ''Advanced Backup'' @ [HELP] @ ''This will let you choose which partition you want to backup''),
     (''NANDROID_MAIN_RESTORE'', ''Restore'' @ [HELP] @ ''This will restore all partitions''),
     (''NANDROID_MAIN_ARESTORE'', ''Advanced Restore'' @ [HELP] @ ''This will let you choose which partition to restore''),
     (''NANDROID_HEADER'', ''Choose an image to restore''),
     (''NANDROID_YES'', ''Yes - Restore''),
     (''NANDROID_CONFIRM'', ''Confirm restore?''),
     (''NANDROID_ADVANCED'', ''Nandroid Advanced Restore''),
     (''NANDROID_BADVANCED'', ''Nandroid Advanced Backup''),
     (''NANDROID_RESBOOT'', ''Restore boot''),
     (''NANDROID_RESSYSTEM'', ''Restore system''),
     (''NANDROID_RESDATA'', ''Restore data''),
     (''NANDROID_RESDATADATA'', ''Restore datadata''),
     (''NANDROID_RESMISC'', ''Restore .android_secure''),
     (''NANDROID_RESCACHE'', ''Restore cache''),
     (''NANDROID_RESSDEXT'', ''Restore sd-ext''),
     (''NANDROID_NOFORMAT'', ''Use simple format''),
     (''NANDROID_NOFORMAT_HELP'', ''This option will simply erase all files from the partition prior restoring, instead of potentially re-creating the filesystem. This is the preferred options.''),
     (''NANDROID_DORESTORE'', ''Restore''),
     (''NANDROID_DORESTORE_HELP'', ''This option will start the restore process'')]"

definition en_US_3 :: "(string \<times> string) list" where
  "en_US_3 =
    [(''NANDROID_BACBOOT'', ''Backup boot''),
     (''NANDROID_BACSYSTEM'', ''Backup system''),
     (''NANDROID_BACDATA'', ''Backup data''),
     (''NANDROID_BACDATADATA'', ''Backup datadata''),
     (''NANDROID_BACMISC'', ''Backup .android_secure''),
     (''NANDROID_BACCACHE'', ''Backup cache''),
     (''NANDROID_BACSDEXT'', ''Backup sd-ext''),
     (''NANDROID_BACEFS'', ''Backup efs''),
     (''NANDROID_DOBACKUP'', ''Backup''),
     (''NANDROID_DOBACKUP_HELP'', ''This option will start the backup process''),
     (''PARTITION_HEADER'', ''Mounts and Storage Menu''),
     (''PARTITION_CONFIRM'', ''Confirm format?''),
     (''PARTITION_YES'', ''Yes - Format''),
     (''PARTITION_USB_STORAGE'', ''Mount USB Storage''),
     (''CONFIRM_NOUNDO'', ''This can not be undone.''),
     (''CONFIRM_NO'', ''No''),
     (''OEM_RECOVERY_HEADER'', ''Recovery version chooser''),
     (''OEM_RECOVERY_2E'', ''Use 2e Recovery\<newline>(recommended for older CSC files)''),
     (''OEM_RECOVERY_2E_HELP'', ''Choose this option, if you have flashed an older CSC file (usually CSC files for '' @ [CHR 0xC3] @ [CHR 0x89] @ ''clair), and want to install that''),
     (''OEM_RECOVERY_3E'', ''Use 3e Recovery\<newline>(recommended for newer CSC files)''),
     (''OEM_RECOVERY_3E_HELP'', ''Choose this option, if you have flashed a newer CSC file (usually CSC files for Froyo), and want to install that''),
     (''OEM_RECOVERY_STEAM'', ''Use Steam Recovery''),
     (''OEM_RECOVERY_STEAM_HELP'', ''Choose this option, if you have flashed an older CSC file (usually CSC files for '' @ [CHR 0xC3] @ [CHR 0x89] @ ''clair), and want to install that''),
     (''OEM_AFTERBURNER_ASKUSER'', ''\<newline>\<newline>--- AFTERBURNER ---\<newline>No Afterburner file found on your sdcard. The sdcard is now mounted as a mass storage device. If you want to use afterburner put the installation file (usually called afterburner.zip) inside the 'steam' directory, then press 'Unmount'' @ [CHR 0x27]),
     (''OEM_AFTERBURNER_ERROR'', ''Can't open %s\<newline>(%s)\<newline>''),
     (''OEM_AFTERBURNER_HEADER'', ''Afterburner\<newline>Post-flash install tool''),
     (''OEM_AFTERBURNER_DOINSTALL'', ''Install''),
     (''OEM_AFTERBURNER_DOINSTALL_HELP'', ''This will install the selected packages''),
     (''OEM_AFTERBURNER_CONFIRM'', ''Confirm installation?''),
     (''OEM_AFTERBURNER_YES'', ''Yes - install selected elements''),
     (''OEM_AFTERBURNER_INSTALLING'', ''Installing %s\<newline>''),
     (''OEM_AFTERBURNER_NOTFOUND'', ''Afterburner install file could not be found''),
     (''PARTITION_INFORMATION'', ''Partition information for %s: %d\<newline>''),
     (''INIT_DEVICES_DONE'', ''Done initializing devices\<newline>''),
     (''INIT_LOAD_GRAPHICS'', ''Loading up graphics\<newline>''),
     (''INIT_CREATE_MOUNT'', ''Creating mount points\<newline>''),
     (''INIT_MOUNTING'', ''Mounting type %d on %s\<newline>''),
     (''INIT_UNMOUNTING'', ''Unmounting %s\<newline>''),
     (''INIT_AUTODETECT'', ''Autodetecting filesystem on %s\<newline>''),
     (''INIT_CREATE'', ''Creating filesystem type %d on %s\<newline>''),
     (''INIT_STAGE'', ''STAGE %d STARTING\<newline>''),
     (''INIT_RFS_INCONSISTENT_FIX_HEADER'', ''Your /system partition seems to be in an\<newline>inconsistent state! Steam can try\<newline>to fix it, although the process might fail!\<newline>Please chose from the options below.''),
     (''INIT_RFS_INCONSISTENT_FIX_TAR'', ''Fix the partition by reformatting it'' @ [HELP] @ ''This option will save your /system partition to the /sdcard, then reformats /system, and copies back the data. It will erase the saved data from your sdcard.''),
     (''INIT_RFS_INCONSISTENT_FIX_NONE'', ''Don't fix /system\<newline>mount without check=no'' @ [HELP] @ ''This option will not do anything with your /system partition, and will mount it with the bad mount options.''),
     (''INIT_RFS_INCONSISTENT_FIX_NONE2'', ''Don't fix /system\<newline>mount with check=no'' @ [HELP] @ ''This option will not do anything with your /system partition, but will mount it with the good mount options. Use this option only if you're sure the autodetect feature is incorrect about /system being in an inconsistent state!''),
     (''CONVERT_NO_SPACE'', ''Not enough free space found on /sdcard!\<newline>''),
     (''CONVERT_SPACE_NEEDS'', ''Space needed: %lluMB, avialable: %lluMB\<newline>''),
     (''CONVERT_LOAD_FM'', ''Loading File Manager!\<newline>''),
     (''CONVERT_NO_FM'', ''File manager disabled for security reasons!\<newline>''),
     (''CONVERT_BACKUP_FAILED'', ''Backup of partition failed!\<newline>''),
     (''CONVERT_RESTORE_FAILED'', ''Restoring of partition failed!\<newline>''),
     (''CONVERT_CONTINUE_ANYWAY'', ''Continuing anyway...\<newline>''),
     (''CONVERT_WAIT_REBOOT'', ''Rebooting in 5 seconds...\<newline>''),
     (''CONVERT_SYSTEM_SURE'', ''Converting filesystem on /system''),
     (''CONVERT_SYSTEM_CONFIRM'', ''Yes - convert /system''),
     (''CONVERT_CRYPT_FAILED'', ''Creation of crypt partition failed! Code: %d\<newline>''),
     (''CONVERT_FS_HEADER'', ''Converting filesystems''),
     (''CONVERT_FS_FULLBACKUP'', ''Do a complete backup and restore\<newline>(recommended)'' @ [HELP] @ ''This option will create a nandroid backup of your partitions, and restores them from this backup after the filesystem conversion is done''),
     (''CONVERT_FS_ONLYBACKUP'', ''Backup, but don't restore\<newline>(this will result in a factory reset)'' @ [HELP] @ ''This option will create a nandroid backup, but after formatting, it will not restore the files from that. Choose this if you want a backup and a clean start with your new config''),
     (''CONVERT_FS_RMBACKUP'', ''Backup and restore, but erase backup'' @ [HELP] @ ''This option will erase your backup, after conversion for security reasons.''),
     (''CONVERT_FS_RMALL'', ''No backup, just reformat\<newline>(this will erase all your data)'' @ [HELP] @ ''This option will erase all your data from the partitions. Chose this option, if you don't care about your data at all.''),
     (''CONVERT_FS_CANCEL'', ''Changed my mind, don't reformat\<newline>the filesystem'' @ [HELP] @ ''Chose this option, if you have changed your mind''),
     (''INSTALL_STEAM_HEADER'', ''Steam doesn't seem to be installed, or it was\<newline>recently uninstalled. Without it some options\<newline>will not be available. Do you want to install\<newline>Steam? (you can uninstall it anytime)''),
     (''INSTALL_STEAM_YES'', ''Yes, install Steam Kernel!'' @ [HELP] @ ''This option will create a config file on your system partition, that will store all your steam configs. Without the config file a lot of Steam Kernel options, like some lagfix options, boot animations or tweaks will not work!''),
     (''INSTALL_STEAM_NO'', ''No, don't install Steam Kernel!'' @ [HELP] @ ''Without installation you can still run both main Android and Steam Recovery, and some options will be still available, like filesystem detection.''),
     (''UPGRADE_STEAM_HEADER'', ''The Steam version on your disk differs from\<newline>the on inside the kernel.\<newline>This can be because of multiple options.\<newline>What should I do?''),
     (''UPGRADE_STEAM_YES'', ''Upgrade the config files on the disk\<newline>Choose this option if you have\<newline>recently switched from a Steam\<newline>based kernel to another'' @ [HELP] @ ''Choose this option, if you have previously used a Steam based kernel, and flashed another kernel, which is also based on Steam''),
     (''UPGRADE_STEAM_NO'', ''Replace the config files on the disk\<newline>This will erase your previous\<newline>Steam config. Choose this option, if your\<newline>old kernel was not based on Steam'' @ [HELP] @ ''Choose this option, if you have previously used a Steam based kernel, then switched to another, non-Steam based one without properly uninstalling Steam first''),
     (''UPGRADE_STEAM_SKIP'', ''Do nothing\<newline>This option is not recommended'' @ [HELP] @ ''This option will leave the config file on the disk intact, and will not perform any kind of upgrade.''),
     (''CREATE_PARTITION_HEADER'', ''Partition %s\<newline>could not be mounted!\<newline>What should I do?''),
     (''CREATE_PARTITION_RFS'', ''Format partition to RFS'' @ [HELP] @ ''This option will format the partition to RFS. All data will be lost. Forever''),
     (''CREATE_PARTITION_EXT2'', ''Format partition to EXT2'' @ [HELP] @ ''This option will format the partition to EXT2. All data will be lost. Forever''),
     (''CREATE_PARTITION_EXT4'', ''Format partition to EXT4'' @ [HELP] @ ''This option will format the partition to EXT4. All data will be lost. Forever''),
     (''CREATE_PARTITION_JFS'', ''Format partition to JFS'' @ [HELP] @ ''This option will format the partition to JFS. All data will be lost. Forever''),
     (''CREATE_PARTITION_NONE'', ''Don't do anything'' @ [HELP] @ ''This option will not do anything with the partition. Chose this if you want to try saving the data from it at a later stage''),
     (''CREATE_PARTITION_FM'', ''Load File Manager'' @ [HELP] @ ''This option will load up file manager so you can try fixing the problem yourselves.''),
     (''SECRET_PASSWORD_MISMATCH'', ''The two passwords didn't match!\<newline>''),
     (''SECRET_PASSWORD_AGAIN'', ''Please swype the password again\<newline>''),
     (''SECRET_HOWTO'', ''Swipe one or multiple shapes, then press the HOME button.\<newline>''),
     (''SECRET_HOWTO_TEST'', ''Swipe one or multiple shapes then press the home button. The entered password will be shown after the test!\<newline>''),
     (''SECRET_ENTER_PASS'', ''Enter the password\<newline>''),
     (''SECRET_ENTER_FOR'', ''Enter password for %s\<newline>''),
     (''SECRET_FAIL'', ''Bad password\<newline>''),
     (''TWEAKS_ENABLE_IOSCHED'', ''Enabling IO Scheduler tweaks\<newline>''),
     (''TWEAKS_ENABLE_KERNELVM'', ''Enabling kernel VM tweaks\<newline>''),
     (''TWEAKS_ENABLE_KERNELSCHED'', ''Enablink kernel scheduler tweaks\<newline>''),
     (''TWEAKS_ENABLE_MISC'', ''Enabling miscelangeous tweaks\<newline>''),
     (''INITD_EARLYSTART'', ''%s USER EARLY INIT START\<newline>''),
     (''INITD_EARLYDONE'', ''%s USER EARLY INIT DONE\<newline>''),
     (''INITD_START'', ''%s USER INIT START\<newline>''),
     (''INITD_DONE'', ''%s USER INIT DONE\<newline>''),
     (''INITD_STARTX'', ''%s START %s\<newline>''),
     (''INITD_DONEX'', ''%s DONE %s\<newline>''),
     (''EARLY_LOGAPP'', ''Log display application\<newline>\<newline>\<newline>''),
     (''EARLY_USAGE'', ''Tap screen to switch between logs.\<newline>''),
     (''EARLY_POSTINITSTART'', ''Post-init started, shutting down display\<newline>''),
     (''EARLY_BOOTCOMPLETE'', ''Boot completed.\<newline>\<newline>''),
     (''EARLY_KILLBOOTANIM'', ''Killing bootanimation processes just in case.\<newline>\<newline>''),
     (''EARLY_DONE'', ''Done.\<newline>''),
     (''INIT_HALT'', ''Init will now halt!\<newline>'')]"

definition en_US :: "(string \<times> string) list" where
  "en_US = en_US_1 @ en_US_2 @ en_US_3"

definition hu_HU_1 :: "(string \<times> string) list" where
  "hu_HU_1 =
    [(''MENU_REBOOT_RECOVERY'', ''Rendszer ujrainditasa...''),
     (''MENU_APPLY_SDCARD'', ''update.zip telepitese'' @ [HELP] @ ''A belso SD kartyan talalhato update.zip telepito futtatasa.''),
     (''MENU_APPLY_EXTSDCARD'', ''external_sd:update.zip telepitese'' @ [HELP] @ ''A kulso SD kartyan talalhato update.zip telepitese.''),
     (''MENU_WIPE_ALL'', ''Data particio torlese (FR)'' @ [HELP] @ ''A data particio torlese, amivel a telefon alaphelyzettbe allithato.''),
     (''MENU_WIPE_CACHE'', ''Cache particio torlese'' @ [HELP] @ ''A cache particio torlese. A cache particion altalaban idiglenes fajlok talalhatoak''),
     (''MENU_INSTALL_SDCARD'', ''Tetszoleges zip fajl telepitese...''),
     (''MENU_BACKUP'', ''Rendszermentes es visszallitas...''),
     (''MENU_ADV_ULK'', ''Steam Beallitasok...''),
     (''MENU_AFTERBURNER'', ''Utanegeto''),
     (''REBOOT_HEADER'', ''Ujrainditas menu''),
     (''REBOOT_NORMAL'', ''Sima ujrainditas'' @ [HELP] @ ''Ezzel a telefon Android modban indul ujra''),
     (''REBOOT_RECOVERY'', ''Rendszer-visszallitas modba'' @ [HELP] @ ''Ezzel a telefon rendszser-visszallitas modba indul ujra''),
     (''REBOOT_DOWNLOAD'', ''Letoltes modba'' @ [HELP] @ ''Ezzel letoltes modba indul ujra a telefon, ahol Odin segitsegevel lehet fajlokat telepiteni''),
     (''MOUNTS_USBMASS_HEADER'', ''USB merevlemez mod\<newline>A menu elhagyasaval levalasztja a telefont a\<newline>szamitogeperol.''),
     (''MOUNTS_USBMASS_EXIT'', ''Levalasztas''),
     (''MENU_BLN_HEADERS'', ''EsemenyVilagitas (BLN) Menu''),
     (''MENU_BLN_ITEM'', ''EsemenyVilagitas (BLN)''),
     (''MENU_BLN_HELP'', ''Ezzel a gombbal lehet a BLN-t be, illetve kikapcsolni. Bekapcsolt allapotban esemeny erkezese eseten a kapacitiv gombok vilagitani kezdenek, ezzel jelezve, hogy esemeny torten''),
     (''MENU_BLN_NOCONFIG'', ''Nem sikerult a konfig fajl letrehozasa\<newline>''),
     (''FILEMANAGER_PRESSBACK'', ''A vissza gombbal lehet kilepni a fajl managerbol.\<newline>''),
     (''FILEMANAGER_HEADER'', ''Fajl manager''),
     (''FILEMANAGER_COMMANDS'', ''Parancsok''),
     (''FILEMANAGER_CLIPBOARD_MODE'', ''Vagolap mod''),
     (''FILEMANAGER_CLIPBOARD_MODE_HELP'', ''Vagolap modban tobb fajlt es konyvtarat is ki lehet jelolni, melyekkel egyszerre lehet muveleteket vegezni. A vagolap modbol t0rteno kilepes nem uriti a vagolapot, igy tobb kulonbozo konyvtarban levo elemet is ki lehet jelolni''),
     (''FILEMANAGER_CONSOLE'', ''Konzol inditasa''),
     (''FILEMANAGER_CONSOLE_HELP'', ''Egy egyszeru konzol inditasa, ahol parancsokat lehet megadni''),
     (''FILEMANAGER_PARTMAN'', ''Particio manager''),
     (''FILEMANAGER_PARTMAN_HELP'', ''Particio managerben a kulonfele particiokat lehet csatlakoztatni es levalasztani, valamint a telefont USB merevlemez modba kapcsolni''),
     (''FILEMANAGER_SAVELOG'', ''Log fajlok SD kertyara masolasa''),
     (''FILEMANAGER_SAVELOG_HELP'', ''A log fajlokat elmenti az SD kartyara, hogy azokat kesobb ki lehessen analizalni''),
     (''FILEMANAGER_CLIP_MOVE'', ''Vagolap athelyezese ide''),
     (''FILEMANAGER_CLIP_COPY'', ''Vagolap masolasa ide''),
     (''FILEMANAGER_CLIP_RM'', ''Vagolapon talalhato fajlok torlese''),
     (''FILEMANAGER_CLIP_CLEAR'', ''Vagolap uritese''),
     (''FILEMANAGER_CLIPBOARD'', ''Vagolap''),
     (''FILEMANAGER_FILECMD_HEADER'', ''Parancsok''),
     (''FILEMANAGER_FILECMD_CLIPADD'', ''Hozzaadas vagolaphoz''),
     (''FILEMANAGER_FILECMD_CAT'', ''Fajl megtekintese''),
     (''FILEMANAGER_FILECMD_HEAD'', ''Fajl elejenek megtekintese''),
     (''FILEMANAGER_FILECMD_RM'', ''Fajl torlese''),
     (''FILEMANAGER_DIR'', ''Konyvtar: %s\<newline>''),
     (''CONSOLE_BACK'', ''Nyomd meg a vissza gombot a kilepeshez\<newline>''),
     (''CONSOLE_BADDIR'', ''A konyvtarvaltas sikertelen\<newline>''),
     (''APPROOT_HEADER'', ''Rendszergazda uzemmod telepitese''),
     (''APPROOT_SIMPLE'', ''Egyszeru: csak su+busybox'' @ [HELP] @ ''Ez az opcio csak az su es busybox parancsokat telepiti fel, es nem bantja a beepitett parancsokat''),
     (''APPROOT_ADV'', ''Halado: nehany elem torlese'' @ [HELP] @ ''Ez az opcio az egyszeru mellett nehany alap toolbox parancsot is torol: cat, chmod, chown, dd, ln, ls, mkdir, mv, rm, rmdir''),
     (''APPROOT_EXT'', ''Full: osszes elem torlese'' @ [HELP] @ ''Ez az opcio meg tobb toolbox parancsot torol: cat, chmod, chown, dd, ln, ls, mkdir, mv, rm, rmdir, cmp, date, df, dmesg, id, insmod, kill, lsmod, mount, printenv, ps, renice, sleep, sync, top, umount''),
     (''APPROOT_COPYING'', ''Root telepitse /system/xbin konyvtarba\<newline>''),
     (''APPROOT_COPYING_SU'', ''Su binaris masolasa\<newline>''),
     (''APPROOT_COPYING_APK'', ''Superuser.apk masolasa\<newline>''),
     (''APPROOT_COPYING_BB'', ''Busybox masolasa\<newline>''),
     (''APPROOT_CRSYMLINK'', ''Busybox linkek letrehozasa\<newline>''),
     (''APPROOT_CONFIRM_ROOT'', ''Biztosan telepitsem?''),
     (''APPROOT_CONFIRM_YES'', ''Igen - rootolj!''),
     (''APPROOT_RMSOME'', ''Nehany toolbox parancs torlese\<newline>''),
     (''APPROOT_RMMORE'', ''Meg tobb toolbox parancs torlese\<newline>''),
     (''APPROOT_DONE'', ''Kesz!\<newline>''),
     (''MENU_TWEAKS_HEADER'', ''Rendszerinditasi opciok''),
     (''MENU_TWEAKS_ADB'', ''ADB inditasi opciok''),
     (''MENU_TWEAKS_ADB_DEF'', ''Alapbellitas''),
     (''MENU_TWEAKS_ADB_DEF_HELP'', ''ADB engedelyezese, ha a felhasznalo keri azt Android alatt''),
     (''MENU_TWEAKS_ADB_REC'', ''Mindig rendszervisszallitasi modban''),
     (''MENU_TWEAKS_ADB_REC_HELP'', ''Rendszer-visszaallitasi modban mindig legyen az ADB engedelyezve''),
     (''MENU_TWEAKS_ADB_ON'', ''Mindig bekacpsolva''),
     (''MENU_TWEAKS_ADB_ON_HELP'', ''ADB mindig be lesz kapcsolva''),
     (''MENU_TWEAKS_ADB_ROOT'', ''ADB biztonsagi beallitasok''),
     (''MENU_TWEAKS_ADB_ROOT_OFF'', ''Ne engedelyezd az ADB rootkent valo futtatasat''),
     (''MENU_TWEAKS_ADB_ROOT_OFF_HELP'', ''Nem engedi, hogy az adb rootkent fusson. Alapbeallitas''),
     (''MENU_TWEAKS_ADB_ROOT_REC'', ''Rendszervisszaallitasi modban engedd''),
     (''MENU_TWEAKS_ADB_ROOT_REC_HELP'', ''Rendszervisszaallitasi modban engedelyezi a futast''),
     (''MENU_TWEAKS_ADB_ROOT_ASK'', ''Lehessen valtani root modban''),
     (''MENU_TWEAKS_ADB_ROOT_ASK_HELP'', ''ADB nem fog root modban futni, de az 'adb root' parancs hatasara abba valt''),
     (''MENU_TWEAKS_ADB_ROOT_ALWAYS'', ''Mindig rootkent fusson''),
     (''MENU_TWEAKS_ADB_ROOT_ALWAYS_HELP'', ''Az aDB midnig rootkent fog futni''),
     (''MENU_TWEAKS_BOOTLOG'', ''Boot logolasi beallitasok''),
     (''MENU_TWEAKS_BOOTLOG_NO'', ''Ne mutasd a logokat boot kozben''),
     (''MENU_TWEAKS_BOOTLOG_NO_HELP'', ''Rendszerinditasnal nem fogja a logokat mutatni''),
     (''MENU_TWEAKS_BOOTLOG_REC'', ''Csak rendszervisszallitasnal''),
     (''MENU_TWEAKS_BOOTLOG_REC_HELP'', ''Csak rendszervisszaallitas uzemmodban mutatja a logokat''),
     (''MENU_TWEAKS_BOOTLOG_ALWAYS'', ''Mindig mutasd oket''),
     (''MENU_TWEAKS_BOOTLOG_ALWAYS_HELP'', ''Mindig be lesznek kapcsolva a logok''),
     (''MENU_TWEAKS_BOOTANIM'', ''Boot animacio beallitasa''),
     (''MENU_TWEAKS_BOOTANIM_LOG'', ''Log kijelzes''),
     (''MENU_TWEAKS_BOOTANIM_LOG_HELP'', ''Animacio helyett az inicializalas logjait mutatja''),
     (''MENU_TWEAKS_BOOTANIM_DEF'', ''Samsung animacio''),
     (''MENU_TWEAKS_BOOTANIM_DEF_HELP'', ''Az alapertelmezett Samsungos animacio futtatasa''),
     (''MENU_TWEAKS_BOOTANIM_ANDROID'', ''Android animacio''),
     (''MENU_TWEAKS_BOOTANIM_ANDROID_HELP'', ''Tetszoleges, Android formatumu boot animacio futtatasa. Az animacionak fent kell lennie, hogy ez az opcio mukodjon''),
     (''MENU_TWEAKS_TWEAKS'', ''Finomhangolas''),
     (''MENU_TWEAKS_IOSCHED'', ''IO utemezo''),
     (''MENU_TWEAKS_IOSCHED_HELP'', ''Az IO utemezo atallitasa, hogy tudja, hogy flash memoriaval van dolga, es nem merevlemezzel''),
     (''MENU_TWEAKS_KERNELVM'', ''Kernel VM menedzsmeny''),
     (''MENU_TWEAKS_KERNELVM_HELP'', ''Kernel finomhangolasa, hogy a leheto legkevesebbet hasznalja a hattertart memoriakent''),
     (''MENU_TWEAKS_KERNELSCHED'', ''Kernel utemezo''),
     (''MENU_TWEAKS_KERNELSCHED_HELP'', ''KErnel utemezo utasitasa, hogy az alkalmazasokat egyenrangubban kezelje''),
     (''MENU_TWEAKS_MISC'', ''Egyeb beallitasok''),
     (''MENU_TWEAKS_MISC_HELP'', ''Egyeb inditasi finomhangolasok.''),
     (''MENU_TWEAKS_SYS_RW'', ''/system iras joganak tiltasa''),
     (''MENU_TWEAKS_SYS_RW_HELP'', ''Bekapcsolt allapotban a rendszer nem engedi a /system irasat. Ez az alapertelmezett''),
     (''MENU_FS_HEADER'', ''Fajrendszer konvertalo\<newline>A fajlrendszer a kovetkezo ujrainditasnal fog megvaltozni'')]"

definition hu_HU_2 :: "(string \<times> string) list" where
  "hu_HU_2 =
    [(''MENU_SCHEME_HEADER'', ''Elore definialt semak''),
     (''MENU_SCHEME_DISABLED'', ''Lagfix kikapcsolasa\<newline>(d,db,c,s:rfs)''),
     (''MENU_SCHEME_DISABLED_HELP'', ''Ez visszallit mindent az alapertelmezett modba''),
     (''MENU_SCHEME_EXT4'', ''Ext4 alap\<newline>(ajanlott)\<newline>(d,db,c:ext4;s:rfs)''),
     (''MENU_SCHEME_EXT4_HELP'', ''TA fobb particiok formazasa ext4-re. Ez az egyik legstabilabb beallitas''),
     (''MENU_SCHEME_EXT4_NORFS'', ''Ext4 NO-RFS\<newline>(d,db,c,s:ext4;noefs)''),
     (''MENU_SCHEME_EXT4_NORFS_HELP'', ''Ez a /system particiot is atformazza az elozoek mellett''),
     (''MENU_SCHEME_EXT4_OVERKILL'', ''Tulzott Ext4\<newline>(d,db,c:ext4+l;s:ext4;noefs)''),
     (''MENU_SCHEME_EXT4_OVERKILL_HELP'', ''Ez az osszes particiora egy ext2 alapu loop eszkozt is felrak, ami csokkenti a stabilitast, de noveli a Quadrant ertekeket''),
     (''MENU_SCHEME_JFS'', ''JFS alap\<newline>(d,db,c:jfs;s:rfs)''),
     (''MENU_SCHEME_JFS_HELP'', ''Ez a fobb particiokat JFS-re konvertalja''),
     (''MENU_SCHEME_JFS_NORFS'', ''JFS NO-RFS\<newline>(d,db,c,s:jfs;noefs)''),
     (''MENU_SCHEME_JFS_NORFS_HELP'', ''Ez a system partitciot is JFS-re konvertalja''),
     (''MENU_SCHEME_EXT4_CRYPT'', ''Titkositott ext4\<newline>(d,db,c:ext4+crypt;s:ext4;noefs)''),
     (''MENU_SCHEME_EXT4_CRYPT_HELP'', ''Ez az osszes particiot ext4-re formazza, valamint a fobb particiokat titkositja is, hogy illetektelenek ne tudjak az datokat onnan elerni''),
     (''MENU_FS_ADVANCED'', ''Halado beallitasok''),
     (''MENU_FS_EXT2'', ''ext2''),
     (''MENU_FS_EXT2_HELP'', ''Az alap ext fajlrendszer. Mar eleg regi, de meg mindig a leggyorsabb''),
     (''MENU_FS_EXT4'', ''ext4''),
     (''MENU_FS_EXT4_HELP'', ''Az ext fajlrendszer legfrisebb reinkarnacioja. Az egyik legstabilabb valasztasi lehetoseg''),
     (''MENU_FS_JFS'', ''jfs''),
     (''MENU_FS_JFS_HELP'', ''A JFS az egyik legkorabbi naplozott fajlrendszer linuxra. Bar vannak jo funckioi, meg nem olyan stabil, mint az ext4''),
     (''MENU_FS_RFS'', ''rfs''),
     (''MENU_FS_RFS_HELP'', ''Az alapertelmezett formatum, a maga hibaival...''),
     (''MENU_FS_LOOP'', ''Loop eszkoz hasznalata''),
     (''MENU_FS_LOOP_HELP'', ''Loop eszkoz hasznalataval a Quadrant ertekek nonek, a stabilitas csokken''),
     (''MENU_FS_CRYPT'', ''Particio titkositasa''),
     (''MENU_FS_CRYPT_HELP'', ''Ez az opcio titkositja a particiot egy jelszo segitsegevel. Ezt a jelszot minden inditasnal meg kell adni, kulonban nem lehet az adatokat elerni. Jelszo valtoztatas jelenleg meg nem lehetseges, csak ha az osszes particion elobb ki, majd ujra bekapcsoljuk ezt a lehetoseget''),
     (''MENU_FS_MISC'', ''Egyeb beallitasok''),
     (''MENU_FS_NORFS'', ''/efs particio masolasa''),
     (''MENU_FS_NORFS_HELP'', ''Bekapcsolt allapotban a /efs particio nem lesz hasznalva, hanem annak csak egy, a /system-be kerulo valtozata. Az opcio segitsegevel teljes RFS-mentes rendszert lehet kapni''),
     (''MENU_FS_BADRFS'', ''/system ujraformazasa\<newline>check-rol check=no-ra''),
     (''MENU_FS_BADRFS_HELP'', ''HA ez a lehetoseg ba van kapcsolva, es a /system RFS modban van, akkor a kovetkezo inditasnal at lesz konvertalva a hibas cstlakoztatasi beallitasokrol a helyesre''),
     (''MENU_FS_RESET'', ''Visszavonas''),
     (''MENU_FS_RESET_HELP'', ''A gomb megnyomasaval a konverzios beallitasok torlesre kerulnek, es a kovetkezo inditasnal nem fognak a fajlrendszerek megvaltozni''),
     (''ADV_MENU_HEADER'', ''Hibakeresesi menu''),
     (''ADV_MENU_WIPE_CACHE'', ''Dalvik Cache torlese''),
     (''ADV_MENU_WIPE_BATTERY'', ''Akkuadatbazis torlese''),
     (''ADV_MENU_REPORT'', ''Hibabejelentes''),
     (''ADV_MENU_KEYTEST'', ''Billentyuzet teszt''),
     (''ADV_MENU_SCREENTEST'', ''Multi-touch teszt''),
     (''ADV_MENU_SECRETTEST'', ''Jelszobekero ablak teszt''),
     (''ADV_MENU_PARTITION'', ''SD kartya particionalasa''),
     (''ADV_MENU_FIXPERM'', ''Jogosultsagok ujrahuzasa''),
     (''MENU_WIPE_CACHE_CONFIRM'', ''Biztosan toroljem?''),
     (''MENU_WIPE_CACHE_YES'', ''Igen - torold''),
     (''MENU_WIPE_CACHE_DONE'', ''Torles vegrehajtva.\<newline>''),
     (''MENU_INSTALL_CONFIRM'', ''Biztosan telepitsem?''),
     (''MENU_INSTALL_YES'', ''Igen - telepitsd az update.zip-et''),
     (''MENU_INSTALL_ABORT'', ''Felbeszakitva.\<newline>''),
     (''MENU_INSTALL_NEEDREBOOT'', ''A keszulek ujrainditasa szukseges\<newline>a folytatashoz\<newline>''),
     (''MENU_INSTALL_DONE'', ''Telepites sikeres.\<newline>''),
     (''ADV_MENU_WIPE_CACHE_CONFIRM'', ''Biztosan toroljem?''),
     (''ADV_MENU_WIPE_CACHE_YES'', ''Igen - torold''),
     (''ADV_MENU_WIPE_CACHE_DONE'', ''Torles vegrehajtva.\<newline>''),
     (''ADV_MENU_WIPE_BATTERY_CONFIRM'', ''Biztosan toroljem?''),
     (''ADV_MENU_WIPE_BATTERY_YES'', ''Igen - torold''),
     (''STEAM_MENU_HEADER'', ''Steam Kernel Menu''),
     (''STEAM_MENU_SU'', ''Superuser telepites'' @ [HELP] @ ''A rendszergazda alkalmazas telepitese, hogy a telefon root-olva legyen''),
     (''STEAM_MENU_BOOT'', ''Rendszerinditasi bellitasok'' @ [HELP] @ ''Rendszerinditasi beallitasok, mint pl. a kulonfele finomhangolasai beallitasok''),
     (''STEAM_MENU_BLN'', ''EsemenyVilagitas (BLN)'' @ [HELP] @ ''BLN be es kikacpsolasa''),
     (''STEAM_MENU_CWM'', ''Halado es hibakereses menu'' @ [HELP] @ ''Halado es hibakeresesi menu (regi CWM menu)''),
     (''STEAM_MENU_LAGFIX'', ''Fajlrendszer bellitas\<newline>(lagfix)'' @ [HELP] @ ''Fajlrendszer konverziok, es lagfix beallitasok''),
     (''STEAM_MENU_FM'', ''Fajl manager'' @ [HELP] @ ''Fajl manager inditasa.''),
     (''STEAM_MENU_ABOUT'', ''Nevjegy''),
     (''STEAM_ABOUT_UNINSTALL'', ''Steam eltavolitasa''),
     (''STEAM_ABOUT_UNINSTALL_CONFIRM'', ''Tenyleg torolni akarod\<newline>a Steam kernelt?''),
     (''STEAM_ABOUT_UNINSTALL_YES'', ''Igen - nincs erre nekem szuksegem''),
     (''STEAM_ABOUT_UNINSTALL_OK'', ''Uninstall folyamat elindult, a befejezeshez nehanyszor ujra fog indulni a keszulek''),
     (''BLN_NOT_AVAILABLE'', ''BLN 2.2 tamogatassal rendelkezo kernel kell a beallitasok eleresehez\<newline>''),
     (''STEAM_NOT_AVAILABLE'', ''Steam kernel szukseges a beallitasok eleresehez\<newline>''),
     (''ERROR_NOTOPEN'', ''Fajl megnyitasa sikertelen\<newline>''),
     (''ERROR_UNKNOWN'', ''Hiba\<newline>''),
     (''UPDATE_APPLY_SDCARD'', ''sdcard:update.zip telepitese''),
     (''UPDATE_CHOOSE_ZIP'', ''Zip fajl kivalasztasa''),
     (''UPDATE_SIG_CHECK'', ''Alairas ellenorzes kapcsolasa''),
     (''UPDATE_ASSERTS'', ''Hibajelzesek kapcsolasa''),
     (''UPDATE_APPLY_SDCARD2'', ''external_sd:update.zip telepitese''),
     (''UPDATE_CHOOSE_ZIP2'', ''Zip fajl kivalasztasa kulso SD-rol''),
     (''NANDROID_MAIN_MENU_HEADER'', ''Nandroid Rendszermentes''),
     (''NANDROID_MAIN_BACKUP'', ''Mentes'' @ [HELP] @ ''Ez az osszes particiot le fogja menteni''),
     (''NANDROID_MAIN_ABACKUP'', ''Halado mentes'' @ [HELP] @ ''Itt be lehet allitani mely particiok legyenek lementve''),
     (''NANDROID_MAIN_RESTORE'', ''Visszatoltes'' @ [HELP] @ ''Particiok visszatoltese mentesbol''),
     (''NANDROID_MAIN_ARESTORE'', ''Halado visszatoltes'' @ [HELP] @ ''Itt ki lehet valasztani mely particiokat kivanjuk visszatolteni''),
     (''NANDROID_HEADER'', ''Valaszd ki a visszatoltendo fajlt''),
     (''NANDROID_YES'', ''Igen - Adatok visszatoltese''),
     (''NANDROID_CONFIRM'', ''Biztos vagy benne?''),
     (''NANDROID_ADVANCED'', ''Nandroid halado visszatoltes''),
     (''NANDROID_BADVANCED'', ''Nandroid halado rendszermentes''),
     (''NANDROID_RESBOOT'', ''Restore boot''),
     (''NANDROID_RESSYSTEM'', ''Restore system''),
     (''NANDROID_RESDATA'', ''Restore data''),
     (''NANDROID_RESDATADATA'', ''Restore datadata''),
     (''NANDROID_RESMISC'', ''Restore .android_secure''),
     (''NANDROID_RESCACHE'', ''Restore cache''),
     (''NANDROID_RESSDEXT'', ''Restore sd-ext''),
     (''NANDROID_NOFORMAT'', ''Egyszeru formazas''),
     (''NANDROID_NOFORMAT_HELP'', ''Egyszeru formazas hasznalataval a particiok nem kerulnek uljrageneralasra. Bekapcsolt lagfixek eseten ajanlott ezt az opciot hasznalni.''),
     (''NANDROID_DORESTORE'', ''Visszatoltes inditasa''),
     (''NANDROID_DORESTORE_HELP'', ''Ez az opcio elinditja a visszatoltest'')]"

definition hu_HU_3 :: "(string \<times> string) list" where
  "hu_HU_3 =
    [(''NANDROID_BACBOOT'', ''Backup boot''),
     (''NANDROID_BACSYSTEM'', ''Backup system''),
     (''NANDROID_BACDATA'', ''Backup data''),
     (''NANDROID_BACDATADATA'', ''Backup datadata''),
     (''NANDROID_BACMISC'', ''Backup .android_secure''),
     (''NANDROID_BACCACHE'', ''Backup cache''),
     (''NANDROID_BACSDEXT'', ''Backup sd-ext''),
     (''NANDROID_BACEFS'', ''Backup efs''),
     (''NANDROID_DOBACKUP'', ''Mentes inditasa''),
     (''NANDROID_DOBACKUP_HELP'', ''Ez az opcio inditja a visszatoltest''),
     (''PARTITION_HEADER'', ''Particio menu''),
     (''PARTITION_CONFIRM'', ''Tenyleg formazzam?''),
     (''PARTITION_YES'', ''Igen - formazd''),
     (''PARTITION_USB_STORAGE'', ''USB merevlemez mod''),
     (''CONFIRM_NOUNDO'', ''Ezt nem lehet visszavonni.''),
     (''CONFIRM_NO'', ''Nem''),
     (''OEM_RECOVERY_HEADER'', ''Rendszervisszatolto kivalaszto''),
     (''OEM_RECOVERY_2E'', ''2e Recovery\<newline>(regebbi CSC fajlok telepitesehez)''),
     (''OEM_RECOVERY_2E_HELP'', ''Ezt az opciot regebbi CSC fajlok telepitese eseten erdemes hasznalni''),
     (''OEM_RECOVERY_3E'', ''3e Recovery\<newline>(ujabb CSC fajlok telepitesehez)''),
     (''OEM_RECOVERY_3E_HELP'', ''Ezt az opciot ujabb CSC fajlok telepitese eseten erdemes hasznlani''),
     (''OEM_RECOVERY_STEAM'', ''Steam recovery hasznalata''),
     (''OEM_RECOVERY_STEAM_HELP'', ''Ezt az opciot akkor erdemes hasznalni, ha nem CSC fajlt szeretnenk telepiteni''),
     (''OEM_AFTERBURNER_ASKUSER'', ''\<newline>\<newline>--- UTANEGETO ---\<newline>Nem talatam Utanegeto fajlt az SD-kartyan. A kertyat USB merevlemez modba kapcsoltam, mely soran fel lehet ra masolni egy utanegeto telepitot (mely neve altalaban afterburner.zip). A telepitot a 'steam' konyvtarba kell masolni.''),
     (''OEM_AFTERBURNER_ERROR'', ''NEm lehet megnyitni: %s\<newline>(%s)\<newline>''),
     (''OEM_AFTERBURNER_HEADER'', ''Utanegeto\<newline>ROM-frissites utani telepito''),
     (''OEM_AFTERBURNER_DOINSTALL'', ''Telepites''),
     (''OEM_AFTERBURNER_DOINSTALL_HELP'', ''Ez az opcio feltelpiti a kivalasztott csomagokat''),
     (''OEM_AFTERBURNER_CONFIRM'', ''Biztos vagy benne?''),
     (''OEM_AFTERBURNER_YES'', ''Igen - telepitsd fel a csomagokat''),
     (''OEM_AFTERBURNER_INSTALLING'', ''%s telepitese.\<newline>''),
     (''OEM_AFTERBURNER_NOTFOUND'', ''Telepito fajlt nem talaltam!''),
     (''PARTITION_INFORMATION'', ''%s particio jelenleg %d modban fut\<newline>''),
     (''INIT_DEVICES_DONE'', ''Eszkozok betoltve\<newline>''),
     (''INIT_LOAD_GRAPHICS'', ''Grafika inicializalasa\<newline>''),
     (''INIT_CREATE_MOUNT'', ''Csatolasi pontok letrehozasa\<newline>''),
     (''INIT_MOUNTING'', ''%d tipusu particio csatolasa %s-re\<newline>''),
     (''INIT_UNMOUNTING'', ''%s levalasztasa\<newline>''),
     (''INIT_AUTODETECT'', ''Particio informacio autodetektalas %s-en\<newline>''),
     (''INIT_CREATE'', ''%d tipusu particio letrehozasa %s-en\<newline>''),
     (''INIT_STAGE'', ''%d. LEPES INDITASA\<newline>''),
     (''INIT_RFS_INCONSISTENT_FIX_HEADER'', ''A /system particiod inkonzisztens\<newline>allapotban van. Steam megprobalhatja\<newline>ezt kijavitani, de a folyamat nem biztos,\<newline>hogy sikerul. Mit tegyek?''),
     (''INIT_RFS_INCONSISTENT_FIX_TAR'', ''Particio helyreallitasa'' @ [HELP] @ ''Ez az opcio kesziteni fog egy masolatot a /system-rol az SD kartyara, majd ujraformazza a particiot, majd visszaallitja a particiokat. A lementett fajlokat ezutan torli.''),
     (''INIT_RFS_INCONSISTENT_FIX_NONE'', ''Ne formazd\<newline>csatolas check modban'' @ [HELP] @ ''Ezzel az opcioval a particiot a regi bealitasokkal lehet felcsatolni.''),
     (''INIT_RFS_INCONSISTENT_FIX_NONE2'', ''Ne formazd\<newline>csatolas check=no modban'' @ [HELP] @ ''Ez az opcio nem fogja a particiot atalakitani, de a masik csatolasi parameterrel inditja. Csak akkor valaszd ezt az opciot, ha biztos vagy benne, hogy az automatikus detektalas hibasan hiszi azt, hogy hibas a /system particiod''),
     (''CONVERT_NO_SPACE'', ''Nincs eleg szabad hely az SD-kartyan!\<newline>''),
     (''CONVERT_SPACE_NEEDS'', ''Szukseges: %lluMB, elerheto: %lluMB\<newline>''),
     (''CONVERT_LOAD_FM'', ''Fajl manager betoltese\<newline>''),
     (''CONVERT_NO_FM'', ''Fajl manager letiltva biztonsagi okokbol!\<newline>''),
     (''CONVERT_BACKUP_FAILED'', ''Particio mentese sikertelen!\<newline>''),
     (''CONVERT_RESTORE_FAILED'', ''Particio visszatoltese sikertelen!\<newline>''),
     (''CONVERT_CONTINUE_ANYWAY'', ''Ennek ellenere folytatas...\<newline>''),
     (''CONVERT_WAIT_REBOOT'', ''Ujrainditas 5 masodperc mulva...\<newline>''),
     (''CONVERT_SYSTEM_SURE'', ''/system konvertalasa''),
     (''CONVERT_SYSTEM_CONFIRM'', ''Igen - konvertald at a /system-et''),
     (''CONVERT_CRYPT_FAILED'', ''Nem sikerult titkositott particiot letrehozni. Hibakod:%d\<newline>''),
     (''CONVERT_FS_HEADER'', ''Particio konvertalasa''),
     (''CONVERT_FS_FULLBACKUP'', ''Teljes mentes es visszatoltes\<newline>(ajanlott)'' @ [HELP] @ ''Ez az opcio konvertalas elott keszit egy mentest, amit majd a konvertalas utan visszatolt, igy az adatok tovabbra is megmaradnak''),
     (''CONVERT_FS_ONLYBACKUP'', ''Mentes, de ne legyen visszatoltes\<newline>(ez visszaalitja a gyari allapotot)'' @ [HELP] @ ''Ez az opcio bar keszit mentest, azt nem fogja visszatolteni, ezaltal gyari uzemmodba (FR) all a rendszer. Ezt az opciot akkor hasznald, ha szeretnel mentest a jelnlegi adataidrol, de tiszta lappal akarsz indulni''),
     (''CONVERT_FS_RMBACKUP'', ''Teljes mentes, visszatoltes,\<newline>majd a mentes torlese'' @ [HELP] @ ''Ez az opcio megtartja az adatokat, de a visszatoltes utan biztonsagi okokbol torli az elkeszitett mentest.''),
     (''CONVERT_FS_RMALL'', ''Csak formazd meg\<newline>(ez minden adatot orolni fog)'' @ [HELP] @ ''Ez az opcio minden adatot torolni fog, melyekrol mentes sem keszul.''),
     (''CONVERT_FS_CANCEL'', ''Konvertalas visszavonasa'' @ [HELP] @ ''Ez torli a konvertalasi kerelmet, es a rendszer tovabb fog menni a regi beallitasokkal''),
     (''INSTALL_STEAM_HEADER'', ''Steam nincs feltelepitve, vagy nemreg lett\<newline>letorolve. Telepites nelkul nehany opcio nem\<newline>fog mukodni. Telepitsem a Steam Kernelt?\<newline>(Barmikor le lehet torolni)''),
     (''INSTALL_STEAM_YES'', ''Igen, telepitsd!'' @ [HELP] @ ''Ez az opcio feltelpiti a Steam kozponti konfiguracios allomanyat, mely lehetove teszi a rendszer teljes kihasznalasat.''),
     (''INSTALL_STEAM_NO'', ''Ne, ne telepitsd!'' @ [HELP] @ ''Telepites nelkul nehany funkcio tovabbra is mukodni fog, de a legtobb Steam Kernel altal nyujtott szlgaltatas nem lesz elerheto''),
     (''UPGRADE_STEAM_HEADER'', ''A telefonon talalhato Steam verzioszama\<newline>nem egyezik a kernelben talalhatoeval.\<newline>Mit tegyek?''),
     (''UPGRADE_STEAM_YES'', ''Konfiguracio frissitese\<newline>(ajanlott)'' @ [HELP] @ ''Ezt az opciot akkor kell kivalasztani, ha az egyik Steam kernel verziorol egy masikra frissitunk.''),
     (''UPGRADE_STEAM_NO'', ''Konfiguracio lecserelese\<newline>ez a jelenlegi beallitasokat\<newline>torolni fogja'' @ [HELP] @ ''Ezt az opciot akkor erdemes hasznalni, ha egy nem-Steam kernelrol frissitunk Steam kernelre, de korabban mar volt fent Steam telepitve''),
     (''UPGRADE_STEAM_SKIP'', ''Ne csinalj semmit\<newline>(nem ajanlott)'' @ [HELP] @ ''Ez az opcio nem fogja bantani a konfiguracios beallitasokat, de minden ujrainditasnal ez a kerdes el fog hangozni!''),
     (''CREATE_PARTITION_HEADER'', ''%s csatolasa sikertelen\<newline>Mit tegyek?''),
     (''CREATE_PARTITION_RFS'', ''Particio formazasa RFS-re'' @ [HELP] @ ''Ez RFS-re formazza a particiot. Minden rajta levo adatot torolni fog.''),
     (''CREATE_PARTITION_EXT2'', ''Particio formazasa EXT2-re'' @ [HELP] @ ''Ez EXT2-re formazza a particiot. Minden rajta levo adatot torolni fog.''),
     (''CREATE_PARTITION_EXT4'', ''Particio formazasa EXT4-re'' @ [HELP] @ ''Ez EXT4-re formazza a particiot. Minden rajta levo adatot torolni fog.''),
     (''CREATE_PARTITION_JFS'', ''Particio formazasa JFS-re'' @ [HELP] @ ''Ez JFS-re formazza a particiot. Minden rajta levo adatot torolni fog.''),
     (''CREATE_PARTITION_NONE'', ''Ne csinalj semmit'' @ [HELP] @ ''Ez az opcio nem fog csinalni semmit a particioval, ami igy nem lesz becsatolva. A rendszer nem biztos, hogy el fog tudni igy indulni, de lehetoseg lesz ra az adatok megmentesere''),
     (''CREATE_PARTITION_FM'', ''Fajl manager elinditasa'' @ [HELP] @ ''Ez az opcio el fog inditani egy fajl manageret, ahol meg lehet probalni a hibat kikuszobolni.''),
     (''SECRET_PASSWORD_MISMATCH'', ''A ket jelszo nem egyezik!\<newline>''),
     (''SECRET_PASSWORD_AGAIN'', ''Kerlek rajzold le a jelszot megint\<newline>''),
     (''SECRET_HOWTO'', ''Rajzolj egy, vagy tobb alakzatot, majd nyomd meg a HOME gombot.\<newline>''),
     (''SECRET_HOWTO_TEST'', ''Rajzolj egy, vagy tobb alakzatot, majd nyomd meg a HOME gombot. A jelszo meg fog jelenni a kepernyon!\<newline>''),
     (''SECRET_ENTER_PASS'', ''Add meg a jelszot\<newline>''),
     (''SECRET_ENTER_FOR'', ''Add meg a jelszot %s csatolasahoz\<newline>''),
     (''SECRET_FAIL'', ''Hibas jelszo\<newline>''),
     (''TWEAKS_ENABLE_IOSCHED'', ''IO utemezo finomhangolasa\<newline>''),
     (''TWEAKS_ENABLE_KERNELVM'', ''Kernel VM finomhangolasa\<newline>''),
     (''TWEAKS_ENABLE_KERNELSCHED'', ''Kernel utemezo finomhangolasa\<newline>''),
     (''TWEAKS_ENABLE_MISC'', ''Egyeb beallitasok\<newline>''),
     (''INITD_EARLYSTART'', ''%s USER EARLY INIT START\<newline>''),
     (''INITD_EARLYDONE'', ''%s USER EARLY INIT DONE\<newline>''),
     (''INITD_START'', ''%s USER INIT START\<newline>''),
     (''INITD_DONE'', ''%s USER INIT DONE\<newline>''),
     (''INITD_STARTX'', ''%s START %s\<newline>''),
     (''INITD_DONEX'', ''%s DONE %s\<newline>''),
     (''EARLY_LOGAPP'', ''Log nezegeto alkalmazas\<newline>\<newline>\<newline>''),
     (''EARLY_USAGE'', ''Kattints a logok kozotti valtashoz.\<newline>''),
     (''EARLY_POSTINITSTART'', ''Poszt-init elindult, kepernyo kikapcsolasa\<newline>''),
     (''EARLY_BOOTCOMPLETE'', ''Rendszerinditas befejezve.\<newline>\<newline>''),
     (''EARLY_KILLBOOTANIM'', ''Rendszerindito animaciok lelovese a biztonsag kedveert\<newline>\<newline>''),
     (''EARLY_DONE'', ''Kesz.\<newline>''),
     (''INIT_HALT'', ''A rendszerbetoltes most megall!\<newline>'')]"

definition hu_HU :: "(string \<times> string) list" where
  "hu_HU = hu_HU_1 @ hu_HU_2 @ hu_HU_3"

text \<open>The choice of \<open>locale.h\<close>.\<close>

definition program_texts :: "bool \<Rightarrow> (string \<times> string) list" where
  "program_texts STEAM_LANGUAGE_HUNGARIAN = (if STEAM_LANGUAGE_HUNGARIAN then hu_HU else en_US)"

section \<open>Texts as formats\<close>

text \<open>
  The conversions of a text handed to \<open>vsnprintf\<close> as its format: what it takes of the arguments, and
  \<open>%%\<close>, which takes nothing. Of the conversions with a length there is only \<open>%llu\<close>.
\<close>

fun formats :: "string \<Rightarrow> string list" where
  "formats [] = []"
| "formats [c] = []"
| "formats (c # d # s) =
     (if c = CHR ''%'' then
        (if d = CHR ''l'' then take 3 (d # s) # formats (drop 2 s) else [d] # formats s)
      else formats (d # s))"

text \<open>A text that \<open>vui_print_to\<close> prints whole, and at most one help.\<close>

definition fits :: "string \<Rightarrow> bool" where
  "fits s \<longleftrightarrow> length s < 512 \<and> NUL \<notin> set s \<and> length (filter (\<lambda>c. c = HELP) s) \<le> 1"

text \<open>The one text whose conversions differ.\<close>

definition formats_at :: "string \<times> string \<Rightarrow> string \<times> string list" where
  "formats_at = (\<lambda>(n, s). (n, if n = ''MENU_TWEAKS_KERNELSCHED_HELP'' then [] else formats s))"

lemma formats_1: "map formats_at hu_HU_1 = map formats_at en_US_1"
  by code_simp

lemma formats_2: "map formats_at hu_HU_2 = map formats_at en_US_2"
  by code_simp

lemma formats_3: "map formats_at hu_HU_3 = map formats_at en_US_3"
  by code_simp

lemma fits_en: "list_all (\<lambda>t. fits (snd t)) en_US_1" "list_all (\<lambda>t. fits (snd t)) en_US_2"
  "list_all (\<lambda>t. fits (snd t)) en_US_3"
  by code_simp+

lemma fits_hu: "list_all (\<lambda>t. fits (snd t)) hu_HU_1" "list_all (\<lambda>t. fits (snd t)) hu_HU_2"
  "list_all (\<lambda>t. fits (snd t)) hu_HU_3"
  by code_simp+


text \<open>That help is printed through \<open>%s\<close>, and so shows both of its per cent signs.\<close>

lemma scheduler_help: "map_of en_US_1 ''MENU_TWEAKS_KERNELSCHED_HELP'' \<bind> (\<lambda>s. Some (formats s)) = Some [''%'']"
  by code_simp

end
