(* ===== verification/Spec2Isabelle.thy ===== *)
theory Spec2Isabelle
  imports Verifier Config_Lock Install Recovery Init Touch Log_Reader Tools Texts
begin

text \<open>
  Steam recovery: a verification of the core of the recovery program of an Android phone.

  The program. The recovery is booted instead of the phone's system. It reads its orders from
  a message the bootloader keeps on flash or from a file, shows menus, mounts, formats,
  backs up and restores the partitions of the phone, verifies update packages and installs
  them, and hands firmware images over to the bootloader.

  How a program is modelled. \<open>World\<close> holds the static variables of all source files in one
  record, and a state monad (\<open>'a prog\<close>). Whatever is not in the repository (system calls,
  busybox, minzip, mtdutils, cryptsetup, the amend interpreter, minui, the user) is a call in
  the datatype \<open>ext_call\<close>; the field \<open>env\<close>, arbitrary in every theorem, answers a call from
  the calls made before, and every call is appended to \<open>trace\<close>. Theorems about what the
  program does are about traces; as an execution may be cut off at any call (a reboot, an
  empty battery), properties of order speak of all prefixes. A null pointer that is followed,
  a store outside an array and a format without its argument are the state \<open>faulted\<close>; a
  program that waits for ever is \<open>stopped\<close>. SHA-1 and RSA are the record \<open>venv\<close>.

  The theories, with the sources they model:
    \<^item> \<open>Prelude\<close>: C strings, \<open>strlcpy\<close>, \<open>strlcat\<close>, decimal numbers, and the lemmas shared.
    \<^item> \<open>Verifier\<close> (\<open>verifier.c\<close>): \<open>verify_file\<close>. Sound, complete on well-formed archives, no
      second end marker, and the exact condition under which it reads before its buffer.
      \<open>RSANUMBYTES\<close> of mincrypt is an \<open>int\<close> in the sources, which decides a comparison.
    \<^item> \<open>Config\<close>, \<open>Config_Lock\<close> (\<open>config.c\<close>): the list of keys, its file, and the
      readers-writers protocol statement by statement, with an invariant, mutual exclusion
      and freedom of deadlock for any number of threads.
    \<^item> \<open>Text_Log\<close>, \<open>Ui\<close> (\<open>ui.c\<close>): the rings of text rows (refined to an unbounded text), the
      log reader's filter, progress, the key queue, menus and the loops that wait for the user.
    \<^item> \<open>Screen\<close> (\<open>ui.c\<close>): a frame as the calls of minui it makes; that the menu comes to rest after
      a scroll, and when the progress bar is drawn from outside its bitmap.
    \<^item> \<open>Touch\<close> (\<open>ui.c\<close>): the input thread, from the events of the kernel to keys and touches. Its
      turns and the frames interleave in any order; an invariant of that, what a click is, the
      element a tap chooses, and that touches do what \<open>Ui\<close> says they do.
    \<^item> \<open>Process\<close> (\<open>system.c\<close>): \<open>popen3\<close>, \<open>pclose3\<close> and \<open>__system\<close> over a table of
      descriptors: none is lost, and the child's streams are the right ends.
    \<^item> \<open>Log_Reader\<close> (\<open>ui.c\<close>): the threads that fill the logs, on top of \<open>Process\<close> and \<open>Text_Log\<close>.
    \<^item> \<open>Tools\<close> (\<open>reboot.c\<close>, \<open>setprop.c\<close>, \<open>truncate.c\<close>, \<open>graphsh.c\<close>): the small commands.
    \<^item> \<open>Texts\<close> (\<open>locale.h\<close>, \<open>locale/\<close>): the texts of both languages and their conversions.
    \<^item> \<open>World\<close>: state, calls, total-correctness triples (\<open>hoare\<close>), frame conditions on the
      calls a program makes (\<open>emits\<close>), loops that wait (\<open>key_loop\<close>), symbolic execution (\<open>runs\<close>).
    \<^item> \<open>Device\<close> (\<open>device.c\<close>, \<open>device/\<close>): the table of roots of both devices, keys, init fixes.
    \<^item> \<open>Filesystems\<close>, \<open>Roots\<close> (\<open>roots.c\<close>): encrypted partitions, autodetection, mounting,
      formatting and unmounting by partition; root names, path translation, mounting and
      formatting by root. The root table is a locale, interpreted on \<open>g_roots\<close> of each build.
    \<^item> \<open>Bootloader\<close> (\<open>bootloader.c\<close>), \<open>Firmware\<close> (\<open>firmware.c\<close>): the message and the update
      image on flash; handing a pending image over, and the order in which that is done.
    \<^item> \<open>Nandroid\<close> (\<open>nandroid.c\<close>): backup and restore.
    \<^item> \<open>Install\<close> (\<open>install.c\<close>, \<open>legacy.c\<close>): keys, verification, the update program's protocol,
      the update script, \<open>install_package\<close>.
    \<^item> \<open>Commands\<close> (\<open>commands.c\<close>, parts of \<open>extendedcommands.c\<close>): every command and function of
      update scripts, their table, and what holds of any sequence of them.
    \<^item> \<open>Extended\<close>, \<open>Menus\<close> (\<open>extendedcommands.c\<close>): the file chooser, whose selection sort is
      shown to sort; the menus of installation, backup, restoring, partitions, USB storage and
      the advanced one; scripts left by the main system; \<open>/etc/fstab\<close>.
    \<^item> \<open>Oem\<close> (\<open>oem.c\<close>): the afterburner, installation, upgrade and removal of the kernel.
    \<^item> \<open>Steamext\<close> (\<open>steamext.c\<close>): rooting, tweaks, filesystem schemes, backlight, console,
      clipboard and file manager; what a choice makes of a partition's type, and what the key
      that leaves the file manager does.
    \<^item> \<open>Recovery\<close> (\<open>recovery.c\<close>): the arguments and where they are kept, the options, the orders,
      leaving the recovery, the main menu and \<open>main\<close>. That the arguments survive a restart, that
      an order to wipe stays stored while it is carried out and is cleared at the end.
    \<^item> \<open>Init\<close> (\<open>init.c\<close>): the kernel's first program, which mounts the partitions with the routines
      of \<open>Filesystems\<close>, converts their filesystems on the store's orders (a backup of \<open>Nandroid\<close>
      comes first) and starts the phone's own init; and the two programs beside its start.

  How the parts interact. \<open>recovery_main\<close> reads the store of \<open>Config\<close>,
  starts the screen (\<open>Ui\<close>), takes its arguments from the command line, the message of
  \<open>Bootloader\<close> or the command file and writes them back into the message; orders of
  the store go to \<open>Oem\<close>, those of the arguments to \<open>Install\<close> and
  \<open>Roots\<close>, and without one the user chooses in \<open>prompt_and_wait\<close>, which
  leads to all menus of \<open>Extended\<close>, \<open>Menus\<close>, \<open>Oem\<close> and
  \<open>Steamext\<close>. At the end \<open>Firmware\<close> hands a pending image over and
  \<open>finish_recovery\<close> clears the message. \<open>install_package\<close> mounts the
  root of a package (\<open>Roots\<close>, which uses \<open>Filesystems\<close> and the store of
  \<open>Config\<close>), reads the keys, calls \<open>verify_file\<close>, and runs the package's
  program or hands its script to the interpreter; the interpreter calls the hooks of
  \<open>Commands\<close>, which use \<open>Roots\<close>, \<open>Firmware\<close>,
  \<open>Nandroid\<close> and again \<open>install_package\<close>. What the interpreter runs is
  not spliced into the call \<open>AmendExec\<close>: \<open>Commands\<close> states its
  properties of every sequence of steps a script can make it take.

  Bounds and fuel. \<open>key_loop\<close> runs one round per action the user still takes, plus
  one; \<open>key_loop_enough\<close> shows that more rounds change nothing.
  \<open>choose_file\<close> opens itself again after a choice, so its depth is bounded in the
  same way. \<open>early_wait\<close> waits for the system, so its number of rounds is a parameter
  (\<open>early_wait_enough\<close>: more of them change nothing). All other loops are structural
  or have a measure. Paths are bounded by \<open>PATH_MAX\<close> where the code passes a size.
  Progress is a rational where the code has a float. Sizes are integers; the 32 bits of
  \<open>strtoul\<close>, \<open>%u\<close> and \<open>time_t\<close> are written out.

  Parameters. \<open>Screen\<close> takes the sizes of the screen and of the bitmaps (record
  \<open>minui\<close>), \<open>Touch\<close> also \<open>KEY_MAX\<close> of the kernel's headers, \<open>Process\<close> and
  \<open>Log_Reader\<close> the limit of descriptors and every answer of the kernel (\<open>kernel\<close>,
  \<open>round_env\<close>). \<open>wait_loop\<close> has no bound: that it ends is part of what is shown of
  \<open>pclose3\<close>. The threads of \<open>ui.c\<close> take turns event by event and frame by frame; what the
  mutex \<open>gUpdateMutex\<close> does not cover within an event is not interleaved. \<open>Ui\<close> has
  the main thread's view of all this: the datatype \<open>input_event\<close>.

  Not modelled. The painting of minui, which is not in the repository. Outside
  \<open>Process\<close> and \<open>Log_Reader\<close> a program that is started is one call. The tests, and
  \<open>lagfixutils.c\<close>, which is empty. The texts of \<open>locale/\<close> appear under
  their names outside \<open>Texts\<close>. Messages to streams nobody reads (\<open>LOGW\<close>, \<open>LOGI\<close>) and the
  texts of \<open>strerror\<close>; exponents in \<open>strtod\<close>; the listing of permissions
  of script commands; the two cases of the advanced menu that both devices leave out;
  \<open>device_reboot_now\<close>, which both devices answer with 0.
\<close>

end
